(* ===== verification/Prelude.thy ===== *)
theory Prelude
  imports Main "HOL-Library.Word" "HOL-Library.AList" "HOL-Library.Signed_Division"
    "HOL-Library.Multiset"
begin

text \<open>
  What the component theories share: Go's fixed-width integers as words, Go's
  maps as association lists with distinct keys (the list's order is one order in which
  \<^verbatim>\<open>range\<close> may visit the map, so a theorem about every list is a theorem about every
  iteration order), Go's truncated division, and the lemma collections of the development.
\<close>

section \<open>Lemma collections\<close>

named_theorems go_map \<open>lookup, update and key-set facts of Go maps\<close>
named_theorems quota_simps \<open>what the quota operations do to the fields of a quota\<close>
named_theorems keeps \<open>preservation facts, one per operation\<close>

section \<open>Integers\<close>

type_synonym i64 = "64 word"
type_synonym i32 = "32 word"

text \<open>Go's \<^verbatim>\<open>/\<close> on signed integers truncates towards zero and wraps.\<close>

definition go_div :: "'a::len word \<Rightarrow> 'a word \<Rightarrow> 'a word" where
  "go_div a b = word_of_int (sint a sdiv sint b)"

text \<open>The conversion \<^verbatim>\<open>int32(x)\<close> of a 64-bit integer keeps the low 32 bits.\<close>

definition to_i32 :: "i64 \<Rightarrow> i32" where
  "to_i32 x = word_of_int (sint x)"

text \<open>The conversion \<^verbatim>\<open>int(x)\<close> or \<^verbatim>\<open>int64(x)\<close> of a 32-bit integer extends the sign.\<close>

definition to_i64 :: "i32 \<Rightarrow> i64" where
  "to_i64 x = word_of_int (sint x)"

lemma sint_word_of_int_small:
  fixes x :: int
  assumes "- (2 ^ (LENGTH('a) - 1)) \<le> x" and "x < 2 ^ (LENGTH('a) - 1)"
  shows "sint (word_of_int x :: 'a::len word) = x"
  using assms by (simp add: sint_sbintrunc' signed_take_bit_int_eq_self)

lemma sint64_of_int:
  "- 9223372036854775808 \<le> x \<Longrightarrow> x < 9223372036854775808 \<Longrightarrow> sint (word_of_int x :: i64) = x"
  by (rule sint_word_of_int_small) simp_all

lemma sint32_of_int:
  "- 2147483648 \<le> x \<Longrightarrow> x < 2147483648 \<Longrightarrow> sint (word_of_int x :: i32) = x"
  by (rule sint_word_of_int_small) simp_all

lemma sint64_bounds: "- 9223372036854775808 \<le> sint (w :: i64)" "sint (w :: i64) < 9223372036854775808"
  using sint_ge [of w] sint_lt [of w] by simp_all

lemma sint32_bounds: "- 2147483648 \<le> sint (w :: i32)" "sint (w :: i32) < 2147483648"
  using sint_ge [of w] sint_lt [of w] by simp_all

lemma word_of_int_sint_add: "(a + b :: 'a::len word) = word_of_int (sint a + sint b)"
  by (simp add: wi_hom_add [symmetric])

lemma word_of_int_sint_sub: "(a - b :: 'a::len word) = word_of_int (sint a - sint b)"
  by (simp add: wi_hom_sub [symmetric])

lemma word_of_int_sint_mul: "(a * b :: 'a::len word) = word_of_int (sint a * sint b)"
  by (simp add: wi_hom_mult [symmetric])

lemma sint64_add:
  fixes a b :: i64
  assumes "- 9223372036854775808 \<le> sint a + sint b" and "sint a + sint b < 9223372036854775808"
  shows "sint (a + b) = sint a + sint b"
  by (subst word_of_int_sint_add) (rule sint64_of_int [OF assms])

lemma sint64_sub:
  fixes a b :: i64
  assumes "- 9223372036854775808 \<le> sint a - sint b" and "sint a - sint b < 9223372036854775808"
  shows "sint (a - b) = sint a - sint b"
  by (subst word_of_int_sint_sub) (rule sint64_of_int [OF assms])

lemma sint64_mul:
  fixes a b :: i64
  assumes "- 9223372036854775808 \<le> sint a * sint b" and "sint a * sint b < 9223372036854775808"
  shows "sint (a * b) = sint a * sint b"
  by (subst word_of_int_sint_mul) (rule sint64_of_int [OF assms])

lemma sint32_add:
  fixes a b :: i32
  assumes "- 2147483648 \<le> sint a + sint b" and "sint a + sint b < 2147483648"
  shows "sint (a + b) = sint a + sint b"
  by (subst word_of_int_sint_add) (rule sint32_of_int [OF assms])

lemma sint32_sub:
  fixes a b :: i32
  assumes "- 2147483648 \<le> sint a - sint b" and "sint a - sint b < 2147483648"
  shows "sint (a - b) = sint a - sint b"
  by (subst word_of_int_sint_sub) (rule sint32_of_int [OF assms])

lemma sint_to_i64 [simp]: "sint (to_i64 x) = sint x"
  unfolding to_i64_def by (rule sint64_of_int) (use sint32_bounds [of x] in simp_all)

section \<open>Go maps\<close>

type_synonym ('k, 'v) gomap = "('k \<times> 'v) list"

definition gkeys :: "('k, 'v) gomap \<Rightarrow> 'k set" where
  "gkeys m = fst ` set m"

definition gwf :: "('k, 'v) gomap \<Rightarrow> bool" where
  "gwf m = distinct (map fst m)"

text \<open>\<^verbatim>\<open>m[k]\<close> with the zero value of the element type where the key is absent.\<close>

definition mget :: "'v \<Rightarrow> ('k, 'v) gomap \<Rightarrow> 'k \<Rightarrow> 'v" where
  "mget z m k = (case map_of m k of None \<Rightarrow> z | Some v \<Rightarrow> v)"

abbreviation mput :: "'k \<Rightarrow> 'v \<Rightarrow> ('k, 'v) gomap \<Rightarrow> ('k, 'v) gomap" where
  "mput \<equiv> AList.update"

abbreviation mdel :: "'k \<Rightarrow> ('k, 'v) gomap \<Rightarrow> ('k, 'v) gomap" where
  "mdel \<equiv> AList.delete"

lemma gwf_Nil [simp, go_map]: "gwf []"
  by (simp add: gwf_def)

lemma gkeys_Nil [simp, go_map]: "gkeys [] = {}"
  by (simp add: gkeys_def)

lemma gkeys_Cons [simp, go_map]: "gkeys ((k, v) # m) = insert k (gkeys m)"
  by (simp add: gkeys_def)

lemma gkeys_append [simp, go_map]: "gkeys (m @ m') = gkeys m \<union> gkeys m'"
  by (simp add: gkeys_def image_Un)

lemma finite_gkeys [simp]: "finite (gkeys m)"
  by (simp add: gkeys_def)

lemma gkeysI: "(k, v) \<in> set m \<Longrightarrow> k \<in> gkeys m"
  unfolding gkeys_def by force

lemma gwf_Cons [simp, go_map]: "gwf ((k, v) # m) \<longleftrightarrow> k \<notin> gkeys m \<and> gwf m"
  by (simp add: gwf_def gkeys_def)

lemma gwf_mput [simp, go_map]: "gwf m \<Longrightarrow> gwf (mput k v m)"
  by (simp add: gwf_def distinct_update)

lemma gwf_mdel [simp, go_map]: "gwf m \<Longrightarrow> gwf (mdel k m)"
  by (simp add: gwf_def distinct_delete)

lemma map_of_mput [simp, go_map]: "map_of (mput k v m) = (map_of m)(k \<mapsto> v)"
  by (rule update_conv')

lemma map_of_mdel_fun [simp, go_map]: "map_of (mdel k m) = (map_of m)(k := None)"
  by (rule delete_conv')

lemma gkeys_mput [simp, go_map]: "gkeys (mput k v m) = insert k (gkeys m)"
  by (simp add: gkeys_def dom_update)

lemma gkeys_mdel [simp, go_map]: "gkeys (mdel k m) = gkeys m - {k}"
  unfolding gkeys_def by (induction m) auto

lemma dom_map_of_gkeys: "dom (map_of m) = gkeys m"
  by (simp add: gkeys_def dom_map_of_conv_image_fst)

lemma map_of_None_gkeys: "map_of m k = None \<longleftrightarrow> k \<notin> gkeys m"
  by (simp add: gkeys_def map_of_eq_None_iff)

lemma map_of_Some_gkeys: "map_of m k = Some v \<Longrightarrow> k \<in> gkeys m"
  by (metis map_of_None_gkeys option.distinct(1))

lemma mget_Nil [simp, go_map]: "mget z [] k = z"
  by (simp add: mget_def)

lemma mget_Cons [go_map]: "mget z ((k', v) # m) k = (if k = k' then v else mget z m k)"
  by (simp add: mget_def)

lemma mget_mput [go_map]: "mget z (mput k v m) k' = (if k' = k then v else mget z m k')"
  by (simp add: mget_def)

lemma mget_notin [go_map]: "k \<notin> gkeys m \<Longrightarrow> mget z m k = z"
  by (simp add: mget_def map_of_None_gkeys [THEN iffD2])

lemma mget_in: "gwf m \<Longrightarrow> (k, v) \<in> set m \<Longrightarrow> mget z m k = v"
  by (simp add: mget_def gwf_def)

lemma map_of_Some_set: "map_of m k = Some v \<Longrightarrow> (k, v) \<in> set m"
  by (rule map_of_SomeD)

lemma gwf_map_of: "gwf m \<Longrightarrow> (k, v) \<in> set m \<Longrightarrow> map_of m k = Some v"
  by (simp add: gwf_def)

text \<open>
  Combining every entry of one map into another, as the loops
  \<^verbatim>\<open>for name, value := range reqs { m[name] = m[name] + value }\<close> do.
\<close>

definition mcombine :: "('v::zero \<Rightarrow> 'v \<Rightarrow> 'v) \<Rightarrow> ('k, 'v) gomap \<Rightarrow> ('k, 'v) gomap \<Rightarrow> ('k, 'v) gomap" where
  "mcombine g reqs m = fold (\<lambda>(n, v) m. mput n (g (mget 0 m n) v) m) reqs m"

lemma mcombine_Nil [go_map]: "mcombine g [] m = m"
  by (simp add: mcombine_def)

lemma mcombine_Cons [go_map]:
  "mcombine g ((n, v) # reqs) m = mcombine g reqs (mput n (g (mget 0 m n) v) m)"
  by (simp add: mcombine_def)

lemma gkeys_mcombine [simp]: "gkeys (mcombine g reqs m) = gkeys m \<union> gkeys reqs"
  by (induction reqs arbitrary: m) (auto simp: mcombine_Nil mcombine_Cons)

lemma gwf_mcombine [simp]: "gwf m \<Longrightarrow> gwf (mcombine g reqs m)"
  by (induction reqs arbitrary: m) (auto simp: mcombine_Nil mcombine_Cons)

lemma mget_mcombine:
  assumes "gwf reqs" and g: "\<And>a. g a 0 = a"
  shows "mget 0 (mcombine g reqs m) k = g (mget 0 m k) (mget 0 reqs k)"
  using assms(1)
proof (induction reqs arbitrary: m)
  case Nil
  then show ?case by (simp add: mcombine_Nil g)
next
  case (Cons p reqs)
  obtain n v where p: "p = (n, v)" by (cases p)
  with Cons.prems have n: "mget 0 reqs n = 0" and wf: "gwf reqs" by (auto intro: mget_notin)
  show ?case
    unfolding p mcombine_Cons Cons.IH [OF wf] by (simp add: mget_mput mget_Cons n g)
qed

text \<open>Mapping over the values of a map keeps its keys.\<close>

lemma map_of_map_snd: "map_of (map (\<lambda>(k, v). (k, f v)) m) k = map_option f (map_of m k)"
  by (induction m) auto

lemma map_fst_map_snd: "map fst (map (\<lambda>(k, v). (k, f v)) m) = map fst m"
  by (induction m) auto

section \<open>Lists\<close>

text \<open>
  The two halves of a stable split, as the loops that append to one of two slices build
  them, have the elements of the whole.
\<close>

lemma mset_filter_split: "mset (filter p xs) + mset (filter (\<lambda>x. \<not> p x) xs) = mset xs"
  by (induction xs) auto

lemma fold_invariant_list:
  assumes "P s" and "\<And>x s. x \<in> set xs \<Longrightarrow> P s \<Longrightarrow> P (f x s)"
  shows "P (fold f xs s)"
  using assms by (induction xs arbitrary: s) auto

end
