(* ===== verification/KubeApi.thy ===== *)
theory KubeApi
  imports Prelude
begin

text \<open>
  The Kubernetes objects the plugins read (the fields the source uses) and the interface of
  the code that is not part of this repository: \<^verbatim>\<open>resource.Quantity\<close>, the scheduler
  framework's \<^verbatim>\<open>Resource\<close>, \<^verbatim>\<open>NodeInfo\<close> and \<^verbatim>\<open>CycleState\<close>, feature gates and
  pod helpers. Every operation of that code is a field of a record of functions that the
  definitions take as an argument \<open>K\<close>; what a theorem relies on is a named predicate over
  \<open>K\<close> (\<open>resource_laws\<close>, \<open>cycle_laws\<close>, \<dots>) stating documented behaviour.
  The last section gives one concrete instance, at which the witnesses evaluate.
\<close>

section \<open>Objects\<close>

datatype error = Err string | Panic string

datatype code = Success | Error | Unschedulable | UnschedulableAndUnresolvable | Wait | Skip

text \<open>
  \<^verbatim>\<open>framework.Status\<close>: a code and a message. Messages keep the constant text of the
  source's format strings; the values printed into them are left out.
\<close>

record status =
  stCode :: code
  stMsg :: string

definition NewStatus :: "code \<Rightarrow> string \<Rightarrow> status" where
  "NewStatus c m = \<lparr>stCode = c, stMsg = m\<rparr>"

text \<open>\<^verbatim>\<open>framework.Resource\<close>.\<close>

record resource =
  MilliCPU :: i64
  Memory :: i64
  EphemeralStorage :: i64
  AllowedPodNumber :: i64
  ScalarResources :: "(string, i64) gomap"

definition zero_resource :: resource where
  "zero_resource = \<lparr>MilliCPU = 0, Memory = 0, EphemeralStorage = 0, AllowedPodNumber = 0,
     ScalarResources = []\<rparr>"

type_synonym 'q resource_list = "(string, 'q) gomap"

record 'q container =
  ctRequests :: "'q resource_list"
  ctLimits :: "'q resource_list"

record 'q pod =
  podName :: string
  podNamespace :: string
  podUID :: string
  podLabels :: "(string, string) gomap"
  podNodeName :: string
  podContainers :: "'q container list"
  podInitContainers :: "'q container list"
  podOverhead :: "'q resource_list option"
  podVolumes :: "string list"
  podPriority :: "i32 option"
  podPhase :: string
  podNominated :: string
  podDeletion :: "int option"
  podOwners :: "string list"

record 'q node =
  nodeName :: string
  nodeAllocatable :: "'q resource_list"
  nodeCapacity :: "'q resource_list"

text \<open>
  \<^verbatim>\<open>framework.NodeInfo\<close>; \<open>niNode = None\<close> is a nil \<^verbatim>\<open>Node()\<close>. The entries of
  \<^verbatim>\<open>Pods\<close> are non-nil.
\<close>

record 'q node_info =
  niNode :: "'q node option"
  niPods :: "'q pod list"
  niAllocatable :: resource
  niRequested :: resource
  niNonZero :: resource
  niTransient :: "(i64 \<times> i64) option"

datatype feature = PodOverhead | PodDisruptionBudgetGate | BalanceAttachedNodeVolumes

section \<open>The interface of the code outside the repository\<close>

text \<open>Values: quantities, resources, pods and nodes.\<close>

record 'q kube_api =
  q_milli :: "'q \<Rightarrow> i64"
  q_value :: "'q \<Rightarrow> i64"
  q_sub :: "'q \<Rightarrow> 'q \<Rightarrow> 'q"
  q_sign :: "'q \<Rightarrow> int"
  q_new :: "i64 \<Rightarrow> 'q"
  q_zero :: 'q
  res_new :: "'q resource_list \<Rightarrow> resource"
  res_add :: "resource \<Rightarrow> 'q resource_list \<Rightarrow> resource"
  res_setmax :: "resource \<Rightarrow> 'q resource_list \<Rightarrow> resource"
  res_list :: "resource \<Rightarrow> 'q resource_list"
  res_set_scalar :: "resource \<Rightarrow> string \<Rightarrow> i64 \<Rightarrow> resource"
  is_scalar_name :: "string \<Rightarrow> bool"
  pod_key :: "'q pod \<Rightarrow> error + string"
  pod_priority :: "'q pod \<Rightarrow> i32"
  feature_on :: "feature \<Rightarrow> bool"
  ni_add :: "'q node_info \<Rightarrow> 'q pod \<Rightarrow> 'q node_info"
  ni_remove :: "'q node_info \<Rightarrow> 'q pod \<Rightarrow> error + 'q node_info"
  status_code :: "status option \<Rightarrow> code"
  nonzero_request :: "string \<Rightarrow> 'q resource_list \<Rightarrow> i64"

text \<open>\<^verbatim>\<open>framework.CycleState\<close>: a keyed store of plugin data.\<close>

record ('q, 'st, 'd) cycle_api = "'q kube_api" +
  cs_read :: "'st \<Rightarrow> string \<Rightarrow> error + 'd"
  cs_write :: "'st \<Rightarrow> string \<Rightarrow> 'd \<Rightarrow> 'st"
  cs_delete :: "'st \<Rightarrow> string \<Rightarrow> 'st"
  cs_clone :: "'st \<Rightarrow> 'st"

section \<open>Dimensions of a resource\<close>

text \<open>The dimensions the quota code accounts: CPU, memory and each scalar resource.\<close>

datatype dim = CPU | MEM | SCALAR string

fun res_dim :: "resource \<Rightarrow> dim \<Rightarrow> i64" where
  "res_dim r CPU = MilliCPU r"
| "res_dim r MEM = Memory r"
| "res_dim r (SCALAR n) = mget 0 (ScalarResources r) n"

text \<open>A resource is well formed when its scalar map has distinct keys that are scalar names.\<close>

definition wf_resource :: "('q, 'z) kube_api_scheme \<Rightarrow> resource \<Rightarrow> bool" where
  "wf_resource K r \<longleftrightarrow> gwf (ScalarResources r) \<and> (\<forall>n \<in> gkeys (ScalarResources r). is_scalar_name K n)"

lemma zero_resource_dim [simp]: "res_dim zero_resource d = 0"
  by (cases d) (simp_all add: zero_resource_def)

lemma wf_zero_resource [simp]: "wf_resource K zero_resource"
  by (simp add: wf_resource_def zero_resource_def)

lemma zero_resource_scalars [simp]: "ScalarResources zero_resource = []"
  by (simp add: zero_resource_def)

section \<open>Documented behaviour the theorems rely on\<close>

text \<open>
  \<^verbatim>\<open>SetScalar\<close> stores one scalar; \<^verbatim>\<open>NewResource(nil)\<close> is the zero resource;
  \<^verbatim>\<open>Add\<close> and \<^verbatim>\<open>SetMaxResource\<close> keep resources well formed; adding the
  \<^verbatim>\<open>ResourceList()\<close> of a well-formed resource adds it dimension by dimension and its
  scalar names.
\<close>

definition resource_laws :: "('q, 'z) kube_api_scheme \<Rightarrow> bool" where
  "resource_laws K \<longleftrightarrow>
     (\<forall>r n v. MilliCPU (res_set_scalar K r n v) = MilliCPU r
        \<and> Memory (res_set_scalar K r n v) = Memory r
        \<and> ScalarResources (res_set_scalar K r n v) = mput n v (ScalarResources r)) \<and>
     res_new K [] = zero_resource \<and>
     (\<forall>rl. wf_resource K (res_new K rl)) \<and>
     (\<forall>r rl. wf_resource K r \<longrightarrow> wf_resource K (res_add K r rl)) \<and>
     (\<forall>r rl. wf_resource K r \<longrightarrow> wf_resource K (res_setmax K r rl)) \<and>
     (\<forall>r s d. wf_resource K s \<longrightarrow>
        res_dim (res_add K r (res_list K s)) d = res_dim r d + res_dim s d) \<and>
     (\<forall>r s. wf_resource K s \<longrightarrow>
        gkeys (ScalarResources (res_add K r (res_list K s)))
          = gkeys (ScalarResources r) \<union> gkeys (ScalarResources s))"

text \<open>A read returns what was last written under the key, if it was not deleted since.\<close>

definition cycle_laws :: "('q, 'st, 'd, 'z) cycle_api_scheme \<Rightarrow> bool" where
  "cycle_laws K \<longleftrightarrow>
     (\<forall>s k v. cs_read K (cs_write K s k v) k = Inr v) \<and>
     (\<forall>s k k' v. k' \<noteq> k \<longrightarrow> cs_read K (cs_write K s k v) k' = cs_read K s k') \<and>
     (\<forall>s k. isl (cs_read K (cs_delete K s k) k)) \<and>
     (\<forall>s k k'. k' \<noteq> k \<longrightarrow> cs_read K (cs_delete K s k) k' = cs_read K s k') \<and>
     (\<forall>s k. cs_read K (cs_clone K s) k = cs_read K s k)"

lemma resource_lawsD:
  assumes "resource_laws K"
  shows "MilliCPU (res_set_scalar K r n v) = MilliCPU r"
    and "Memory (res_set_scalar K r n v) = Memory r"
    and "ScalarResources (res_set_scalar K r n v) = mput n v (ScalarResources r)"
    and "res_new K [] = zero_resource"
    and "wf_resource K (res_new K rl)"
    and "wf_resource K r \<Longrightarrow> wf_resource K (res_add K r rl)"
    and "wf_resource K r \<Longrightarrow> wf_resource K (res_setmax K r rl)"
    and "wf_resource K s \<Longrightarrow> res_dim (res_add K r (res_list K s)) d = res_dim r d + res_dim s d"
    and "wf_resource K s \<Longrightarrow> gkeys (ScalarResources (res_add K r (res_list K s)))
          = gkeys (ScalarResources r) \<union> gkeys (ScalarResources s)"
  using assms by (simp_all add: resource_laws_def)

lemma cycle_lawsD:
  assumes "cycle_laws K"
  shows "cs_read K (cs_write K s k v) k = Inr v"
    and "k' \<noteq> k \<Longrightarrow> cs_read K (cs_write K s k v) k' = cs_read K s k'"
    and "isl (cs_read K (cs_delete K s k) k)"
    and "k' \<noteq> k \<Longrightarrow> cs_read K (cs_delete K s k) k' = cs_read K s k'"
    and "cs_read K (cs_clone K s) k = cs_read K s k"
  using assms by (simp_all add: cycle_laws_def)

end
