(* ===== verification/ElasticQuota.thy ===== *)
theory ElasticQuota
  imports KubeApi
begin

text \<open>
  \<^verbatim>\<open>pkg/capacityscheduling/elasticquota.go\<close> and the request computation of
  \<^verbatim>\<open>capacity_scheduling.go\<close>: the quota record, its accounting operations, its limit
  checks, and the interface \<open>quota_ledger\<close> that the plugin relies on (what a quota holds and
  uses after a pod is added or deleted). The three resource pointers of
  \<^verbatim>\<open>ElasticQuotaInfo\<close> are values here: \<^verbatim>\<open>newElasticQuotaInfo\<close>, the only
  constructor, never leaves one nil.
\<close>

section \<open>Definitions\<close>

record eq_info =
  eqNamespace :: string
  eqPods :: "string set"
  eqMin :: resource
  eqMax :: resource
  eqUsed :: resource

type_synonym eq_infos = "(string, eq_info) gomap"

definition NewElasticQuotaInfos :: eq_infos where
  "NewElasticQuotaInfos = []"

definition newElasticQuotaInfo ::
  "('q, 'z) kube_api_scheme \<Rightarrow> string \<Rightarrow> 'q resource_list \<Rightarrow> 'q resource_list \<Rightarrow> 'q resource_list \<Rightarrow> eq_info"
where
  "newElasticQuotaInfo K ns mn mx us =
     \<lparr>eqNamespace = ns, eqPods = {}, eqMin = res_new K mn, eqMax = res_new K mx,
      eqUsed = res_new K us\<rparr>"

text \<open>
  \<^verbatim>\<open>Resource.Clone\<close> copies a resource; on values it is the resource itself. The pod
  set is rebuilt element by element.
\<close>

definition eq_clone :: "eq_info \<Rightarrow> eq_info" where
  "eq_clone e =
     \<lparr>eqNamespace = eqNamespace e,
      eqPods = (if eqPods e = {} then {} else {} \<union> eqPods e),
      eqMin = eqMin e, eqMax = eqMax e, eqUsed = eqUsed e\<rparr>"

definition infos_clone :: "eq_infos \<Rightarrow> eq_infos" where
  "infos_clone m = fold (\<lambda>(k, e) acc. acc @ [(k, eq_clone e)]) m []"

definition reserveResource :: "('q, 'z) kube_api_scheme \<Rightarrow> eq_info \<Rightarrow> resource \<Rightarrow> eq_info" where
  "reserveResource K e req =
     (let u = eqUsed e;
          u = u\<lparr>Memory := Memory u + Memory req\<rparr>;
          u = u\<lparr>MilliCPU := MilliCPU u + MilliCPU req\<rparr>;
          u = fold (\<lambda>(name, value) u. res_set_scalar K u name (mget 0 (ScalarResources u) name + value))
                (ScalarResources req) u
      in e\<lparr>eqUsed := u\<rparr>)"

definition unreserveResource :: "('q, 'z) kube_api_scheme \<Rightarrow> eq_info \<Rightarrow> resource \<Rightarrow> eq_info" where
  "unreserveResource K e req =
     (let u = eqUsed e;
          u = u\<lparr>Memory := Memory u - Memory req\<rparr>;
          u = u\<lparr>MilliCPU := MilliCPU u - MilliCPU req\<rparr>;
          u = fold (\<lambda>(name, value) u. res_set_scalar K u name (mget 0 (ScalarResources u) name - value))
                (ScalarResources req) u
      in e\<lparr>eqUsed := u\<rparr>)"

definition overUsed :: "eq_info \<Rightarrow> resource \<Rightarrow> resource \<Rightarrow> bool" where
  "overUsed e podRequest lim =
     (if sint (MilliCPU (eqUsed e) + MilliCPU podRequest) > sint (MilliCPU lim) then True
      else if sint (Memory (eqUsed e) + Memory podRequest) > sint (Memory lim) then True
      else list_ex (\<lambda>(rName, rQuant).
             sint (rQuant + mget 0 (ScalarResources (eqUsed e)) rName)
               > sint (mget 0 (ScalarResources lim) rName))
           (ScalarResources podRequest))"

definition moreThanMin :: "resource \<Rightarrow> resource \<Rightarrow> bool" where
  "moreThanMin used mn =
     (if sint (MilliCPU used) > sint (MilliCPU mn) then True
      else if sint (Memory used) > sint (Memory mn) then True
      else list_ex (\<lambda>(rName, rQuant). sint rQuant > sint (mget 0 (ScalarResources mn) rName))
           (ScalarResources used))"

definition aggregatedMinOverUsedWithPod ::
  "('q, 'z) kube_api_scheme \<Rightarrow> eq_infos \<Rightarrow> resource \<Rightarrow> bool"
where
  "aggregatedMinOverUsedWithPod K infos podRequest =
     (let (used, mn) =
        fold (\<lambda>(_, info) (used, mn).
               (res_add K used (res_list K (eqUsed info)), res_add K mn (res_list K (eqMin info))))
          infos (res_new K [], res_new K []);
          used = res_add K used (res_list K podRequest)
      in moreThanMin used mn)"

text \<open>\<^verbatim>\<open>computePodResourceRequest\<close>: the sum over the containers, raised to each init
  container, plus the overhead when the feature is on.\<close>

definition computePodResourceRequest :: "('q, 'z) kube_api_scheme \<Rightarrow> 'q pod \<Rightarrow> resource" where
  "computePodResourceRequest K pod =
     (let r = fold (\<lambda>c r. res_add K r (ctRequests c)) (podContainers pod) zero_resource;
          r = fold (\<lambda>c r. res_setmax K r (ctRequests c)) (podInitContainers pod) r
      in case podOverhead pod of
           None \<Rightarrow> r
         | Some ov \<Rightarrow> if feature_on K PodOverhead then res_add K r ov else r)"

definition addPodIfNotPresent ::
  "('q, 'z) kube_api_scheme \<Rightarrow> eq_info \<Rightarrow> 'q pod \<Rightarrow> error + eq_info"
where
  "addPodIfNotPresent K e pod =
     (case pod_key K pod of
        Inl err \<Rightarrow> Inl err
      | Inr key \<Rightarrow>
          if key \<in> eqPods e then Inr e
          else Inr (reserveResource K (e\<lparr>eqPods := insert key (eqPods e)\<rparr>)
                      (computePodResourceRequest K pod)))"

definition deletePodIfPresent ::
  "('q, 'z) kube_api_scheme \<Rightarrow> eq_info \<Rightarrow> 'q pod \<Rightarrow> error + eq_info"
where
  "deletePodIfPresent K e pod =
     (case pod_key K pod of
        Inl err \<Rightarrow> Inl err
      | Inr key \<Rightarrow>
          if key \<notin> eqPods e then Inr e
          else Inr (unreserveResource K (e\<lparr>eqPods := eqPods e - {key}\<rparr>)
                      (computePodResourceRequest K pod)))"

text \<open>
  What every caller does with the two operations above: the quota is shared by pointer, so
  the caller sees the updated quota, or the old one where the operation returned an error.
\<close>

definition updated :: "'a \<Rightarrow> error + 'a \<Rightarrow> 'a" where
  "updated old r = (case r of Inl _ \<Rightarrow> old | Inr new \<Rightarrow> new)"

section \<open>Cloning\<close>

lemma eq_clone_id: "eq_clone e = e"
  by (simp add: eq_clone_def)

lemma infos_clone_acc: "fold (\<lambda>(k, e) acc. acc @ [(k, eq_clone e)]) m acc
   = acc @ map (\<lambda>(k, e). (k, eq_clone e)) m"
  by (induction m arbitrary: acc) auto

lemma infos_clone_id [simp]: "infos_clone m = m"
  unfolding infos_clone_def infos_clone_acc
  by (induction m) (auto simp: eq_clone_id)

section \<open>Accounting\<close>

text \<open>
  The loop over the scalar resources of a request, with \<open>g\<close> the sum or the difference:
  it touches only the scalar map, and there exactly the request's names.
\<close>

definition scalar_loop ::
  "('q, 'z) kube_api_scheme \<Rightarrow> (i64 \<Rightarrow> i64 \<Rightarrow> i64) \<Rightarrow> (string, i64) gomap \<Rightarrow> resource \<Rightarrow> resource"
where
  "scalar_loop K g reqs u =
     fold (\<lambda>(n, v) u. res_set_scalar K u n (g (mget 0 (ScalarResources u) n) v)) reqs u"

lemma scalar_loop_Nil: "scalar_loop K g [] u = u"
  by (simp add: scalar_loop_def)

lemma scalar_loop_Cons:
  "scalar_loop K g ((n, v) # reqs) u
     = scalar_loop K g reqs (res_set_scalar K u n (g (mget 0 (ScalarResources u) n) v))"
  by (simp add: scalar_loop_def)

lemmas scalar_loop_rec = scalar_loop_Nil scalar_loop_Cons

lemma scalar_loop_frame:
  assumes K: "resource_laws K"
  shows "MilliCPU (scalar_loop K g reqs u) = MilliCPU u"
    and "Memory (scalar_loop K g reqs u) = Memory u"
    and "ScalarResources (scalar_loop K g reqs u) = mcombine g reqs (ScalarResources u)"
  by (induction reqs arbitrary: u)
    (auto simp: scalar_loop_rec resource_lawsD [OF K] mcombine_Nil mcombine_Cons)

lemma reserveResource_loop:
  "eqUsed (reserveResource K e r) = scalar_loop K (\<lambda>a v. a + v) (ScalarResources r)
     ((eqUsed e)\<lparr>Memory := Memory (eqUsed e) + Memory r,
                 MilliCPU := MilliCPU (eqUsed e) + MilliCPU r\<rparr>)"
  by (simp add: reserveResource_def scalar_loop_def Let_def)

lemma unreserveResource_loop:
  "eqUsed (unreserveResource K e r) = scalar_loop K (\<lambda>a v. a - v) (ScalarResources r)
     ((eqUsed e)\<lparr>Memory := Memory (eqUsed e) - Memory r,
                 MilliCPU := MilliCPU (eqUsed e) - MilliCPU r\<rparr>)"
  by (simp add: unreserveResource_def scalar_loop_def Let_def)

lemma reserve_fields [simp, quota_simps]:
  "eqNamespace (reserveResource K e r) = eqNamespace e"
  "eqPods (reserveResource K e r) = eqPods e"
  "eqMin (reserveResource K e r) = eqMin e"
  "eqMax (reserveResource K e r) = eqMax e"
  by (simp_all add: reserveResource_def Let_def)

lemma unreserve_fields [simp, quota_simps]:
  "eqNamespace (unreserveResource K e r) = eqNamespace e"
  "eqPods (unreserveResource K e r) = eqPods e"
  "eqMin (unreserveResource K e r) = eqMin e"
  "eqMax (unreserveResource K e r) = eqMax e"
  by (simp_all add: unreserveResource_def Let_def)

lemma reserve_dim [quota_simps]:
  assumes K: "resource_laws K" and "wf_resource K r"
  shows "res_dim (eqUsed (reserveResource K e r)) d = res_dim (eqUsed e) d + res_dim r d"
  using assms(2)
  by (cases d) (simp_all add: reserveResource_loop wf_resource_def scalar_loop_frame [OF K]
        mget_mcombine)

lemma unreserve_dim [quota_simps]:
  assumes K: "resource_laws K" and "wf_resource K r"
  shows "res_dim (eqUsed (unreserveResource K e r)) d = res_dim (eqUsed e) d - res_dim r d"
  using assms(2)
  by (cases d) (simp_all add: unreserveResource_loop wf_resource_def scalar_loop_frame [OF K]
        mget_mcombine)

lemma reserve_wf [keeps]:
  assumes K: "resource_laws K" and "wf_resource K r" and "wf_resource K (eqUsed e)"
  shows "wf_resource K (eqUsed (reserveResource K e r))"
  using assms(2,3) unfolding wf_resource_def reserveResource_loop scalar_loop_frame [OF K]
  by auto

lemma unreserve_wf [keeps]:
  assumes K: "resource_laws K" and "wf_resource K r" and "wf_resource K (eqUsed e)"
  shows "wf_resource K (eqUsed (unreserveResource K e r))"
  using assms(2,3) unfolding wf_resource_def unreserveResource_loop scalar_loop_frame [OF K]
  by auto

lemma compute_wf [simp]:
  assumes K: "resource_laws K"
  shows "wf_resource K (computePodResourceRequest K pod)"
proof -
  have a: "wf_resource K (fold (\<lambda>c r. res_add K r (ctRequests c)) cs zero_resource)" for cs
    by (rule fold_invariant_list) (simp_all add: resource_lawsD [OF K])
  have b: "wf_resource K (fold (\<lambda>c r. res_setmax K r (ctRequests c)) ics
     (fold (\<lambda>c r. res_add K r (ctRequests c)) cs zero_resource))" for ics cs
    by (rule fold_invariant_list) (simp_all add: a resource_lawsD [OF K])
  show ?thesis
    by (simp add: computePodResourceRequest_def Let_def b resource_lawsD [OF K] split: option.split)
qed

section \<open>The limit checks\<close>

text \<open>The dimensions a check visits: CPU, memory and the scalar names of one operand.\<close>

definition dims_of :: "resource \<Rightarrow> dim set" where
  "dims_of r = {CPU, MEM} \<union> SCALAR ` gkeys (ScalarResources r)"

lemma CPU_in_dims_of [simp]: "CPU \<in> dims_of r" "MEM \<in> dims_of r"
  by (simp_all add: dims_of_def)

lemma not_in_dims_of: "d \<notin> dims_of r \<Longrightarrow> res_dim r d = 0"
  by (cases d) (auto simp: dims_of_def image_iff intro!: mget_notin)

lemma list_ex_scalars:
  assumes "gwf m"
  shows "list_ex (\<lambda>(n, q). P n q) m \<longleftrightarrow> (\<exists>n \<in> gkeys m. P n (mget 0 m n))"
proof -
  have "(\<exists>n \<in> gkeys m. P n (mget 0 m n)) \<longleftrightarrow> (\<exists>p \<in> set m. P (fst p) (mget 0 m (fst p)))"
    by (simp add: gkeys_def)
  also have "\<dots> \<longleftrightarrow> (\<exists>p \<in> set m. P (fst p) (snd p))"
    using mget_in [OF assms, where z = 0] by (metis prod.collapse)
  finally show ?thesis by (simp add: list_ex_iff case_prod_beta)
qed

lemma overUsed_iff:
  assumes "gwf (ScalarResources r)"
  shows "overUsed e r lim \<longleftrightarrow>
    (\<exists>d \<in> dims_of r. sint (res_dim (eqUsed e) d + res_dim r d) > sint (res_dim lim d))"
  unfolding overUsed_def list_ex_scalars [OF assms] dims_of_def
  by (simp add: add.commute bex_Un)

lemma moreThanMin_iff:
  assumes "gwf (ScalarResources u)"
  shows "moreThanMin u m \<longleftrightarrow> (\<exists>d \<in> dims_of u. sint (res_dim u d) > sint (res_dim m d))"
  unfolding moreThanMin_def list_ex_scalars [OF assms] dims_of_def by (simp add: bex_Un)

text \<open>
  The aggregate check, stated on totals: the sum of the quotas' usage plus the request
  against the sum of the quotas' guarantees, dimension by dimension.
\<close>

definition total_used :: "eq_infos \<Rightarrow> dim \<Rightarrow> i64" where
  "total_used infos d = (\<Sum>(k, e) \<leftarrow> infos. res_dim (eqUsed e) d)"

definition total_min :: "eq_infos \<Rightarrow> dim \<Rightarrow> i64" where
  "total_min infos d = (\<Sum>(k, e) \<leftarrow> infos. res_dim (eqMin e) d)"

definition wf_info :: "('q, 'z) kube_api_scheme \<Rightarrow> eq_info \<Rightarrow> bool" where
  "wf_info K e \<longleftrightarrow> wf_resource K (eqUsed e) \<and> wf_resource K (eqMin e) \<and> wf_resource K (eqMax e)"

definition wf_infos :: "('q, 'z) kube_api_scheme \<Rightarrow> eq_infos \<Rightarrow> bool" where
  "wf_infos K infos \<longleftrightarrow> gwf infos \<and> (\<forall>(k, e) \<in> set infos. wf_info K e)"

definition aggregate ::
  "('q, 'z) kube_api_scheme \<Rightarrow> (eq_info \<Rightarrow> resource) \<Rightarrow> eq_infos \<Rightarrow> resource \<Rightarrow> resource"
where
  "aggregate K sel infos r = fold (\<lambda>(_, e) r. res_add K r (res_list K (sel e))) infos r"

lemma aggregate_pair:
  "fold (\<lambda>(_, e) (u, m). (res_add K u (res_list K (f e)), res_add K m (res_list K (g e)))) infos (u, m)
     = (aggregate K f infos u, aggregate K g infos m)"
  by (induction infos arbitrary: u m) (auto simp: aggregate_def)

lemma aggregate_dim:
  assumes K: "resource_laws K" and "\<forall>(k, e) \<in> set infos. wf_resource K (f e)"
  shows "res_dim (aggregate K f infos r) d = res_dim r d + (\<Sum>(k, e) \<leftarrow> infos. res_dim (f e) d)"
  using assms(2)
  by (induction infos arbitrary: r) (auto simp: aggregate_def resource_lawsD [OF K])

lemma aggregate_keys:
  assumes K: "resource_laws K" and "\<forall>(k, e) \<in> set infos. wf_resource K (f e)"
  shows "gkeys (ScalarResources (aggregate K f infos r))
    = gkeys (ScalarResources r) \<union> (\<Union>(k, e) \<in> set infos. gkeys (ScalarResources (f e)))"
  using assms(2)
  by (induction infos arbitrary: r) (auto simp: aggregate_def resource_lawsD [OF K])

lemma aggregate_wf:
  assumes K: "resource_laws K" and "wf_resource K r"
  shows "wf_resource K (aggregate K f infos r)"
  unfolding aggregate_def
  by (rule fold_invariant_list) (auto simp: assms(2) resource_lawsD [OF K])

lemma aggregatedMin_iff:
  assumes K: "resource_laws K" and wf: "wf_infos K infos" and r: "wf_resource K r"
  shows "aggregatedMinOverUsedWithPod K infos r \<longleftrightarrow>
    (\<exists>d \<in> dims_of r \<union> (\<Union>(k, e) \<in> set infos. dims_of (eqUsed e)).
       sint (total_used infos d + res_dim r d) > sint (total_min infos d))"
proof -
  let ?u = "res_add K (aggregate K eqUsed infos zero_resource) (res_list K r)"
  let ?m = "aggregate K eqMin infos zero_resource"
  have w: "\<forall>(k, e) \<in> set infos. wf_resource K (eqUsed e)"
    and m: "\<forall>(k, e) \<in> set infos. wf_resource K (eqMin e)"
    using wf by (auto simp: wf_infos_def wf_info_def)
  have "wf_resource K ?u"
    by (simp add: resource_lawsD [OF K] aggregate_wf [OF K])
  then have g: "gwf (ScalarResources ?u)" by (simp add: wf_resource_def)
  have d: "dims_of ?u = dims_of r \<union> (\<Union>(k, e) \<in> set infos. dims_of (eqUsed e))"
    unfolding dims_of_def resource_lawsD(9) [OF K r] aggregate_keys [OF K w] by auto
  have "aggregatedMinOverUsedWithPod K infos r = moreThanMin ?u ?m"
    by (simp add: aggregatedMinOverUsedWithPod_def aggregate_pair resource_lawsD [OF K])
  then show ?thesis
    unfolding moreThanMin_iff [OF g] d
    by (simp add: resource_lawsD [OF K] r aggregate_dim [OF K w] aggregate_dim [OF K m]
        total_used_def total_min_def)
qed

section \<open>The interface the plugin relies on\<close>

text \<open>
  A ledger records which pods it holds and what they use. Operations take an environment
  \<open>k\<close> (here: the library functions), and the laws hold in a \<open>valid\<close> one. A pod
  without a key (\<open>key k p = None\<close>) is ignored; adding a held pod and deleting a pod
  that is not held change nothing.
\<close>

locale quota_ledger =
  fixes valid :: "'k \<Rightarrow> bool"
    and add :: "'k \<Rightarrow> 's \<Rightarrow> 'p \<Rightarrow> 's"
    and del :: "'k \<Rightarrow> 's \<Rightarrow> 'p \<Rightarrow> 's"
    and held :: "'s \<Rightarrow> string set"
    and usage :: "'s \<Rightarrow> dim \<Rightarrow> i64"
    and key :: "'k \<Rightarrow> 'p \<Rightarrow> string option"
    and demand :: "'k \<Rightarrow> 'p \<Rightarrow> dim \<Rightarrow> i64"
  assumes add_nokey: "key k p = None \<Longrightarrow> add k s p = s"
    and del_nokey: "key k p = None \<Longrightarrow> del k s p = s"
    and add_held: "key k p = Some x \<Longrightarrow> x \<in> held s \<Longrightarrow> add k s p = s"
    and del_not_held: "key k p = Some x \<Longrightarrow> x \<notin> held s \<Longrightarrow> del k s p = s"
    and held_add: "key k p = Some x \<Longrightarrow> held (add k s p) = insert x (held s)"
    and held_del: "key k p = Some x \<Longrightarrow> held (del k s p) = held s - {x}"
    and usage_add: "valid k \<Longrightarrow> key k p = Some x \<Longrightarrow> x \<notin> held s \<Longrightarrow>
          usage (add k s p) d = usage s d + demand k p d"
    and usage_del: "valid k \<Longrightarrow> key k p = Some x \<Longrightarrow> x \<in> held s \<Longrightarrow>
          usage (del k s p) d = usage s d - demand k p d"

text \<open>
  A ledger balances when its usage is the sum of what its pods demand. The sum is the one
  of 64-bit integers, so it is exact modulo \<open>2 ^ 64\<close> whatever the demands are.
\<close>

definition balanced :: "(string \<Rightarrow> dim \<Rightarrow> i64) \<Rightarrow> string set \<Rightarrow> (dim \<Rightarrow> i64) \<Rightarrow> bool" where
  "balanced req H u \<longleftrightarrow> finite H \<and> (\<forall>d. u d = (\<Sum>x \<in> H. req x d))"

context quota_ledger begin

lemma add_twice: "add k (add k s p) p = add k s p"
  by (cases "key k p") (auto simp: add_nokey held_add intro: add_held)

lemma del_twice: "del k (del k s p) p = del k s p"
  by (cases "key k p") (auto simp: del_nokey held_del intro: del_not_held)

lemma add_del_usage:
  assumes "valid k" and "\<And>x. key k p = Some x \<Longrightarrow> x \<notin> held s"
  shows "usage (del k (add k s p) p) d = usage s d" and "held (del k (add k s p) p) = held s"
  using assms
  by (cases "key k p"; simp add: add_nokey del_nokey held_add held_del usage_del usage_add)+

lemma del_add_usage:
  assumes "valid k" and "\<And>x. key k p = Some x \<Longrightarrow> x \<in> held s"
  shows "usage (add k (del k s p) p) d = usage s d" and "held (add k (del k s p) p) = held s"
  using assms
  by (cases "key k p"; auto simp add: add_nokey del_nokey held_add held_del usage_del usage_add)+

lemma balanced_add:
  assumes "valid k" and "balanced req (held s) (usage s)"
    and "\<And>x. key k p = Some x \<Longrightarrow> demand k p = req x"
  shows "balanced req (held (add k s p)) (usage (add k s p))"
proof (cases "key k p")
  case None
  with assms(2) show ?thesis by (simp add: add_nokey)
next
  case (Some x)
  with assms show ?thesis
    by (cases "x \<in> held s") (simp_all add: add_held balanced_def held_add usage_add add.commute)
qed

lemma balanced_del:
  assumes "valid k" and "balanced req (held s) (usage s)"
    and "\<And>x. key k p = Some x \<Longrightarrow> demand k p = req x"
  shows "balanced req (held (del k s p)) (usage (del k s p))"
proof (cases "key k p")
  case None
  with assms(2) show ?thesis by (simp add: del_nokey)
next
  case (Some x)
  with assms show ?thesis
    by (cases "x \<in> held s") (simp_all add: del_not_held balanced_def held_del usage_del sum_diff1)
qed

end

section \<open>Quotas are ledgers\<close>

definition eq_key :: "('q, 'z) kube_api_scheme \<Rightarrow> 'q pod \<Rightarrow> string option" where
  "eq_key K p = (case pod_key K p of Inl _ \<Rightarrow> None | Inr x \<Rightarrow> Some x)"

definition eq_demand :: "('q, 'z) kube_api_scheme \<Rightarrow> 'q pod \<Rightarrow> dim \<Rightarrow> i64" where
  "eq_demand K p = res_dim (computePodResourceRequest K p)"

definition eq_add :: "('q, 'z) kube_api_scheme \<Rightarrow> eq_info \<Rightarrow> 'q pod \<Rightarrow> eq_info" where
  "eq_add K e p = updated e (addPodIfNotPresent K e p)"

definition eq_del :: "('q, 'z) kube_api_scheme \<Rightarrow> eq_info \<Rightarrow> 'q pod \<Rightarrow> eq_info" where
  "eq_del K e p = updated e (deletePodIfPresent K e p)"

lemmas eq_ops = eq_key_def eq_demand_def eq_add_def eq_del_def updated_def
  addPodIfNotPresent_def deletePodIfPresent_def

interpretation quota: quota_ledger resource_laws eq_add eq_del eqPods "\<lambda>e. res_dim (eqUsed e)"
  eq_key eq_demand
proof
  fix k :: "('q, 'z) kube_api_scheme" and p :: "'q pod" and s :: eq_info and x d
  show "eq_key k p = None \<Longrightarrow> eq_add k s p = s" "eq_key k p = None \<Longrightarrow> eq_del k s p = s"
    "eq_key k p = Some x \<Longrightarrow> x \<in> eqPods s \<Longrightarrow> eq_add k s p = s"
    "eq_key k p = Some x \<Longrightarrow> x \<notin> eqPods s \<Longrightarrow> eq_del k s p = s"
    "eq_key k p = Some x \<Longrightarrow> eqPods (eq_add k s p) = insert x (eqPods s)"
    "eq_key k p = Some x \<Longrightarrow> eqPods (eq_del k s p) = eqPods s - {x}"
    by (auto simp: eq_ops split: sum.splits)
  show "resource_laws k \<Longrightarrow> eq_key k p = Some x \<Longrightarrow> x \<notin> eqPods s \<Longrightarrow>
      res_dim (eqUsed (eq_add k s p)) d = res_dim (eqUsed s) d + eq_demand k p d"
    "resource_laws k \<Longrightarrow> eq_key k p = Some x \<Longrightarrow> x \<in> eqPods s \<Longrightarrow>
      res_dim (eqUsed (eq_del k s p)) d = res_dim (eqUsed s) d - eq_demand k p d"
    by (simp_all add: eq_ops reserve_dim unreserve_dim split: sum.splits)
qed

lemma eq_op_frame [simp, quota_simps]:
  "eqNamespace (eq_add K e p) = eqNamespace e" "eqNamespace (eq_del K e p) = eqNamespace e"
  "eqMin (eq_add K e p) = eqMin e" "eqMin (eq_del K e p) = eqMin e"
  "eqMax (eq_add K e p) = eqMax e" "eqMax (eq_del K e p) = eqMax e"
  by (simp_all add: eq_ops split: sum.split)

lemma eq_op_wf [keeps]:
  assumes "resource_laws K" and "wf_info K e"
  shows "wf_info K (eq_add K e p)" and "wf_info K (eq_del K e p)"
  using assms by (auto simp: eq_ops wf_info_def reserve_wf unreserve_wf split: sum.split)

end
