(* ===== verification/SchedulingApi.thy ===== *)
theory SchedulingApi
  imports KubeApi
begin

text \<open>
  The API types of \<^verbatim>\<open>pkg/apis/scheduling/v1alpha1/types.go\<close> (of the object metadata, the
  fields the source reads) and the listers generated for them under
  \<^verbatim>\<open>pkg/generated/listers\<close>, over the indexer of the informer cache, which is a parameter.
  A time is a number of nanoseconds since Go's zero time, so \<open>0\<close> is the zero time.
  \<^verbatim>\<open>PodGroupPhase\<close> is a string type in the source and stays one here: the controller's
  \<^verbatim>\<open>switch\<close> has a case for the empty phase and a default for every other string.
\<close>

section \<open>ElasticQuota\<close>

record 'q eq_spec =
  specMin :: "'q resource_list"
  specMax :: "'q resource_list"

record 'q eq_status =
  statUsed :: "'q resource_list"

record 'q elastic_quota =
  eqObjName :: string
  eqObjNamespace :: string
  eqSpec :: "'q eq_spec"
  eqStatus :: "'q eq_status"

section \<open>PodGroup\<close>

type_synonym pg_phase = string

definition PodGroupPending :: pg_phase where "PodGroupPending = ''Pending''"
definition PodGroupRunning :: pg_phase where "PodGroupRunning = ''Running''"
definition PodGroupPreScheduling :: pg_phase where "PodGroupPreScheduling = ''PreScheduling''"
definition PodGroupScheduling :: pg_phase where "PodGroupScheduling = ''Scheduling''"
definition PodGroupScheduled :: pg_phase where "PodGroupScheduled = ''Scheduled''"
definition PodGroupUnknown :: pg_phase where "PodGroupUnknown = ''Unknown''"
definition PodGroupFinished :: pg_phase where "PodGroupFinished = ''Finished''"
definition PodGroupFailed :: pg_phase where "PodGroupFailed = ''Failed''"

lemmas phase_defs = PodGroupPending_def PodGroupRunning_def PodGroupPreScheduling_def
  PodGroupScheduling_def PodGroupScheduled_def PodGroupUnknown_def PodGroupFinished_def
  PodGroupFailed_def

record 'q pg_spec =
  MinMember :: i32
  MinResources :: "'q resource_list option"
  ScheduleTimeoutSeconds :: "i32 option"

record pg_status =
  Phase :: pg_phase
  OccupiedBy :: string
  Scheduled :: i32
  Running :: i32
  Succeeded :: i32
  Failed :: i32
  ScheduleStartTime :: int

record 'q pod_group =
  pgName :: string
  pgNamespace :: string
  pgCreation :: int
  pgSpec :: "'q pg_spec"
  pgStatus :: pg_status

section \<open>Listers\<close>

text \<open>
  \<^verbatim>\<open>indexer.GetByKey(key)\<close> returns the object, whether it exists, and an error: here a
  parameter of type \<open>string \<Rightarrow> error + 'o option\<close>.
\<close>

definition NotFound :: error where
  "NotFound = Err ''not found''"

definition lister_key :: "string \<Rightarrow> string \<Rightarrow> string" where
  "lister_key ns name = ns @ ''/'' @ name"

definition podGroup_Get ::
  "(string \<Rightarrow> error + 'q pod_group option) \<Rightarrow> string \<Rightarrow> string \<Rightarrow> error + 'q pod_group"
where
  "podGroup_Get GetByKey ns name =
     (case GetByKey (ns @ ''/'' @ name) of
        Inl err \<Rightarrow> Inl err
      | Inr None \<Rightarrow> Inl NotFound
      | Inr (Some pg) \<Rightarrow> Inr pg)"

definition elasticQuota_Get ::
  "(string \<Rightarrow> error + 'q elastic_quota option) \<Rightarrow> string \<Rightarrow> string \<Rightarrow> error + 'q elastic_quota"
where
  "elasticQuota_Get GetByKey ns name =
     (case GetByKey (ns @ ''/'' @ name) of
        Inl err \<Rightarrow> Inl err
      | Inr None \<Rightarrow> Inl NotFound
      | Inr (Some eq) \<Rightarrow> Inr eq)"

text \<open>
  The \<^verbatim>\<open>List\<close> methods append each object the cache walker visits; the walkers
  (\<^verbatim>\<open>cache.ListAllByNamespace\<close> and \<^verbatim>\<open>cache.ListAll\<close>) are parameters that give the visited objects
  and an error, and the objects visited before an error are returned with it.
\<close>

definition elasticQuota_List ::
  "(string \<Rightarrow> 'o list \<times> error option) \<Rightarrow> string \<Rightarrow> 'o list \<times> error option"
where
  "elasticQuota_List ListAllByNamespace ns =
     (let (visited, err) = ListAllByNamespace ns
      in (fold (\<lambda>m ret. ret @ [m]) visited [], err))"

definition podGroup_List ::
  "(string \<Rightarrow> 'o list \<times> error option) \<Rightarrow> string \<Rightarrow> 'o list \<times> error option"
where
  "podGroup_List ListAllByNamespace ns =
     (let (visited, err) = ListAllByNamespace ns
      in (fold (\<lambda>m ret. ret @ [m]) visited [], err))"

definition elasticQuota_ListAll :: "'o list \<times> error option \<Rightarrow> 'o list \<times> error option" where
  "elasticQuota_ListAll ListAll =
     (let (visited, err) = ListAll in (fold (\<lambda>m ret. ret @ [m]) visited [], err))"

definition podGroup_ListAll :: "'o list \<times> error option \<Rightarrow> 'o list \<times> error option" where
  "podGroup_ListAll ListAll =
     (let (visited, err) = ListAll in (fold (\<lambda>m ret. ret @ [m]) visited [], err))"

lemma fold_append_one [simp]: "fold (\<lambda>m ret. ret @ [m]) xs acc = acc @ xs"
  by (induction xs arbitrary: acc) auto

lemma listers_eq [simp]:
  "elasticQuota_List w ns = w ns" "podGroup_List w ns = w ns"
  "elasticQuota_ListAll v = v" "podGroup_ListAll v = v"
  by (simp_all add: elasticQuota_List_def podGroup_List_def elasticQuota_ListAll_def podGroup_ListAll_def
      split: prod.split)

end
