(* ===== verification/CapacityScheduling.thy ===== *)
theory CapacityScheduling
  imports ElasticQuota SchedulingApi
begin

text \<open>
  The plugin of \<^verbatim>\<open>pkg/capacityscheduling/capacity_scheduling.go\<close>, without preemption
  (theory \<open>Preemption\<close>): its state, the extension points PreFilter, AddPod, RemovePod,
  Reserve and Unreserve, and the informer handlers. Each handler holds the plugin's lock for
  its whole body, so it is one atomic step; \<^verbatim>\<open>addElasticQuota\<close> alone reads the map before
  it takes the lock, and is split into its check and its store.
\<close>

section \<open>State\<close>

text \<open>\<open>elasticQuotaInfos\<close> is the plugin's only mutable field.\<close>

record cap_state =
  elasticQuotaInfos :: eq_infos

text \<open>
  The data the plugin keeps in the cycle state. Both \<^verbatim>\<open>Clone\<close> methods are the identity on
  values: \<^verbatim>\<open>PreFilterState.Clone\<close> returns its receiver, the snapshot's copies its map.
\<close>

datatype cap_data = PreFilterState resource | ElasticQuotaSnapshotState eq_infos | ForeignData

fun cap_data_Clone :: "cap_data \<Rightarrow> cap_data" where
  "cap_data_Clone (PreFilterState r) = PreFilterState r"
| "cap_data_Clone (ElasticQuotaSnapshotState infos) = ElasticQuotaSnapshotState (infos_clone infos)"
| "cap_data_Clone ForeignData = ForeignData"

definition cap_Name :: string where
  "cap_Name = ''CapacityScheduling''"

definition preFilterStateKey :: string where
  "preFilterStateKey = ''PreFilter'' @ cap_Name"

definition ElasticQuotaSnapshotKey :: string where
  "ElasticQuotaSnapshotKey = ''ElasticQuotaSnapshot''"

lemma state_keys_differ [simp]:
  "preFilterStateKey \<noteq> ElasticQuotaSnapshotKey" "ElasticQuotaSnapshotKey \<noteq> preFilterStateKey"
  by (simp_all add: preFilterStateKey_def ElasticQuotaSnapshotKey_def cap_Name_def)

section \<open>Reading the cycle state\<close>

definition getPreFilterState ::
  "('q, 'st, cap_data, 'z) cycle_api_scheme \<Rightarrow> 'st \<Rightarrow> error + resource"
where
  "getPreFilterState K st =
     (case cs_read K st preFilterStateKey of
        Inl err \<Rightarrow> Inl (Err ''error reading from cycleState'')
      | Inr (PreFilterState r) \<Rightarrow> Inr r
      | Inr _ \<Rightarrow> Inl (Err ''convert to NodeResourcesFit.preFilterState error''))"

definition getElasticQuotaSnapshotState ::
  "('q, 'st, cap_data, 'z) cycle_api_scheme \<Rightarrow> 'st \<Rightarrow> error + eq_infos"
where
  "getElasticQuotaSnapshotState K st =
     (case cs_read K st ElasticQuotaSnapshotKey of
        Inl err \<Rightarrow> Inl (Err ''error reading from cycleState'')
      | Inr (ElasticQuotaSnapshotState infos) \<Rightarrow> Inr infos
      | Inr _ \<Rightarrow> Inl (Err ''convert to CapacityScheduling ElasticQuotaSnapshotState error''))"

section \<open>Extension points\<close>

definition snapshotElasticQuota :: "cap_state \<Rightarrow> eq_infos" where
  "snapshotElasticQuota c = infos_clone (elasticQuotaInfos c)"

definition cap_PreFilter ::
  "('q, 'st, cap_data, 'z) cycle_api_scheme \<Rightarrow> cap_state \<Rightarrow> 'st \<Rightarrow> 'q pod \<Rightarrow> 'st \<times> status"
where
  "cap_PreFilter K c st pod =
     (let snap = snapshotElasticQuota c;
          req = computePodResourceRequest K pod;
          st = cs_write K st preFilterStateKey (PreFilterState req);
          st = cs_write K st ElasticQuotaSnapshotKey (ElasticQuotaSnapshotState snap)
      in case map_of snap (podNamespace pod) of
           None \<Rightarrow> (st, NewStatus Success ''skipCapacityScheduling'')
         | Some eq \<Rightarrow>
             if overUsed eq req (eqMax eq) then
               (st, NewStatus Unschedulable ''rejected in Prefilter because ElasticQuota is more than Max'')
             else if aggregatedMinOverUsedWithPod K snap req then
               (st, NewStatus Unschedulable
                  ''rejected in Prefilter because total ElasticQuota used is more than min'')
             else (st, NewStatus Success ''''))"

text \<open>
  AddPod and RemovePod change the quota that the snapshot in the cycle state points to;
  writing the changed snapshot back under its key is the same for every later read. An error
  of the quota is logged and the status is still a success.
\<close>

definition cap_AddPod ::
  "('q, 'st, cap_data, 'z) cycle_api_scheme \<Rightarrow> 'st \<Rightarrow> 'q pod \<Rightarrow> 'st \<times> status"
where
  "cap_AddPod K st podToAdd =
     (case getElasticQuotaSnapshotState K st of
        Inl err \<Rightarrow> (st, NewStatus Error ''error reading from cycleState'')
      | Inr infos \<Rightarrow>
          (case map_of infos (podNamespace podToAdd) of
             None \<Rightarrow> (st, NewStatus Success '''')
           | Some info \<Rightarrow>
               (cs_write K st ElasticQuotaSnapshotKey (ElasticQuotaSnapshotState
                  (mput (podNamespace podToAdd) (updated info (addPodIfNotPresent K info podToAdd)) infos)),
                NewStatus Success '''')))"

definition cap_RemovePod ::
  "('q, 'st, cap_data, 'z) cycle_api_scheme \<Rightarrow> 'st \<Rightarrow> 'q pod \<Rightarrow> 'st \<times> status"
where
  "cap_RemovePod K st podToRemove =
     (case getElasticQuotaSnapshotState K st of
        Inl err \<Rightarrow> (st, NewStatus Error ''error reading from cycleState'')
      | Inr infos \<Rightarrow>
          (case map_of infos (podNamespace podToRemove) of
             None \<Rightarrow> (st, NewStatus Success '''')
           | Some info \<Rightarrow>
               (cs_write K st ElasticQuotaSnapshotKey (ElasticQuotaSnapshotState
                  (mput (podNamespace podToRemove)
                     (updated info (deletePodIfPresent K info podToRemove)) infos)),
                NewStatus Success '''')))"

definition cap_Reserve ::
  "('q, 'z) kube_api_scheme \<Rightarrow> cap_state \<Rightarrow> 'q pod \<Rightarrow> cap_state \<times> status"
where
  "cap_Reserve K c pod =
     (case map_of (elasticQuotaInfos c) (podNamespace pod) of
        None \<Rightarrow> (c, NewStatus Success '''')
      | Some info \<Rightarrow>
          (case addPodIfNotPresent K info pod of
             Inl err \<Rightarrow> (c, NewStatus Error ''addPodIfNotPresent'')
           | Inr info' \<Rightarrow>
               (c\<lparr>elasticQuotaInfos := mput (podNamespace pod) info' (elasticQuotaInfos c)\<rparr>,
                NewStatus Success '''')))"

definition cap_Unreserve :: "('q, 'z) kube_api_scheme \<Rightarrow> cap_state \<Rightarrow> 'q pod \<Rightarrow> cap_state" where
  "cap_Unreserve K c pod =
     (case map_of (elasticQuotaInfos c) (podNamespace pod) of
        None \<Rightarrow> c
      | Some info \<Rightarrow>
          c\<lparr>elasticQuotaInfos :=
              mput (podNamespace pod) (updated info (deletePodIfPresent K info pod)) (elasticQuotaInfos c)\<rparr>)"

section \<open>Informer handlers\<close>

text \<open>
  What an informer hands to a handler: an object, a tombstone
  (\<^verbatim>\<open>cache.DeletedFinalStateUnknown\<close>) around one, or something else. A type assertion on
  the wrong kind panics.
\<close>

datatype 'q inf_obj =
  PodObj "'q pod" | QuotaObj "'q elastic_quota" | Tombstone "'q inf_obj" | OtherObj

definition assignedPod :: "'q pod \<Rightarrow> bool" where
  "assignedPod pod \<longleftrightarrow> length (podNodeName pod) \<noteq> 0"

fun eq_FilterFunc :: "'q inf_obj \<Rightarrow> bool" where
  "eq_FilterFunc (QuotaObj _) = True"
| "eq_FilterFunc (Tombstone (QuotaObj _)) = True"
| "eq_FilterFunc _ = False"

fun pod_FilterFunc :: "'q inf_obj \<Rightarrow> bool" where
  "pod_FilterFunc (PodObj p) = assignedPod p"
| "pod_FilterFunc (Tombstone (PodObj p)) = assignedPod p"
| "pod_FilterFunc _ = False"

fun as_pod :: "'q inf_obj \<Rightarrow> error + 'q pod" where
  "as_pod (PodObj p) = Inr p"
| "as_pod _ = Inl (Panic ''interface conversion: not *v1.Pod'')"

fun as_quota :: "'q inf_obj \<Rightarrow> error + 'q elastic_quota" where
  "as_quota (QuotaObj q) = Inr q"
| "as_quota _ = Inl (Panic ''interface conversion: not *v1alpha1.ElasticQuota'')"

definition addElasticQuota_check :: "cap_state \<Rightarrow> 'q elastic_quota \<Rightarrow> bool" where
  "addElasticQuota_check c eq \<longleftrightarrow> map_of (elasticQuotaInfos c) (eqObjNamespace eq) = None"

definition addElasticQuota_store ::
  "('q, 'z) kube_api_scheme \<Rightarrow> cap_state \<Rightarrow> 'q elastic_quota \<Rightarrow> cap_state"
where
  "addElasticQuota_store K c eq =
     c\<lparr>elasticQuotaInfos :=
        mput (eqObjNamespace eq)
          (newElasticQuotaInfo K (eqObjNamespace eq) (specMin (eqSpec eq)) (specMax (eqSpec eq)) [])
          (elasticQuotaInfos c)\<rparr>"

definition addElasticQuota ::
  "('q, 'z) kube_api_scheme \<Rightarrow> cap_state \<Rightarrow> 'q inf_obj \<Rightarrow> error + cap_state"
where
  "addElasticQuota K c obj =
     (case as_quota obj of
        Inl err \<Rightarrow> Inl err
      | Inr eq \<Rightarrow>
          if \<not> addElasticQuota_check c eq then Inr c else Inr (addElasticQuota_store K c eq))"

definition updateElasticQuota ::
  "('q, 'z) kube_api_scheme \<Rightarrow> cap_state \<Rightarrow> 'q inf_obj \<Rightarrow> 'q inf_obj \<Rightarrow> error + cap_state"
where
  "updateElasticQuota K c oldObj newObj =
     (case as_quota oldObj of
        Inl err \<Rightarrow> Inl err
      | Inr oldEQ \<Rightarrow>
     (case as_quota newObj of
        Inl err \<Rightarrow> Inl err
      | Inr newEQ \<Rightarrow>
          let newEQInfo = newElasticQuotaInfo K (eqObjNamespace newEQ) (specMin (eqSpec newEQ))
                            (specMax (eqSpec newEQ)) [];
              newEQInfo =
                (case map_of (elasticQuotaInfos c) (eqObjNamespace oldEQ) of
                   None \<Rightarrow> newEQInfo
                 | Some oldEQInfo \<Rightarrow> newEQInfo\<lparr>eqPods := eqPods oldEQInfo, eqUsed := eqUsed oldEQInfo\<rparr>)
          in Inr (c\<lparr>elasticQuotaInfos := mput (eqObjNamespace newEQ) newEQInfo (elasticQuotaInfos c)\<rparr>)))"

definition deleteElasticQuota :: "cap_state \<Rightarrow> 'q inf_obj \<Rightarrow> error + cap_state" where
  "deleteElasticQuota c obj =
     (case as_quota obj of
        Inl err \<Rightarrow> Inl err
      | Inr eq \<Rightarrow> Inr (c\<lparr>elasticQuotaInfos := mdel (eqObjNamespace eq) (elasticQuotaInfos c)\<rparr>))"

text \<open>\<open>eqs\<close> is what the ElasticQuota lister returns for a namespace.\<close>

definition addPod ::
  "('q, 'z) kube_api_scheme \<Rightarrow> (string \<Rightarrow> 'q elastic_quota list \<times> error option) \<Rightarrow> cap_state \<Rightarrow>
   'q inf_obj \<Rightarrow> error + cap_state"
where
  "addPod K lister c obj =
     (case as_pod obj of
        Inl err \<Rightarrow> Inl err
      | Inr pod \<Rightarrow>
          (case map_of (elasticQuotaInfos c) (podNamespace pod) of
             Some info \<Rightarrow>
               Inr (c\<lparr>elasticQuotaInfos :=
                  mput (podNamespace pod) (updated info (addPodIfNotPresent K info pod))
                    (elasticQuotaInfos c)\<rparr>)
           | None \<Rightarrow>
               (case elasticQuota_List lister (podNamespace pod) of
                  (_, Some err) \<Rightarrow> Inr c
                | ([], None) \<Rightarrow> Inr c
                | (eq # _, None) \<Rightarrow>
                    let info = newElasticQuotaInfo K (eqObjNamespace eq) (specMin (eqSpec eq))
                                 (specMax (eqSpec eq)) []
                    in Inr (c\<lparr>elasticQuotaInfos :=
                         mput (eqObjNamespace eq) (updated info (addPodIfNotPresent K info pod))
                           (elasticQuotaInfos c)\<rparr>))))"

definition updatePod ::
  "('q, 'z) kube_api_scheme \<Rightarrow> cap_state \<Rightarrow> 'q inf_obj \<Rightarrow> 'q inf_obj \<Rightarrow> error + cap_state"
where
  "updatePod K c oldObj newObj =
     (case as_pod oldObj of
        Inl err \<Rightarrow> Inl err
      | Inr oldPod \<Rightarrow>
     (case as_pod newObj of
        Inl err \<Rightarrow> Inl err
      | Inr newPod \<Rightarrow>
          if podPhase oldPod = ''Succeeded'' \<or> podPhase oldPod = ''Failed'' then Inr c
          else if podPhase newPod \<noteq> ''Running'' \<and> podPhase newPod \<noteq> ''Pending'' then
            (case map_of (elasticQuotaInfos c) (podNamespace newPod) of
               None \<Rightarrow> Inr c
             | Some info \<Rightarrow>
                 Inr (c\<lparr>elasticQuotaInfos :=
                    mput (podNamespace newPod) (updated info (deletePodIfPresent K info newPod))
                      (elasticQuotaInfos c)\<rparr>))
          else Inr c))"

definition deletePod ::
  "('q, 'z) kube_api_scheme \<Rightarrow> cap_state \<Rightarrow> 'q inf_obj \<Rightarrow> error + cap_state"
where
  "deletePod K c obj =
     (case as_pod obj of
        Inl err \<Rightarrow> Inl err
      | Inr pod \<Rightarrow>
          (case map_of (elasticQuotaInfos c) (podNamespace pod) of
             None \<Rightarrow> Inr c
           | Some info \<Rightarrow>
               Inr (c\<lparr>elasticQuotaInfos :=
                  mput (podNamespace pod) (updated info (deletePodIfPresent K info pod))
                    (elasticQuotaInfos c)\<rparr>)))"

end
