(* ===== verification/CapacityInvariants.thy ===== *)
theory CapacityInvariants
  imports CapacityScheduling
begin

text \<open>
  What the capacity plugin keeps: the accounting invariant of every interleaving of informer
  events and scheduling cycles, the exact admission condition of PreFilter, the hard upper
  bound that PreFilter and Reserve enforce together, and the behaviours at the edges
  (overflow, tombstones, the unlocked check).
\<close>

section \<open>Steps\<close>

text \<open>
  One atomic step per handler or extension point. \<open>StoreEQ\<close> is the second half of
  \<^verbatim>\<open>addElasticQuota\<close> alone: it runs after a check made in an earlier state.
\<close>

datatype 'q cap_event =
  AddEQ "'q inf_obj" | StoreEQ "'q elastic_quota" | UpdateEQ "'q inf_obj" "'q inf_obj"
| DeleteEQ "'q inf_obj" | PodAdded "'q inf_obj" | PodUpdated "'q inf_obj" "'q inf_obj"
| PodDeleted "'q inf_obj" | ReservePod "'q pod" | UnreservePod "'q pod"

fun cap_step ::
  "('q, 'z) kube_api_scheme \<Rightarrow> (string \<Rightarrow> 'q elastic_quota list \<times> error option) \<Rightarrow> cap_state \<Rightarrow>
   'q cap_event \<Rightarrow> error + cap_state"
where
  "cap_step K lister c (AddEQ obj) = addElasticQuota K c obj"
| "cap_step K lister c (StoreEQ eq) = Inr (addElasticQuota_store K c eq)"
| "cap_step K lister c (UpdateEQ old new) = updateElasticQuota K c old new"
| "cap_step K lister c (DeleteEQ obj) = deleteElasticQuota c obj"
| "cap_step K lister c (PodAdded obj) = addPod K lister c obj"
| "cap_step K lister c (PodUpdated old new) = updatePod K c old new"
| "cap_step K lister c (PodDeleted obj) = deletePod K c obj"
| "cap_step K lister c (ReservePod p) = Inr (fst (cap_Reserve K c p))"
| "cap_step K lister c (UnreservePod p) = Inr (cap_Unreserve K c p)"

fun obj_pods :: "'q inf_obj \<Rightarrow> 'q pod set" where
  "obj_pods (PodObj p) = {p}"
| "obj_pods _ = {}"

fun event_pods :: "'q cap_event \<Rightarrow> 'q pod set" where
  "event_pods (PodAdded obj) = obj_pods obj"
| "event_pods (PodUpdated old new) = obj_pods new"
| "event_pods (PodDeleted obj) = obj_pods obj"
| "event_pods (ReservePod p) = {p}"
| "event_pods (UnreservePod p) = {p}"
| "event_pods _ = {}"

text \<open>
  The resource requests of a pod are immutable, so every object that carries a pod's key
  demands the same: \<open>req x\<close> is what the pod with key \<open>x\<close> demands.
\<close>

definition consistent :: "('q, 'z) kube_api_scheme \<Rightarrow> (string \<Rightarrow> dim \<Rightarrow> i64) \<Rightarrow> 'q pod \<Rightarrow> bool" where
  "consistent K req p \<longleftrightarrow> (\<forall>x. eq_key K p = Some x \<longrightarrow> eq_demand K p = req x)"

definition cap_init :: cap_state where
  "cap_init = \<lparr>elasticQuotaInfos = NewElasticQuotaInfos\<rparr>"

inductive cap_reachable ::
  "('q, 'z) kube_api_scheme \<Rightarrow> (string \<Rightarrow> 'q elastic_quota list \<times> error option) \<Rightarrow>
   (string \<Rightarrow> dim \<Rightarrow> i64) \<Rightarrow> cap_state \<Rightarrow> bool"
  for K lister req
where
  start: "cap_reachable K lister req cap_init"
| step: "cap_reachable K lister req c \<Longrightarrow> \<forall>p \<in> event_pods ev. consistent K req p \<Longrightarrow>
     cap_step K lister c ev = Inr c' \<Longrightarrow> cap_reachable K lister req c'"

text \<open>The events that only take pods or quotas away.\<close>

fun releases :: "'q cap_event \<Rightarrow> bool" where
  "releases (UnreservePod _) = True"
| "releases (PodUpdated _ _) = True"
| "releases (PodDeleted _) = True"
| "releases (DeleteEQ _) = True"
| "releases _ = False"

section \<open>Invariants over the quotas of a state\<close>

definition quotas :: "(string \<Rightarrow> eq_info \<Rightarrow> bool) \<Rightarrow> cap_state \<Rightarrow> bool" where
  "quotas P c \<longleftrightarrow> gwf (elasticQuotaInfos c) \<and>
     (\<forall>ns e. map_of (elasticQuotaInfos c) ns = Some e \<longrightarrow> P ns e)"

lemma quotasD: "quotas P c \<Longrightarrow> map_of (elasticQuotaInfos c) ns = Some e \<Longrightarrow> P ns e"
  by (simp add: quotas_def)

lemma quotas_put [keeps]:
  "quotas P c \<Longrightarrow> P ns e \<Longrightarrow> quotas P (c\<lparr>elasticQuotaInfos := mput ns e (elasticQuotaInfos c)\<rparr>)"
  by (simp add: quotas_def)

lemma quotas_del [keeps]:
  "quotas P c \<Longrightarrow> quotas P (c\<lparr>elasticQuotaInfos := mdel ns (elasticQuotaInfos c)\<rparr>)"
  by (simp add: quotas_def)

lemma quotas_init [simp]: "quotas P cap_init"
  by (simp add: quotas_def cap_init_def NewElasticQuotaInfos_def)

lemma quotas_wf_infos: "quotas (\<lambda>ns. wf_info K) c \<Longrightarrow> wf_infos K (elasticQuotaInfos c)"
  by (auto simp: quotas_def wf_infos_def dest: gwf_map_of)

text \<open>
  The handlers, seen through the two ledger operations: each one keeps a property \<open>P\<close> of
  quotas that the operations keep on its pods and that new and updated quotas have.
\<close>

lemma updated_ops:
  "updated e (addPodIfNotPresent K e p) = eq_add K e p"
  "updated e (deletePodIfPresent K e p) = eq_del K e p"
  by (simp_all add: eq_add_def eq_del_def)

lemma addPodIfNotPresent_eq_add: "addPodIfNotPresent K e p = Inr e' \<Longrightarrow> e' = eq_add K e p"
  by (simp add: eq_add_def updated_def)

lemma cap_step_quotas:
  assumes step: "cap_step K lister c ev = Inr c'" and c: "quotas P c"
    and add: "\<And>ns e p. \<not> releases ev \<Longrightarrow> P ns e \<Longrightarrow> p \<in> event_pods ev \<Longrightarrow> P ns (eq_add K e p)"
    and del: "\<And>ns e p. P ns e \<Longrightarrow> p \<in> event_pods ev \<Longrightarrow> P ns (eq_del K e p)"
    and new: "\<And>ns mn mx. \<not> releases ev \<Longrightarrow> P ns (newElasticQuotaInfo K ns mn mx [])"
    and upd: "\<And>ns ns' e mn mx. \<not> releases ev \<Longrightarrow> P ns e \<Longrightarrow>
        P ns' ((newElasticQuotaInfo K ns' mn mx [])\<lparr>eqPods := eqPods e, eqUsed := eqUsed e\<rparr>)"
  shows "quotas P c'"
proof -
  note defs = addElasticQuota_def addElasticQuota_store_def updateElasticQuota_def
    deleteElasticQuota_def addPod_def updatePod_def deletePod_def cap_Reserve_def cap_Unreserve_def
    updated_ops Let_def
  note splits = sum.splits option.splits if_splits list.splits prod.splits inf_obj.splits
  have pod: "as_pod obj = Inr p \<Longrightarrow> obj_pods obj = {p}" for obj :: "'a inf_obj" and p
    by (cases obj) auto
  show ?thesis
    using step c
    by (cases ev)
      (auto simp: defs split: splits dest!: pod addPodIfNotPresent_eq_add dest: quotasD
        intro!: quotas_put quotas_del add del new upd)
qed

section \<open>The accounting invariant\<close>

definition accounted ::
  "('q, 'z) kube_api_scheme \<Rightarrow> (string \<Rightarrow> dim \<Rightarrow> i64) \<Rightarrow> string \<Rightarrow> eq_info \<Rightarrow> bool"
where
  "accounted K req ns e \<longleftrightarrow>
     eqNamespace e = ns \<and> wf_info K e \<and> balanced req (eqPods e) (res_dim (eqUsed e))"

lemma wf_new_info:
  assumes "resource_laws K"
  shows "wf_info K (newElasticQuotaInfo K ns mn mx us)"
  by (simp add: wf_info_def newElasticQuotaInfo_def resource_lawsD [OF assms])

lemma accounted_new:
  assumes "resource_laws K"
  shows "accounted K req ns (newElasticQuotaInfo K ns mn mx [])"
  using wf_new_info [OF assms]
  by (simp add: accounted_def balanced_def)
    (simp add: newElasticQuotaInfo_def resource_lawsD [OF assms])

lemma accounted_ops:
  assumes "resource_laws K" and "accounted K req ns e" and "consistent K req p"
  shows "accounted K req ns (eq_add K e p)" and "accounted K req ns (eq_del K e p)"
  using assms by (auto simp: accounted_def consistent_def eq_op_wf
      intro: quota.balanced_add quota.balanced_del)

lemma accounted_update:
  assumes K: "resource_laws K" and "accounted K req ns e"
  shows "accounted K req ns'
    ((newElasticQuotaInfo K ns' mn mx [])\<lparr>eqPods := eqPods e, eqUsed := eqUsed e\<rparr>)"
  using assms(2) wf_new_info [OF K, of ns' mn mx "[]"]
  by (simp add: accounted_def wf_info_def newElasticQuotaInfo_def)

lemma reachable_accounted:
  assumes K: "resource_laws K" and reach: "cap_reachable K lister req c"
  shows "quotas (accounted K req) c"
  using reach
proof (induction rule: cap_reachable.induct)
  case start
  show ?case by simp
next
  case (step c ev c')
  then show ?case
    by (intro cap_step_quotas [OF step.hyps(3) step.IH])
      (auto intro: accounted_new [OF K] accounted_update [OF K] accounted_ops [OF K])
qed

section \<open>Admission\<close>

lemma cap_PreFilter_code:
  assumes K: "resource_laws K" and e: "map_of (elasticQuotaInfos c) (podNamespace p) = Some e"
    and wf: "wf_infos K (elasticQuotaInfos c)"
  shows "stCode (snd (cap_PreFilter K c st p)) = Success \<longleftrightarrow>
      (\<forall>d \<in> dims_of (computePodResourceRequest K p).
         sint (res_dim (eqUsed e) d + eq_demand K p d) \<le> sint (res_dim (eqMax e) d)) \<and>
      (\<forall>d \<in> dims_of (computePodResourceRequest K p)
            \<union> (\<Union>(k, e) \<in> set (elasticQuotaInfos c). dims_of (eqUsed e)).
         sint (total_used (elasticQuotaInfos c) d + eq_demand K p d)
           \<le> sint (total_min (elasticQuotaInfos c) d))"
proof -
  let ?r = "computePodResourceRequest K p"
  have r: "wf_resource K ?r" "gwf (ScalarResources ?r)"
    using compute_wf [OF K, of p] by (simp_all add: wf_resource_def)
  have "stCode (snd (cap_PreFilter K c st p)) = Success \<longleftrightarrow>
      \<not> overUsed e ?r (eqMax e) \<and> \<not> aggregatedMinOverUsedWithPod K (elasticQuotaInfos c) ?r"
    by (simp add: cap_PreFilter_def snapshotElasticQuota_def NewStatus_def e Let_def)
  then show ?thesis
    unfolding overUsed_iff [OF r(2)] aggregatedMin_iff [OF K wf r(1)] eq_demand_def
    by (simp only: not_less bex_simps(8) ball_simps(10) simp_thms linorder_not_less)
qed

section \<open>The upper bound\<close>

text \<open>
  Runs in which pods enter a quota through a scheduling cycle, that is PreFilter succeeds
  and Reserve follows, and the informer only confirms or removes them. Quota limits and pod
  demands are non-negative and below \<open>2 ^ 62\<close>, so that no sum of two of them wraps.
\<close>

definition limits_ok :: "eq_info \<Rightarrow> bool" where
  "limits_ok e \<longleftrightarrow> (\<forall>d. 0 \<le> sint (res_dim (eqMax e) d) \<and> sint (res_dim (eqMax e) d) < 2 ^ 62)"

definition demands_ok :: "(string \<Rightarrow> dim \<Rightarrow> i64) \<Rightarrow> bool" where
  "demands_ok req \<longleftrightarrow> (\<forall>x d. 0 \<le> sint (req x d) \<and> sint (req x d) < 2 ^ 62)"

inductive cap_guarded ::
  "('q, 'st, cap_data, 'z) cycle_api_scheme \<Rightarrow>
   (string \<Rightarrow> 'q elastic_quota list \<times> error option) \<Rightarrow> (string \<Rightarrow> dim \<Rightarrow> i64) \<Rightarrow> cap_state \<Rightarrow> bool"
  for K lister req
where
  g_start: "cap_guarded K lister req cap_init"
| g_quota: "cap_guarded K lister req c \<Longrightarrow>
     limits_ok (newElasticQuotaInfo K (eqObjNamespace eq) (specMin (eqSpec eq)) (specMax (eqSpec eq)) []) \<Longrightarrow>
     addElasticQuota K c (QuotaObj eq) = Inr c' \<Longrightarrow> cap_guarded K lister req c'"
| g_schedule: "cap_guarded K lister req c \<Longrightarrow> consistent K req p \<Longrightarrow>
     stCode (snd (cap_PreFilter K c st p)) = Success \<Longrightarrow>
     cap_guarded K lister req (fst (cap_Reserve K c p))"
| g_confirm: "cap_guarded K lister req c \<Longrightarrow>
     map_of (elasticQuotaInfos c) (podNamespace p) = Some e \<Longrightarrow> eq_key K p = Some x \<Longrightarrow>
     x \<in> eqPods e \<Longrightarrow> addPod K lister c (PodObj p) = Inr c' \<Longrightarrow> cap_guarded K lister req c'"
| g_release: "cap_guarded K lister req c \<Longrightarrow> releases ev \<Longrightarrow>
     \<forall>p \<in> event_pods ev. consistent K req p \<Longrightarrow> cap_step K lister c ev = Inr c' \<Longrightarrow>
     cap_guarded K lister req c'"

definition within_max ::
  "('q, 'z) kube_api_scheme \<Rightarrow> (string \<Rightarrow> dim \<Rightarrow> i64) \<Rightarrow> string \<Rightarrow> eq_info \<Rightarrow> bool"
where
  "within_max K req ns e \<longleftrightarrow> wf_info K e \<and> limits_ok e \<and> finite (eqPods e) \<and>
     (\<forall>d. sint (res_dim (eqUsed e) d) = (\<Sum>x \<in> eqPods e. sint (req x d)) \<and>
          sint (res_dim (eqUsed e) d) \<le> sint (res_dim (eqMax e) d))"

lemma demands_okD: "demands_ok req \<Longrightarrow> 0 \<le> sint (req x d)" "demands_ok req \<Longrightarrow> sint (req x d) < 2 ^ 62"
  by (simp_all add: demands_ok_def)

lemma within_maxD:
  assumes "within_max K req ns e"
  shows "wf_info K e" and "limits_ok e" and "finite (eqPods e)"
    and "sint (res_dim (eqUsed e) d) = (\<Sum>x \<in> eqPods e. sint (req x d))"
    and "sint (res_dim (eqUsed e) d) \<le> sint (res_dim (eqMax e) d)"
    and "sint (res_dim (eqMax e) d) < 2 ^ 62"
  using assms unfolding within_max_def limits_ok_def by blast+

lemma within_max_new:
  assumes K: "resource_laws K" and "limits_ok (newElasticQuotaInfo K ns mn mx [])"
  shows "within_max K req ns (newElasticQuotaInfo K ns mn mx [])"
  unfolding within_max_def
  using wf_new_info [OF K, of ns mn mx "[]"] assms(2)
  by (simp add: limits_ok_def) (simp add: newElasticQuotaInfo_def resource_lawsD [OF K])

lemma within_max_del:
  assumes K: "resource_laws K" and req: "demands_ok req" and e: "within_max K req ns e"
    and p: "consistent K req p"
  shows "within_max K req ns (eq_del K e p)"
proof -
  have wf: "wf_info K (eq_del K e p)"
    using e K by (simp add: within_max_def eq_op_wf)
  consider "eq_del K e p = e" | x where "eq_key K p = Some x" "x \<in> eqPods e"
    by (metis not_None_eq quota.del_nokey quota.del_not_held)
  then show ?thesis
  proof cases
    case 1
    with e show ?thesis by simp
  next
    case 2
    let ?rest = "\<lambda>d. \<Sum>y \<in> eqPods e - {x}. sint (req y d)"
    have fin: "finite (eqPods e)" using e by (simp add: within_max_def)
    have d: "eq_demand K p = req x" using p 2(1) by (simp add: consistent_def)
    have used: "sint (res_dim (eqUsed e) d) = sint (req x d) + ?rest d" for d
      using e 2(2) fin by (simp add: within_max_def sum.remove)
    have pos: "0 \<le> ?rest d" for d
      using req by (simp add: demands_ok_def sum_nonneg)
    have eq: "sint (res_dim (eqUsed e) d - req x d) = ?rest d" for d
      using used [of d] pos [of d] sint64_bounds [of "res_dim (eqUsed e) d"] demands_okD [OF req, of x d]
      by (subst sint64_sub) linarith+
    have mx: "?rest d \<le> sint (res_dim (eqMax e) d)" for d
      using used [of d] within_maxD(5) [OF e, of d] demands_okD [OF req, of x d] by linarith
    show ?thesis
      using wf fin e eq mx
      by (simp add: within_max_def quota.held_del [OF 2(1)] quota.usage_del [OF K 2] d limits_ok_def)
  qed
qed

lemma within_max_add:
  assumes K: "resource_laws K" and req: "demands_ok req" and e: "within_max K req ns e"
    and p: "consistent K req p"
    and fits: "\<forall>d \<in> dims_of (computePodResourceRequest K p).
        sint (res_dim (eqUsed e) d + eq_demand K p d) \<le> sint (res_dim (eqMax e) d)"
  shows "within_max K req ns (eq_add K e p)"
proof -
  have wf: "wf_info K (eq_add K e p)"
    using e K by (simp add: within_max_def eq_op_wf)
  consider "eq_add K e p = e" | x where "eq_key K p = Some x" "x \<notin> eqPods e"
    by (metis not_None_eq quota.add_nokey quota.add_held)
  then show ?thesis
  proof cases
    case 1
    with e show ?thesis by simp
  next
    case 2
    have fin: "finite (eqPods e)" using e by (simp add: within_max_def)
    have d: "eq_demand K p = req x" using p 2(1) by (simp add: consistent_def)
    have mx: "sint (res_dim (eqUsed e) d) \<le> sint (res_dim (eqMax e) d)"
      "sint (res_dim (eqMax e) d) < 2 ^ 62" for d
      using within_maxD(5,6) [OF e] by blast+
    have low: "0 \<le> sint (res_dim (eqUsed e) d)" for d
      unfolding within_maxD(4) [OF e] by (intro sum_nonneg demands_okD [OF req])
    have eq: "sint (res_dim (eqUsed e) d + req x d) = sint (res_dim (eqUsed e) d) + sint (req x d)" for d
      using mx [of d] low [of d] demands_okD [OF req, of x d] by (intro sint64_add) simp_all
    have "sint (res_dim (eqUsed e) d + req x d) \<le> sint (res_dim (eqMax e) d)" for d
    proof (cases "d \<in> dims_of (computePodResourceRequest K p)")
      case True
      with fits show ?thesis by (simp add: d)
    next
      case False
      then have "eq_demand K p d = 0" by (simp add: eq_demand_def not_in_dims_of)
      with mx [of d] show ?thesis by (simp add: d)
    qed
    then show ?thesis
      using wf fin e eq 2
      by (simp add: within_max_def quota.held_add [OF 2(1)] quota.usage_add [OF K 2] d limits_ok_def
          add.commute)
  qed
qed

lemma quotas_within_max_wf: "quotas (within_max K req) c \<Longrightarrow> wf_infos K (elasticQuotaInfos c)"
  by (rule quotas_wf_infos) (simp add: quotas_def within_max_def)

lemma guarded_schedule:
  assumes K: "resource_laws K" and req: "demands_ok req" and c: "quotas (within_max K req) c"
    and p: "consistent K req p" and ok: "stCode (snd (cap_PreFilter K c st p)) = Success"
  shows "quotas (within_max K req) (fst (cap_Reserve K c p))"
proof (cases "map_of (elasticQuotaInfos c) (podNamespace p)")
  case None
  with c show ?thesis by (simp add: cap_Reserve_def)
next
  case (Some e)
  have fits: "\<forall>d \<in> dims_of (computePodResourceRequest K p).
      sint (res_dim (eqUsed e) d + eq_demand K p d) \<le> sint (res_dim (eqMax e) d)"
    by (rule conjunct1 [OF cap_PreFilter_code [OF K Some quotas_within_max_wf [OF c], THEN iffD1, OF ok]])
  have "within_max K req (podNamespace p) (eq_add K e p)"
    by (rule within_max_add [OF K req quotasD [OF c Some] p fits])
  then have "quotas (within_max K req)
      (c\<lparr>elasticQuotaInfos := mput (podNamespace p) (eq_add K e p) (elasticQuotaInfos c)\<rparr>)"
    by (rule quotas_put [OF c])
  then show ?thesis
    using c Some addPodIfNotPresent_eq_add [of K e p]
    by (cases "addPodIfNotPresent K e p") (simp_all add: cap_Reserve_def)
qed

lemma guarded_confirm:
  assumes c: "quotas P c" and e: "map_of (elasticQuotaInfos c) (podNamespace p) = Some e"
    and x: "eq_key K p = Some x" "x \<in> eqPods e" and add: "addPod K lister c (PodObj p) = Inr c'"
  shows "quotas P c'"
proof -
  have "c' = c\<lparr>elasticQuotaInfos := mput (podNamespace p) (eq_add K e p) (elasticQuotaInfos c)\<rparr>"
    using add by (simp add: addPod_def e updated_ops)
  then show ?thesis
    by (simp add: quota.add_held [OF x] quotas_put [OF c] quotasD [OF c e])
qed

lemma guarded_within_max:
  assumes K: "resource_laws K" and req: "demands_ok req" and g: "cap_guarded K lister req c"
  shows "quotas (within_max K req) c"
  using g
proof (induction rule: cap_guarded.induct)
  case g_start
  show ?case by simp
next
  case (g_quota c eq c')
  show ?case
  proof (cases "addElasticQuota_check c eq")
    case True
    with g_quota.hyps(3) have "c' = addElasticQuota_store K c eq"
      by (simp add: addElasticQuota_def)
    then show ?thesis
      unfolding addElasticQuota_store_def
      by (simp only:) (rule quotas_put [OF g_quota.IH within_max_new [OF K g_quota.hyps(2)]])
  next
    case False
    with g_quota.hyps(3) g_quota.IH show ?thesis by (simp add: addElasticQuota_def)
  qed
next
  case (g_schedule c p st)
  show ?case by (rule guarded_schedule [OF K req g_schedule.IH g_schedule.hyps(2,3)])
next
  case (g_confirm c p e x c')
  show ?case by (rule guarded_confirm [OF g_confirm.IH g_confirm.hyps(2-5)])
next
  case (g_release c ev c')
  then show ?case
    by (intro cap_step_quotas [OF g_release.hyps(4) g_release.IH])
      (auto intro: within_max_del [OF K req])
qed

section \<open>Runs\<close>

fun cap_run ::
  "('q, 'z) kube_api_scheme \<Rightarrow> (string \<Rightarrow> 'q elastic_quota list \<times> error option) \<Rightarrow> cap_state \<Rightarrow>
   'q cap_event list \<Rightarrow> error + cap_state"
where
  "cap_run K lister c [] = Inr c"
| "cap_run K lister c (ev # evs) =
     (case cap_step K lister c ev of Inl err \<Rightarrow> Inl err | Inr c' \<Rightarrow> cap_run K lister c' evs)"

lemma cap_run_reachable:
  assumes "cap_reachable K lister req c" and "cap_run K lister c evs = Inr c'"
    and "\<forall>ev \<in> set evs. \<forall>p \<in> event_pods ev. consistent K req p"
  shows "cap_reachable K lister req c'"
  using assms
  by (induction evs arbitrary: c) (auto split: sum.splits intro: cap_reachable.step)

section \<open>The snapshot of a scheduling cycle\<close>

datatype 'q ext_op = ExtAdd "'q pod" | ExtRemove "'q pod"

text \<open>The framework's PreFilter extensions, run on the cycle state and on the live state.\<close>

fun ext_run ::
  "('q, 'st, cap_data, 'z) cycle_api_scheme \<Rightarrow> 'st \<Rightarrow> 'q ext_op list \<Rightarrow> 'st"
where
  "ext_run K st [] = st"
| "ext_run K st (ExtAdd p # ops) = ext_run K (fst (cap_AddPod K st p)) ops"
| "ext_run K st (ExtRemove p # ops) = ext_run K (fst (cap_RemovePod K st p)) ops"

fun live_run :: "('q, 'z) kube_api_scheme \<Rightarrow> cap_state \<Rightarrow> 'q ext_op list \<Rightarrow> cap_state" where
  "live_run K c [] = c"
| "live_run K c (ExtAdd p # ops) = live_run K (fst (cap_Reserve K c p)) ops"
| "live_run K c (ExtRemove p # ops) = live_run K (cap_Unreserve K c p) ops"

lemma getElasticQuotaSnapshotState_write:
  assumes "cycle_laws K"
  shows "getElasticQuotaSnapshotState K
           (cs_write K st ElasticQuotaSnapshotKey (ElasticQuotaSnapshotState infos)) = Inr infos"
  by (simp add: getElasticQuotaSnapshotState_def cycle_lawsD [OF assms])

lemma getPreFilterState_write_snapshot:
  assumes "cycle_laws K"
  shows "getPreFilterState K (cs_write K st ElasticQuotaSnapshotKey d) = getPreFilterState K st"
  by (simp add: getPreFilterState_def cycle_lawsD [OF assms])

lemma cap_AddPod_simulates:
  assumes K: "cycle_laws K" and "getElasticQuotaSnapshotState K st = Inr (elasticQuotaInfos c)"
  shows "getElasticQuotaSnapshotState K (fst (cap_AddPod K st p))
           = Inr (elasticQuotaInfos (fst (cap_Reserve K c p)))"
    and "getPreFilterState K (fst (cap_AddPod K st p)) = getPreFilterState K st"
    and "stCode (snd (cap_AddPod K st p)) = Success"
  using assms(2)
  by (auto simp: cap_AddPod_def cap_Reserve_def getElasticQuotaSnapshotState_write [OF K]
      getPreFilterState_write_snapshot [OF K] updated_def NewStatus_def update_triv
      split: option.split sum.split)

lemma cap_RemovePod_simulates:
  assumes K: "cycle_laws K" and "getElasticQuotaSnapshotState K st = Inr (elasticQuotaInfos c)"
  shows "getElasticQuotaSnapshotState K (fst (cap_RemovePod K st p))
           = Inr (elasticQuotaInfos (cap_Unreserve K c p))"
    and "getPreFilterState K (fst (cap_RemovePod K st p)) = getPreFilterState K st"
    and "stCode (snd (cap_RemovePod K st p)) = Success"
  using assms(2)
  by (auto simp: cap_RemovePod_def cap_Unreserve_def getElasticQuotaSnapshotState_write [OF K]
      getPreFilterState_write_snapshot [OF K] NewStatus_def split: option.split)

lemma cap_PreFilter_writes:
  assumes K: "cycle_laws K"
  shows "getElasticQuotaSnapshotState K (fst (cap_PreFilter K c st p)) = Inr (elasticQuotaInfos c)"
    and "getPreFilterState K (fst (cap_PreFilter K c st p)) = Inr (computePodResourceRequest K p)"
proof -
  have "fst (cap_PreFilter K c st p)
      = cs_write K (cs_write K st preFilterStateKey (PreFilterState (computePodResourceRequest K p)))
          ElasticQuotaSnapshotKey (ElasticQuotaSnapshotState (elasticQuotaInfos c))"
    by (simp add: cap_PreFilter_def snapshotElasticQuota_def Let_def split: option.split)
  then show "getElasticQuotaSnapshotState K (fst (cap_PreFilter K c st p)) = Inr (elasticQuotaInfos c)"
    "getPreFilterState K (fst (cap_PreFilter K c st p)) = Inr (computePodResourceRequest K p)"
    by (simp_all add: getElasticQuotaSnapshotState_write [OF K])
      (simp add: getPreFilterState_def cycle_lawsD [OF K])
qed

lemma ext_run_simulates:
  assumes K: "cycle_laws K"
  shows "getElasticQuotaSnapshotState K st = Inr (elasticQuotaInfos c) \<Longrightarrow>
    getElasticQuotaSnapshotState K (ext_run K st ops) = Inr (elasticQuotaInfos (live_run K c ops))"
proof (induction ops arbitrary: st c)
  case Nil
  then show ?case by simp
next
  case (Cons op ops)
  show ?case
  proof (cases op)
    case (ExtAdd p)
    show ?thesis
      unfolding ExtAdd ext_run.simps live_run.simps
      by (rule Cons.IH, rule cap_AddPod_simulates(1) [OF K Cons.prems])
  next
    case (ExtRemove p)
    show ?thesis
      unfolding ExtRemove ext_run.simps live_run.simps
      by (rule Cons.IH, rule cap_RemovePod_simulates(1) [OF K Cons.prems])
  qed
qed

end
