(* ===== verification/DemoApi.thy ===== *)
theory DemoApi
  imports CapacityScheduling
begin

text \<open>
  One concrete instance of the external interface, at which the witnesses of the properties
  evaluate. It is no model of Kubernetes: a quantity is a number of thousandths, a cycle
  state is an association list, every name but the four native resources is a scalar.
\<close>

section \<open>Values\<close>

definition demo_native :: "string list" where
  "demo_native = [''cpu'', ''memory'', ''pods'', ''ephemeral-storage'']"

definition demo_value :: "int \<Rightarrow> i64" where
  "demo_value q = word_of_int (- ((- q) div 1000))"

definition demo_set_scalar :: "resource \<Rightarrow> string \<Rightarrow> i64 \<Rightarrow> resource" where
  "demo_set_scalar r n v = r\<lparr>ScalarResources := mput n v (ScalarResources r)\<rparr>"

fun demo_merge :: "(i64 \<Rightarrow> i64 \<Rightarrow> i64) \<Rightarrow> string \<times> int \<Rightarrow> resource \<Rightarrow> resource" where
  "demo_merge g (n, q) r =
     (if n = ''cpu'' then r\<lparr>MilliCPU := g (MilliCPU r) (word_of_int q)\<rparr>
      else if n = ''memory'' then r\<lparr>Memory := g (Memory r) (demo_value q)\<rparr>
      else if n = ''pods'' then r\<lparr>AllowedPodNumber := g (AllowedPodNumber r) (demo_value q)\<rparr>
      else if n = ''ephemeral-storage'' then
        r\<lparr>EphemeralStorage := g (EphemeralStorage r) (demo_value q)\<rparr>
      else demo_set_scalar r n (g (mget 0 (ScalarResources r) n) (demo_value q)))"

definition demo_add :: "resource \<Rightarrow> int resource_list \<Rightarrow> resource" where
  "demo_add r rl = fold (demo_merge (\<lambda>a v. a + v)) rl r"

definition demo_max :: "resource \<Rightarrow> int resource_list \<Rightarrow> resource" where
  "demo_max r rl = fold (demo_merge (\<lambda>a v. if sint v > sint a then v else a)) rl r"

definition demo_list :: "resource \<Rightarrow> int resource_list" where
  "demo_list r = [(''cpu'', sint (MilliCPU r)), (''memory'', 1000 * sint (Memory r)),
     (''pods'', 1000 * sint (AllowedPodNumber r)),
     (''ephemeral-storage'', 1000 * sint (EphemeralStorage r))]
     @ map (\<lambda>(n, v). (n, 1000 * sint v)) (ScalarResources r)"

definition demo_ni_add :: "int node_info \<Rightarrow> int pod \<Rightarrow> int node_info" where
  "demo_ni_add n p = n\<lparr>niPods := niPods n @ [p]\<rparr>"

definition demo_ni_remove :: "int node_info \<Rightarrow> int pod \<Rightarrow> error + int node_info" where
  "demo_ni_remove n p =
     (if p \<in> set (niPods n) then Inr (n\<lparr>niPods := remove1 p (niPods n)\<rparr>)
      else Inl (Err ''no corresponding pod''))"

definition demo_api :: "'z \<Rightarrow> (int, 'z) kube_api_scheme" where
  "demo_api ext =
     \<lparr>q_milli = word_of_int, q_value = demo_value, q_sub = (\<lambda>a b. a - b), q_sign = sgn,
      q_new = (\<lambda>v. 1000 * sint v), q_zero = 0,
      res_new = demo_add zero_resource, res_add = demo_add, res_setmax = demo_max,
      res_list = demo_list, res_set_scalar = demo_set_scalar,
      is_scalar_name = (\<lambda>n. n \<notin> set demo_native),
      pod_key = (\<lambda>p. if podUID p = '''' then Inl (Err ''empty UID'') else Inr (podUID p)),
      pod_priority = (\<lambda>p. case podPriority p of None \<Rightarrow> 0 | Some v \<Rightarrow> v),
      feature_on = (\<lambda>_. True), ni_add = demo_ni_add, ni_remove = demo_ni_remove,
      status_code = (\<lambda>s. case s of None \<Rightarrow> Success | Some s \<Rightarrow> stCode s),
      nonzero_request = (\<lambda>n rl. demo_value (mget 0 rl n)), \<dots> = ext\<rparr>"

lemma demo_api_sel [simp]:
  "q_milli (demo_api ext) = word_of_int" "q_value (demo_api ext) = demo_value"
  "q_sub (demo_api ext) = (\<lambda>a b. a - b)" "q_sign (demo_api ext) = sgn"
  "q_new (demo_api ext) = (\<lambda>v. 1000 * sint v)" "q_zero (demo_api ext) = 0"
  "res_new (demo_api ext) = demo_add zero_resource" "res_add (demo_api ext) = demo_add"
  "res_setmax (demo_api ext) = demo_max" "res_list (demo_api ext) = demo_list"
  "res_set_scalar (demo_api ext) = demo_set_scalar"
  "is_scalar_name (demo_api ext) = (\<lambda>n. n \<notin> set demo_native)"
  "pod_key (demo_api ext) =
     (\<lambda>p. if podUID p = '''' then Inl (Err ''empty UID'') else Inr (podUID p))"
  "pod_priority (demo_api ext) = (\<lambda>p. case podPriority p of None \<Rightarrow> 0 | Some v \<Rightarrow> v)"
  "feature_on (demo_api ext) = (\<lambda>_. True)" "ni_add (demo_api ext) = demo_ni_add"
  "ni_remove (demo_api ext) = demo_ni_remove"
  "status_code (demo_api ext) = (\<lambda>s. case s of None \<Rightarrow> Success | Some s \<Rightarrow> stCode s)"
  "nonzero_request (demo_api ext) = (\<lambda>n rl. demo_value (mget 0 rl n))"
  by (simp_all add: demo_api_def)

lemma demo_value_1000 [simp]: "demo_value (1000 * sint v) = v"
proof -
  have "- (1000 * sint v) div 1000 = - sint v" by simp
  then show ?thesis by (simp add: demo_value_def del: minus_mult_right)
qed

lemma demo_merge_wf:
  "gwf (ScalarResources r) \<Longrightarrow> gwf (ScalarResources (demo_merge g nq r))"
  "\<forall>n \<in> gkeys (ScalarResources r). n \<notin> set demo_native \<Longrightarrow>
     \<forall>n \<in> gkeys (ScalarResources (demo_merge g nq r)). n \<notin> set demo_native"
  by (cases nq; simp add: demo_set_scalar_def demo_native_def)+

lemma demo_scalars:
  assumes "\<forall>n \<in> gkeys m. n \<notin> set demo_native"
  shows "fold (demo_merge g) (map (\<lambda>(n, v). (n, 1000 * sint v)) m) r
    = r\<lparr>ScalarResources := mcombine g m (ScalarResources r)\<rparr>"
  using assms
  by (induction m arbitrary: r)
    (auto simp: mcombine_Nil mcombine_Cons demo_set_scalar_def demo_native_def)

lemma demo_fold_wf:
  assumes "wf_resource (demo_api ext) r"
  shows "wf_resource (demo_api ext) (fold (demo_merge g) rl r)"
  by (rule fold_invariant_list [where P = "wf_resource (demo_api ext)"], rule assms)
    (use demo_merge_wf in \<open>auto simp: wf_resource_def demo_api_def\<close>)

lemma demo_resource_laws: "resource_laws (demo_api ext)"
proof -
  have wf: "wf_resource (demo_api ext) (demo_add r rl)" "wf_resource (demo_api ext) (demo_max r rl)"
    if "wf_resource (demo_api ext) r" for r rl
    using demo_fold_wf [OF that] by (simp_all add: demo_add_def demo_max_def)
  have add: "demo_add r (demo_list s) =
      r\<lparr>MilliCPU := MilliCPU r + MilliCPU s, Memory := Memory r + Memory s,
        AllowedPodNumber := AllowedPodNumber r + AllowedPodNumber s,
        EphemeralStorage := EphemeralStorage r + EphemeralStorage s,
        ScalarResources := mcombine (\<lambda>a v. a + v) (ScalarResources s) (ScalarResources r)\<rparr>"
    if "wf_resource (demo_api ext) s" for r s
    using that
    by (simp add: demo_add_def demo_list_def wf_resource_def demo_api_def demo_scalars)
  have dim: "res_dim (demo_add r (demo_list s)) d = res_dim r d + res_dim s d"
    if "wf_resource (demo_api ext) s" for r s d
    using that by (cases d) (simp_all add: add wf_resource_def mget_mcombine)
  have keys: "gkeys (ScalarResources (demo_add r (demo_list s)))
      = gkeys (ScalarResources r) \<union> gkeys (ScalarResources s)"
    if "wf_resource (demo_api ext) s" for r s
    using that by (simp add: add)
  have sel: "res_set_scalar (demo_api ext) = demo_set_scalar" "res_new (demo_api ext) = demo_add zero_resource"
    "res_add (demo_api ext) = demo_add" "res_setmax (demo_api ext) = demo_max" "res_list (demo_api ext) = demo_list"
    by (simp_all add: demo_api_def)
  show ?thesis
    unfolding resource_laws_def sel
    using wf dim keys by (simp add: demo_set_scalar_def demo_add_def)
qed

section \<open>Cycle state\<close>

definition demo_cycle :: "'z \<Rightarrow> (int, (string, 'd) gomap, 'd, 'z) cycle_api_scheme" where
  "demo_cycle ext = demo_api
     \<lparr>cs_read = (\<lambda>s k. case map_of s k of None \<Rightarrow> Inl (Err ''not found'') | Some d \<Rightarrow> Inr d),
      cs_write = (\<lambda>s k d. mput k d s), cs_delete = (\<lambda>s k. mdel k s), cs_clone = (\<lambda>s. s),
      \<dots> = ext\<rparr>"

lemma demo_cycle_laws: "cycle_laws (demo_cycle ext)"
  by (simp add: cycle_laws_def demo_cycle_def demo_api_def)

lemma demo_cycle_resource_laws: "resource_laws (demo_cycle ext)"
  unfolding demo_cycle_def by (rule demo_resource_laws)

section \<open>A pod and a quota\<close>

definition demo_pod :: "string \<Rightarrow> string \<Rightarrow> int \<Rightarrow> i32 \<Rightarrow> int pod" where
  "demo_pod ns uid cpu prio =
     \<lparr>podName = uid, podNamespace = ns, podUID = uid, podLabels = [], podNodeName = ''node'',
      podContainers = [\<lparr>ctRequests = [(''cpu'', cpu)], ctLimits = []\<rparr>], podInitContainers = [],
      podOverhead = None, podVolumes = [], podPriority = Some prio, podPhase = ''Running'',
      podNominated = '''', podDeletion = None, podOwners = []\<rparr>"

lemma demo_pod_sel [simp]:
  "podName (demo_pod ns uid cpu prio) = uid" "podNamespace (demo_pod ns uid cpu prio) = ns"
  "podUID (demo_pod ns uid cpu prio) = uid" "podLabels (demo_pod ns uid cpu prio) = []"
  "podNodeName (demo_pod ns uid cpu prio) = ''node''"
  "podContainers (demo_pod ns uid cpu prio) = [\<lparr>ctRequests = [(''cpu'', cpu)], ctLimits = []\<rparr>]"
  "podInitContainers (demo_pod ns uid cpu prio) = []" "podOverhead (demo_pod ns uid cpu prio) = None"
  "podPriority (demo_pod ns uid cpu prio) = Some prio" "podPhase (demo_pod ns uid cpu prio) = ''Running''"
  by (simp_all add: demo_pod_def)

definition demo_quota :: "string \<Rightarrow> int \<Rightarrow> int \<Rightarrow> int elastic_quota" where
  "demo_quota ns mn mx =
     \<lparr>eqObjName = ns, eqObjNamespace = ns,
      eqSpec = \<lparr>specMin = [(''cpu'', mn)], specMax = [(''cpu'', mx)]\<rparr>,
      eqStatus = \<lparr>statUsed = []\<rparr>\<rparr>"

end
