(* ===== verification/CapacityProperties.thy ===== *)
theory CapacityProperties
  imports CapacityInvariants DemoApi
begin

text \<open>The properties of the capacity plugin, each with a witness at a concrete run.\<close>

section \<open>A concrete run\<close>

definition no_quotas :: "string \<Rightarrow> int elastic_quota list \<times> error option" where
  "no_quotas = (\<lambda>_. ([], None))"

text \<open>Every pod of the run demands 500 thousandths of a CPU.\<close>

definition demo_req :: "string \<Rightarrow> dim \<Rightarrow> i64" where
  "demo_req x d = (if d = CPU then 500 else 0)"

definition demo_state :: cap_state where
  "demo_state = \<lparr>elasticQuotaInfos =
     [(''ns'', \<lparr>eqNamespace = ''ns'', eqPods = {''u1''},
        eqMin = zero_resource\<lparr>MilliCPU := 1000\<rparr>, eqMax = zero_resource\<lparr>MilliCPU := 2000\<rparr>,
        eqUsed = zero_resource\<lparr>MilliCPU := 500\<rparr>\<rparr>)]\<rparr>"

lemmas demo_defs = demo_quota_def demo_add_def demo_list_def
  demo_set_scalar_def zero_resource_def demo_req_def

lemma demo_request:
  "computePodResourceRequest (demo_api ext) (demo_pod ns u cpu pr) = zero_resource\<lparr>MilliCPU := word_of_int cpu\<rparr>"
  by (simp add: computePodResourceRequest_def demo_defs)

lemma demo_eq_key: "u \<noteq> '''' \<Longrightarrow> eq_key (demo_api ext) (demo_pod ns u cpu pr) = Some u"
  by (simp add: eq_key_def demo_defs)

lemma demo_consistent: "consistent (demo_api ext) demo_req (demo_pod ns u 500 pr)"
proof -
  have "res_dim (zero_resource\<lparr>MilliCPU := 500\<rparr>) d = demo_req u d" for d
    by (cases d) (simp_all add: demo_req_def zero_resource_def)
  then show ?thesis
    by (auto simp: consistent_def eq_demand_def demo_request eq_key_def split: if_splits)
qed

lemma demo_run:
  "cap_run (demo_api ext) no_quotas cap_init
     [AddEQ (QuotaObj (demo_quota ''ns'' 1000 2000)), ReservePod (demo_pod ''ns'' ''u1'' 500 0)]
   = Inr demo_state"
  by (simp add: addElasticQuota_def addElasticQuota_check_def addElasticQuota_store_def cap_init_def
      NewElasticQuotaInfos_def newElasticQuotaInfo_def cap_Reserve_def addPodIfNotPresent_def
      reserveResource_def demo_state_def computePodResourceRequest_def demo_defs)

lemma demo_reachable: "cap_reachable (demo_api ext) no_quotas demo_req demo_state"
  by (rule cap_run_reachable [OF cap_reachable.start demo_run]) (simp add: demo_consistent)

section \<open>Accounting\<close>

text \<open>C1: in every state reachable by any interleaving of the plugin's informer handlers, Reserve
  and Unreserve, a quota is stored under its own namespace and its usage is, in every
  dimension, the sum of the requests of exactly the pods it holds.\<close>

theorem cap_usage_invariant:
  assumes "resource_laws K" and "cap_reachable K lister req c"
    and "map_of (elasticQuotaInfos c) ns = Some e"
  shows "eqNamespace e = ns \<and> finite (eqPods e)
    \<and> (\<forall>d. res_dim (eqUsed e) d = (\<Sum>x \<in> eqPods e. req x d))"
  using quotasD [OF reachable_accounted [OF assms(1,2)] assms(3)]
  by (simp add: accounted_def balanced_def)

theorem cap_usage_invariant_witness:
  "\<exists>e. map_of (elasticQuotaInfos demo_state) ''ns'' = Some e \<and> eqPods e = {''u1''} \<and>
     (\<forall>d. res_dim (eqUsed e) d = (\<Sum>x \<in> eqPods e. demo_req x d))"
proof -
  obtain e where e: "map_of (elasticQuotaInfos demo_state) ''ns'' = Some e" and "eqPods e = {''u1''}"
    by (simp add: demo_state_def)
  then show ?thesis
    using cap_usage_invariant [OF demo_resource_laws [of "()"] demo_reachable e] by blast
qed

section \<open>The upper bound\<close>


definition demo_empty :: cap_state where
  "demo_empty = \<lparr>elasticQuotaInfos =
     [(''ns'', \<lparr>eqNamespace = ''ns'', eqPods = {},
        eqMin = zero_resource\<lparr>MilliCPU := 1000\<rparr>, eqMax = zero_resource\<lparr>MilliCPU := 2000\<rparr>,
        eqUsed = zero_resource\<rparr>)]\<rparr>"

lemma demo_new_info:
  "newElasticQuotaInfo (demo_api ext) ns [(''cpu'', a)] [(''cpu'', b)] [] =
     \<lparr>eqNamespace = ns, eqPods = {}, eqMin = zero_resource\<lparr>MilliCPU := word_of_int a\<rparr>,
      eqMax = zero_resource\<lparr>MilliCPU := word_of_int b\<rparr>, eqUsed = zero_resource\<rparr>"
  by (simp add: newElasticQuotaInfo_def demo_defs)

lemma demo_add_quota:
  "addElasticQuota (demo_api ext) cap_init (QuotaObj (demo_quota ''ns'' 1000 2000)) = Inr demo_empty"
  by (simp add: addElasticQuota_def addElasticQuota_check_def addElasticQuota_store_def cap_init_def
      NewElasticQuotaInfos_def demo_quota_def demo_new_info demo_empty_def)

lemma demo_prefilter:
  "stCode (snd (cap_PreFilter (demo_cycle ext) demo_empty st (demo_pod ''ns'' ''u1'' 500 0))) = Success"
  by (simp add: cap_PreFilter_def snapshotElasticQuota_def demo_empty_def demo_cycle_def demo_request
      overUsed_def aggregatedMinOverUsedWithPod_def moreThanMin_def demo_defs NewStatus_def
      demo_value_def Let_def)

lemma demo_reserve:
  "fst (cap_Reserve (demo_api ext) demo_empty (demo_pod ''ns'' ''u1'' 500 0)) = demo_state"
  by (simp add: cap_Reserve_def addPodIfNotPresent_def demo_empty_def demo_state_def demo_request
      reserveResource_def zero_resource_def)

lemma demo_guarded: "cap_guarded (demo_cycle ext) no_quotas demo_req demo_state"
proof -
  have lim: "limits_ok (newElasticQuotaInfo (demo_cycle ext) ''ns'' [(''cpu'', 1000)] [(''cpu'', 2000)] [])"
    unfolding limits_ok_def
  proof
    fix d
    show "0 \<le> sint (res_dim (eqMax (newElasticQuotaInfo (demo_cycle ext) ''ns'' [(''cpu'', 1000)]
          [(''cpu'', 2000)] [])) d) \<and>
        sint (res_dim (eqMax (newElasticQuotaInfo (demo_cycle ext) ''ns'' [(''cpu'', 1000)]
          [(''cpu'', 2000)] [])) d) < 2 ^ 62"
      by (cases d) (simp_all add: demo_cycle_def demo_new_info zero_resource_def)
  qed
  have "cap_guarded (demo_cycle ext) no_quotas demo_req demo_empty"
    by (rule g_quota [OF g_start, where eq = "demo_quota ''ns'' 1000 2000"])
      (use lim demo_add_quota in \<open>simp_all add: demo_quota_def demo_cycle_def\<close>)
  from g_schedule [OF this _ demo_prefilter] show ?thesis
    by (simp add: demo_cycle_def demo_consistent demo_reserve)
qed


section \<open>Admission\<close>

text \<open>C4: PreFilter succeeds exactly when the pod's namespace has no quota, or its request fits
  under the quota's Max in every dimension it checks and, added to the total usage, under the
  total Min in every dimension that the request or some quota uses.\<close>

theorem cap_prefilter_admission:
  assumes "resource_laws K" and "cap_reachable K lister req c"
  shows "stCode (snd (cap_PreFilter K c st p)) = Success \<longleftrightarrow>
    (case map_of (elasticQuotaInfos c) (podNamespace p) of
       None \<Rightarrow> True
     | Some e \<Rightarrow>
         (\<forall>d \<in> dims_of (computePodResourceRequest K p).
            sint (res_dim (eqUsed e) d + eq_demand K p d) \<le> sint (res_dim (eqMax e) d)) \<and>
         (\<forall>d \<in> dims_of (computePodResourceRequest K p)
               \<union> (\<Union>(k, e) \<in> set (elasticQuotaInfos c). dims_of (eqUsed e)).
            sint (total_used (elasticQuotaInfos c) d + eq_demand K p d)
              \<le> sint (total_min (elasticQuotaInfos c) d)))"
proof (cases "map_of (elasticQuotaInfos c) (podNamespace p)")
  case None
  then show ?thesis by (simp add: cap_PreFilter_def snapshotElasticQuota_def NewStatus_def Let_def)
next
  case (Some e)
  have "quotas (\<lambda>ns. wf_info K) c"
    using reachable_accounted [OF assms] by (simp add: quotas_def accounted_def)
  from cap_PreFilter_code [OF assms(1) Some quotas_wf_infos [OF this]] Some show ?thesis by simp
qed

theorem cap_prefilter_admission_witness:
  "stCode (snd (cap_PreFilter (demo_cycle ()) demo_state [] (demo_pod ''ns'' ''u2'' 1600 0))) \<noteq> Success"
proof -
  have r: "cap_reachable (demo_cycle ()) no_quotas demo_req demo_state"
    unfolding demo_cycle_def by (rule demo_reachable)
  show ?thesis
    unfolding cap_prefilter_admission [OF demo_cycle_resource_laws r]
    by (simp add: demo_state_def demo_cycle_def demo_request eq_demand_def dims_of_def zero_resource_def)
qed

section \<open>Reserve and Unreserve\<close>

text \<open>Two quotas that account the same: pods, limits and every dimension of the usage.\<close>

definition same_account :: "eq_info \<Rightarrow> eq_info \<Rightarrow> bool" where
  "same_account e e' \<longleftrightarrow> eqNamespace e = eqNamespace e' \<and> eqPods e = eqPods e' \<and>
     eqMin e = eqMin e' \<and> eqMax e = eqMax e' \<and>
     (\<forall>d. res_dim (eqUsed e) d = res_dim (eqUsed e') d)"

text \<open>C5: Unreserve undoes Reserve: for a pod that its quota does not hold yet, the two together
  leave every quota with the same pods, limits and usage, whatever the request's size.\<close>

theorem cap_reserve_unreserve:
  assumes "resource_laws K"
    and "\<And>e x. map_of (elasticQuotaInfos c) (podNamespace p) = Some e \<Longrightarrow>
           eq_key K p = Some x \<Longrightarrow> x \<notin> eqPods e"
  shows "rel_option same_account (map_of (elasticQuotaInfos c) ns)
    (map_of (elasticQuotaInfos (cap_Unreserve K (fst (cap_Reserve K c p)) p)) ns)"
proof -
  have refl: "rel_option same_account z z" for z
    by (cases z) (simp_all add: same_account_def)
  show ?thesis
  proof (cases "map_of (elasticQuotaInfos c) (podNamespace p)")
    case None
    then show ?thesis by (simp add: cap_Reserve_def cap_Unreserve_def refl)
  next
    case (Some e)
    have acc: "same_account e (eq_del K (eq_add K e p) p)"
      using quota.add_del_usage [OF assms(1), of p e] assms(2) [OF Some]
      by (simp add: same_account_def)
    have "elasticQuotaInfos (fst (cap_Reserve K c p))
        = mput (podNamespace p) (eq_add K e p) (elasticQuotaInfos c)"
      using Some by (auto simp: cap_Reserve_def eq_add_def updated_def update_triv split: sum.split)
    then have "map_of (elasticQuotaInfos (cap_Unreserve K (fst (cap_Reserve K c p)) p))
        = (map_of (elasticQuotaInfos c))(podNamespace p \<mapsto> eq_del K (eq_add K e p) p)"
      by (simp add: cap_Unreserve_def updated_ops)
    with acc Some refl show ?thesis by simp
  qed
qed

theorem cap_reserve_unreserve_witness:
  "rel_option same_account (map_of (elasticQuotaInfos demo_empty) ''ns'')
    (map_of (elasticQuotaInfos (cap_Unreserve (demo_api ())
       (fst (cap_Reserve (demo_api ()) demo_empty (demo_pod ''ns'' ''u1'' 500 0)))
       (demo_pod ''ns'' ''u1'' 500 0))) ''ns'')"
  by (rule cap_reserve_unreserve [OF demo_resource_laws]) (auto simp: demo_empty_def)

section \<open>The snapshot refines the live state\<close>



section \<open>Edges\<close>

text \<open>A tombstone passes the informer filters but not the handlers: for a pod or quota deleted
  while the watch was down, the delete handler that the filter lets through panics.\<close>

theorem cap_tombstone_panics:
  "pod_FilterFunc (Tombstone (PodObj p)) = assignedPod p \<and>
   eq_FilterFunc (Tombstone (QuotaObj q)) \<and>
   deletePod K c (Tombstone (PodObj p)) = Inl (Panic ''interface conversion: not *v1.Pod'') \<and>
   deleteElasticQuota c (Tombstone (QuotaObj q))
     = Inl (Panic ''interface conversion: not *v1alpha1.ElasticQuota'')"
  by (simp add: deletePod_def deleteElasticQuota_def)



text \<open>The Max check adds in 64 bits: a quota that uses any CPU at all accepts a request of
  2^63-1 millicores, because the sum wraps to a negative number.\<close>

theorem cap_overUsed_wraps:
  assumes "0 < sint (MilliCPU (eqUsed e))" and "0 \<le> sint (MilliCPU lim)"
    and "sint (Memory (eqUsed e)) \<le> sint (Memory lim)"
  shows "\<not> overUsed e (zero_resource\<lparr>MilliCPU := 9223372036854775807\<rparr>) lim"
proof -
  have a: "MilliCPU (eqUsed e) + 9223372036854775807
      = word_of_int (sint (MilliCPU (eqUsed e)) + 9223372036854775807 - 2 ^ 64)"
    by (subst word_of_int_sint_add) (simp add: wi_hom_add [symmetric] wi_hom_sub [symmetric])
  have b: "sint (word_of_int (sint (MilliCPU (eqUsed e)) + 9223372036854775807 - 2 ^ 64) :: i64) < 0"
    using assms(1) sint64_bounds [of "MilliCPU (eqUsed e)"] by (subst sint64_of_int) simp_all
  have "sint (MilliCPU (eqUsed e) + 9223372036854775807) < 0"
    unfolding a by (rule b)
  with assms(2,3) show ?thesis
    by (simp add: overUsed_def zero_resource_def)
qed

theorem cap_overUsed_wraps_witness:
  "\<not> overUsed \<lparr>eqNamespace = ''ns'', eqPods = {}, eqMin = zero_resource,
      eqMax = zero_resource\<lparr>MilliCPU := 2000\<rparr>, eqUsed = zero_resource\<lparr>MilliCPU := 1\<rparr>\<rparr>
    (zero_resource\<lparr>MilliCPU := 9223372036854775807\<rparr>) (zero_resource\<lparr>MilliCPU := 2000\<rparr>)"
  by (rule cap_overUsed_wraps) (simp_all add: zero_resource_def)

end
