(* ===== verification/PdbFilter.thy ===== *)
theory PdbFilter
  imports KubeApi "HOL-Library.Sublist"
begin

text \<open>
  \<^verbatim>\<open>filterPodsWithPDBViolation\<close> of \<^verbatim>\<open>capacity_scheduling.go\<close>: splits pods into those
  whose eviction would violate a disruption budget and the others. Label selectors are code
  outside the repository: parsing, emptiness and matching are parameters.
\<close>

section \<open>Definitions\<close>

record 'sel pdb =
  pdbNamespace :: string
  pdbSelector :: 'sel
  pdbDisruptionsAllowed :: i32
  pdbDisruptedPods :: "string list"

record ('sel, 's) selector_api =
  as_selector :: "'sel \<Rightarrow> error + 's"
  sel_empty :: "'s \<Rightarrow> bool"
  sel_matches :: "'s \<Rightarrow> (string, string) gomap \<Rightarrow> bool"

text \<open>The budget concerns the pod: the four \<^verbatim>\<open>continue\<close>s of the inner loop.\<close>

definition pdb_applies :: "('sel, 's) selector_api \<Rightarrow> 'q pod \<Rightarrow> 'sel pdb \<Rightarrow> bool" where
  "pdb_applies S pod pdb =
     (if pdbNamespace pdb \<noteq> podNamespace pod then False
      else case as_selector S (pdbSelector pdb) of
             Inl err \<Rightarrow> False
           | Inr sel \<Rightarrow>
               if sel_empty S sel \<or> \<not> sel_matches S sel (podLabels pod) then False
               else if podName pod \<in> set (pdbDisruptedPods pdb) then False
               else True)"

text \<open>The inner loop: the budgets that concern the pod are decremented, and the pod violates
  when one of them falls below zero.\<close>

fun pdb_loop ::
  "('sel, 's) selector_api \<Rightarrow> 'q pod \<Rightarrow> 'sel pdb list \<Rightarrow> i32 list \<Rightarrow> bool \<Rightarrow> bool \<times> i32 list"
where
  "pdb_loop S pod (pdb # pdbs) (a # allowed) violated =
     (if pdb_applies S pod pdb then
        (let a = a - 1;
             (violated, allowed) = pdb_loop S pod pdbs allowed (if sint a < 0 then True else violated)
         in (violated, a # allowed))
      else
        (let (violated, allowed) = pdb_loop S pod pdbs allowed violated
         in (violated, a # allowed)))"
| "pdb_loop S pod _ allowed violated = (violated, allowed)"

fun pods_loop ::
  "('sel, 's) selector_api \<Rightarrow> 'sel pdb list \<Rightarrow> 'q pod list \<Rightarrow> i32 list \<Rightarrow> 'q pod list \<times> 'q pod list"
where
  "pods_loop S pdbs [] allowed = ([], [])"
| "pods_loop S pdbs (pod # pods) allowed =
     (let (violated, allowed) =
            (if length (podLabels pod) \<noteq> 0 then pdb_loop S pod pdbs allowed False
             else (False, allowed));
          (violating, nonViolating) = pods_loop S pdbs pods allowed
      in if violated then (pod # violating, nonViolating) else (violating, pod # nonViolating))"

definition filterPodsWithPDBViolation ::
  "('sel, 's) selector_api \<Rightarrow> 'q pod list \<Rightarrow> 'sel pdb list \<Rightarrow> 'q pod list \<times> 'q pod list"
where
  "filterPodsWithPDBViolation S pods pdbs = pods_loop S pdbs pods (map pdbDisruptionsAllowed pdbs)"

section \<open>A stable partition\<close>

lemma pods_loop_split:
  assumes "pods_loop S pdbs pods allowed = (vs, ns)"
  shows "subseq vs pods \<and> subseq ns pods \<and> mset vs + mset ns = mset pods"
  using assms
  by (induction pods arbitrary: allowed vs ns) (fastforce split: prod.splits if_splits)+

lemma filterPDB_split:
  assumes "filterPodsWithPDBViolation S pods pdbs = (vs, ns)"
  shows "subseq vs pods" and "subseq ns pods" and "mset vs + mset ns = mset pods"
  using pods_loop_split [OF assms [unfolded filterPodsWithPDBViolation_def]] by blast+

section \<open>Budgets\<close>

text \<open>The pods a budget is charged for.\<close>

definition charged :: "('sel, 's) selector_api \<Rightarrow> 'sel pdb \<Rightarrow> 'q pod \<Rightarrow> bool" where
  "charged S pdb pod \<longleftrightarrow> podLabels pod \<noteq> [] \<and> pdb_applies S pod pdb"

text \<open>One pass of the inner loop, as a whole: every budget that concerns the pod is decremented.\<close>

lemma pdb_loop_eq:
  assumes "length pdbs = length allowed"
  shows "pdb_loop S pod pdbs allowed v =
    (v \<or> list_ex (\<lambda>(pdb, a). pdb_applies S pod pdb \<and> sint (a - 1) < 0) (zip pdbs allowed),
     map (\<lambda>(pdb, a). if pdb_applies S pod pdb then a - 1 else a) (zip pdbs allowed))"
  using assms
  by (induction pdbs allowed arbitrary: v rule: list_induct2) (auto simp: Let_def)

definition after_pod :: "('sel, 's) selector_api \<Rightarrow> 'sel pdb list \<Rightarrow> 'q pod \<Rightarrow> i32 list \<Rightarrow> i32 list" where
  "after_pod S pdbs pod allowed =
     map (\<lambda>(pdb, a). if charged S pdb pod then a - 1 else a) (zip pdbs allowed)"

definition violates :: "('sel, 's) selector_api \<Rightarrow> 'sel pdb list \<Rightarrow> 'q pod \<Rightarrow> i32 list \<Rightarrow> bool" where
  "violates S pdbs pod allowed \<longleftrightarrow>
     list_ex (\<lambda>(pdb, a). charged S pdb pod \<and> sint (a - 1) < 0) (zip pdbs allowed)"

lemma pods_loop_Cons:
  assumes "length pdbs = length allowed"
  shows "pods_loop S pdbs (pod # pods) allowed =
    (let (vs, ns) = pods_loop S pdbs pods (after_pod S pdbs pod allowed)
     in if violates S pdbs pod allowed then (pod # vs, ns) else (vs, pod # ns))"
proof (cases "podLabels pod = []")
  case True
  then have "after_pod S pdbs pod allowed = allowed" "\<not> violates S pdbs pod allowed"
    using assms by (auto simp: after_pod_def violates_def charged_def list_ex_iff
        intro!: nth_equalityI)
  with True show ?thesis by simp
next
  case False
  then show ?thesis
    by (simp add: pdb_loop_eq [OF assms] after_pod_def violates_def charged_def)
qed

lemma after_pod_nth:
  assumes "length pdbs = length allowed" and "i < length pdbs"
  shows "after_pod S pdbs pod allowed ! i
    = (if charged S (pdbs ! i) pod then allowed ! i - 1 else allowed ! i)"
  using assms by (simp add: after_pod_def)

lemma length_after_pod [simp]:
  "length pdbs = length allowed \<Longrightarrow> length (after_pod S pdbs pod allowed) = length pdbs"
  by (simp add: after_pod_def)

lemma not_violates_nth:
  assumes "\<not> violates S pdbs pod allowed" and "charged S (pdbs ! i) pod"
    and "length pdbs = length allowed" and "i < length pdbs"
  shows "0 \<le> sint (allowed ! i - 1)"
proof -
  have "(pdbs ! i, allowed ! i) \<in> set (zip pdbs allowed)"
    using assms(3,4) by (auto simp: in_set_zip)
  with assms(1,2) show ?thesis by (fastforce simp: violates_def list_ex_iff)
qed

lemma pods_loop_budget:
  assumes "length pdbs = length allowed" and "i < length pdbs"
    and "int (length pods) \<le> sint (allowed ! i) + 2147483648"
  shows "int (length (filter (charged S (pdbs ! i)) (snd (pods_loop S pdbs pods allowed))))
    \<le> max 0 (sint (allowed ! i))"
  using assms
proof (induction pods arbitrary: allowed)
  case Nil
  then show ?case by simp
next
  case (Cons pod pods)
  let ?allowed = "after_pod S pdbs pod allowed" and ?c = "charged S (pdbs ! i) pod"
  let ?rest = "filter (charged S (pdbs ! i)) (snd (pods_loop S pdbs pods ?allowed))"
  have nth: "?allowed ! i = (if ?c then allowed ! i - 1 else allowed ! i)"
    using Cons.prems by (simp add: after_pod_nth)
  have dec: "sint (allowed ! i - 1) = sint (allowed ! i) - 1"
    using Cons.prems(3) sint32_bounds [of "allowed ! i"] by (subst sint32_sub) simp_all
  have IH: "int (length ?rest) \<le> max 0 (sint (?allowed ! i))"
    using Cons.prems by (intro Cons.IH) (auto simp: nth dec)
  have "int (length (filter (charged S (pdbs ! i)) (snd (pods_loop S pdbs (pod # pods) allowed))))
      = (if ?c \<and> \<not> violates S pdbs pod allowed then 1 else 0) + int (length ?rest)"
    unfolding pods_loop_Cons [OF Cons.prems(1)] by (auto split: prod.split)
  with IH show ?case
    using not_violates_nth [OF _ _ Cons.prems(1,2), of S pod] by (auto simp: nth dec split: if_splits)
qed

end
