(* ===== verification/Preemption.thy ===== *)
theory Preemption
  imports CapacityInvariants PdbFilter
begin

text \<open>
  The preemption of \<^verbatim>\<open>capacity_scheduling.go\<close>: PostFilter, preempt, FindCandidates,
  dryRunPreemption and selectVictimsOnNode. The framework's preemption handle, the default
  preemption helpers and the API server are parameters. A \<^verbatim>\<open>NodeInfo\<close> without node makes
  \<^verbatim>\<open>node.Node().Name\<close> panic, which is an error value here.

  selectVictimsOnNode works on copies of the node and of the cycle state that its caller
  drops, so an early return only reports the failure. Its loops range over the pod slices as
  they were when the loop started. The quota pointers it holds point into the snapshot of the
  cycle state, which the PreFilter extensions update, so each use reads the current snapshot.
\<close>

section \<open>The interface\<close>

record ('q, 'st, 'd, 'sel, 's) preempt_api = "('q, 'st, 'd) cycle_api" +
  sort_slice :: "('q pod \<Rightarrow> 'q pod \<Rightarrow> bool) \<Rightarrow> 'q pod list \<Rightarrow> 'q pod list"
  more_important :: "'q pod \<Rightarrow> 'q pod \<Rightarrow> bool"
  run_ext_remove :: "'st \<Rightarrow> 'q pod \<Rightarrow> 'q pod \<Rightarrow> 'q node_info \<Rightarrow> status option \<times> 'st"
  run_ext_add :: "'st \<Rightarrow> 'q pod \<Rightarrow> 'q pod \<Rightarrow> 'q node_info \<Rightarrow> status option \<times> 'st"
  passes_filters :: "'st \<Rightarrow> 'q pod \<Rightarrow> 'q node_info \<Rightarrow> bool"
  selectors :: "('sel, 's) selector_api"
  completion_order :: "'q node_info list \<Rightarrow> 'q node_info list"

text \<open>
  \<^verbatim>\<open>sort.Slice\<close> permutes its slice, whatever the order of equal elements. When the
  framework's RunPreFilterExtension functions succeed, this plugin's extension has run on the
  cycle state, and no other plugin touches its two entries.
\<close>

definition preempt_laws :: "('q, 'st, cap_data, 'sel, 's, 'z) preempt_api_scheme \<Rightarrow> bool" where
  "preempt_laws K \<longleftrightarrow>
     (\<forall>less xs. mset (sort_slice K less xs) = mset xs) \<and>
     (\<forall>st pod rp ni. status_code K (fst (run_ext_remove K st pod rp ni)) = Success \<longrightarrow>
        getElasticQuotaSnapshotState K (snd (run_ext_remove K st pod rp ni))
          = getElasticQuotaSnapshotState K (fst (cap_RemovePod K st rp)) \<and>
        getPreFilterState K (snd (run_ext_remove K st pod rp ni)) = getPreFilterState K st) \<and>
     (\<forall>st pod ap ni. status_code K (fst (run_ext_add K st pod ap ni)) = Success \<longrightarrow>
        getElasticQuotaSnapshotState K (snd (run_ext_add K st pod ap ni))
          = getElasticQuotaSnapshotState K (fst (cap_AddPod K st ap)) \<and>
        getPreFilterState K (snd (run_ext_add K st pod ap ni)) = getPreFilterState K st)"

section \<open>Selecting victims\<close>

text \<open>The node copy and the cycle-state copy that the function mutates.\<close>

type_synonym ('q, 'st) dry_run = "'st \<times> 'q node_info"

definition sv_removePod ::
  "('q, 'st, cap_data, 'sel, 's, 'z) preempt_api_scheme \<Rightarrow> 'q pod \<Rightarrow> ('q, 'st) dry_run \<Rightarrow> 'q pod \<Rightarrow>
   error + ('q, 'st) dry_run"
where
  "sv_removePod K pod s rp =
     (case ni_remove K (snd s) rp of
        Inl err \<Rightarrow> Inl err
      | Inr ni \<Rightarrow>
          let (status, st) = run_ext_remove K (fst s) pod rp ni
          in if status_code K status \<noteq> Success then Inl (Err ''RemovePod status'') else Inr (st, ni))"

definition sv_addPod ::
  "('q, 'st, cap_data, 'sel, 's, 'z) preempt_api_scheme \<Rightarrow> 'q pod \<Rightarrow> ('q, 'st) dry_run \<Rightarrow> 'q pod \<Rightarrow>
   error + ('q, 'st) dry_run"
where
  "sv_addPod K pod s ap =
     (let ni = ni_add K (snd s) ap;
          (status, st) = run_ext_add K (fst s) pod ap ni
      in if status_code K status \<noteq> Success then Inl (Err ''AddPod status'') else Inr (st, ni))"

definition cur_infos ::
  "('q, 'st, cap_data, 'z) cycle_api_scheme \<Rightarrow> 'st \<Rightarrow> eq_infos"
where
  "cur_infos K st = (case getElasticQuotaSnapshotState K st of Inl _ \<Rightarrow> [] | Inr infos \<Rightarrow> infos)"

text \<open>
  Which pods of the node are potential victims. \<open>over\<close> is moreThanMinWithPreemptor; the first
  function is the branch for a preemptor with a quota, the second for one without.
\<close>

definition eligible_with_quota ::
  "('q, 'z) kube_api_scheme \<Rightarrow> 'q pod \<Rightarrow> bool \<Rightarrow> eq_infos \<Rightarrow> 'q pod \<Rightarrow> bool"
where
  "eligible_with_quota K pod over infos p =
     (case map_of infos (podNamespace p) of
        None \<Rightarrow> False
      | Some pInfo \<Rightarrow>
          if over then
            podNamespace p = podNamespace pod \<and> sint (pod_priority K p) < sint (pod_priority K pod)
          else
            podNamespace p \<noteq> podNamespace pod \<and> moreThanMin (eqUsed pInfo) (eqMin pInfo))"

definition eligible_without_quota ::
  "('q, 'z) kube_api_scheme \<Rightarrow> 'q pod \<Rightarrow> eq_infos \<Rightarrow> 'q pod \<Rightarrow> bool"
where
  "eligible_without_quota K pod infos p =
     (case map_of infos (podNamespace p) of
        Some _ \<Rightarrow> False
      | None \<Rightarrow> sint (pod_priority K p) < sint (pod_priority K pod))"

fun victims_loop ::
  "('q, 'st, cap_data, 'sel, 's, 'z) preempt_api_scheme \<Rightarrow> 'q pod \<Rightarrow> (eq_infos \<Rightarrow> 'q pod \<Rightarrow> bool) \<Rightarrow>
   'q pod list \<Rightarrow> ('q, 'st) dry_run \<Rightarrow> 'q pod list \<Rightarrow> error + ('q, 'st) dry_run \<times> 'q pod list"
where
  "victims_loop K pod eligible [] s potentialVictims = Inr (s, potentialVictims)"
| "victims_loop K pod eligible (p # ps) s potentialVictims =
     (if eligible (cur_infos K (fst s)) p then
        (case sv_removePod K pod s p of
           Inl err \<Rightarrow> Inl err
         | Inr s \<Rightarrow> victims_loop K pod eligible ps s (potentialVictims @ [p]))
      else victims_loop K pod eligible ps s potentialVictims)"

text \<open>The quota check made after the removals and after each reprieve.\<close>

definition quota_exceeded ::
  "('q, 'z) kube_api_scheme \<Rightarrow> eq_infos \<Rightarrow> 'q pod \<Rightarrow> resource \<Rightarrow> bool"
where
  "quota_exceeded K infos pod req =
     (case map_of infos (podNamespace pod) of
        None \<Rightarrow> False
      | Some info \<Rightarrow>
          overUsed info req (eqMax info) \<or> aggregatedMinOverUsedWithPod K infos req)"

definition reprievePod ::
  "('q, 'st, cap_data, 'sel, 's, 'z) preempt_api_scheme \<Rightarrow> 'q pod \<Rightarrow> bool \<Rightarrow> resource \<Rightarrow>
   ('q, 'st) dry_run \<times> 'q pod list \<Rightarrow> 'q pod \<Rightarrow> error + bool \<times> ('q, 'st) dry_run \<times> 'q pod list"
where
  "reprievePod K pod withQuota req sv p =
     (case sv_addPod K pod (fst sv) p of
        Inl err \<Rightarrow> Inl err
      | Inr s \<Rightarrow>
          let fits = passes_filters K (fst s) pod (snd s)
          in case (if \<not> fits then
                     (case sv_removePod K pod s p of
                        Inl err \<Rightarrow> Inl err
                      | Inr s \<Rightarrow> Inr (s, snd sv @ [p]))
                   else Inr (s, snd sv)) of
               Inl err \<Rightarrow> Inl err
             | Inr (s, victims) \<Rightarrow>
                 if withQuota \<and> quota_exceeded K (cur_infos K (fst s)) pod req then
                   (case sv_removePod K pod s p of
                      Inl err \<Rightarrow> Inl err
                    | Inr s \<Rightarrow> Inr (fits, s, victims @ [p]))
                 else Inr (fits, s, victims))"

text \<open>The two reprieve loops; the first also counts the pods that did not fit.\<close>

fun reprieve_loop ::
  "('q, 'st, cap_data, 'sel, 's, 'z) preempt_api_scheme \<Rightarrow> 'q pod \<Rightarrow> bool \<Rightarrow> resource \<Rightarrow>
   'q pod list \<Rightarrow> nat \<Rightarrow> ('q, 'st) dry_run \<times> 'q pod list \<Rightarrow>
   error + nat \<times> ('q, 'st) dry_run \<times> 'q pod list"
where
  "reprieve_loop K pod withQuota req [] n sv = Inr (n, sv)"
| "reprieve_loop K pod withQuota req (p # ps) n sv =
     (case reprievePod K pod withQuota req sv p of
        Inl err \<Rightarrow> Inl err
      | Inr (fits, sv) \<Rightarrow>
          reprieve_loop K pod withQuota req ps (if \<not> fits then n + 1 else n) sv)"

definition selectVictimsOnNode ::
  "('q, 'st, cap_data, 'sel, 's, 'z) preempt_api_scheme \<Rightarrow> 'st \<Rightarrow> 'q pod \<Rightarrow> 'q node_info \<Rightarrow>
   'sel pdb list \<Rightarrow> 'q pod list \<times> nat \<times> bool"
where
  "selectVictimsOnNode K st pod ni pdbs =
     (case getElasticQuotaSnapshotState K st of
        Inl err \<Rightarrow> ([], 0, False)
      | Inr infos \<Rightarrow>
     (case getPreFilterState K st of
        Inl err \<Rightarrow> ([], 0, False)
      | Inr req \<Rightarrow>
          let withQuota = (map_of infos (podNamespace pod) \<noteq> None);
              over = (case map_of infos (podNamespace pod) of
                        None \<Rightarrow> False
                      | Some info \<Rightarrow> overUsed info req (eqMin info));
              ni = ni\<lparr>niPods := sort_slice K (\<lambda>a b. \<not> more_important K a b) (niPods ni)\<rparr>;
              eligible = (if withQuota then eligible_with_quota K pod over
                          else eligible_without_quota K pod)
          in case victims_loop K pod eligible (niPods ni) (st, ni) [] of
               Inl err \<Rightarrow> ([], 0, False)
             | Inr (s, potentialVictims) \<Rightarrow>
                 if length potentialVictims = 0 then ([], 0, False)
                 else if \<not> passes_filters K (fst s) pod (snd s) then ([], 0, False)
                 else if withQuota \<and> quota_exceeded K (cur_infos K (fst s)) pod req then ([], 0, False)
                 else
                   let potentialVictims = sort_slice K (more_important K) potentialVictims;
                       (violating, nonViolating) =
                         filterPodsWithPDBViolation (selectors K) potentialVictims pdbs
                   in case reprieve_loop K pod withQuota req violating 0 (s, []) of
                        Inl err \<Rightarrow> ([], 0, False)
                      | Inr (numViolatingVictim, sv) \<Rightarrow>
                          (case reprieve_loop K pod withQuota req nonViolating 0 sv of
                             Inl err \<Rightarrow> ([], 0, False)
                           | Inr (_, s, victims) \<Rightarrow> (victims, numViolatingVictim, True))))"

section \<open>Finding candidates\<close>

record 'q candidate =
  candVictims :: "'q pod list"
  candNumPDBViolations :: i64
  candName :: string

text \<open>
  The cluster as the preemption code uses it: the API server's state is \<open>'w\<close>, the node
  lister's answer is fixed for the call.
\<close>

record ('q, 'w) cluster_api =
  get_updated_pod :: "'w \<Rightarrow> 'q pod \<Rightarrow> error + 'q pod"
  eligible_to_preempt :: "'q pod \<Rightarrow> status option \<Rightarrow> bool"
  list_nodes :: "error + 'q node_info list"
  clear_nominated :: "'w \<Rightarrow> 'q pod \<Rightarrow> error option \<times> 'w"
  call_extenders :: "'q pod \<Rightarrow> 'q candidate list \<Rightarrow> error + 'q candidate list"
  select_candidate :: "'q candidate list \<Rightarrow> 'q candidate option"
  prepare_candidate :: "'w \<Rightarrow> 'q candidate \<Rightarrow> 'q pod \<Rightarrow> error option \<times> 'w"

text \<open>The extenders only drop candidates or change their victims, and SelectCandidate picks one of
  its arguments.\<close>

definition cluster_laws :: "('q, 'w) cluster_api \<Rightarrow> bool" where
  "cluster_laws C \<longleftrightarrow>
     (\<forall>p cs cs'. call_extenders C p cs = Inr cs' \<longrightarrow> candName ` set cs' \<subseteq> candName ` set cs) \<and>
     (\<forall>cs b. select_candidate C cs = Some b \<longrightarrow> b \<in> set cs)"

text \<open>A \<^verbatim>\<open>NodeToStatusMap\<close>; a missing entry is a nil status.\<close>

type_synonym node_statuses = "(string, status) gomap"

fun nodesWherePreemptionMightHelp ::
  "('q, 'z) kube_api_scheme \<Rightarrow> 'q node_info list \<Rightarrow> node_statuses \<Rightarrow> error + 'q node_info list"
where
  "nodesWherePreemptionMightHelp K [] m = Inr []"
| "nodesWherePreemptionMightHelp K (node # nodes) m =
     (case niNode node of
        None \<Rightarrow> Inl (Panic ''nil Node()'')
      | Some nd \<Rightarrow>
          if status_code K (map_of m (nodeName nd)) = UnschedulableAndUnresolvable then
            nodesWherePreemptionMightHelp K nodes m
          else
            (case nodesWherePreemptionMightHelp K nodes m of
               Inl err \<Rightarrow> Inl err
             | Inr potentialNodes \<Rightarrow> Inr (node # potentialNodes)))"

text \<open>
  The dry run of one node, and of all of them: the nodes are processed in parallel and each
  appends its candidate under a lock, so the candidates come in the order of completion.
\<close>

definition checkNode ::
  "('q, 'st, cap_data, 'sel, 's, 'z) preempt_api_scheme \<Rightarrow> 'st \<Rightarrow> 'q pod \<Rightarrow> 'sel pdb list \<Rightarrow>
   'q node_info \<Rightarrow> error + 'q candidate list"
where
  "checkNode K st pod pdbs node =
     (let stateCopy = cs_clone K st;
          (pods, numPDBViolations, fits) = selectVictimsOnNode K stateCopy pod node pdbs
      in if fits then
           (case niNode node of
              None \<Rightarrow> Inl (Panic ''nil Node()'')
            | Some nd \<Rightarrow>
                Inr [\<lparr>candVictims = pods, candNumPDBViolations = of_nat numPDBViolations,
                      candName = nodeName nd\<rparr>])
         else Inr [])"

fun dry_run_loop ::
  "('q node_info \<Rightarrow> error + 'q candidate list) \<Rightarrow> 'q node_info list \<Rightarrow> 'q candidate list \<Rightarrow>
   error + 'q candidate list"
where
  "dry_run_loop check [] candidates = Inr candidates"
| "dry_run_loop check (node # nodes) candidates =
     (case check node of
        Inl err \<Rightarrow> Inl err
      | Inr cs \<Rightarrow> dry_run_loop check nodes (candidates @ cs))"

definition dryRunPreemption ::
  "('q, 'st, cap_data, 'sel, 's, 'z) preempt_api_scheme \<Rightarrow> 'st \<Rightarrow> 'q pod \<Rightarrow> 'q node_info list \<Rightarrow>
   'sel pdb list \<Rightarrow> error + 'q candidate list"
where
  "dryRunPreemption K st pod potentialNodes pdbs =
     dry_run_loop (checkNode K st pod pdbs) (completion_order K potentialNodes) []"

definition getPDBLister ::
  "('q, 'z) kube_api_scheme \<Rightarrow> error + 'sel pdb list \<Rightarrow> (error + 'sel pdb list) option"
where
  "getPDBLister K lister = (if feature_on K PodDisruptionBudgetGate then Some lister else None)"

definition getPodDisruptionBudgets :: "(error + 'sel pdb list) option \<Rightarrow> error + 'sel pdb list" where
  "getPodDisruptionBudgets pdbLister =
     (case pdbLister of Some lister \<Rightarrow> lister | None \<Rightarrow> Inr [])"

definition ErrNoNodesAvailable :: error where
  "ErrNoNodesAvailable = Err ''no nodes available to schedule pods''"

definition cap_FindCandidates ::
  "('q, 'st, cap_data, 'sel, 's, 'z) preempt_api_scheme \<Rightarrow> ('q, 'w) cluster_api \<Rightarrow>
   (error + 'sel pdb list) option \<Rightarrow> 'w \<Rightarrow> 'st \<Rightarrow> 'q pod \<Rightarrow> node_statuses \<Rightarrow>
   (error + 'q candidate list) \<times> 'w"
where
  "cap_FindCandidates K C pdbLister w st pod m =
     (case list_nodes C of
        Inl err \<Rightarrow> (Inl err, w)
      | Inr allNodes \<Rightarrow>
          if length allNodes = 0 then (Inl ErrNoNodesAvailable, w)
          else
            (case nodesWherePreemptionMightHelp K allNodes m of
               Inl err \<Rightarrow> (Inl err, w)
             | Inr potentialNodes \<Rightarrow>
                 if length potentialNodes = 0 then (Inr [], snd (clear_nominated C w pod))
                 else
                   (case getPodDisruptionBudgets pdbLister of
                      Inl err \<Rightarrow> (Inl err, w)
                    | Inr pdbs \<Rightarrow> (dryRunPreemption K st pod potentialNodes pdbs, w))))"

text \<open>\<^verbatim>\<open>preempt\<close> after its candidates are found; both preemption plugins have this tail.\<close>

definition nominate ::
  "('q, 'w) cluster_api \<Rightarrow> 'q pod \<Rightarrow> (error + 'q candidate list) \<times> 'w \<Rightarrow> (error + string) \<times> 'w"
where
  "nominate C pod found =
     (case found of
        (Inl err, w) \<Rightarrow> (Inl err, w)
      | (Inr candidates, w) \<Rightarrow>
          if length candidates = 0 then (Inr '''', w)
          else
            (case call_extenders C pod candidates of
               Inl err \<Rightarrow> (Inl err, w)
             | Inr candidates \<Rightarrow>
                 (case select_candidate C candidates of
                    None \<Rightarrow> (Inr '''', w)
                  | Some best \<Rightarrow>
                      if length (candName best) = 0 then (Inr '''', w)
                      else
                        (case prepare_candidate C w best pod of
                           (Some err, w) \<Rightarrow> (Inl err, w)
                         | (None, w) \<Rightarrow> (Inr (candName best), w)))))"

definition cap_preempt ::
  "('q, 'st, cap_data, 'sel, 's, 'z) preempt_api_scheme \<Rightarrow> ('q, 'w) cluster_api \<Rightarrow>
   (error + 'sel pdb list) option \<Rightarrow> 'w \<Rightarrow> 'st \<Rightarrow> 'q pod \<Rightarrow> node_statuses \<Rightarrow> (error + string) \<times> 'w"
where
  "cap_preempt K C pdbLister w st pod m =
     (case get_updated_pod C w pod of
        Inl err \<Rightarrow> (Inl err, w)
      | Inr pod \<Rightarrow>
          if \<not> eligible_to_preempt C pod (map_of m (podNominated pod)) then (Inr '''', w)
          else nominate C pod (cap_FindCandidates K C pdbLister w st pod m))"

text \<open>The result of a PostFilter: the nominated node, if any, and a status.\<close>

definition post_filter_result :: "error + string \<Rightarrow> string option \<times> status" where
  "post_filter_result r =
     (case r of
        Inl err \<Rightarrow> (None, NewStatus Error ''preempt'')
      | Inr nnn \<Rightarrow>
          if nnn = '''' then (None, NewStatus Unschedulable '''')
          else (Some nnn, NewStatus Success ''''))"

definition cap_PostFilter ::
  "('q, 'st, cap_data, 'sel, 's, 'z) preempt_api_scheme \<Rightarrow> ('q, 'w) cluster_api \<Rightarrow>
   (error + 'sel pdb list) option \<Rightarrow> 'w \<Rightarrow> 'st \<Rightarrow> 'q pod \<Rightarrow> node_statuses \<Rightarrow>
   (string option \<times> status) \<times> 'w"
where
  "cap_PostFilter K C pdbLister w st pod m =
     (let (r, w) = cap_preempt K C pdbLister w st pod m in (post_filter_result r, w))"

text \<open>The tail of \<^verbatim>\<open>preempt\<close> nominates the candidate that was picked, once its preparation has
  succeeded; it is one of the candidates it was given.\<close>

lemma nominate_picks:
  assumes "nominate C pod (found, w) = (Inr nn, w')" and "nn \<noteq> ''''"
  obtains cs cs' b where "found = Inr cs" and "cs \<noteq> []" and "call_extenders C pod cs = Inr cs'"
    and "select_candidate C cs' = Some b" and "candName b = nn"
    and "prepare_candidate C w b pod = (None, w')"
proof -
  obtain cs where cs: "found = Inr cs" "cs \<noteq> []"
    using assms by (cases found) (auto simp: nominate_def split: if_splits)
  obtain cs' where ext: "call_extenders C pod cs = Inr cs'"
    using assms cs by (cases "call_extenders C pod cs") (auto simp: nominate_def)
  obtain b where sel: "select_candidate C cs' = Some b"
    using assms cs by (cases "select_candidate C cs'") (auto simp: nominate_def ext)
  have "candName b = nn" and "prepare_candidate C w b pod = (None, w')"
    using assms cs by (auto simp: nominate_def ext sel split: if_splits option.splits prod.splits)
  with that cs ext sel show thesis by blast
qed

lemma nominate_member:
  assumes "nominate C pod (found, w) = (Inr nn, w')" and "nn \<noteq> ''''"
    and "cluster_laws C"
  obtains cs where "found = Inr cs" and "nn \<in> candName ` set cs"
proof -
  obtain cs cs' b where *: "found = Inr cs" "call_extenders C pod cs = Inr cs'"
    "select_candidate C cs' = Some b" "candName b = nn"
    by (rule nominate_picks [OF assms(1,2)])
  then have "b \<in> set cs'" and "candName ` set cs' \<subseteq> candName ` set cs"
    using assms(3) by (simp_all add: cluster_laws_def)
  with * that show thesis by blast
qed

lemma nodesWherePreemptionMightHelp_eq:
  assumes "nodesWherePreemptionMightHelp K nodes m = Inr ns"
  shows "filter (\<lambda>node. case niNode node of None \<Rightarrow> False
    | Some nd \<Rightarrow> status_code K (map_of m (nodeName nd)) \<noteq> UnschedulableAndUnresolvable) nodes = ns"
  using assms
proof (induction nodes arbitrary: ns)
  case (Cons node nodes)
  then show ?case
    by (cases "niNode node"; cases "nodesWherePreemptionMightHelp K nodes m") (auto split: if_splits)
qed simp

end
