(* ===== verification/SelectVictims.thy ===== *)
theory SelectVictims
  imports Preemption
begin

text \<open>
  What the dry run of selectVictimsOnNode does to the quota snapshot: after any number of
  removals and reprieves it is, up to the quotas' account, the initial snapshot without the
  pods that are removed and not reprieved.
\<close>

lemma mset_subseq: "subseq xs ys \<Longrightarrow> mset xs \<subseteq># mset ys"
  by (induction rule: list_emb.induct) (auto intro: subset_mset.order_trans)

section \<open>The snapshot without some pods\<close>

definition infos_del :: "('q, 'z) kube_api_scheme \<Rightarrow> eq_infos \<Rightarrow> 'q pod \<Rightarrow> eq_infos" where
  "infos_del K infos p =
     (case map_of infos (podNamespace p) of
        None \<Rightarrow> infos
      | Some e \<Rightarrow> mput (podNamespace p) (eq_del K e p) infos)"

definition infos_add :: "('q, 'z) kube_api_scheme \<Rightarrow> eq_infos \<Rightarrow> 'q pod \<Rightarrow> eq_infos" where
  "infos_add K infos p =
     (case map_of infos (podNamespace p) of
        None \<Rightarrow> infos
      | Some e \<Rightarrow> mput (podNamespace p) (eq_add K e p) infos)"

definition keys_of :: "('q, 'z) kube_api_scheme \<Rightarrow> string \<Rightarrow> 'q pod multiset \<Rightarrow> string set" where
  "keys_of K ns R = {x. \<exists>p \<in># R. podNamespace p = ns \<and> eq_key K p = Some x}"

definition freed :: "('q, 'z) kube_api_scheme \<Rightarrow> string \<Rightarrow> 'q pod multiset \<Rightarrow> dim \<Rightarrow> i64" where
  "freed K ns R d = (\<Sum>p \<in># filter_mset (\<lambda>p. podNamespace p = ns) R. eq_demand K p d)"

definition freed_total ::
  "('q, 'z) kube_api_scheme \<Rightarrow> eq_infos \<Rightarrow> 'q pod multiset \<Rightarrow> dim \<Rightarrow> i64"
where
  "freed_total K infos R d =
     (\<Sum>p \<in># filter_mset (\<lambda>p. podNamespace p \<in> gkeys infos) R. eq_demand K p d)"

text \<open>The pods of a node as the snapshot should know them: each pod whose namespace has a quota
  is held by that quota, and no two pods share a key.\<close>

definition accounted_pods :: "('q, 'z) kube_api_scheme \<Rightarrow> eq_infos \<Rightarrow> 'q pod list \<Rightarrow> bool" where
  "accounted_pods K infos N \<longleftrightarrow> distinct (map (eq_key K) N) \<and>
     (\<forall>p \<in> set N. \<forall>e. map_of infos (podNamespace p) = Some e \<longrightarrow>
        (\<exists>x \<in> eqPods e. eq_key K p = Some x))"

definition info_without ::
  "('q, 'z) kube_api_scheme \<Rightarrow> string \<Rightarrow> 'q pod multiset \<Rightarrow> eq_info \<Rightarrow> eq_info \<Rightarrow> bool"
where
  "info_without K ns R e e' \<longleftrightarrow> eqMin e' = eqMin e \<and> eqMax e' = eqMax e \<and> wf_info K e' \<and>
     eqPods e' = eqPods e - keys_of K ns R \<and>
     (\<forall>d. res_dim (eqUsed e') d = res_dim (eqUsed e) d - freed K ns R d)"

definition infos_without ::
  "('q, 'z) kube_api_scheme \<Rightarrow> eq_infos \<Rightarrow> 'q pod multiset \<Rightarrow> eq_infos \<Rightarrow> bool"
where
  "infos_without K infos R infos' \<longleftrightarrow> map fst infos' = map fst infos \<and>
     (\<forall>ns e'. map_of infos' ns = Some e' \<longrightarrow>
        (\<exists>e. map_of infos ns = Some e \<and> info_without K ns R e e'))"

lemma infos_without_keys:
  assumes "infos_without K infos R infos'"
  shows "gkeys infos' = gkeys infos" and "gwf infos' \<longleftrightarrow> gwf infos"
  using assms by (simp_all add: infos_without_def gkeys_def gwf_def flip: set_map)

lemma freed_add [simp]:
  "freed K ns (add_mset p R) d = (if podNamespace p = ns then eq_demand K p d else 0) + freed K ns R d"
  by (simp add: freed_def)

lemma freed_total_add [simp]:
  "freed_total K infos (add_mset p R) d
     = (if podNamespace p \<in> gkeys infos then eq_demand K p d else 0) + freed_total K infos R d"
  by (simp add: freed_total_def)

lemma keys_of_add [simp]:
  "keys_of K ns (add_mset p R)
     = (if podNamespace p = ns then set_option (eq_key K p) else {}) \<union> keys_of K ns R"
  by (auto simp: keys_of_def)

lemma infos_without_start:
  assumes "wf_infos K infos"
  shows "infos_without K infos {#} infos"
  using assms
  by (auto simp: infos_without_def info_without_def freed_def keys_of_def wf_infos_def
      dest: map_of_SomeD)

text \<open>A further pod of a list without duplicate keys has a new key.\<close>

lemma fresh_key:
  assumes "add_mset p R \<subseteq># mset N" and "distinct (map (eq_key K) N)" and "eq_key K p = Some x"
  shows "x \<notin> keys_of K ns R"
proof
  assume "x \<in> keys_of K ns R"
  then obtain q where q: "q \<in># R" "eq_key K q = Some x" by (auto simp: keys_of_def)
  then obtain R' where R: "R = add_mset q R'" by (meson multi_member_split)
  have "{#Some x, Some x#} \<subseteq># mset (map (eq_key K) N)"
    using subset_mset.order_trans [OF _ image_mset_subseteq_mono [OF assms(1), of "eq_key K"]]
    by (simp add: R assms(3) q(2))
  then have "2 \<le> count (mset (map (eq_key K) N)) (Some x)"
    using mset_subset_eq_count [of "{#Some x, Some x#}" _ "Some x"] by (simp add: numeral_2_eq_2)
  moreover have "count (mset (map (eq_key K) N)) (Some x) \<le> 1"
    using assms(2) by (simp add: distinct_count_atmost_1)
  ultimately show False by simp
qed

lemma accountedD:
  assumes "accounted_pods K infos N" and "add_mset p R \<subseteq># mset N"
    and "map_of infos (podNamespace p) = Some e"
  obtains x where "eq_key K p = Some x" and "x \<in> eqPods e" and "\<And>ns. x \<notin> keys_of K ns R"
proof -
  have "p \<in> set N" using assms(2) by (metis insert_subset_eq_iff set_mset_mset)
  with assms that show thesis
    by (metis accounted_pods_def fresh_key)
qed

lemma info_without_other [simp]:
  "podNamespace p \<noteq> ns \<Longrightarrow> info_without K ns (add_mset p R) = info_without K ns R"
  by (rule ext, rule ext) (simp add: info_without_def)

lemma infos_without_put:
  assumes "infos_without K infos R infos'" and "map_of infos' ns = Some e'"
    and "map_of infos ns = Some e" and "info_without K ns R' e e''"
    and "\<And>ns'. ns' \<noteq> ns \<Longrightarrow> info_without K ns' R' = info_without K ns' R"
  shows "infos_without K infos R' (mput ns e'' infos')"
proof -
  have "ns \<in> set (map fst infos')"
    using map_of_Some_gkeys [OF assms(2)] by (simp add: gkeys_def)
  then have "map fst (mput ns e'' infos') = map fst infos'"
    by (simp add: update_keys)
  then show ?thesis
    using assms by (simp add: infos_without_def)
qed

lemma infos_without_del:
  assumes K: "resource_laws K" and acc: "accounted_pods K infos N" and "add_mset p R \<subseteq># mset N"
    and w: "infos_without K infos R infos'"
  shows "infos_without K infos (add_mset p R) (infos_del K infos' p)"
proof (cases "map_of infos' (podNamespace p)")
  case None
  with w show ?thesis
    by (auto simp: infos_without_def infos_del_def dest!: spec) (metis info_without_other option.distinct(1))
next
  case (Some e')
  with w obtain e where e: "map_of infos (podNamespace p) = Some e"
    and ie: "info_without K (podNamespace p) R e e'"
    by (auto simp: infos_without_def)
  obtain x where x: "eq_key K p = Some x" "x \<in> eqPods e" "\<And>ns. x \<notin> keys_of K ns R"
    using accountedD [OF acc assms(3) e] by blast
  have "info_without K (podNamespace p) (add_mset p R) e (eq_del K e' p)"
    using ie x quota.held_del [OF x(1), of e'] quota.usage_del [OF K x(1), of e']
    by (auto simp: info_without_def eq_op_wf [OF K])
  with infos_without_put [OF w Some e this] Some show ?thesis
    by (simp add: infos_del_def)
qed

lemma infos_without_add:
  assumes K: "resource_laws K" and acc: "accounted_pods K infos N" and "add_mset p R \<subseteq># mset N"
    and w: "infos_without K infos (add_mset p R) infos'"
  shows "infos_without K infos R (infos_add K infos' p)"
proof (cases "map_of infos' (podNamespace p)")
  case None
  with w show ?thesis
    by (auto simp: infos_without_def infos_add_def dest!: spec) (metis info_without_other option.distinct(1))
next
  case (Some e')
  with w obtain e where e: "map_of infos (podNamespace p) = Some e"
    and ie: "info_without K (podNamespace p) (add_mset p R) e e'"
    by (auto simp: infos_without_def)
  obtain x where x: "eq_key K p = Some x" "x \<in> eqPods e" "\<And>ns. x \<notin> keys_of K ns R"
    using accountedD [OF acc assms(3) e] by blast
  have "x \<notin> eqPods e'" using ie x(1) by (simp add: info_without_def)
  then have "info_without K (podNamespace p) R e (eq_add K e' p)"
    using ie x quota.held_add [OF x(1), of e'] quota.usage_add [OF K x(1), of e']
    by (auto simp: info_without_def eq_op_wf [OF K])
  with infos_without_put [OF w Some e this] Some show ?thesis
    by (simp add: infos_add_def)
qed

section \<open>The quota check on a reduced snapshot\<close>

lemma total_over_keys:
  assumes "gwf infos"
  shows "(\<Sum>(k, e) \<leftarrow> infos. f e) = (\<Sum>k \<in> gkeys infos. f (the (map_of infos k)))"
proof -
  have "(\<Sum>(k, e) \<leftarrow> infos. f e) = (\<Sum>x \<leftarrow> infos. f (the (map_of infos (fst x))))"
    using assms by (intro arg_cong [where f = sum_list] map_cong) (auto simp: gwf_map_of)
  also have "\<dots> = (\<Sum>k \<leftarrow> map fst infos. f (the (map_of infos k)))"
    by (simp add: comp_def)
  also have "\<dots> = (\<Sum>k \<in> gkeys infos. f (the (map_of infos k)))"
    using assms unfolding gkeys_def gwf_def
    by (metis list.set_map sum_list_distinct_conv_sum_set)
  finally show ?thesis .
qed

lemma freed_over_keys: "(\<Sum>k \<in> gkeys infos. freed K k R d) = freed_total K infos R d"
proof (induction R)
  case empty
  then show ?case by (simp add: freed_def freed_total_def)
next
  case (add p R)
  then show ?case by (simp add: sum.distrib sum.delta)
qed

lemma infos_without_total:
  assumes w: "infos_without K infos R infos'" and g: "gwf infos"
  shows "total_used infos' d = total_used infos d - freed_total K infos R d"
    and "total_min infos' d = total_min infos d"
proof -
  have g': "gwf infos'" using g infos_without_keys [OF w] by simp
  have *: "\<exists>e'. map_of infos' k = Some e' \<and> (\<exists>e. map_of infos k = Some e \<and> info_without K k R e e')"
    if "k \<in> gkeys infos" for k
    using that w infos_without_keys [OF w]
    by (metis infos_without_def map_of_None_gkeys not_None_eq)
  have "res_dim (eqUsed (the (map_of infos' k))) d
      = res_dim (eqUsed (the (map_of infos k))) d - freed K k R d" if "k \<in> gkeys infos" for k
    using * [OF that] by (auto simp: info_without_def)
  then show "total_used infos' d = total_used infos d - freed_total K infos R d"
    by (simp add: total_used_def total_over_keys [OF g] total_over_keys [OF g']
        infos_without_keys [OF w] sum_subtractf flip: freed_over_keys)
  have "res_dim (eqMin (the (map_of infos' k))) d = res_dim (eqMin (the (map_of infos k))) d"
    if "k \<in> gkeys infos" for k
    using * [OF that] by (auto simp: info_without_def)
  then show "total_min infos' d = total_min infos d"
    by (simp add: total_min_def total_over_keys [OF g] total_over_keys [OF g'] infos_without_keys [OF w])
qed

text \<open>
  The check, as a statement about the initial snapshot and the pods that are gone. Where the
  guarantees are not negative it does not depend on which scalar names the usages list.
\<close>

definition room_without ::
  "('q, 'z) kube_api_scheme \<Rightarrow> eq_infos \<Rightarrow> 'q pod multiset \<Rightarrow> 'q pod \<Rightarrow> resource \<Rightarrow> bool"
where
  "room_without K infos R pod req \<longleftrightarrow>
     (\<forall>e. map_of infos (podNamespace pod) = Some e \<longrightarrow>
        (\<forall>d \<in> dims_of req.
           sint (res_dim (eqUsed e) d - freed K (podNamespace pod) R d + res_dim req d)
             \<le> sint (res_dim (eqMax e) d)) \<and>
        (\<forall>d. sint (total_used infos d - freed_total K infos R d + res_dim req d)
             \<le> sint (total_min infos d)))"

lemma total_used_outside:
  assumes "d \<notin> (\<Union>(k, e) \<in> set infos. dims_of (eqUsed e))"
  shows "total_used infos d = 0"
proof -
  have m: "map (\<lambda>(k, e). res_dim (eqUsed e) d) infos = map (\<lambda>_. 0) infos"
    using assms by (intro map_cong) (auto simp: not_in_dims_of)
  show ?thesis unfolding total_used_def m by simp
qed

lemma quota_exceeded_without:
  assumes K: "resource_laws K" and w: "infos_without K infos R infos'"
    and wf: "wf_infos K infos" and req: "wf_resource K req"
    and pos: "\<forall>d. 0 \<le> sint (total_min infos d)"
  shows "quota_exceeded K infos' pod req \<longleftrightarrow> \<not> room_without K infos R pod req"
proof -
  have g: "gwf infos" using wf by (simp add: wf_infos_def)
  have g': "gwf infos'" using g infos_without_keys [OF w] by simp
  have wf': "wf_infos K infos'"
    using w g' by (auto simp: wf_infos_def infos_without_def info_without_def
        dest!: gwf_map_of [OF g'])
  let ?D = "dims_of req \<union> (\<Union>(k, e) \<in> set infos'. dims_of (eqUsed e))"
  have "sint (total_used infos' d + res_dim req d) \<le> sint (total_min infos' d)" if "d \<notin> ?D" for d
    using that pos total_used_outside [of d infos'] not_in_dims_of [of d req]
    by (simp add: infos_without_total(2) [OF w g])
  then have agg: "aggregatedMinOverUsedWithPod K infos' req \<longleftrightarrow>
      (\<exists>d. sint (total_used infos' d + res_dim req d) > sint (total_min infos' d))"
    unfolding aggregatedMin_iff [OF K wf' req] by (meson linorder_not_le)
  have sc: "gwf (ScalarResources req)" using req by (simp add: wf_resource_def)
  show ?thesis
  proof (cases "map_of infos' (podNamespace pod)")
    case None
    then have "map_of infos (podNamespace pod) = None"
      using infos_without_keys [OF w] by (simp add: map_of_None_gkeys)
    with None show ?thesis by (simp add: quota_exceeded_def room_without_def)
  next
    case (Some e')
    with w obtain e where "map_of infos (podNamespace pod) = Some e"
      and "info_without K (podNamespace pod) R e e'"
      by (auto simp: infos_without_def)
    with Some show ?thesis
      by (auto simp: quota_exceeded_def room_without_def agg overUsed_iff [OF sc] info_without_def
          infos_without_total [OF w g] not_le)
  qed
qed

section \<open>The loops\<close>

text \<open>The state of a dry run whose snapshot is the initial one without the pods \<open>R\<close>.\<close>

definition run_without ::
  "('q, 'st, cap_data, 'z) cycle_api_scheme \<Rightarrow> eq_infos \<Rightarrow> 'q pod multiset \<Rightarrow> ('q, 'st) dry_run \<Rightarrow> bool"
where
  "run_without K infos R s \<longleftrightarrow>
     (\<exists>infos'. getElasticQuotaSnapshotState K (fst s) = Inr infos' \<and> infos_without K infos R infos')"

text \<open>What the proofs need of the initial snapshot and of the node's pods \<open>N\<close>: maps without
  duplicate keys, accounted pods, and guarantees whose sums are not negative.\<close>

definition snapshot_ok ::
  "('q, 'z) kube_api_scheme \<Rightarrow> eq_infos \<Rightarrow> 'q pod list \<Rightarrow> resource \<Rightarrow> bool"
where
  "snapshot_ok K infos N req \<longleftrightarrow> wf_infos K infos \<and> wf_resource K req \<and>
     accounted_pods K infos N \<and> (\<forall>d. 0 \<le> sint (total_min infos d))"

lemma sv_removePod_snapshot:
  assumes C: "cycle_laws K" and P: "preempt_laws K"
    and "getElasticQuotaSnapshotState K (fst s) = Inr infos" and "sv_removePod K pod s p = Inr s'"
  shows "getElasticQuotaSnapshotState K (fst s') = Inr (infos_del K infos p)"
proof -
  have "elasticQuotaInfos (cap_Unreserve K \<lparr>elasticQuotaInfos = infos\<rparr> p) = infos_del K infos p"
    by (simp add: cap_Unreserve_def infos_del_def updated_ops split: option.split)
  then have "getElasticQuotaSnapshotState K (fst (cap_RemovePod K (fst s) p)) = Inr (infos_del K infos p)"
    using cap_RemovePod_simulates(1) [OF C, of "fst s" "\<lparr>elasticQuotaInfos = infos\<rparr>" p] assms(3) by simp
  with assms(4) P show ?thesis
    unfolding preempt_laws_def
    by (auto simp: sv_removePod_def Let_def split: sum.splits prod.splits if_splits)
      (metis fst_conv snd_conv)
qed

lemma sv_addPod_snapshot:
  assumes C: "cycle_laws K" and P: "preempt_laws K"
    and "getElasticQuotaSnapshotState K (fst s) = Inr infos" and "sv_addPod K pod s p = Inr s'"
  shows "getElasticQuotaSnapshotState K (fst s') = Inr (infos_add K infos p)"
proof -
  have "elasticQuotaInfos (fst (cap_Reserve K \<lparr>elasticQuotaInfos = infos\<rparr> p)) = infos_add K infos p"
    by (auto simp: cap_Reserve_def infos_add_def eq_add_def updated_def update_triv
        split: option.split sum.split)
  then have "getElasticQuotaSnapshotState K (fst (cap_AddPod K (fst s) p)) = Inr (infos_add K infos p)"
    using cap_AddPod_simulates(1) [OF C, of "fst s" "\<lparr>elasticQuotaInfos = infos\<rparr>" p] assms(3) by simp
  with assms(4) P show ?thesis
    unfolding preempt_laws_def
    by (auto simp: sv_addPod_def Let_def split: prod.splits if_splits) (metis fst_conv snd_conv)
qed

lemma run_without_ops:
  assumes "resource_laws K" "cycle_laws K" "preempt_laws K" and "accounted_pods K infos N"
    and "add_mset p R \<subseteq># mset N"
  shows "run_without K infos R s \<Longrightarrow> sv_removePod K pod s p = Inr s' \<Longrightarrow>
           run_without K infos (add_mset p R) s'"
    and "run_without K infos (add_mset p R) s \<Longrightarrow> sv_addPod K pod s p = Inr s' \<Longrightarrow>
           run_without K infos R s'"
  using assms infos_without_del infos_without_add sv_removePod_snapshot sv_addPod_snapshot
  unfolding run_without_def by metis+

text \<open>The first loop removes a sublist of the pods; each was eligible in the snapshot that the
  removals before it had left.\<close>

lemma victims_loop_removes:
  assumes L: "resource_laws K" "cycle_laws K" "preempt_laws K" and acc: "accounted_pods K infos N"
  shows "victims_loop K pod eligible ps s vs = Inr (s', P) \<Longrightarrow> run_without K infos R s \<Longrightarrow>
    R + mset ps \<subseteq># mset N \<Longrightarrow>
    \<exists>V. P = vs @ V \<and> subseq V ps \<and> run_without K infos (R + mset V) s' \<and>
      (\<forall>v \<in> set V. \<exists>R' infos'. add_mset v R' \<subseteq># mset N \<and> infos_without K infos R' infos' \<and>
         eligible infos' v)"
proof (induction ps arbitrary: s vs R)
  case Nil
  then show ?case by auto
next
  case (Cons p ps)
  have sub: "add_mset p R \<subseteq># mset N" "R + mset ps \<subseteq># mset N"
    using Cons.prems(3) by (auto intro: subset_mset.order_trans [rotated])
  show ?case
  proof (cases "eligible (cur_infos K (fst s)) p")
    case False
    with Cons.prems Cons.IH [of s vs R] sub show ?thesis by fastforce
  next
    case True
    obtain infos' where now: "infos_without K infos R infos'" "cur_infos K (fst s) = infos'"
      using Cons.prems(2) by (auto simp: run_without_def cur_infos_def)
    obtain s1 where s1: "sv_removePod K pod s p = Inr s1"
      and rest: "victims_loop K pod eligible ps s1 (vs @ [p]) = Inr (s', P)"
      using Cons.prems(1) True by (auto split: sum.splits)
    have "run_without K infos (add_mset p R) s1"
      by (rule run_without_ops(1) [OF L acc sub(1) Cons.prems(2) s1])
    from Cons.IH [OF rest this] Cons.prems(3) obtain V where
      "P = (vs @ [p]) @ V" "subseq V ps" "run_without K infos (add_mset p R + mset V) s'"
      "\<forall>v \<in> set V. \<exists>R' infos'. add_mset v R' \<subseteq># mset N \<and> infos_without K infos R' infos' \<and> eligible infos' v"
      by auto
    with True now sub(1) show ?thesis
      by (intro exI [where x = "p # V"]) auto
  qed
qed

text \<open>A reprieve keeps the pod where the filters pass and the quota has room, and puts it on the
  list of victims otherwise; in both cases the quota keeps its room.\<close>

lemma reprievePod_room:
  assumes L: "resource_laws K" "cycle_laws K" "preempt_laws K" and ok: "snapshot_ok K infos N req"
    and run: "reprievePod K pod withQuota req (s, vs) p = Inr (fits, s', vs')"
    and "run_without K infos (add_mset p R) s" and sub: "add_mset p R \<subseteq># mset N"
    and room: "withQuota \<Longrightarrow> room_without K infos (add_mset p R) pod req"
  shows "(vs' = vs \<and> fits \<and> run_without K infos R s' \<and> (withQuota \<longrightarrow> room_without K infos R pod req))
    \<or> (vs' = vs @ [p] \<and> run_without K infos (add_mset p R) s')"
proof -
  have acc: "accounted_pods K infos N" using ok by (simp add: snapshot_ok_def)
  have exc: "quota_exceeded K (cur_infos K (fst t)) pod req \<longleftrightarrow> \<not> room_without K infos R' pod req"
    if "run_without K infos R' t" for R' t
    using that ok quota_exceeded_without [OF L(1)]
    by (auto simp: run_without_def cur_infos_def snapshot_ok_def)
  obtain s1 where s1: "sv_addPod K pod s p = Inr s1"
    using run by (auto simp: reprievePod_def split: sum.splits)
  have w1: "run_without K infos R s1"
    by (rule run_without_ops(2) [OF L acc sub assms(6) s1])
  have again: "run_without K infos (add_mset p R) t" if "sv_removePod K pod s1 p = Inr t" for t
    by (rule run_without_ops(1) [OF L acc sub w1 that])
  show ?thesis
    using run s1 w1 again exc room
    by (auto simp: reprievePod_def Let_def split: sum.splits if_splits)
qed

lemma reprieve_loop_room:
  assumes L: "resource_laws K" "cycle_laws K" "preempt_laws K" and ok: "snapshot_ok K infos N req"
  shows "reprieve_loop K pod withQuota req ps n (s, vs) = Inr (n', s', vs') \<Longrightarrow>
    run_without K infos (mset vs + mset ps + R) s \<Longrightarrow> mset vs + mset ps + R \<subseteq># mset N \<Longrightarrow>
    (withQuota \<Longrightarrow> room_without K infos (mset vs + mset ps + R) pod req) \<Longrightarrow>
    run_without K infos (mset vs' + R) s' \<and> (withQuota \<longrightarrow> room_without K infos (mset vs' + R) pod req) \<and>
    (\<exists>V. vs' = vs @ V \<and> subseq V ps \<and> n' \<le> n + length V)"
proof (induction ps arbitrary: n s vs)
  case Nil
  then show ?case by auto
next
  case (Cons p ps)
  obtain fits s1 vs1 where step: "reprievePod K pod withQuota req (s, vs) p = Inr (fits, s1, vs1)"
    and rest: "reprieve_loop K pod withQuota req ps (if \<not> fits then n + 1 else n) (s1, vs1) = Inr (n', s', vs')"
    using Cons.prems(1) by (auto split: sum.splits)
  let ?R = "mset vs + mset ps + R"
  have sub: "add_mset p ?R \<subseteq># mset N" using Cons.prems(3) by simp
  have sub': "?R \<subseteq># mset N"
    using mset_subset_eq_insertD [OF sub] by (simp add: subset_mset.less_imp_le)
  consider (keep) "vs1 = vs" "fits" "run_without K infos ?R s1" "withQuota \<longrightarrow> room_without K infos ?R pod req"
    | (evict) "vs1 = vs @ [p]" "run_without K infos (add_mset p ?R) s1"
    using reprievePod_room [OF L ok step, of ?R] Cons.prems(2-4) sub by fastforce
  then show ?case
  proof cases
    case keep
    from Cons.IH [OF rest] keep sub' show ?thesis
      by fastforce
  next
    case evict
    from Cons.IH [OF rest] evict Cons.prems(3,4) show ?thesis
      by (fastforce split: if_splits)
  qed
qed

section \<open>selectVictimsOnNode\<close>

definition eligible ::
  "('q, 'z) kube_api_scheme \<Rightarrow> 'q pod \<Rightarrow> eq_infos \<Rightarrow> resource \<Rightarrow> eq_infos \<Rightarrow> 'q pod \<Rightarrow> bool"
where
  "eligible K pod infos req =
     (case map_of infos (podNamespace pod) of
        None \<Rightarrow> eligible_without_quota K pod
      | Some e \<Rightarrow> eligible_with_quota K pod (overUsed e req (eqMin e)))"

lemma selectVictimsOnNode_eq:
  assumes "getElasticQuotaSnapshotState K st = Inr infos" and "getPreFilterState K st = Inr req"
  shows "selectVictimsOnNode K st pod ni pdbs =
    (let withQuota = (map_of infos (podNamespace pod) \<noteq> None);
         ni = ni\<lparr>niPods := sort_slice K (\<lambda>a b. \<not> more_important K a b) (niPods ni)\<rparr>
     in case victims_loop K pod (eligible K pod infos req) (niPods ni) (st, ni) [] of
          Inl err \<Rightarrow> ([], 0, False)
        | Inr (s, P) \<Rightarrow>
            if length P = 0 then ([], 0, False)
            else if \<not> passes_filters K (fst s) pod (snd s) then ([], 0, False)
            else if withQuota \<and> quota_exceeded K (cur_infos K (fst s)) pod req then ([], 0, False)
            else
              let (viol, nonviol) =
                    filterPodsWithPDBViolation (selectors K) (sort_slice K (more_important K) P) pdbs
              in case reprieve_loop K pod withQuota req viol 0 (s, []) of
                   Inl err \<Rightarrow> ([], 0, False)
                 | Inr (n, sv) \<Rightarrow>
                     (case reprieve_loop K pod withQuota req nonviol 0 sv of
                        Inl err \<Rightarrow> ([], 0, False)
                      | Inr (_, s, vs) \<Rightarrow> (vs, n, True)))"
  unfolding selectVictimsOnNode_def Let_def
  by (cases "map_of infos (podNamespace pod)") (simp_all add: assms eligible_def)

lemma selectVictimsOnNode_cases:
  assumes "getElasticQuotaSnapshotState K st = Inr infos" and "getPreFilterState K st = Inr req"
    and "selectVictimsOnNode K st pod ni pdbs = (vs, n, True)"
  obtains ni' s P viol nonviol n1 s1 vs1 n2 s2 where
    "ni' = ni\<lparr>niPods := sort_slice K (\<lambda>a b. \<not> more_important K a b) (niPods ni)\<rparr>"
    "victims_loop K pod (eligible K pod infos req) (niPods ni') (st, ni') [] = Inr (s, P)"
    "P \<noteq> []" "passes_filters K (fst s) pod (snd s)"
    "map_of infos (podNamespace pod) \<noteq> None \<Longrightarrow> \<not> quota_exceeded K (cur_infos K (fst s)) pod req"
    "filterPodsWithPDBViolation (selectors K) (sort_slice K (more_important K) P) pdbs = (viol, nonviol)"
    "reprieve_loop K pod (map_of infos (podNamespace pod) \<noteq> None) req viol 0 (s, []) = Inr (n, s1, vs1)"
    "reprieve_loop K pod (map_of infos (podNamespace pod) \<noteq> None) req nonviol 0 (s1, vs1) = Inr (n2, s2, vs)"
proof -
  let ?ni = "ni\<lparr>niPods := sort_slice K (\<lambda>a b. \<not> more_important K a b) (niPods ni)\<rparr>"
  define w where "w \<longleftrightarrow> map_of infos (podNamespace pod) \<noteq> None"
  note run = assms(3) [unfolded selectVictimsOnNode_eq [OF assms(1,2)] Let_def, folded w_def]
  obtain s P where vl: "victims_loop K pod (eligible K pod infos req) (niPods ?ni) (st, ?ni) [] = Inr (s, P)"
    using run by (auto split: sum.splits)
  obtain viol nonviol where pdb: "filterPodsWithPDBViolation (selectors K)
      (sort_slice K (more_important K) P) pdbs = (viol, nonviol)"
    by (meson surj_pair)
  note run = run [unfolded vl, simplified, unfolded pdb, simplified]
  obtain n1 s1 vs1 where r1: "reprieve_loop K pod w req viol 0 (s, []) = Inr (n1, s1, vs1)"
    using run by (auto split: sum.splits if_splits)
  obtain n2 s2 where r2: "reprieve_loop K pod w req nonviol 0 (s1, vs1) = Inr (n2, s2, vs)"
    using run r1 by (auto split: sum.splits if_splits)
  have "n1 = n" and rest: "P \<noteq> []" "passes_filters K (fst s) pod (snd s)"
    "w \<Longrightarrow> \<not> quota_exceeded K (cur_infos K (fst s)) pod req"
    using run r1 by (auto split: sum.splits if_splits)
  with r1 have "reprieve_loop K pod w req viol 0 (s, []) = Inr (n, s1, vs1)" by simp
  from that [OF refl vl rest [unfolded w_def] pdb this [unfolded w_def] r2 [unfolded w_def]] show ?thesis .
qed

lemma selectVictimsOnNode_run:
  assumes L: "resource_laws K" "cycle_laws K" "preempt_laws K"
    and st: "getElasticQuotaSnapshotState K st = Inr infos" "getPreFilterState K st = Inr req"
    and ok: "snapshot_ok K infos (niPods ni) req"
    and sel: "selectVictimsOnNode K st pod ni pdbs = (vs, n, True)"
  shows "mset vs \<subseteq># mset (niPods ni)" and "n \<le> length vs"
    and "room_without K infos (mset vs) pod req"
    and "\<forall>v \<in> set vs. \<exists>R infos'. add_mset v R \<subseteq># mset (niPods ni) \<and>
           infos_without K infos R infos' \<and> eligible K pod infos req infos' v"
proof -
  have sort: "\<And>less xs. mset (sort_slice K less xs) = mset xs"
    using L(3) by (simp add: preempt_laws_def)
  obtain ni' s P viol nonviol s1 vs1 n2 s2 where
    ni': "ni' = ni\<lparr>niPods := sort_slice K (\<lambda>a b. \<not> more_important K a b) (niPods ni)\<rparr>"
    and vl: "victims_loop K pod (eligible K pod infos req) (niPods ni') (st, ni') [] = Inr (s, P)"
    and fit: "map_of infos (podNamespace pod) \<noteq> None \<Longrightarrow>
      \<not> quota_exceeded K (cur_infos K (fst s)) pod req"
    and pdb: "filterPodsWithPDBViolation (selectors K) (sort_slice K (more_important K) P) pdbs
      = (viol, nonviol)"
    and r1: "reprieve_loop K pod (map_of infos (podNamespace pod) \<noteq> None) req viol 0 (s, [])
      = Inr (n, s1, vs1)"
    and r2: "reprieve_loop K pod (map_of infos (podNamespace pod) \<noteq> None) req nonviol 0 (s1, vs1)
      = Inr (n2, s2, vs)"
    by (rule selectVictimsOnNode_cases [OF st sel]) blast
  have acc: "accounted_pods K infos (niPods ni)" and wf: "wf_infos K infos" "wf_resource K req"
    and pos: "\<forall>d. 0 \<le> sint (total_min infos d)"
    using ok by (simp_all add: snapshot_ok_def)
  have N: "mset (niPods ni') = mset (niPods ni)" by (simp add: ni' sort)
  have start: "run_without K infos {#} (st, ni')"
    using st(1) infos_without_start [OF wf(1)] by (auto simp: run_without_def)
  obtain V where "P = V" and V: "subseq V (niPods ni')" "run_without K infos (mset V) s"
    and el: "\<forall>v \<in> set V. \<exists>R infos'. add_mset v R \<subseteq># mset (niPods ni) \<and>
           infos_without K infos R infos' \<and> eligible K pod infos req infos' v"
    using victims_loop_removes [OF L acc vl start] N by auto
  have split: "mset viol + mset nonviol = mset V"
    using filterPDB_split(3) [OF pdb] by (simp add: sort \<open>P = V\<close>)
  have VN: "mset V \<subseteq># mset (niPods ni)"
    using mset_subseq [OF V(1)] N by simp
  have room: "room_without K infos (mset V) pod req" if "map_of infos (podNamespace pod) \<noteq> None"
    using fit [OF that] V(2) quota_exceeded_without [OF L(1) _ wf pos]
    by (auto simp: run_without_def cur_infos_def)
  note first = reprieve_loop_room [OF L ok r1, of "mset nonviol"]
  obtain V1 where a1: "run_without K infos (mset vs1 + mset nonviol) s1"
    "map_of infos (podNamespace pod) \<noteq> None \<longrightarrow> room_without K infos (mset vs1 + mset nonviol) pod req"
    "vs1 = V1" "subseq V1 viol" "n \<le> length V1"
    using first V(2) VN room by (auto simp: split)
  have "mset vs1 + mset nonviol \<subseteq># mset V"
    using mset_subseq [OF a1(4)] by (simp add: a1(3) flip: split)
  then have sub1: "mset vs1 + mset nonviol \<subseteq># mset (niPods ni)"
    using VN subset_mset.order_trans by blast
  obtain V2 where a2: "map_of infos (podNamespace pod) \<noteq> None \<longrightarrow> room_without K infos (mset vs) pod req"
    "vs = vs1 @ V2" "subseq V2 nonviol"
    using reprieve_loop_room [OF L ok r2, of "{#}"] a1(1,2) sub1
    by (metis add.right_neutral)
  have vsV: "mset vs \<subseteq># mset V"
    using mset_subseq [OF a1(4)] mset_subseq [OF a2(3)]
    by (simp add: a2(2) a1(3) subset_mset.add_mono flip: split)
  then show "mset vs \<subseteq># mset (niPods ni)" using VN subset_mset.order_trans by blast
  show "n \<le> length vs" using a1(3,5) by (simp add: a2(2))
  show "room_without K infos (mset vs) pod req" using a2(1) by (auto simp: room_without_def)
  have "set vs \<subseteq> set V" using set_mset_mono [OF vsV] by simp
  with el show "\<forall>v \<in> set vs. \<exists>R infos'. add_mset v R \<subseteq># mset (niPods ni) \<and>
           infos_without K infos R infos' \<and> eligible K pod infos req infos' v"
    by blast
qed

end
