(* ===== verification/PreemptionProperties.thy ===== *)
theory PreemptionProperties
  imports SelectVictims DemoApi
begin

text \<open>The properties of the quota-aware preemption, each with a witness at a concrete cluster.\<close>

section \<open>A concrete cluster\<close>

text \<open>A node with room for two pods; a selector is a list of required labels.\<close>

fun demo_insert :: "('a \<Rightarrow> 'a \<Rightarrow> bool) \<Rightarrow> 'a \<Rightarrow> 'a list \<Rightarrow> 'a list" where
  "demo_insert lt x [] = [x]"
| "demo_insert lt x (y # ys) = (if lt x y then x # y # ys else y # demo_insert lt x ys)"

definition demo_sort :: "('a \<Rightarrow> 'a \<Rightarrow> bool) \<Rightarrow> 'a list \<Rightarrow> 'a list" where
  "demo_sort lt xs = foldr (demo_insert lt) xs []"

lemma mset_demo_sort [simp]: "mset (demo_sort lt xs) = mset xs"
proof -
  have ins: "mset (demo_insert lt x ys) = add_mset x (mset ys)" for x :: 'a and ys
    by (induction ys) auto
  show ?thesis by (induction xs) (simp_all add: demo_sort_def ins)
qed

type_synonym demo_store = "(string, cap_data) gomap"

definition demo_preempt ::
  "(int, demo_store, cap_data, (string \<times> string) list, (string \<times> string) list) preempt_api"
where
  "demo_preempt = demo_cycle
     \<lparr>sort_slice = demo_sort,
      more_important = (\<lambda>a b. sint (pod_priority (demo_api ()) a) > sint (pod_priority (demo_api ()) b)),
      run_ext_remove = (\<lambda>st pod rp ni. (Some (snd (cap_RemovePod (demo_cycle ()) st rp)),
         fst (cap_RemovePod (demo_cycle ()) st rp))),
      run_ext_add = (\<lambda>st pod ap ni. (Some (snd (cap_AddPod (demo_cycle ()) st ap)),
         fst (cap_AddPod (demo_cycle ()) st ap))),
      passes_filters = (\<lambda>st pod ni. length (niPods ni) < 2),
      selectors = \<lparr>as_selector = Inr, sel_empty = (\<lambda>s. s = []),
        sel_matches = (\<lambda>s ls. set s \<subseteq> set ls)\<rparr>,
      completion_order = rev\<rparr>"

lemma demo_preempt_api [simp]:
  "pod_key demo_preempt = pod_key (demo_api ())" "pod_priority demo_preempt = pod_priority (demo_api ())"
  by (simp_all add: demo_preempt_def demo_cycle_def)

definition demo_infos :: eq_infos where
  "demo_infos =
     [(''a'', \<lparr>eqNamespace = ''a'', eqPods = {''a1'', ''a2''},
        eqMin = zero_resource\<lparr>MilliCPU := 1000\<rparr>, eqMax = zero_resource\<lparr>MilliCPU := 2000\<rparr>,
        eqUsed = zero_resource\<lparr>MilliCPU := 1000\<rparr>\<rparr>)]"

definition demo_node :: "int node_info" where
  "demo_node =
     \<lparr>niNode = Some \<lparr>nodeName = ''n'', nodeAllocatable = [], nodeCapacity = []\<rparr>,
      niPods = [demo_pod ''a'' ''a1'' 500 0, demo_pod ''a'' ''a2'' 500 5],
      niAllocatable = zero_resource, niRequested = zero_resource, niNonZero = zero_resource,
      niTransient = None\<rparr>"

definition demo_store :: demo_store where
  "demo_store = [(ElasticQuotaSnapshotKey, ElasticQuotaSnapshotState demo_infos),
     (preFilterStateKey, PreFilterState (zero_resource\<lparr>MilliCPU := 500\<rparr>))]"

lemma demo_select:
  "selectVictimsOnNode demo_preempt demo_store (demo_pod ''a'' ''p'' 500 9) demo_node []
     = ([demo_pod ''a'' ''a1'' 500 0], 0, True)"
  by code_simp

text \<open>The extensions only use the part of the interface that the instances share.\<close>

lemma demo_cycle_sel:
  "cs_read (demo_cycle e) = (\<lambda>s k. case map_of s k of None \<Rightarrow> Inl (Err ''not found'') | Some d \<Rightarrow> Inr d)"
  "cs_write (demo_cycle e) = (\<lambda>s k d. mput k d s)"
  "pod_key (demo_cycle e) = pod_key (demo_api ())" "res_add (demo_cycle e) = res_add (demo_api ())"
  "res_setmax (demo_cycle e) = res_setmax (demo_api ())"
  "feature_on (demo_cycle e) = feature_on (demo_api ())"
  "res_set_scalar (demo_cycle e) = res_set_scalar (demo_api ())"
  by (simp_all add: demo_cycle_def demo_api_def)

lemma demo_ext:
  "getElasticQuotaSnapshotState (demo_cycle e) st = getElasticQuotaSnapshotState (demo_cycle ()) st"
  "getPreFilterState (demo_cycle e) st = getPreFilterState (demo_cycle ()) st"
  "cap_RemovePod (demo_cycle e) st p = cap_RemovePod (demo_cycle ()) st p"
  "cap_AddPod (demo_cycle e) st p = cap_AddPod (demo_cycle ()) st p"
  unfolding cap_RemovePod_def cap_AddPod_def getElasticQuotaSnapshotState_def getPreFilterState_def
    deletePodIfPresent_def addPodIfNotPresent_def computePodResourceRequest_def
    unreserveResource_def reserveResource_def demo_cycle_sel
  by (rule refl)+

lemma demo_ext_frame:
  "getPreFilterState (demo_cycle ()) (fst (cap_RemovePod (demo_cycle ()) st p))
     = getPreFilterState (demo_cycle ()) st"
  "getPreFilterState (demo_cycle ()) (fst (cap_AddPod (demo_cycle ()) st p))
     = getPreFilterState (demo_cycle ()) st"
  by (auto simp: cap_RemovePod_def cap_AddPod_def getPreFilterState_write_snapshot [OF demo_cycle_laws]
      split: sum.split option.split)

lemma demo_preempt_laws:
  "resource_laws demo_preempt" "cycle_laws demo_preempt" "preempt_laws demo_preempt"
proof -
  show "resource_laws demo_preempt" "cycle_laws demo_preempt"
    unfolding demo_preempt_def by (rule demo_cycle_resource_laws, rule demo_cycle_laws)
  have sel: "sort_slice demo_preempt = demo_sort"
    "run_ext_remove demo_preempt = (\<lambda>st pod rp ni. (Some (snd (cap_RemovePod (demo_cycle ()) st rp)),
         fst (cap_RemovePod (demo_cycle ()) st rp)))"
    "run_ext_add demo_preempt = (\<lambda>st pod ap ni. (Some (snd (cap_AddPod (demo_cycle ()) st ap)),
         fst (cap_AddPod (demo_cycle ()) st ap)))"
    by (simp_all add: demo_preempt_def demo_cycle_def demo_api_def)
  have ops: "getElasticQuotaSnapshotState demo_preempt = getElasticQuotaSnapshotState (demo_cycle ())"
    "getPreFilterState demo_preempt = getPreFilterState (demo_cycle ())"
    "cap_RemovePod demo_preempt = cap_RemovePod (demo_cycle ())"
    "cap_AddPod demo_preempt = cap_AddPod (demo_cycle ())"
    unfolding demo_preempt_def by (intro ext, rule demo_ext)+
  show "preempt_laws demo_preempt"
    by (simp add: preempt_laws_def sel ops demo_ext_frame)
qed

lemma demo_snapshot:
  "getElasticQuotaSnapshotState demo_preempt demo_store = Inr demo_infos"
  "getPreFilterState demo_preempt demo_store = Inr (zero_resource\<lparr>MilliCPU := 500\<rparr>)"
  by code_simp+

lemma demo_snapshot_ok:
  "snapshot_ok demo_preempt demo_infos (niPods demo_node) (zero_resource\<lparr>MilliCPU := 500\<rparr>)"
proof -
  have min: "0 \<le> sint (total_min demo_infos d)" for d
    by (cases d) (simp_all add: total_min_def demo_infos_def zero_resource_def)
  have "wf_infos demo_preempt demo_infos" "wf_resource demo_preempt (zero_resource\<lparr>MilliCPU := 500\<rparr>)"
    by (simp_all add: wf_infos_def wf_info_def wf_resource_def demo_infos_def zero_resource_def)
  moreover have "accounted_pods demo_preempt demo_infos (niPods demo_node)"
    by (simp add: accounted_pods_def demo_node_def eq_key_def demo_infos_def)
  ultimately show ?thesis using min by (simp add: snapshot_ok_def)
qed

section \<open>Who is evicted\<close>



section \<open>The evictions are enough\<close>



section \<open>What PostFilter nominates\<close>

text \<open>The candidates of a dry run are the nodes on which victims were found.\<close>

lemma dry_run_loop_candidates:
  assumes "dry_run_loop check nodes cs = Inr cs'" and "c \<in> set cs'"
  shows "c \<in> set cs \<or> (\<exists>node \<in> set nodes. \<exists>cs1. check node = Inr cs1 \<and> c \<in> set cs1)"
  using assms by (induction nodes arbitrary: cs) (fastforce split: sum.splits)+

lemma checkNode_candidate:
  assumes "checkNode K st pod pdbs node = Inr cs" and "c \<in> set cs"
  obtains nd n where "niNode node = Some nd" and "candName c = nodeName nd"
    and "selectVictimsOnNode K (cs_clone K st) pod node pdbs = (candVictims c, n, True)"
    and "candNumPDBViolations c = of_nat n"
proof -
  obtain vs n fits where sel: "selectVictimsOnNode K (cs_clone K st) pod node pdbs = (vs, n, fits)"
    by (metis prod_cases3)
  then have fits "niNode node \<noteq> None"
    using assms by (auto simp: checkNode_def split: if_splits option.splits)
  then obtain nd where nd: "niNode node = Some nd" by auto
  have "candName c = nodeName nd" "candVictims c = vs" "candNumPDBViolations c = of_nat n"
    using assms sel nd \<open>fits\<close> by (auto simp: checkNode_def)
  with that [OF nd] sel \<open>fits\<close> show thesis by simp
qed

text \<open>The parts of a preemption that ends with a nomination: the candidates of the dry run, the one
  that the extenders and SelectCandidate leave, and its preparation.\<close>

lemma cap_PostFilter_parts:
  assumes "cap_PostFilter K C l w st pod m = ((Some nn, s), w')"
  obtains pod' nodes pn pdbs cs cs' b where "stCode s = Success"
    and "get_updated_pod C w pod = Inr pod'" and "list_nodes C = Inr nodes"
    and "nodesWherePreemptionMightHelp K nodes m = Inr pn" and "getPodDisruptionBudgets l = Inr pdbs"
    and "dryRunPreemption K st pod' pn pdbs = Inr cs" and "call_extenders C pod' cs = Inr cs'"
    and "select_candidate C cs' = Some b" and "candName b = nn"
    and "prepare_candidate C w b pod' = (None, w')"
proof -
  obtain r where r: "cap_preempt K C l w st pod m = (r, w')" and res: "post_filter_result r = (Some nn, s)"
    using assms by (auto simp: cap_PostFilter_def split: prod.splits)
  from res have nn: "r = Inr nn" "nn \<noteq> ''''" and s: "stCode s = Success"
    by (auto simp: post_filter_result_def NewStatus_def split: sum.splits if_splits)
  obtain pod' where pod': "get_updated_pod C w pod = Inr pod'"
    and nom: "nominate C pod' (cap_FindCandidates K C l w st pod' m) = (Inr nn, w')"
    using r nn by (auto simp: cap_preempt_def split: sum.splits if_splits)
  obtain found w1 where f: "cap_FindCandidates K C l w st pod' m = (found, w1)" by fastforce
  obtain cs cs' b where cs: "found = Inr cs" "cs \<noteq> []" "call_extenders C pod' cs = Inr cs'"
    "select_candidate C cs' = Some b" "candName b = nn" "prepare_candidate C w1 b pod' = (None, w')"
    by (rule nominate_picks [OF nom [unfolded f] nn(2)])
  with f obtain nodes pn pdbs where nodes: "list_nodes C = Inr nodes"
    "nodesWherePreemptionMightHelp K nodes m = Inr pn" "getPodDisruptionBudgets l = Inr pdbs"
    "dryRunPreemption K st pod' pn pdbs = Inr cs" "w1 = w"
    by (auto simp: cap_FindCandidates_def split: sum.splits if_splits)
  with that s pod' cs show thesis by blast
qed

lemma dry_run_member:
  assumes "nodesWherePreemptionMightHelp K nodes m = Inr pn"
    and "dryRunPreemption K st pod pn pdbs = Inr cs" and "c \<in> set cs"
    and "\<forall>ns. set (completion_order K ns) = set ns"
  obtains node nd n where "node \<in> set nodes" and "niNode node = Some nd" and "nodeName nd = candName c"
    and "status_code K (map_of m (candName c)) \<noteq> UnschedulableAndUnresolvable"
    and "selectVictimsOnNode K (cs_clone K st) pod node pdbs = (candVictims c, n, True)"
    and "candNumPDBViolations c = of_nat n"
proof -
  from dry_run_loop_candidates [OF assms(2) [unfolded dryRunPreemption_def] assms(3)] assms(4)
  obtain node cs1 where node: "node \<in> set pn" "checkNode K st pod pdbs node = Inr cs1" "c \<in> set cs1"
    by auto
  obtain nd n where nd: "niNode node = Some nd" "candName c = nodeName nd"
    "selectVictimsOnNode K (cs_clone K st) pod node pdbs = (candVictims c, n, True)"
    "candNumPDBViolations c = of_nat n"
    by (rule checkNode_candidate [OF node(2,3)])
  have "node \<in> set nodes" "status_code K (map_of m (candName c)) \<noteq> UnschedulableAndUnresolvable"
    using node(1) nd(1,2) unfolding nodesWherePreemptionMightHelp_eq [OF assms(1), symmetric] by auto
  with that nd show thesis by simp
qed

text \<open>A node that PostFilter of the capacity plugin nominates is a node of the snapshot that
  Filter did not rule out for good, and on it the dry run of the current version of the pod,
  from a copy of the cycle state, found victims; the status is then Success.\<close>

theorem pre_postfilter_nominates:
  assumes "cap_PostFilter K C l w st pod m = ((Some nn, s), w')"
    and "cluster_laws C" and "\<forall>ns. set (completion_order K ns) = set ns"
  shows "stCode s = Success \<and> (\<exists>nodes node nd pod' pdbs vs n.
    list_nodes C = Inr nodes \<and> node \<in> set nodes \<and> niNode node = Some nd \<and> nodeName nd = nn \<and>
    status_code K (map_of m nn) \<noteq> UnschedulableAndUnresolvable \<and>
    get_updated_pod C w pod = Inr pod' \<and> getPodDisruptionBudgets l = Inr pdbs \<and>
    selectVictimsOnNode K (cs_clone K st) pod' node pdbs = (vs, n, True))"
proof -
  obtain pod' nodes pn pdbs cs cs' b where p: "stCode s = Success" "get_updated_pod C w pod = Inr pod'"
    "list_nodes C = Inr nodes" "nodesWherePreemptionMightHelp K nodes m = Inr pn"
    "getPodDisruptionBudgets l = Inr pdbs" "dryRunPreemption K st pod' pn pdbs = Inr cs"
    "call_extenders C pod' cs = Inr cs'" "select_candidate C cs' = Some b" "candName b = nn"
    by (rule cap_PostFilter_parts [OF assms(1)])
  then have "nn \<in> candName ` set cs"
    using assms(2) unfolding cluster_laws_def by blast
  then obtain c where c: "c \<in> set cs" "candName c = nn" by blast
  obtain node nd n where "node \<in> set nodes" "niNode node = Some nd" "nodeName nd = nn"
    "status_code K (map_of m nn) \<noteq> UnschedulableAndUnresolvable"
    "selectVictimsOnNode K (cs_clone K st) pod' node pdbs = (candVictims c, n, True)"
    by (rule dry_run_member [OF p(4,6) c(1) assms(3), unfolded c(2)])
  with p(1-3,5) show ?thesis by blast
qed

definition demo_cluster :: "(int, string) cluster_api" where
  "demo_cluster =
     \<lparr>get_updated_pod = (\<lambda>w p. Inr p), eligible_to_preempt = (\<lambda>p s. True),
      list_nodes = Inr [demo_node], clear_nominated = (\<lambda>w p. (None, w)),
      call_extenders = (\<lambda>p cs. Inr cs),
      select_candidate = (\<lambda>cs. case cs of [] \<Rightarrow> None | c # _ \<Rightarrow> Some c),
      prepare_candidate = (\<lambda>w c p. (None, candName c))\<rparr>"

lemma demo_postfilter:
  "cap_PostFilter demo_preempt demo_cluster None ''w'' demo_store (demo_pod ''a'' ''p'' 500 9) []
     = ((Some ''n'', NewStatus Success ''''), ''n'')"
  by code_simp

theorem pre_postfilter_nominates_witness:
  "\<exists>nodes node. list_nodes demo_cluster = Inr nodes \<and> node \<in> set nodes
     \<and> niNode node = Some \<lparr>nodeName = ''n'', nodeAllocatable = [], nodeCapacity = []\<rparr>"
proof -
  have "\<exists>nodes node nd. list_nodes demo_cluster = Inr nodes \<and> node \<in> set nodes
      \<and> niNode node = Some nd \<and> nodeName nd = ''n''"
  proof -
    have "cluster_laws demo_cluster" and "\<forall>ns. set (completion_order demo_preempt ns) = set ns"
      by (auto simp: cluster_laws_def demo_cluster_def demo_preempt_def demo_cycle_def demo_api_def
          split: list.splits)
    from pre_postfilter_nominates [OF demo_postfilter this] show ?thesis by blast
  qed
  then show ?thesis by (auto simp: demo_cluster_def demo_node_def)
qed

section \<open>Disruption budgets\<close>

text \<open>C9: filterPodsWithPDBViolation partitions the pods, keeping their order, and the pods it calls
  non-violating respect every budget: those charged to one are at most the disruptions it still
  allows. The bound holds as long as the 32-bit counter of the budget cannot wrap.\<close>

theorem pre_budgets_respected:
  assumes "filterPodsWithPDBViolation S pods pdbs = (vs, ns)" and "i < length pdbs"
    and "int (length pods) \<le> sint (pdbDisruptionsAllowed (pdbs ! i)) + 2147483648"
  shows "subseq vs pods \<and> subseq ns pods \<and> mset vs + mset ns = mset pods \<and>
    int (length (filter (charged S (pdbs ! i)) ns)) \<le> max 0 (sint (pdbDisruptionsAllowed (pdbs ! i)))"
  using filterPDB_split [OF assms(1)]
    pods_loop_budget [of pdbs "map pdbDisruptionsAllowed pdbs" i pods S] assms
  by (simp add: filterPodsWithPDBViolation_def)

definition demo_pdb :: "(string \<times> string) list pdb" where
  "demo_pdb = \<lparr>pdbNamespace = ''a'', pdbSelector = [(''app'', ''x'')], pdbDisruptionsAllowed = 1,
     pdbDisruptedPods = []\<rparr>"

definition demo_labelled :: "string \<Rightarrow> int pod" where
  "demo_labelled u = (demo_pod ''a'' u 500 0)\<lparr>podLabels := [(''app'', ''x'')]\<rparr>"

lemma demo_filter:
  "filterPodsWithPDBViolation (selectors demo_preempt) [demo_labelled ''a1'', demo_labelled ''a2''] [demo_pdb]
     = ([demo_labelled ''a2''], [demo_labelled ''a1''])"
  by code_simp

theorem pre_budgets_respected_witness:
  "length (filter (charged (selectors demo_preempt) demo_pdb) [demo_labelled ''a1'']) \<le> 1"
  using pre_budgets_respected [OF demo_filter, of 0] by (simp add: demo_pdb_def)

end
