(* ===== verification/PodGroupUtil.thy ===== *)
theory PodGroupUtil
  imports SchedulingApi
begin

text \<open>
  \<^verbatim>\<open>pkg/util/podgroup.go\<close> and \<^verbatim>\<open>constants.go\<close>: how a pod names its group, how long
  a pod of a group waits, and the patch between two versions of an object. A duration is a
  64-bit number of nanoseconds; JSON and strategic merge patches are parameters.
\<close>

definition PodGroupLabel :: string where
  "PodGroupLabel = ''pod-group.scheduling.sigs.k8s.io''"

definition ErrorNotMatched :: error where "ErrorNotMatched = Err ''not match coscheduling''"
definition ErrorWaiting :: error where "ErrorWaiting = Err ''waiting''"
definition ErrorResourceNotEnough :: error where
  "ErrorResourceNotEnough = Err ''resource not enough''"

definition Second :: i64 where "Second = 1000000000"

definition DefaultWaitTime :: i64 where "DefaultWaitTime = 60 * Second"

definition GetPodGroupLabel :: "'q pod \<Rightarrow> string" where
  "GetPodGroupLabel pod = mget '''' (podLabels pod) PodGroupLabel"

definition GetPodGroupFullName :: "'q pod \<Rightarrow> string" where
  "GetPodGroupFullName pod =
     (let label = GetPodGroupLabel pod
      in if length label = 0 then '''' else podNamespace pod @ ''/'' @ label)"

definition CreateMergePatch ::
  "('o \<Rightarrow> error + string) \<Rightarrow> (string \<Rightarrow> string \<Rightarrow> 'o \<Rightarrow> error + string) \<Rightarrow> 'o \<Rightarrow> 'o \<Rightarrow> error + string"
where
  "CreateMergePatch marshal twoWayMergePatch original new =
     (case marshal original of
        Inl err \<Rightarrow> Inl err
      | Inr pvByte \<Rightarrow>
          (case marshal new of
             Inl err \<Rightarrow> Inl err
           | Inr cloneByte \<Rightarrow>
               (case twoWayMergePatch pvByte cloneByte original of
                  Inl err \<Rightarrow> Inl err
                | Inr patch \<Rightarrow> Inr patch)))"

text \<open>The second condition is a disjunction: its right operand is only evaluated, and the
  pointer only read, when the pointer is nil.\<close>

definition GetWaitTimeDuration :: "'q pod_group option \<Rightarrow> i64 option \<Rightarrow> error + i64" where
  "GetWaitTimeDuration pg scheduleTimeout =
     (case Option.bind pg (\<lambda>pg. ScheduleTimeoutSeconds (pgSpec pg)) of
        Some seconds \<Rightarrow> Inr (to_i64 seconds * Second)
      | None \<Rightarrow>
          (case (if scheduleTimeout \<noteq> None then Inr True
                 else case scheduleTimeout of
                        None \<Rightarrow> Inl (Panic ''nil pointer dereference'')
                      | Some t \<Rightarrow> Inr (t \<noteq> 0)) of
             Inl err \<Rightarrow> Inl err
           | Inr True \<Rightarrow>
               (case scheduleTimeout of
                  None \<Rightarrow> Inl (Panic ''nil pointer dereference'')
                | Some t \<Rightarrow> Inr t)
           | Inr False \<Rightarrow> Inr DefaultWaitTime))"

lemma GetPodGroupFullName_eq:
  "GetPodGroupFullName pod =
     (if GetPodGroupLabel pod = '''' then '''' else podNamespace pod @ ''/'' @ GetPodGroupLabel pod)"
  by (simp add: GetPodGroupFullName_def)

lemma GetPodGroupFullName_empty [simp]: "GetPodGroupFullName pod = '''' \<longleftrightarrow> GetPodGroupLabel pod = ''''"
  by (simp add: GetPodGroupFullName_eq)

lemma GetWaitTimeDuration_Some [simp]:
  "GetWaitTimeDuration pg (Some t) =
     Inr (case Option.bind pg (\<lambda>pg. ScheduleTimeoutSeconds (pgSpec pg)) of
            Some seconds \<Rightarrow> to_i64 seconds * Second | None \<Rightarrow> t)"
  by (simp add: GetWaitTimeDuration_def split: option.split)

lemma sint_wait_seconds: "sint (to_i64 s * Second) = sint s * 1000000000"
proof -
  have "sint (1000000000 :: i64) = 1000000000" by simp
  then show ?thesis
    using sint32_bounds [of s] by (simp add: Second_def sint64_mul)
qed

end
