(* ===== verification/PodGroupManager.thy ===== *)
theory PodGroupManager
  imports PodGroupUtil Complex_Main
begin

text \<open>
  \<^verbatim>\<open>pkg/coscheduling/core/core.go\<close>. The manager's state is the informer's store of pod
  groups (whose objects PostBind updates in place, so an object is named by its key) and two
  go-cache stores with expiring keys, which are a parameter. What a call sees of the cluster,
  the pod lister and the node snapshot, is an argument of the call. \<open>now\<close> is the time.
\<close>

section \<open>The interface\<close>

record ('q, 'c, 'w) pgm_api = "'q kube_api" +
  cache_new :: "i64 \<Rightarrow> i64 \<Rightarrow> 'c"
  cache_get :: "'c \<Rightarrow> int \<Rightarrow> string \<Rightarrow> bool"
  cache_add :: "'c \<Rightarrow> int \<Rightarrow> string \<Rightarrow> i64 \<Rightarrow> 'c"
  cache_delete :: "'c \<Rightarrow> string \<Rightarrow> 'c"
  marshal_pg :: "'q pod_group \<Rightarrow> error + string"
  merge_pg :: "string \<Rightarrow> string \<Rightarrow> 'q pod_group \<Rightarrow> error + string"
  patch_pg :: "'w \<Rightarrow> string \<Rightarrow> string \<Rightarrow> string \<Rightarrow> error option \<times> 'w"

record 'q cluster_view =
  pods_list :: "string \<Rightarrow> (string, string) gomap \<Rightarrow> error + 'q pod list"
  nodes_list :: "error + 'q node_info list"

text \<open>
  go-cache, as documented: \<^verbatim>\<open>Add\<close> stores a key that is absent or expired until the time
  plus the duration and otherwise does nothing (its error is dropped here); \<^verbatim>\<open>Delete\<close>
  removes a key; other keys are not concerned.
\<close>

definition cache_laws :: "('q, 'c, 'w, 'z) pgm_api_scheme \<Rightarrow> bool" where
  "cache_laws K \<longleftrightarrow>
     (\<forall>c now k d t. \<not> cache_get K c now k \<longrightarrow> 0 < sint d \<longrightarrow> now \<le> t \<longrightarrow>
        cache_get K (cache_add K c now k d) t k = (t \<le> now + sint d)) \<and>
     (\<forall>c now k d t. cache_get K c now k \<longrightarrow>
        cache_get K (cache_add K c now k d) t k = cache_get K c t k) \<and>
     (\<forall>c now k d t k'. k' \<noteq> k \<longrightarrow> cache_get K (cache_add K c now k d) t k' = cache_get K c t k') \<and>
     (\<forall>c k t. \<not> cache_get K (cache_delete K c k) t k) \<and>
     (\<forall>c k t k'. k' \<noteq> k \<longrightarrow> cache_get K (cache_delete K c k) t k' = cache_get K c t k')"

section \<open>The manager\<close>

record ('q, 'c) pg_manager =
  pgmScheduleTimeout :: i64
  lastDeniedPG :: 'c
  permittedPG :: 'c
  lastDeniedPGExpirationTime :: i64
  pgStore :: "(string, 'q pod_group) gomap"

definition NewPodGroupManager ::
  "('q, 'c, 'w, 'z) pgm_api_scheme \<Rightarrow> i64 \<Rightarrow> i64 \<Rightarrow> (string, 'q pod_group) gomap \<Rightarrow> ('q, 'c) pg_manager"
where
  "NewPodGroupManager K scheduleTimeout deniedPGExpirationTime pgs =
     \<lparr>pgmScheduleTimeout = scheduleTimeout, lastDeniedPG = cache_new K (3 * Second) (3 * Second),
      permittedPG = cache_new K (3 * Second) (3 * Second),
      lastDeniedPGExpirationTime = deniedPGExpirationTime, pgStore = pgs\<rparr>"

text \<open>\<^verbatim>\<open>pgLister.PodGroups(ns).Get(name)\<close> on the informer's store, whose reads do not fail.\<close>

definition pgm_Get :: "('q, 'c) pg_manager \<Rightarrow> string \<Rightarrow> string \<Rightarrow> error + 'q pod_group" where
  "pgm_Get s = podGroup_Get (\<lambda>key. Inr (map_of (pgStore s) key))"

definition GetPodGroup :: "('q, 'c) pg_manager \<Rightarrow> 'q pod \<Rightarrow> string \<times> 'q pod_group option" where
  "GetPodGroup s pod =
     (let label = GetPodGroupLabel pod
      in if length label = 0 then ('''', None)
         else case pgm_Get s (podNamespace pod) label of
                Inl err \<Rightarrow> (podNamespace pod @ ''/'' @ label, None)
              | Inr pg \<Rightarrow> (podNamespace pod @ ''/'' @ label, Some pg))"

definition GetCreationTimestamp :: "('q, 'c) pg_manager \<Rightarrow> 'q pod \<Rightarrow> int \<Rightarrow> int" where
  "GetCreationTimestamp s pod ts =
     (let label = GetPodGroupLabel pod
      in if length label = 0 then ts
         else case pgm_Get s (podNamespace pod) label of
                Inl err \<Rightarrow> ts
              | Inr pg \<Rightarrow> pgCreation pg)"

definition AddDeniedPodGroup ::
  "('q, 'c, 'w, 'z) pgm_api_scheme \<Rightarrow> int \<Rightarrow> ('q, 'c) pg_manager \<Rightarrow> string \<Rightarrow> ('q, 'c) pg_manager"
where
  "AddDeniedPodGroup K now s pgFullName =
     s\<lparr>lastDeniedPG := cache_add K (lastDeniedPG s) now pgFullName (lastDeniedPGExpirationTime s)\<rparr>"

definition DeletePermittedPodGroup ::
  "('q, 'c, 'w, 'z) pgm_api_scheme \<Rightarrow> ('q, 'c) pg_manager \<Rightarrow> string \<Rightarrow> ('q, 'c) pg_manager"
where
  "DeletePermittedPodGroup K s pgFullName =
     s\<lparr>permittedPG := cache_delete K (permittedPG s) pgFullName\<rparr>"

definition PatchPodGroup ::
  "('q, 'c, 'w, 'z) pgm_api_scheme \<Rightarrow> 'w \<Rightarrow> string \<Rightarrow> string \<Rightarrow> string \<Rightarrow> error option \<times> 'w"
where
  "PatchPodGroup K w name ns patch =
     (if length patch = 0 then (None, w) else patch_pg K w ns name patch)"

definition CalculateAssignedPods :: "'q cluster_view \<Rightarrow> string \<Rightarrow> string \<Rightarrow> nat" where
  "CalculateAssignedPods V podGroupName ns =
     (case nodes_list V of
        Inl err \<Rightarrow> 0
      | Inr nodeInfos \<Rightarrow>
          fold (\<lambda>nodeInfo count.
              fold (\<lambda>pod count.
                  if mget '''' (podLabels pod) PodGroupLabel = podGroupName \<and> podNamespace pod = ns
                     \<and> podNodeName pod \<noteq> '''' then count + 1 else count)
                (niPods nodeInfo) count)
            nodeInfos 0)"

definition GetNamespacedName :: "'q pod \<Rightarrow> string" where
  "GetNamespacedName pod = podNamespace pod @ ''/'' @ podName pod"

section \<open>The resources left for a group\<close>

text \<open>The node is counted without the group's own pods; a removal that fails leaves the copy as it
  is. \<^verbatim>\<open>klog\<close> reads the node's name, so a missing node would panic: the caller has checked.\<close>

definition getNodeResource ::
  "('q, 'z) kube_api_scheme \<Rightarrow> 'q node_info \<Rightarrow> string \<Rightarrow> resource"
where
  "getNodeResource K info desiredPodGroupName =
     (let nodeClone = fold (\<lambda>pod n.
            if GetPodGroupFullName pod \<noteq> desiredPodGroupName then n
            else case ni_remove K n pod of Inl err \<Rightarrow> n | Inr n' \<Rightarrow> n')
            (niPods info) info;
          allocatable = niAllocatable nodeClone;
          requested = niRequested nodeClone
      in zero_resource
           \<lparr>AllowedPodNumber := AllowedPodNumber allocatable - of_nat (length (niPods nodeClone)),
            MilliCPU := MilliCPU allocatable - MilliCPU requested,
            Memory := Memory allocatable - Memory requested,
            EphemeralStorage := EphemeralStorage allocatable - EphemeralStorage requested,
            ScalarResources := map (\<lambda>(k, allocatableEx).
              case map_of (ScalarResources requested) k of
                None \<Rightarrow> (k, allocatableEx)
              | Some requestEx \<Rightarrow> (k, allocatableEx - requestEx)) (ScalarResources allocatable)\<rparr>)"

text \<open>One node of CheckClusterResource: the range loop visits every name once, deletes the
  satisfied ones and stores what the others still lack.\<close>

fun subtract_node ::
  "('q, 'z) kube_api_scheme \<Rightarrow> 'q resource_list \<Rightarrow> 'q resource_list \<Rightarrow> 'q resource_list"
where
  "subtract_node K nodeResource [] = []"
| "subtract_node K nodeResource ((name, quant) # req) =
     (let quant = q_sub K quant (mget (q_zero K) nodeResource name)
      in if q_sign K quant \<le> 0 then subtract_node K nodeResource req
         else (name, quant) # subtract_node K nodeResource req)"

fun CheckClusterResource ::
  "('q, 'z) kube_api_scheme \<Rightarrow> 'q node_info list \<Rightarrow> 'q resource_list \<Rightarrow> string \<Rightarrow> error option"
where
  "CheckClusterResource K [] req name = Some (Err ''resource gap'')"
| "CheckClusterResource K (info # nodeList) req name =
     (if niNode info = None then CheckClusterResource K nodeList req name
      else
        let req = subtract_node K (res_list K (getNodeResource K info name)) req
        in if length req = 0 then None else CheckClusterResource K nodeList req name)"

section \<open>PreFilter, Permit and PostBind\<close>

definition pgm_PreFilter ::
  "('q, 'c, 'w, 'z) pgm_api_scheme \<Rightarrow> 'q cluster_view \<Rightarrow> int \<Rightarrow> ('q, 'c) pg_manager \<Rightarrow> 'q pod \<Rightarrow>
   error option \<times> ('q, 'c) pg_manager"
where
  "pgm_PreFilter K V now s pod =
     (case GetPodGroup s pod of
        (pgFullName, None) \<Rightarrow> (None, s)
      | (pgFullName, Some pg) \<Rightarrow>
          if cache_get K (lastDeniedPG s) now pgFullName then (Some (Err ''last failed in 3s, deny''), s)
          else
            (case pods_list V (podNamespace pod) [(PodGroupLabel, GetPodGroupLabel pod)] of
               Inl err \<Rightarrow> (Some (Err ''podLister list pods failed''), s)
             | Inr pods \<Rightarrow>
                 if int (length pods) < sint (MinMember (pgSpec pg)) then
                   (Some (Err ''cannot find enough sibling pods''), s)
                 else
                   (case MinResources (pgSpec pg) of
                      None \<Rightarrow> (None, s)
                    | Some minResources \<Rightarrow>
                        if cache_get K (permittedPG s) now pgFullName then (None, s)
                        else
                          (case nodes_list V of
                             Inl err \<Rightarrow> (Some err, s)
                           | Inr nodes \<Rightarrow>
                               let podQuantity = q_new K (to_i64 (MinMember (pgSpec pg)));
                                   minResources = mput ''pods'' podQuantity minResources
                               in case CheckClusterResource K nodes minResources pgFullName of
                                    Some err \<Rightarrow> (Some err, AddDeniedPodGroup K now s pgFullName)
                                  | None \<Rightarrow>
                                      (None, s\<lparr>permittedPG :=
                                         cache_add K (permittedPG s) now pgFullName (pgmScheduleTimeout s)\<rparr>)))))"

definition pgm_Permit ::
  "'q cluster_view \<Rightarrow> ('q, 'c) pg_manager \<Rightarrow> 'q pod \<Rightarrow> string \<Rightarrow> bool \<times> error option"
where
  "pgm_Permit V s pod node =
     (case GetPodGroup s pod of
        (pgFullName, pg) \<Rightarrow>
          if pgFullName = '''' then (True, Some ErrorNotMatched)
          else
            (case pg of
               None \<Rightarrow> (False, Some (Err ''PodGroup not found''))
             | Some pg \<Rightarrow>
                 let assigned = CalculateAssignedPods V (pgName pg) (pgNamespace pg);
                     ready = sint (of_nat assigned + 1 :: i32) \<ge> sint (MinMember (pgSpec pg))
                 in if ready then (True, None) else (False, Some ErrorWaiting)))"

text \<open>An update of an object of the store, in place.\<close>

definition update_status ::
  "string \<Rightarrow> (pg_status \<Rightarrow> pg_status) \<Rightarrow> ('q, 'c) pg_manager \<Rightarrow> ('q, 'c) pg_manager"
where
  "update_status key f s =
     (case map_of (pgStore s) key of
        None \<Rightarrow> s
      | Some pg \<Rightarrow> s\<lparr>pgStore := mput key (pg\<lparr>pgStatus := f (pgStatus pg)\<rparr>) (pgStore s)\<rparr>)"

definition pgm_PostBind ::
  "('q, 'c, 'w, 'z) pgm_api_scheme \<Rightarrow> int \<Rightarrow> ('q, 'c) pg_manager \<times> 'w \<Rightarrow> 'q pod \<Rightarrow> string \<Rightarrow>
   ('q, 'c) pg_manager \<times> 'w"
where
  "pgm_PostBind K now sw pod node =
     (case (sw, GetPodGroup (fst sw) pod) of
        ((s, w), (pgFullName, None)) \<Rightarrow> (s, w)
      | ((s, w), (pgFullName, Some pg)) \<Rightarrow>
          let status = (pgStatus pg)\<lparr>Scheduled := Scheduled (pgStatus pg) + 1\<rparr>;
              status =
                (if sint (Scheduled status) \<ge> sint (MinMember (pgSpec pg)) then
                   status\<lparr>Phase := PodGroupScheduled\<rparr>
                 else
                   let status = status\<lparr>Phase := PodGroupScheduling\<rparr>
                   in if ScheduleStartTime status = 0 then status\<lparr>ScheduleStartTime := now\<rparr> else status);
              pgCopy = pg\<lparr>pgStatus := status\<rparr>;
              setScheduled = update_status pgFullName (\<lambda>st. st\<lparr>Scheduled := Scheduled status\<rparr>)
          in if Phase (pgStatus pgCopy) \<noteq> Phase (pgStatus pg) then
               (case pgm_Get s (pgNamespace pgCopy) (pgName pgCopy) of
                  Inl err \<Rightarrow> (s, w)
                | Inr pg \<Rightarrow>
                    (case CreateMergePatch (marshal_pg K) (merge_pg K) pg pgCopy of
                       Inl err \<Rightarrow> (s, w)
                     | Inr patch \<Rightarrow>
                         (case PatchPodGroup K w (pgName pg) (pgNamespace pg) patch of
                            (Some err, w) \<Rightarrow> (s, w)
                          | (None, w) \<Rightarrow>
                              (setScheduled (update_status (pgNamespace pgCopy @ ''/'' @ pgName pgCopy)
                                 (\<lambda>st. st\<lparr>Phase := Phase status\<rparr>) s), w))))
             else (setScheduled s, w))"

text \<open>
  The interface \<^verbatim>\<open>core.Manager\<close> that the plugin calls, as a record of functions on a manager
  state \<open>'m\<close>, and its implementation by the pod group manager, whose state is paired with
  the API server's.
\<close>

record ('q, 'm) Manager =
  m_PreFilter :: "'q cluster_view \<Rightarrow> int \<Rightarrow> 'm \<Rightarrow> 'q pod \<Rightarrow> error option \<times> 'm"
  m_Permit :: "'q cluster_view \<Rightarrow> 'm \<Rightarrow> 'q pod \<Rightarrow> string \<Rightarrow> bool \<times> error option"
  m_PostBind :: "int \<Rightarrow> 'm \<Rightarrow> 'q pod \<Rightarrow> string \<Rightarrow> 'm"
  m_GetPodGroup :: "'m \<Rightarrow> 'q pod \<Rightarrow> string \<times> 'q pod_group option"
  m_GetCreationTimestamp :: "'m \<Rightarrow> 'q pod \<Rightarrow> int \<Rightarrow> int"
  m_AddDeniedPodGroup :: "int \<Rightarrow> 'm \<Rightarrow> string \<Rightarrow> 'm"
  m_DeletePermittedPodGroup :: "'m \<Rightarrow> string \<Rightarrow> 'm"
  m_CalculateAssignedPods :: "'q cluster_view \<Rightarrow> string \<Rightarrow> string \<Rightarrow> nat"

definition podGroupManager ::
  "('q, 'c, 'w, 'z) pgm_api_scheme \<Rightarrow> ('q, ('q, 'c) pg_manager \<times> 'w) Manager"
where
  "podGroupManager K =
     \<lparr>m_PreFilter = (\<lambda>V now m pod.
        let (err, s) = pgm_PreFilter K V now (fst m) pod in (err, (s, snd m))),
      m_Permit = (\<lambda>V m. pgm_Permit V (fst m)),
      m_PostBind = pgm_PostBind K,
      m_GetPodGroup = (\<lambda>m. GetPodGroup (fst m)),
      m_GetCreationTimestamp = (\<lambda>m. GetCreationTimestamp (fst m)),
      m_AddDeniedPodGroup = (\<lambda>now m name. (AddDeniedPodGroup K now (fst m) name, snd m)),
      m_DeletePermittedPodGroup = (\<lambda>m name. (DeletePermittedPodGroup K (fst m) name, snd m)),
      m_CalculateAssignedPods = CalculateAssignedPods\<rparr>"

section \<open>Lookups\<close>

lemma pgm_Get_eq [simp]:
  "pgm_Get s ns name = (case map_of (pgStore s) (ns @ ''/'' @ name) of
     None \<Rightarrow> Inl NotFound | Some pg \<Rightarrow> Inr pg)"
  by (simp add: pgm_Get_def podGroup_Get_def)

lemma GetPodGroup_eq:
  "GetPodGroup s pod = (GetPodGroupFullName pod,
     if GetPodGroupLabel pod = '''' then None else map_of (pgStore s) (GetPodGroupFullName pod))"
  by (simp add: GetPodGroup_def GetPodGroupFullName_eq Let_def split: option.split)

lemma GetPodGroup_frame [simp]:
  "GetPodGroup (AddDeniedPodGroup K now s name) = GetPodGroup s"
  "GetPodGroup (DeletePermittedPodGroup K s name) = GetPodGroup s"
  by (rule ext, simp add: GetPodGroup_eq AddDeniedPodGroup_def DeletePermittedPodGroup_def)+

lemma GetCreationTimestamp_eq:
  "GetCreationTimestamp s pod ts = (case snd (GetPodGroup s pod) of None \<Rightarrow> ts | Some pg \<Rightarrow> pgCreation pg)"
  by (simp add: GetCreationTimestamp_def GetPodGroup_def Let_def split: option.split)

text \<open>The pods of a group that have a node.\<close>

definition assigned_to :: "string \<Rightarrow> string \<Rightarrow> 'q pod \<Rightarrow> bool" where
  "assigned_to name ns pod \<longleftrightarrow>
     GetPodGroupLabel pod = name \<and> podNamespace pod = ns \<and> podNodeName pod \<noteq> ''''"

lemma CalculateAssignedPods_eq:
  "CalculateAssignedPods V name ns = (case nodes_list V of Inl err \<Rightarrow> 0
     | Inr nodes \<Rightarrow> length (filter (assigned_to name ns) (concat (map niPods nodes))))"
proof -
  have inner: "fold (\<lambda>pod count. if mget '''' (podLabels pod) PodGroupLabel = name \<and> podNamespace pod = ns
      \<and> podNodeName pod \<noteq> '''' then count + 1 else count) pods n = n + length (filter (assigned_to name ns) pods)"
    for pods :: "'a pod list" and n :: nat
    by (induction pods arbitrary: n) (auto simp: assigned_to_def GetPodGroupLabel_def)
  have outer: "fold (\<lambda>ni count. count + length (filter (assigned_to name ns) (niPods ni))) nodes n
      = n + length (filter (assigned_to name ns) (concat (map niPods nodes)))"
    for nodes :: "'a node_info list" and n
    by (induction nodes arbitrary: n) auto
  show ?thesis
    unfolding CalculateAssignedPods_def inner outer by (simp split: sum.split)
qed

section \<open>The denied groups\<close>

lemma cache_lawsD:
  assumes "cache_laws K"
  shows "\<not> cache_get K c now k \<Longrightarrow> 0 < sint d \<Longrightarrow> now \<le> t \<Longrightarrow>
      cache_get K (cache_add K c now k d) t k = (t \<le> now + sint d)"
    and "cache_get K c now k \<Longrightarrow> cache_get K (cache_add K c now k d) t k = cache_get K c t k"
    and "k' \<noteq> k \<Longrightarrow> cache_get K (cache_add K c now k d) t k' = cache_get K c t k'"
    and "\<not> cache_get K (cache_delete K c k) t k"
    and "k' \<noteq> k \<Longrightarrow> cache_get K (cache_delete K c k) t k' = cache_get K c t k'"
proof -
  note laws = assms [unfolded cache_laws_def]
  show "\<not> cache_get K c now k \<Longrightarrow> 0 < sint d \<Longrightarrow> now \<le> t \<Longrightarrow>
      cache_get K (cache_add K c now k d) t k = (t \<le> now + sint d)"
    by (rule laws [THEN conjunct1, rule_format])
  show "cache_get K c now k \<Longrightarrow> cache_get K (cache_add K c now k d) t k = cache_get K c t k"
    by (rule laws [THEN conjunct2, THEN conjunct1, rule_format])
  show "k' \<noteq> k \<Longrightarrow> cache_get K (cache_add K c now k d) t k' = cache_get K c t k'"
    by (rule laws [THEN conjunct2, THEN conjunct2, THEN conjunct1, rule_format])
  show "\<not> cache_get K (cache_delete K c k) t k"
    by (rule laws [THEN conjunct2, THEN conjunct2, THEN conjunct2, THEN conjunct1, rule_format])
  show "k' \<noteq> k \<Longrightarrow> cache_get K (cache_delete K c k) t k' = cache_get K c t k'"
    by (rule laws [THEN conjunct2, THEN conjunct2, THEN conjunct2, THEN conjunct2, rule_format])
qed

lemma pgm_PreFilter_denied:
  assumes "cache_get K (lastDeniedPG s) now (GetPodGroupFullName pod)"
    and "snd (GetPodGroup s pod) \<noteq> None"
  shows "\<exists>err. pgm_PreFilter K V now s pod = (Some err, s)"
  using assms by (auto simp: pgm_PreFilter_def GetPodGroup_eq split: option.splits if_splits)

section \<open>The cluster check\<close>

text \<open>Quantities are numbers: \<open>v\<close> reads one; \<open>Sub\<close> and \<open>Sign\<close> are those of the numbers.\<close>

definition quantity_laws :: "('q, 'z) kube_api_scheme \<Rightarrow> ('q \<Rightarrow> rat) \<Rightarrow> bool" where
  "quantity_laws K v \<longleftrightarrow> v (q_zero K) = 0 \<and> (\<forall>a b. v (q_sub K a b) = v a - v b) \<and>
     (\<forall>a. q_sign K a \<le> 0 \<longleftrightarrow> v a \<le> 0)"

definition left_on ::
  "('q, 'z) kube_api_scheme \<Rightarrow> ('q \<Rightarrow> rat) \<Rightarrow> string \<Rightarrow> string \<Rightarrow> 'q node_info \<Rightarrow> rat"
where
  "left_on K v grp name info = v (mget (q_zero K) (res_list K (getNodeResource K info grp)) name)"

abbreviation usable :: "'q node_info list \<Rightarrow> 'q node_info list" where
  "usable nodes \<equiv> filter (\<lambda>i. niNode i \<noteq> None) nodes"

lemma set_subtract_node:
  assumes "quantity_laws K v"
  shows "set (subtract_node K nr req) = {(n, q_sub K q (mget (q_zero K) nr n)) |n q.
    (n, q) \<in> set req \<and> v q > v (mget (q_zero K) nr n)}"
proof -
  have "subtract_node K nr req = map (\<lambda>(n, q). (n, q_sub K q (mget (q_zero K) nr n)))
      (filter (\<lambda>(n, q). v q > v (mget (q_zero K) nr n)) req)"
    using assms by (induction req) (auto simp: quantity_laws_def Let_def)
  then show ?thesis by (auto simp: image_iff)
qed

lemma CheckClusterResource_iff:
  assumes Q: "quantity_laws K v"
    and "\<And>i n. i \<in> set (usable nodes) \<Longrightarrow> 0 \<le> left_on K v grp n i"
  shows "CheckClusterResource K nodes req grp = None \<longleftrightarrow>
    usable nodes \<noteq> [] \<and> (\<forall>(n, q) \<in> set req. v q \<le> (\<Sum>i \<leftarrow> usable nodes. left_on K v grp n i))"
  using assms(2)
proof (induction nodes arbitrary: req)
  case Nil
  then show ?case by simp
next
  case (Cons info nodes)
  show ?case
  proof (cases "niNode info")
    case None
    with Cons show ?thesis by simp
  next
    case (Some nd)
    let ?nr = "res_list K (getNodeResource K info grp)"
    let ?req = "subtract_node K ?nr req"
    let ?rest = "\<lambda>n. \<Sum>i \<leftarrow> usable nodes. left_on K v grp n i"
    have nonneg: "0 \<le> ?rest n" for n
      using Cons.prems by (intro sum_list_nonneg) auto
    have left: "0 \<le> left_on K v grp n info" for n
      using Cons.prems Some by simp
    have here: "v (mget (q_zero K) ?nr n) = left_on K v grp n info" for n
      by (simp add: left_on_def)
    have all: "(\<forall>(n, q) \<in> set ?req. v q \<le> ?rest n) \<longleftrightarrow>
        (\<forall>(n, q) \<in> set req. v q \<le> left_on K v grp n info + ?rest n)"
    proof (intro iffI ballI, clarify)
      fix n q assume A: "\<forall>(n, q) \<in> set ?req. v q \<le> ?rest n" and "(n, q) \<in> set req"
      show "v q \<le> left_on K v grp n info + ?rest n"
      proof (cases "v q > left_on K v grp n info")
        case True
        then have "(n, q_sub K q (mget (q_zero K) ?nr n)) \<in> set ?req"
          using \<open>(n, q) \<in> set req\<close> by (auto simp: set_subtract_node [OF Q] here)
        with A have "v (q_sub K q (mget (q_zero K) ?nr n)) \<le> ?rest n" by blast
        with Q here show ?thesis by (simp add: quantity_laws_def)
      next
        case False
        with nonneg [of n] show ?thesis by simp
      qed
    next
      fix x assume "\<forall>(n, q) \<in> set req. v q \<le> left_on K v grp n info + ?rest n" and "x \<in> set ?req"
      with Q here show "case x of (n, q) \<Rightarrow> v q \<le> ?rest n"
        by (fastforce simp: set_subtract_node [OF Q] quantity_laws_def)
    qed
    have some: "usable nodes \<noteq> []" if "?req \<noteq> []" and "\<forall>(n, q) \<in> set ?req. v q \<le> ?rest n"
    proof
      assume none: "usable nodes = []"
      obtain n q where nq: "(n, q) \<in> set ?req" using \<open>?req \<noteq> []\<close> by (cases ?req) auto
      then have "v q > 0" using Q by (auto simp: set_subtract_node [OF Q] quantity_laws_def)
      with nq that(2) none show False by fastforce
    qed
    have "CheckClusterResource K (info # nodes) req grp = None \<longleftrightarrow>
        ?req = [] \<or> CheckClusterResource K nodes ?req grp = None"
      using Some by (auto simp: Let_def)
    also have "\<dots> \<longleftrightarrow> (\<forall>(n, q) \<in> set ?req. v q \<le> ?rest n)"
      using Cons.IH [of ?req] Cons.prems some by auto
    finally show ?thesis using Some all by (simp add: add.commute)
  qed
qed

section \<open>Permit\<close>

lemma pgm_Permit_eq:
  "pgm_Permit V s pod node =
     (if GetPodGroupLabel pod = '''' then (True, Some ErrorNotMatched)
      else case snd (GetPodGroup s pod) of
             None \<Rightarrow> (False, Some (Err ''PodGroup not found''))
           | Some pg \<Rightarrow>
               if sint (MinMember (pgSpec pg))
                  \<le> sint (of_nat (CalculateAssignedPods V (pgName pg) (pgNamespace pg)) + 1 :: i32)
               then (True, None) else (False, Some ErrorWaiting))"
  unfolding pgm_Permit_def Let_def by (simp add: GetPodGroup_eq)

text \<open>The 32-bit sum is the number of pods as long as there are fewer than \<open>2 ^ 31\<close> - 1 of them.\<close>

lemma sint_assigned:
  assumes "n < 2147483647"
  shows "sint (of_nat n + 1 :: i32) = int n + 1"
proof -
  have "sint (of_nat n + 1 :: i32) = sint (word_of_int (int n + 1) :: i32)"
    by (simp add: of_nat_nat wi_hom_add [symmetric])
  also have "\<dots> = int n + 1" using assms by (subst sint32_of_int) simp_all
  finally show ?thesis .
qed

section \<open>PostBind\<close>

text \<open>A store whose objects are filed under their namespace and name.\<close>

definition wf_store :: "('q, 'c) pg_manager \<Rightarrow> bool" where
  "wf_store s \<longleftrightarrow> (\<forall>key pg. map_of (pgStore s) key = Some pg \<longrightarrow> key = pgNamespace pg @ ''/'' @ pgName pg)"

text \<open>Patches that can be computed, and an API server that accepts them.\<close>

definition patches_work :: "('q, 'c, 'w, 'z) pgm_api_scheme \<Rightarrow> bool" where
  "patches_work K \<longleftrightarrow> (\<forall>pg. \<exists>b. marshal_pg K pg = Inr b) \<and> (\<forall>a b pg. \<exists>p. merge_pg K a b pg = Inr p) \<and>
     (\<forall>w ns n p. fst (patch_pg K w ns n p) = None)"

lemma PatchPodGroup_works: "patches_work K \<Longrightarrow> \<exists>w'. PatchPodGroup K w n ns p = (None, w')"
  by (simp add: PatchPodGroup_def patches_work_def) (metis prod.collapse)

lemma CreateMergePatch_works:
  "patches_work K \<Longrightarrow> \<exists>p. CreateMergePatch (marshal_pg K) (merge_pg K) a b = Inr p"
  unfolding CreateMergePatch_def patches_work_def by (metis old.sum.simps(6))

lemma update_status_store:
  "map_of (pgStore (update_status key f s)) =
     (case map_of (pgStore s) key of None \<Rightarrow> map_of (pgStore s)
      | Some pg \<Rightarrow> (map_of (pgStore s))(key \<mapsto> pg\<lparr>pgStatus := f (pgStatus pg)\<rparr>))"
  by (simp add: update_status_def split: option.split)

text \<open>What one PostBind makes of the cached status when the patch is accepted. The start time is
  only in the patch, not in the cached object.\<close>

definition bound_status :: "i32 \<Rightarrow> pg_status \<Rightarrow> pg_status" where
  "bound_status minMember st = st
     \<lparr>Phase := (if sint minMember \<le> sint (Scheduled st + 1) then PodGroupScheduled else PodGroupScheduling),
      Scheduled := Scheduled st + 1\<rparr>"

lemma pgm_PostBind_store:
  assumes "patches_work K" and "wf_store s" and "snd (GetPodGroup s pod) = Some pg"
  shows "map_of (pgStore (fst (pgm_PostBind K now (s, w) pod node))) =
    (map_of (pgStore s))(GetPodGroupFullName pod \<mapsto>
       pg\<lparr>pgStatus := bound_status (MinMember (pgSpec pg)) (pgStatus pg)\<rparr>)"
proof -
  let ?key = "GetPodGroupFullName pod"
  have pg: "map_of (pgStore s) ?key = Some pg"
    using assms(3) by (simp add: GetPodGroup_eq split: if_splits)
  then have key: "pgNamespace pg @ ''/'' @ pgName pg = ?key"
    using assms(2) by (auto simp: wf_store_def)
  have get: "GetPodGroup s pod = (?key, Some pg)"
    using assms(3) by (simp add: GetPodGroup_eq)
  let ?min = "MinMember (pgSpec pg)" and ?st = "pgStatus pg"
  let ?phase = "if sint ?min \<le> sint (Scheduled ?st + 1) then PodGroupScheduled else PodGroupScheduling"
  define status where "status =
     (let status = ?st\<lparr>Scheduled := Scheduled ?st + 1\<rparr>
      in if sint (Scheduled status) \<ge> sint ?min then status\<lparr>Phase := PodGroupScheduled\<rparr>
         else let status = status\<lparr>Phase := PodGroupScheduling\<rparr>
              in if ScheduleStartTime status = 0 then status\<lparr>ScheduleStartTime := now\<rparr> else status)"
  have st: "Phase status = ?phase" "Scheduled status = Scheduled ?st + 1"
    by (simp_all add: status_def Let_def)
  have code: "pgm_PostBind K now (s, w) pod node =
    (let setScheduled = update_status ?key (\<lambda>st. st\<lparr>Scheduled := Scheduled status\<rparr>)
     in if Phase status \<noteq> Phase ?st then
          (case CreateMergePatch (marshal_pg K) (merge_pg K) pg (pg\<lparr>pgStatus := status\<rparr>) of
             Inl err \<Rightarrow> (s, w)
           | Inr patch \<Rightarrow>
               (case PatchPodGroup K w (pgName pg) (pgNamespace pg) patch of
                  (Some err, w) \<Rightarrow> (s, w)
                | (None, w) \<Rightarrow> (setScheduled (update_status ?key (\<lambda>st. st\<lparr>Phase := Phase status\<rparr>) s), w)))
        else (setScheduled s, w))"
    using pg key by (simp add: pgm_PostBind_def get status_def Let_def split: sum.split prod.split option.split)
  obtain p where p: "CreateMergePatch (marshal_pg K) (merge_pg K) pg (pg\<lparr>pgStatus := status\<rparr>) = Inr p"
    using CreateMergePatch_works [OF assms(1)] by blast
  obtain w' where w': "PatchPodGroup K w (pgName pg) (pgNamespace pg) p = (None, w')"
    using PatchPodGroup_works [OF assms(1)] by blast
  show ?thesis
    unfolding code by (simp add: p w' update_status_store pg st bound_status_def Let_def)
qed

text \<open>Any number of bindings of pods of one group.\<close>

lemma pgm_PostBind_wf:
  assumes "patches_work K" and "wf_store s"
  shows "wf_store (fst (pgm_PostBind K now (s, w) pod node))"
proof (cases "snd (GetPodGroup s pod)")
  case None
  then show ?thesis using assms(2) by (simp add: pgm_PostBind_def GetPodGroup_eq split: if_splits)
next
  case (Some pg)
  then have "map_of (pgStore s) (GetPodGroupFullName pod) = Some pg"
    by (simp add: GetPodGroup_eq split: if_splits)
  then show ?thesis
    using assms(2) unfolding wf_store_def pgm_PostBind_store [OF assms Some] by simp
qed

lemma PostBind_run:
  assumes "patches_work K" and "wf_store s" and "label \<noteq> ''''"
    and "\<forall>(now, pod, node) \<in> set bs. podNamespace pod = ns \<and> GetPodGroupLabel pod = label"
    and "map_of (pgStore s) (ns @ ''/'' @ label) = Some pg"
  shows "wf_store (fst (fold (\<lambda>(now, pod, node) sw. pgm_PostBind K now sw pod node) bs (s, w))) \<and>
    map_of (pgStore (fst (fold (\<lambda>(now, pod, node) sw. pgm_PostBind K now sw pod node) bs (s, w))))
      (ns @ ''/'' @ label)
      = Some (pg\<lparr>pgStatus := (bound_status (MinMember (pgSpec pg)) ^^ length bs) (pgStatus pg)\<rparr>)"
  using assms(4)
proof (induction bs rule: rev_induct)
  case Nil
  then show ?case using assms by simp
next
  case (snoc b bs)
  obtain now pod node where b: "b = (now, pod, node)" by (cases b)
  let ?run = "fold (\<lambda>(now, pod, node) sw. pgm_PostBind K now sw pod node) bs (s, w)"
  have pod: "GetPodGroupFullName pod = ns @ ''/'' @ label" "GetPodGroupLabel pod \<noteq> ''''"
    using snoc.prems assms(3) by (auto simp: b GetPodGroupFullName_eq)
  have IH: "wf_store (fst ?run)" "map_of (pgStore (fst ?run)) (ns @ ''/'' @ label)
      = Some (pg\<lparr>pgStatus := (bound_status (MinMember (pgSpec pg)) ^^ length bs) (pgStatus pg)\<rparr>)"
    using snoc by auto
  from IH(2) have get: "snd (GetPodGroup (fst ?run) pod)
      = Some (pg\<lparr>pgStatus := (bound_status (MinMember (pgSpec pg)) ^^ length bs) (pgStatus pg)\<rparr>)"
    by (simp add: GetPodGroup_eq pod)
  show ?case
    using pgm_PostBind_wf [OF assms(1) IH(1), of now "snd ?run" pod node]
      pgm_PostBind_store [OF assms(1) IH(1) get, of now "snd ?run" node]
    by (simp add: b pod)
qed

lemma bound_status_iterate:
  assumes "Scheduled st = 0" and "int n < 2147483648"
  shows "sint (Scheduled ((bound_status m ^^ n) st)) = int n \<and>
    (0 < n \<longrightarrow> Phase ((bound_status m ^^ n) st)
       = (if sint m \<le> int n then PodGroupScheduled else PodGroupScheduling))"
  using assms(2)
proof (induction n)
  case 0
  then show ?case by (simp add: assms(1))
next
  case (Suc n)
  then have "sint (Scheduled ((bound_status m ^^ n) st)) = int n" by simp
  then have "sint (Scheduled ((bound_status m ^^ n) st) + 1) = int n + 1"
    using Suc.prems by (subst sint32_add) simp_all
  then show ?case
    by (simp add: bound_status_def [of m "(bound_status m ^^ n) st"])
qed

section \<open>The interface the plugin relies on\<close>

text \<open>
  \<open>k\<close> is the environment, \<open>denied k m t name\<close> tells that the group is denied at time
  \<open>t\<close>, \<open>expiry k m\<close> how long a denial lasts.
\<close>

locale gang_manager =
  fixes valid :: "'k \<Rightarrow> bool"
    and mgr :: "'k \<Rightarrow> ('q, 'm) Manager"
    and denied :: "'k \<Rightarrow> 'm \<Rightarrow> int \<Rightarrow> string \<Rightarrow> bool"
    and expiry :: "'m \<Rightarrow> int"
  assumes group_name: "fst (m_GetPodGroup (mgr k) m pod) = GetPodGroupFullName pod"
    and group_label: "m_GetPodGroup (mgr k) m pod = (name, Some pg) \<Longrightarrow> GetPodGroupLabel pod \<noteq> ''''"
    and group_shared: "GetPodGroupFullName p = GetPodGroupFullName q \<Longrightarrow>
          m_GetPodGroup (mgr k) m p = m_GetPodGroup (mgr k) m q"
    and group_deny: "m_GetPodGroup (mgr k) (m_AddDeniedPodGroup (mgr k) now m name) = m_GetPodGroup (mgr k) m"
    and group_unpermit: "m_GetPodGroup (mgr k) (m_DeletePermittedPodGroup (mgr k) m name)
          = m_GetPodGroup (mgr k) m"
    and deny: "valid k \<Longrightarrow> \<not> denied k m now name \<Longrightarrow> 0 < expiry m \<Longrightarrow> now \<le> t \<Longrightarrow> t \<le> now + expiry m \<Longrightarrow>
          denied k (m_AddDeniedPodGroup (mgr k) now m name) t name"
    and denied_unpermit: "denied k (m_DeletePermittedPodGroup (mgr k) m name) = denied k m"
    and denied_prefilter: "denied k m t name \<Longrightarrow> m_GetPodGroup (mgr k) m pod = (name, Some pg) \<Longrightarrow>
          \<exists>err. m_PreFilter (mgr k) V t m pod = (Some err, m)"
    and permit_nogroup: "GetPodGroupLabel pod = '''' \<Longrightarrow>
          m_Permit (mgr k) V m pod node = (True, Some ErrorNotMatched)"
    and permit_missing: "GetPodGroupLabel pod \<noteq> '''' \<Longrightarrow> snd (m_GetPodGroup (mgr k) m pod) = None \<Longrightarrow>
          \<exists>err. m_Permit (mgr k) V m pod node = (False, Some err)"
    and permit_group: "m_GetPodGroup (mgr k) m pod = (name, Some pg) \<Longrightarrow>
          m_CalculateAssignedPods (mgr k) V (pgName pg) (pgNamespace pg) < 2147483647 \<Longrightarrow>
          m_Permit (mgr k) V m pod node =
            (if sint (MinMember (pgSpec pg)) \<le> int (m_CalculateAssignedPods (mgr k) V (pgName pg) (pgNamespace pg)) + 1
             then (True, None) else (False, Some ErrorWaiting))"
    and timestamp: "m_GetCreationTimestamp (mgr k) m pod ts =
          (case snd (m_GetPodGroup (mgr k) m pod) of None \<Rightarrow> ts | Some pg \<Rightarrow> pgCreation pg)"

lemma GetPodGroup_shared:
  assumes "GetPodGroupFullName p = GetPodGroupFullName q"
  shows "GetPodGroup s p = GetPodGroup s q"
  using assms GetPodGroupFullName_empty [of p] GetPodGroupFullName_empty [of q]
  by (simp add: GetPodGroup_eq del: GetPodGroupFullName_empty)

interpretation gang: gang_manager cache_laws podGroupManager
  "\<lambda>(K :: ('q, 'c, 'w, 'z) pgm_api_scheme) (m :: ('q, 'c) pg_manager \<times> 'w) t name.
     cache_get K (lastDeniedPG (fst m)) t name"
  "\<lambda>m. sint (lastDeniedPGExpirationTime (fst m))"
proof
  fix K :: "('q, 'c, 'w, 'z) pgm_api_scheme" and m :: "('q, 'c) pg_manager \<times> 'w"
    and pod p q :: "'q pod" and name node :: string and now t ts :: int and pg V
  show "fst (m_GetPodGroup (podGroupManager K) m pod) = GetPodGroupFullName pod"
    by (simp add: podGroupManager_def GetPodGroup_eq)
  show "m_GetPodGroup (podGroupManager K) m pod = (name, Some pg) \<Longrightarrow> GetPodGroupLabel pod \<noteq> ''''"
    by (simp add: podGroupManager_def GetPodGroup_eq split: if_splits)
  show "GetPodGroupFullName p = GetPodGroupFullName q \<Longrightarrow>
      m_GetPodGroup (podGroupManager K) m p = m_GetPodGroup (podGroupManager K) m q"
    unfolding podGroupManager_def by (simp, rule GetPodGroup_shared)
  show "m_GetPodGroup (podGroupManager K) (m_AddDeniedPodGroup (podGroupManager K) now m name)
      = m_GetPodGroup (podGroupManager K) m"
    "m_GetPodGroup (podGroupManager K) (m_DeletePermittedPodGroup (podGroupManager K) m name)
      = m_GetPodGroup (podGroupManager K) m"
    by (simp_all add: podGroupManager_def)
  show "cache_laws K \<Longrightarrow> \<not> cache_get K (lastDeniedPG (fst m)) now name \<Longrightarrow>
      0 < sint (lastDeniedPGExpirationTime (fst m)) \<Longrightarrow> now \<le> t \<Longrightarrow>
      t \<le> now + sint (lastDeniedPGExpirationTime (fst m)) \<Longrightarrow>
      cache_get K (lastDeniedPG (fst (m_AddDeniedPodGroup (podGroupManager K) now m name))) t name"
    by (simp add: podGroupManager_def AddDeniedPodGroup_def cache_lawsD(1))
  show "(\<lambda>t. cache_get K (lastDeniedPG (fst (m_DeletePermittedPodGroup (podGroupManager K) m name))) t)
      = (\<lambda>t. cache_get K (lastDeniedPG (fst m)) t)"
    by (simp add: podGroupManager_def DeletePermittedPodGroup_def)
  show "cache_get K (lastDeniedPG (fst m)) t name \<Longrightarrow>
      m_GetPodGroup (podGroupManager K) m pod = (name, Some pg) \<Longrightarrow>
      \<exists>err. m_PreFilter (podGroupManager K) V t m pod = (Some err, m)"
    using pgm_PreFilter_denied [of K "fst m" t pod V]
    by (auto simp: podGroupManager_def GetPodGroup_eq split: if_splits)
  show "GetPodGroupLabel pod = '''' \<Longrightarrow>
      m_Permit (podGroupManager K) V m pod node = (True, Some ErrorNotMatched)"
    by (simp add: podGroupManager_def pgm_Permit_eq)
  show "GetPodGroupLabel pod \<noteq> '''' \<Longrightarrow> snd (m_GetPodGroup (podGroupManager K) m pod) = None \<Longrightarrow>
      \<exists>err. m_Permit (podGroupManager K) V m pod node = (False, Some err)"
    by (simp add: podGroupManager_def pgm_Permit_eq)
  show "m_GetPodGroup (podGroupManager K) m pod = (name, Some pg) \<Longrightarrow>
      m_CalculateAssignedPods (podGroupManager K) V (pgName pg) (pgNamespace pg) < 2147483647 \<Longrightarrow>
      m_Permit (podGroupManager K) V m pod node =
        (if sint (MinMember (pgSpec pg))
            \<le> int (m_CalculateAssignedPods (podGroupManager K) V (pgName pg) (pgNamespace pg)) + 1
         then (True, None) else (False, Some ErrorWaiting))"
    by (auto simp: podGroupManager_def pgm_Permit_eq sint_assigned GetPodGroup_eq split: if_splits)
  show "m_GetCreationTimestamp (podGroupManager K) m pod ts =
      (case snd (m_GetPodGroup (podGroupManager K) m pod) of None \<Rightarrow> ts | Some pg \<Rightarrow> pgCreation pg)"
    by (simp add: podGroupManager_def GetCreationTimestamp_eq)
qed

end
