(* ===== verification/GoFloat.thy ===== *)
theory GoFloat
  imports Prelude Complex_Main "HOL-Library.Log_Nat"
begin

text \<open>
  Go's binary floating point: a value is a rational number, an infinity or NaN, and every
  operation rounds its exact result to the nearest representable value, ties to even. A
  format is its precision, its least exponent and the exponent at which it overflows. There
  is one zero: the sign of a zero only shows in a division by it, where it is taken as positive.
\<close>

section \<open>Rounding\<close>

text \<open>The exponent of a positive rational number: \<open>2 powi rlog2 x \<le> x < 2 powi (rlog2 x + 1)\<close>.\<close>

definition rlog2 :: "rat \<Rightarrow> int" where
  "rlog2 x =
     (let (n, d) = quotient_of x;
          k = int (floorlog 2 (nat n)) - int (floorlog 2 (nat d))
      in if 2 powi k \<le> x then k else k - 1)"

text \<open>The nearest integer, ties to even.\<close>

definition rne :: "rat \<Rightarrow> int" where
  "rne y =
     (let f = \<lfloor>y\<rfloor>; r = y - of_int f
      in if r < 1 / 2 then f else if r > 1 / 2 then f + 1 else if even f then f else f + 1)"

definition round_exp :: "nat \<Rightarrow> int \<Rightarrow> rat \<Rightarrow> int" where
  "round_exp p emin x = max (rlog2 x - int p + 1) emin"

definition round_pos :: "nat \<Rightarrow> int \<Rightarrow> rat \<Rightarrow> rat" where
  "round_pos p emin x = of_int (rne (x / 2 powi round_exp p emin x)) * 2 powi round_exp p emin x"

definition fl_round :: "nat \<Rightarrow> int \<Rightarrow> rat \<Rightarrow> rat" where
  "fl_round p emin x =
     (if x = 0 then 0 else if x > 0 then round_pos p emin x else - round_pos p emin (- x))"

section \<open>Values and operations\<close>

datatype gofloat = Fin rat | PInf | NInf | NaN

text \<open>Precision, least exponent, overflow exponent.\<close>

type_synonym float_format = "nat \<times> int \<times> int"

definition float64 :: float_format where "float64 = (53, -1074, 1024)"
definition float32 :: float_format where "float32 = (24, -149, 128)"

definition fl :: "float_format \<Rightarrow> rat \<Rightarrow> gofloat" where
  "fl F x =
     (case F of (p, emin, emax) \<Rightarrow>
        let r = fl_round p emin x
        in if r \<ge> 2 powi emax then PInf else if r \<le> - (2 powi emax) then NInf else Fin r)"

definition fl_of_int :: "float_format \<Rightarrow> int \<Rightarrow> gofloat" where
  "fl_of_int F i = fl F (of_int i)"

fun fl_neg :: "gofloat \<Rightarrow> gofloat" where
  "fl_neg (Fin x) = Fin (- x)"
| "fl_neg PInf = NInf"
| "fl_neg NInf = PInf"
| "fl_neg NaN = NaN"

fun fl_add :: "float_format \<Rightarrow> gofloat \<Rightarrow> gofloat \<Rightarrow> gofloat" where
  "fl_add F (Fin x) (Fin y) = fl F (x + y)"
| "fl_add F NaN b = NaN"
| "fl_add F a NaN = NaN"
| "fl_add F PInf NInf = NaN"
| "fl_add F NInf PInf = NaN"
| "fl_add F PInf b = PInf"
| "fl_add F NInf b = NInf"
| "fl_add F (Fin x) b = b"

definition fl_sub :: "float_format \<Rightarrow> gofloat \<Rightarrow> gofloat \<Rightarrow> gofloat" where
  "fl_sub F a b = fl_add F a (fl_neg b)"

text \<open>The sign of a value, for the results that are infinite.\<close>

definition fl_inf :: "bool \<Rightarrow> gofloat" where
  "fl_inf negative = (if negative then NInf else PInf)"

fun fl_mul :: "float_format \<Rightarrow> gofloat \<Rightarrow> gofloat \<Rightarrow> gofloat" where
  "fl_mul F (Fin x) (Fin y) = fl F (x * y)"
| "fl_mul F NaN b = NaN"
| "fl_mul F a NaN = NaN"
| "fl_mul F (Fin x) PInf = (if x = 0 then NaN else fl_inf (x < 0))"
| "fl_mul F (Fin x) NInf = (if x = 0 then NaN else fl_inf (x > 0))"
| "fl_mul F PInf (Fin y) = (if y = 0 then NaN else fl_inf (y < 0))"
| "fl_mul F NInf (Fin y) = (if y = 0 then NaN else fl_inf (y > 0))"
| "fl_mul F PInf PInf = PInf"
| "fl_mul F NInf NInf = PInf"
| "fl_mul F PInf NInf = NInf"
| "fl_mul F NInf PInf = NInf"

fun fl_div :: "float_format \<Rightarrow> gofloat \<Rightarrow> gofloat \<Rightarrow> gofloat" where
  "fl_div F (Fin x) (Fin y) =
     (if y = 0 then (if x = 0 then NaN else fl_inf (x < 0)) else fl F (x / y))"
| "fl_div F NaN b = NaN"
| "fl_div F a NaN = NaN"
| "fl_div F (Fin x) b = Fin 0"
| "fl_div F PInf (Fin y) = fl_inf (y < 0)"
| "fl_div F NInf (Fin y) = fl_inf (y \<ge> 0)"
| "fl_div F a b = NaN"

fun fl_lt :: "gofloat \<Rightarrow> gofloat \<Rightarrow> bool" where
  "fl_lt (Fin x) (Fin y) = (x < y)"
| "fl_lt NaN b = False"
| "fl_lt a NaN = False"
| "fl_lt a NInf = False"
| "fl_lt NInf b = True"
| "fl_lt PInf b = False"
| "fl_lt a PInf = True"

fun fl_le :: "gofloat \<Rightarrow> gofloat \<Rightarrow> bool" where
  "fl_le NaN b = False"
| "fl_le a NaN = False"
| "fl_le a b = (\<not> fl_lt b a)"

definition fl_eq :: "gofloat \<Rightarrow> gofloat \<Rightarrow> bool" where
  "fl_eq a b = (a = b \<and> a \<noteq> NaN)"

text \<open>\<^verbatim>\<open>math.Max\<close> and \<^verbatim>\<open>math.Min\<close> look at one infinity first, then at NaN.\<close>

definition math_Max :: "gofloat \<Rightarrow> gofloat \<Rightarrow> gofloat" where
  "math_Max a b =
     (if a = PInf \<or> b = PInf then PInf else if a = NaN \<or> b = NaN then NaN
      else if fl_lt b a then a else b)"

definition math_Min :: "gofloat \<Rightarrow> gofloat \<Rightarrow> gofloat" where
  "math_Min a b =
     (if a = NInf \<or> b = NInf then NInf else if a = NaN \<or> b = NaN then NaN
      else if fl_lt a b then a else b)"

text \<open>\<^verbatim>\<open>math.Round\<close>: half away from zero.\<close>

fun math_Round :: "gofloat \<Rightarrow> gofloat" where
  "math_Round (Fin x) = Fin (of_int (if x \<ge> 0 then \<lfloor>x + 1 / 2\<rfloor> else - \<lfloor>1 / 2 - x\<rfloor>))"
| "math_Round a = a"

text \<open>The conversion to int64 truncates; out of range Go leaves the value to the implementation,
  and the model takes the one of amd64.\<close>

definition int64_of_float :: "gofloat \<Rightarrow> i64" where
  "int64_of_float a =
     (case a of
        Fin x \<Rightarrow>
          let t = (if x \<ge> 0 then \<lfloor>x\<rfloor> else - \<lfloor>- x\<rfloor>)
          in if - 9223372036854775808 \<le> t \<and> t < 9223372036854775808 then word_of_int t
             else word_of_int (- 9223372036854775808)
      | _ \<Rightarrow> word_of_int (- 9223372036854775808))"

section \<open>The exponent\<close>

lemma rlog2_bounds:
  assumes "0 < x"
  shows "2 powi rlog2 x \<le> x" and "x < 2 powi (rlog2 x + 1)"
proof -
  obtain n d where q: "quotient_of x = (n, d)" by fastforce
  have d: "0 < d" and x: "x = of_int n / of_int d"
    using quotient_of_denom_pos [OF q] quotient_of_div [OF q] by auto
  have n: "0 < n" using assms d by (simp add: x zero_less_divide_iff)
  define a b where "a = floorlog 2 (nat n)" and "b = floorlog 2 (nat d)"
  have pos: "0 < a" "0 < b" using n d by (simp_all add: a_def b_def floorlog_def)
  have bounds: "(2::rat) ^ (floorlog 2 (nat m) - 1) \<le> of_int m" "of_int m < (2::rat) ^ floorlog 2 (nat m)"
    if "0 < m" for m
  proof -
    have "2 ^ (floorlog 2 (nat m) - 1) \<le> nat m \<and> nat m < 2 ^ floorlog 2 (nat m)"
      by (rule floorlog_bounds) (use that in simp_all)
    then have "int (2 ^ (floorlog 2 (nat m) - 1)) \<le> m" "m < int (2 ^ floorlog 2 (nat m))"
      using that by linarith+
    then show "(2::rat) ^ (floorlog 2 (nat m) - 1) \<le> of_int m" "of_int m < (2::rat) ^ floorlog 2 (nat m)"
      by (metis of_int_le_iff of_int_of_nat_eq of_nat_numeral of_nat_power,
          metis of_int_less_iff of_int_of_nat_eq of_nat_numeral of_nat_power)
  qed
  have pw: "(2::rat) ^ i / 2 ^ j = 2 powi (int i - int j)" for i j
    by (simp add: power_int_diff)
  have up: "x < 2 powi (int a - int b + 1)"
  proof -
    have "x < 2 ^ a / 2 ^ (b - 1)"
      unfolding x using bounds [OF n] bounds [OF d] d
      by (intro frac_less) (simp_all add: a_def b_def n less_imp_le)
    also have "\<dots> = 2 powi (int a - int (b - 1))" by (rule pw)
    also have "int a - int (b - 1) = int a - int b + 1" using pos by simp
    finally show ?thesis .
  qed
  have down: "2 powi (int a - int b - 1) \<le> x"
  proof -
    have "int a - int b - 1 = int (a - 1) - int b" using pos by simp
    then have "2 powi (int a - int b - 1) = (2::rat) ^ (a - 1) / 2 ^ b" by (simp only: pw)
    also have "\<dots> \<le> x"
      unfolding x using bounds [OF n] bounds [OF d] d n
      by (intro frac_le) (simp_all add: a_def b_def less_imp_le)
    finally show ?thesis .
  qed
  have e: "rlog2 x = (if 2 powi (int a - int b) \<le> x then int a - int b else int a - int b - 1)"
    by (simp add: rlog2_def q a_def b_def)
  show "2 powi rlog2 x \<le> x" "x < 2 powi (rlog2 x + 1)"
    using up down by (auto simp: e)
qed

lemma powi_mono2: "(2::rat) powi i \<le> 2 powi j \<longleftrightarrow> i \<le> j"
  using power_int_increasing [of i j "2::rat"] power_int_strict_increasing [of j i "2::rat"]
  by (cases "i \<le> j") auto

text \<open>An integer multiple of a power of two, scaled by a smaller one, is an integer.\<close>

lemma powi_scaled:
  assumes "e' \<le> e"
  shows "of_int m * 2 powi e / 2 powi e' = (of_int (m * 2 ^ nat (e - e')) :: rat)"
proof -
  have "(2::rat) powi e = 2 powi (e - e') * 2 powi e'"
    using power_int_add [of "2::rat" "e - e'" e'] by simp
  also have "(2::rat) powi (e - e') = 2 ^ nat (e - e')"
    using assms by (simp add: power_int_def)
  finally show ?thesis by simp
qed

section \<open>Rounding to the nearest integer\<close>

lemma rne_of_int [simp]: "rne (of_int n) = n"
  by (simp add: rne_def)

lemma rne_near: "\<lfloor>y\<rfloor> \<le> rne y" "rne y \<le> \<lfloor>y\<rfloor> + 1"
  by (simp_all add: rne_def Let_def)

lemma rne_mono:
  assumes "x \<le> y"
  shows "rne x \<le> rne y"
proof (cases "\<lfloor>x\<rfloor> = \<lfloor>y\<rfloor>")
  case True
  with assms show ?thesis by (auto simp: rne_def Let_def)
next
  case False
  then have "\<lfloor>x\<rfloor> + 1 \<le> \<lfloor>y\<rfloor>" using floor_mono [OF assms] by simp
  with rne_near [of x] rne_near [of y] show ?thesis by simp
qed

section \<open>Rounding is monotone and keeps representable values\<close>

lemma round_exp_mono:
  assumes "0 < x" and "x \<le> y"
  shows "rlog2 x \<le> rlog2 y"
proof -
  have "(2::rat) powi rlog2 x < 2 powi (rlog2 y + 1)"
    using rlog2_bounds(1) [OF assms(1)] rlog2_bounds(2) [of y] assms by simp
  then have "\<not> rlog2 y + 1 \<le> rlog2 x" by (simp flip: powi_mono2)
  then show ?thesis by simp
qed

lemma round_pos_mono:
  assumes "0 < p" and "0 < x" and "x \<le> y"
  shows "round_pos p emin x \<le> round_pos p emin y"
proof -
  let ?ex = "round_exp p emin x" and ?ey = "round_exp p emin y"
  have log: "rlog2 x \<le> rlog2 y" by (rule round_exp_mono [OF assms(2,3)])
  then have "?ex \<le> ?ey" by (simp add: round_exp_def)
  then consider "?ex = ?ey" | "?ex < ?ey" by linarith
  then show ?thesis
  proof cases
    case 1
    have "x / 2 powi ?ey \<le> y / 2 powi ?ey"
      using assms by (simp add: divide_right_mono)
    from rne_mono [OF this] 1 show ?thesis
      by (simp add: round_pos_def mult_right_mono)
  next
    case 2
    let ?B = "(2::rat) powi rlog2 y"
    have ey: "?ey = rlog2 y - int p + 1" and "rlog2 x < rlog2 y"
      using 2 log by (auto simp: round_exp_def max_def split: if_splits)
    then have "(2::rat) powi (rlog2 x + 1) \<le> ?B" by (simp add: powi_mono2)
    then have xB: "x \<le> ?B" using rlog2_bounds(2) [OF assms(2)] by simp
    have yB: "?B \<le> y" using rlog2_bounds(1) [of y] assms by simp
    have int: "?B / 2 powi e = of_int (2 ^ nat (rlog2 y - e))" if "e \<le> rlog2 y" for e
      using powi_scaled [OF that, of 1] by simp
    have "x / 2 powi ?ex \<le> ?B / 2 powi ?ex" "?B / 2 powi ?ey \<le> y / 2 powi ?ey"
      using xB yB by (simp_all add: divide_right_mono)
    moreover have "?ex \<le> rlog2 y" "?ey \<le> rlog2 y" using 2 ey assms(1) by simp_all
    ultimately have "of_int (rne (x / 2 powi ?ex)) \<le> ?B / 2 powi ?ex"
      "?B / 2 powi ?ey \<le> of_int (rne (y / 2 powi ?ey))"
      using rne_mono [of "x / 2 powi ?ex"] rne_mono [of "?B / 2 powi ?ey"]
      by (simp_all only: int of_int_le_iff) (metis rne_of_int)+
    then have "round_pos p emin x \<le> ?B" "?B \<le> round_pos p emin y"
      by (simp_all add: round_pos_def pos_le_divide_eq pos_divide_le_eq)
    then show ?thesis by simp
  qed
qed

lemma round_pos_exact:
  assumes "0 < m" and "m \<le> 2 ^ p" and "0 < p" and "emin \<le> e"
  shows "round_pos p emin (of_int m * 2 powi e) = of_int m * 2 powi e"
proof -
  let ?x = "of_int m * 2 powi e :: rat" and ?e = "round_exp p emin (of_int m * 2 powi e)"
  have pos: "0 < ?x" using assms by simp
  have "\<exists>n. ?x / 2 powi ?e = of_int n"
  proof (cases "?e \<le> e")
    case True
    then show ?thesis using powi_scaled by blast
  next
    case False
    then have e: "?e = rlog2 ?x - int p + 1" "e < rlog2 ?x - int p + 1"
      using assms(4) by (auto simp: round_exp_def max_def split: if_splits)
    have "(2::rat) powi rlog2 ?x \<le> of_int (2 ^ p) * 2 powi e"
      using rlog2_bounds(1) [OF pos] assms(2)
      by (meson mult_right_mono of_int_le_iff order_trans zero_le_power_int zero_le_numeral)
    also have "\<dots> = 2 powi (int p + e)"
      by (simp add: power_int_add)
    finally have "rlog2 ?x \<le> int p + e" by (simp add: powi_mono2)
    then have log: "rlog2 ?x = int p + e" using e by simp
    then have "of_int (2 ^ p) * 2 powi e \<le> ?x"
      using rlog2_bounds(1) [OF pos] by (simp add: power_int_add)
    then have "(2 ^ p :: rat) \<le> of_int m" by simp
    then have "m = 2 ^ p" using assms(2)
      by (metis of_int_le_iff of_int_numeral of_int_power order_antisym)
    then have "?x = of_int 1 * 2 powi (int p + e)" by (simp add: power_int_add)
    moreover have "?e \<le> int p + e" using e log assms(3) by simp
    ultimately show ?thesis using powi_scaled by metis
  qed
  then obtain n where n: "?x / 2 powi ?e = of_int n" by blast
  then have "of_int n * 2 powi ?e = ?x" by (simp add: field_simps flip: n)
  then show ?thesis by (simp add: round_pos_def n)
qed

lemma round_pos_ge_0: "0 < x \<Longrightarrow> 0 \<le> round_pos p emin x"
proof -
  assume "0 < x"
  then have "0 \<le> \<lfloor>x / 2 powi round_exp p emin x\<rfloor>" by simp
  with rne_near(1) [of "x / 2 powi round_exp p emin x"]
  have "0 \<le> rne (x / 2 powi round_exp p emin x)" by linarith
  then show ?thesis by (simp add: round_pos_def)
qed

lemma fl_round_mono:
  assumes "0 < p" and "x \<le> y"
  shows "fl_round p emin x \<le> fl_round p emin y"
  using round_pos_mono [OF assms(1), of x y emin] round_pos_mono [OF assms(1), of "- y" "- x" emin]
    round_pos_ge_0 [of y p emin] round_pos_ge_0 [of "- x" p emin] assms(2)
  by (auto simp: fl_round_def)

lemma fl_round_exact:
  assumes "\<bar>m\<bar> \<le> 2 ^ p" and "0 < p" and "emin \<le> e"
  shows "fl_round p emin (of_int m * 2 powi e) = of_int m * 2 powi e"
proof -
  consider "m = 0" | "0 < m" | "m < 0" by linarith
  then show ?thesis
  proof cases
    case 3
    then have "round_pos p emin (of_int (- m) * 2 powi e) = of_int (- m) * 2 powi e"
      using assms by (intro round_pos_exact) simp_all
    moreover have "of_int m * 2 powi e < (0::rat)" using 3 by (simp add: mult_less_0_iff)
    ultimately show ?thesis by (simp add: fl_round_def)
  qed (use assms in \<open>simp_all add: fl_round_def round_pos_exact\<close>)
qed

lemma fl_round_int:
  assumes "\<bar>m\<bar> \<le> 2 ^ p" and "0 < p" and "emin \<le> 0"
  shows "fl_round p emin (of_int m) = of_int m"
  using fl_round_exact [OF assms] by simp

end
