(* ===== verification/Coscheduling.thy ===== *)
theory Coscheduling
  imports PodGroupManager GoFloat "HOL-Library.List_Lexorder" "HOL-Library.Char_ord"
begin

text \<open>
  \<^verbatim>\<open>pkg/coscheduling/coscheduling.go\<close>: the gang scheduling plugin, over the interface
  \<^verbatim>\<open>core.Manager\<close> (\<open>M\<close>, with state \<open>m\<close>). The pods waiting at Permit are an
  argument; what a call does to them is the list of its verdicts, in iteration order.
\<close>

section \<open>The plugin\<close>

definition cos_Name :: string where "cos_Name = ''Coscheduling''"

definition getStateKey :: string where "getStateKey = ''Prefilter-'' @ cos_Name"

datatype cos_data = noopStateData | OtherData

fun noop_Clone :: "cos_data \<Rightarrow> cos_data" where
  "noop_Clone d = d"

definition NewNoopStateData :: cos_data where "NewNoopStateData = noopStateData"

datatype 'q verdict = RejectPod "'q pod" | AllowPod "'q pod"

record 'q queued_pod_info =
  qpPod :: "'q pod"
  qpInitialAttempt :: int

fun error_msg :: "error \<Rightarrow> string" where
  "error_msg (Err s) = s"
| "error_msg (Panic s) = s"

text \<open>Strings compare bytewise; times compare as instants.\<close>

definition cos_Less ::
  "('q, 'z) kube_api_scheme \<Rightarrow> ('q, 'm) Manager \<Rightarrow> 'm \<Rightarrow> 'q queued_pod_info \<Rightarrow> 'q queued_pod_info \<Rightarrow> bool"
where
  "cos_Less K M m podInfo1 podInfo2 =
     (let prio1 = pod_priority K (qpPod podInfo1);
          prio2 = pod_priority K (qpPod podInfo2)
      in if prio1 \<noteq> prio2 then sint prio1 > sint prio2
         else
           let creationTime1 = m_GetCreationTimestamp M m (qpPod podInfo1) (qpInitialAttempt podInfo1);
               creationTime2 = m_GetCreationTimestamp M m (qpPod podInfo2) (qpInitialAttempt podInfo2)
           in if creationTime1 = creationTime2 then
                GetNamespacedName (qpPod podInfo1) < GetNamespacedName (qpPod podInfo2)
              else creationTime1 < creationTime2)"

definition cos_PreFilter ::
  "('q, 'st, cos_data, 'z) cycle_api_scheme \<Rightarrow> ('q, 'm) Manager \<Rightarrow> 'q cluster_view \<Rightarrow> int \<Rightarrow> 'm \<times> 'st \<Rightarrow>
   'q pod \<Rightarrow> status \<times> 'm \<times> 'st"
where
  "cos_PreFilter K M V now ms pod =
     (case m_PreFilter M V now (fst ms) pod of
        (Some err, m) \<Rightarrow>
          (NewStatus Unschedulable (error_msg err), m, cs_write K (snd ms) getStateKey NewNoopStateData)
      | (None, m) \<Rightarrow> (NewStatus Success '''', m, snd ms))"

text \<open>The waiting pods of the pod's group, as PostFilter and Unreserve compare them.\<close>

definition reject_group :: "'q pod list \<Rightarrow> 'q pod \<Rightarrow> 'q pod_group \<Rightarrow> 'q verdict list" where
  "reject_group waiting pod pg =
     fold (\<lambda>waitingPod vs.
         if podNamespace waitingPod = podNamespace pod
            \<and> mget '''' (podLabels waitingPod) PodGroupLabel = pgName pg
         then vs @ [RejectPod waitingPod] else vs)
       waiting []"

definition cos_PostFilter ::
  "('q, 'st, cos_data, 'z) cycle_api_scheme \<Rightarrow> ('q, 'm) Manager \<Rightarrow> 'q cluster_view \<Rightarrow> int \<Rightarrow> 'q pod list \<Rightarrow>
   'm \<times> 'st \<Rightarrow> 'q pod \<Rightarrow> status \<times> 'm \<times> 'st \<times> 'q verdict list"
where
  "cos_PostFilter K M V now waiting ms pod =
     (let (m, st) = ms
      in case cs_read K st getStateKey of
           Inr _ \<Rightarrow> (NewStatus Unschedulable '''', m, cs_delete K st getStateKey, [])
         | Inl _ \<Rightarrow>
             (case m_GetPodGroup M m pod of
                (pgFullName, None) \<Rightarrow> (NewStatus Unschedulable ''can not find pod group'', m, st, [])
              | (pgFullName, Some pg) \<Rightarrow>
                  let assigned = m_CalculateAssignedPods M V (pgName pg) (podNamespace pod)
                  in if int assigned \<ge> sint (MinMember (pgSpec pg)) then
                       (NewStatus Unschedulable '''', m, st, [])
                     else
                       let notAssignedPercentage =
                             fl_div float32
                               (fl_of_int float32 (sint (MinMember (pgSpec pg)) - int assigned))
                               (fl_of_int float32 (sint (MinMember (pgSpec pg))))
                       in if fl_le notAssignedPercentage (fl float32 (1 / 10)) then
                            (NewStatus Unschedulable '''', m, st, [])
                          else
                            let verdicts = reject_group waiting pod pg;
                                m = m_AddDeniedPodGroup M now m pgFullName;
                                m = m_DeletePermittedPodGroup M m pgFullName
                            in (NewStatus Unschedulable ''PodGroup gets rejected due to Pod is unschedulable'',
                                m, st, verdicts)))"

definition cos_Permit ::
  "('q, 'm) Manager \<Rightarrow> 'q cluster_view \<Rightarrow> i64 \<Rightarrow> 'q pod list \<Rightarrow> 'm \<Rightarrow> 'q pod \<Rightarrow> string \<Rightarrow>
   error + status \<times> i64 \<times> 'q verdict list"
where
  "cos_Permit M V scheduleTimeout waiting m pod node =
     (let fullName = GetPodGroupFullName pod
      in if length fullName = 0 then Inr (NewStatus Success '''', 0, [])
         else
           let waitTime = scheduleTimeout
           in case m_Permit M V m pod node of
                (ready, Some err) \<Rightarrow>
                  (case m_GetPodGroup M m pod of
                     (_, None) \<Rightarrow>
                       Inr (NewStatus UnschedulableAndUnresolvable ''PodGroup not found'', waitTime, [])
                   | (_, Some pg) \<Rightarrow>
                       (case GetWaitTimeDuration (Some pg) (Some scheduleTimeout) of
                          Inl panic \<Rightarrow> Inl panic
                        | Inr wait \<Rightarrow>
                            let waitTime = (if wait \<noteq> 0 then wait else waitTime)
                            in if err = ErrorWaiting then Inr (NewStatus Wait '''', waitTime, [])
                               else Inr (NewStatus Unschedulable (error_msg err), waitTime, [])))
              | (ready, None) \<Rightarrow>
                  if \<not> ready then Inr (NewStatus Wait '''', waitTime, [])
                  else
                    Inr (NewStatus Success '''', 0,
                      fold (\<lambda>waitingPod vs.
                          if GetPodGroupFullName waitingPod = fullName then vs @ [AllowPod waitingPod] else vs)
                        waiting []))"

definition cos_Reserve :: "'m \<Rightarrow> 'q pod \<Rightarrow> string \<Rightarrow> status option" where
  "cos_Reserve m pod node = None"

definition cos_Unreserve ::
  "('q, 'm) Manager \<Rightarrow> int \<Rightarrow> 'q pod list \<Rightarrow> 'm \<Rightarrow> 'q pod \<Rightarrow> 'm \<times> 'q verdict list"
where
  "cos_Unreserve M now waiting m pod =
     (case m_GetPodGroup M m pod of
        (_, None) \<Rightarrow> (m, [])
      | (pgFullName, Some pg) \<Rightarrow>
          let verdicts = reject_group waiting pod pg;
              m = m_AddDeniedPodGroup M now m pgFullName;
              m = m_DeletePermittedPodGroup M m pgFullName
          in (m, verdicts))"

definition cos_PostBind :: "('q, 'm) Manager \<Rightarrow> int \<Rightarrow> 'm \<Rightarrow> 'q pod \<Rightarrow> string \<Rightarrow> 'm" where
  "cos_PostBind M now m pod node = m_PostBind M now m pod node"

definition rejectPod :: "'q pod list \<Rightarrow> string \<Rightarrow> 'q verdict list" where
  "rejectPod waiting uid =
     (case List.find (\<lambda>p. podUID p = uid) waiting of
        None \<Rightarrow> []
      | Some waitingPod \<Rightarrow> [RejectPod waitingPod])"

section \<open>Verdicts\<close>

lemma fold_filter: "fold (\<lambda>p vs. if P p then vs @ [f p] else vs) xs acc = acc @ map f (filter P xs)"
  by (induction xs arbitrary: acc) auto

lemma reject_group_eq:
  "reject_group waiting pod pg = map RejectPod
     (filter (\<lambda>p. podNamespace p = podNamespace pod \<and> GetPodGroupLabel p = pgName pg) waiting)"
  by (simp add: reject_group_def fold_filter GetPodGroupLabel_def)

section \<open>The ratio of PostFilter\<close>

lemma float32_tenth: "fl float32 (1 / 10) = Fin (13421773 / 134217728)"
  by code_simp

lemma fl_float32_int:
  assumes "\<bar>i\<bar> \<le> 2 ^ 24"
  shows "fl_of_int float32 i = Fin (of_int i)"
proof -
  have "rat_of_int \<bar>i\<bar> \<le> of_int (2 ^ 24)" using assms by (simp only: of_int_le_iff)
  then have "\<bar>rat_of_int i\<bar> < 2 ^ 128" by simp
  moreover have "fl_round 24 (- 149) (of_int i) = of_int i"
    using assms by (intro fl_round_int) simp_all
  ultimately show ?thesis
    by (simp add: fl_of_int_def fl_def float32_def Let_def abs_less_iff)
qed

text \<open>
  The comparison in single precision is the exact one: the constant is the float just above
  one tenth, and a quotient above one tenth with a denominator up to 11184810 is at least the
  next float.
\<close>

lemma ratio_le_tenth:
  assumes "0 < a" and "a \<le> b" and "b \<le> 11184810"
  shows "fl_le (fl_div float32 (fl_of_int float32 a) (fl_of_int float32 b)) (fl float32 (1 / 10))
    \<longleftrightarrow> 10 * a \<le> b"
proof -
  let ?q = "rat_of_int a / rat_of_int b" and ?r = "fl_round 24 (- 149) (rat_of_int a / rat_of_int b)"
  have b: "0 < rat_of_int b" using assms by simp
  have "?q \<le> 1" using assms by simp
  from fl_round_mono [OF _ this, of 24 "- 149"] have up: "?r \<le> 1"
    using fl_round_int [of 1 24 "- 149"] by simp
  have "0 \<le> ?q" using assms by simp
  from fl_round_mono [OF _ this, of 24 "- 149"] have low: "0 \<le> ?r"
    by (simp add: fl_round_def)
  have "fl_div float32 (fl_of_int float32 a) (fl_of_int float32 b) = fl float32 ?q"
    using assms by (simp add: fl_float32_int)
  also have "\<dots> = Fin ?r"
    using up low by (simp add: fl_def float32_def Let_def)
  finally have q: "fl_div float32 (fl_of_int float32 a) (fl_of_int float32 b) = Fin ?r" .
  have rep: "fl_round 24 (- 149) (rat_of_int m / 134217728) = rat_of_int m / 134217728"
    if "\<bar>m\<bar> \<le> 2 ^ 24" for m
    using fl_round_exact [OF that, of "- 149" "- 27"] by (simp add: field_simps)
  have "?r \<le> 13421773 / 134217728 \<longleftrightarrow> 10 * a \<le> b"
  proof
    assume "10 * a \<le> b"
    then have "rat_of_int (10 * a) \<le> rat_of_int b" by (simp only: of_int_le_iff)
    then have "?q \<le> 13421773 / 134217728" using b by (simp add: field_simps)
    from fl_round_mono [OF _ this, of 24 "- 149"] show "?r \<le> 13421773 / 134217728"
      using rep [of 13421773] by simp
  next
    assume r: "?r \<le> 13421773 / 134217728"
    show "10 * a \<le> b"
    proof (rule ccontr)
      assume "\<not> 10 * a \<le> b"
      then have "13421774 * b \<le> 134217728 * a" using assms by linarith
      then have "rat_of_int (13421774 * b) \<le> rat_of_int (134217728 * a)" by (simp only: of_int_le_iff)
      then have "13421774 / 134217728 \<le> ?q" using b by (simp add: field_simps)
      from fl_round_mono [OF _ this, of 24 "- 149"] have "13421774 / 134217728 \<le> ?r"
        using rep [of 13421774] by simp
      with r show False by simp
    qed
  qed
  then show ?thesis by (simp add: q float32_tenth not_less)
qed

section \<open>The order of the queue\<close>

text \<open>The order is the lexicographic one of priority (descending), group or pod time, and name.\<close>

lemma cos_Less_irrefl: "\<not> cos_Less K M m a a"
  by (simp add: cos_Less_def Let_def)

lemma cos_Less_trans: "cos_Less K M m a b \<Longrightarrow> cos_Less K M m b c \<Longrightarrow> cos_Less K M m a c"
  by (auto simp: cos_Less_def Let_def split: if_splits)

lemma cos_Less_total:
  "cos_Less K M m a b \<or> cos_Less K M m b a \<or>
     (pod_priority K (qpPod a) = pod_priority K (qpPod b) \<and>
      m_GetCreationTimestamp M m (qpPod a) (qpInitialAttempt a)
        = m_GetCreationTimestamp M m (qpPod b) (qpInitialAttempt b) \<and>
      GetNamespacedName (qpPod a) = GetNamespacedName (qpPod b))"
proof -
  have "sint (pod_priority K (qpPod a)) \<noteq> sint (pod_priority K (qpPod b))"
    if "pod_priority K (qpPod a) \<noteq> pod_priority K (qpPod b)"
    using that signed_word_eqI by blast
  then show ?thesis
    by (cases "pod_priority K (qpPod a) = pod_priority K (qpPod b)") (auto simp: cos_Less_def Let_def)
qed

lemma cos_Less_prio: "cos_Less K M m a b \<Longrightarrow> sint (pod_priority K (qpPod a)) \<ge> sint (pod_priority K (qpPod b))"
  by (auto simp: cos_Less_def Let_def split: if_splits)

section \<open>What the plugin does, for any manager that keeps the contract\<close>

context gang_manager begin

lemma less_between:
  assumes "GetPodGroupFullName (qpPod a) = GetPodGroupFullName (qpPod b)"
    and "snd (m_GetPodGroup (mgr k) m (qpPod a)) = Some pg"
    and "pod_priority K (qpPod a) = pod_priority K (qpPod b)"
    and "cos_Less K (mgr k) m a c" and "cos_Less K (mgr k) m c b"
  shows "pod_priority K (qpPod c) = pod_priority K (qpPod a) \<and>
    m_GetCreationTimestamp (mgr k) m (qpPod c) (qpInitialAttempt c) = pgCreation pg"
proof -
  have t: "m_GetCreationTimestamp (mgr k) m (qpPod a) (qpInitialAttempt a) = pgCreation pg"
    "m_GetCreationTimestamp (mgr k) m (qpPod b) (qpInitialAttempt b) = pgCreation pg"
    using assms(2) group_shared [OF assms(1)] by (simp_all add: timestamp)
  have "sint (pod_priority K (qpPod c)) = sint (pod_priority K (qpPod a))"
    using cos_Less_prio [OF assms(4)] cos_Less_prio [OF assms(5)] assms(3) by simp
  then have p: "pod_priority K (qpPod c) = pod_priority K (qpPod a)" by (rule signed_word_eqI)
  with assms(3-5) t show ?thesis by (auto simp: cos_Less_def Let_def split: if_splits)
qed

lemma permit_outcome:
  assumes "snd (m_GetPodGroup (mgr k) m pod) = Some pg"
    and "m_CalculateAssignedPods (mgr k) V (pgName pg) (pgNamespace pg) < 2147483647"
  shows "cos_Permit (mgr k) V timeout waiting m pod node = Inr
    (if sint (MinMember (pgSpec pg)) \<le> int (m_CalculateAssignedPods (mgr k) V (pgName pg) (pgNamespace pg)) + 1
     then (NewStatus Success '''', 0,
           map AllowPod (filter (\<lambda>p. GetPodGroupFullName p = GetPodGroupFullName pod) waiting))
     else (NewStatus Wait '''',
           case ScheduleTimeoutSeconds (pgSpec pg) of
             Some s \<Rightarrow> if s = 0 then timeout else to_i64 s * Second
           | None \<Rightarrow> timeout, []))"
proof -
  have g: "m_GetPodGroup (mgr k) m pod = (GetPodGroupFullName pod, Some pg)"
    using assms(1) group_name [of k m pod] by (cases "m_GetPodGroup (mgr k) m pod") auto
  have s: "to_i64 s * Second = 0 \<longleftrightarrow> s = 0" for s
  proof
    assume "to_i64 s * Second = 0"
    then have "sint s * 1000000000 = 0" using sint_wait_seconds [of s] by simp
    then have "sint s = sint (0 :: i32)" by simp
    then show "s = 0" by (rule signed_word_eqI)
  qed (simp add: to_i64_def)
  show ?thesis
    using group_label [OF g]
    by (auto simp: cos_Permit_def permit_group [OF g assms(2)] g fold_filter s Let_def
        split: option.split)
qed

lemma unreserve_outcome:
  assumes "snd (m_GetPodGroup (mgr k) m pod) = Some pg"
  shows "cos_Unreserve (mgr k) now waiting m pod =
    (m_DeletePermittedPodGroup (mgr k)
       (m_AddDeniedPodGroup (mgr k) now m (GetPodGroupFullName pod)) (GetPodGroupFullName pod),
     map RejectPod (filter (\<lambda>p. podNamespace p = podNamespace pod \<and> GetPodGroupLabel p = pgName pg) waiting))"
  using assms group_name [of k m pod]
  by (cases "m_GetPodGroup (mgr k) m pod") (auto simp: cos_Unreserve_def reject_group_eq)

text \<open>A group denied at \<open>now\<close> stays denied until the denial expires, for all its pods.\<close>

lemma denied_until:
  assumes "valid k" and "\<not> denied k m now (GetPodGroupFullName pod)" and "0 < expiry m"
    and "snd (m_GetPodGroup (mgr k) m pod) = Some pg"
    and "GetPodGroupFullName pod' = GetPodGroupFullName pod" and "now \<le> t" and "t \<le> now + expiry m"
    and m': "m' = m_DeletePermittedPodGroup (mgr k)
       (m_AddDeniedPodGroup (mgr k) now m (GetPodGroupFullName pod)) (GetPodGroupFullName pod)"
  shows "\<exists>err. cos_PreFilter K (mgr k) V t (m', st) pod'
    = (NewStatus Unschedulable err, m', cs_write K st getStateKey NewNoopStateData)"
proof -
  have "denied k m' t (GetPodGroupFullName pod)"
    unfolding m' denied_unpermit by (rule deny [OF assms(1-3,6,7)])
  moreover have "m_GetPodGroup (mgr k) m' pod' = (GetPodGroupFullName pod, Some pg)"
    using assms(4) group_name [of k m pod] group_shared [OF assms(5)]
    by (cases "m_GetPodGroup (mgr k) m pod") (auto simp: m' group_unpermit group_deny)
  ultimately obtain err where "m_PreFilter (mgr k) V t m' pod' = (Some err, m')"
    using denied_prefilter by blast
  then show ?thesis by (auto simp: cos_PreFilter_def)
qed

lemma postfilter_outcome:
  assumes "isl (cs_read K st getStateKey)"
    and "snd (m_GetPodGroup (mgr k) m pod) = Some pg"
    and a: "a = m_CalculateAssignedPods (mgr k) V (pgName pg) (podNamespace pod)"
    and "sint (MinMember (pgSpec pg)) \<le> 11184810"
  shows "let (s, m', st', vs) = cos_PostFilter K (mgr k) V now waiting (m, st) pod
    in stCode s = Unschedulable \<and> st' = st \<and>
       (m', vs) = (if 10 * (sint (MinMember (pgSpec pg)) - int a) \<le> max 0 (sint (MinMember (pgSpec pg)))
                   then (m, []) else cos_Unreserve (mgr k) now waiting m pod)"
proof -
  obtain err where st: "cs_read K st getStateKey = Inl err" using assms(1) by (auto simp: isl_def)
  have g: "m_GetPodGroup (mgr k) m pod = (GetPodGroupFullName pod, Some pg)"
    using assms(2) group_name [of k m pod] by (cases "m_GetPodGroup (mgr k) m pod") auto
  let ?n = "sint (MinMember (pgSpec pg))"
  show ?thesis
  proof (cases "int a \<ge> ?n")
    case True
    moreover have "10 * (?n - int a) \<le> max 0 ?n" using True by simp
    ultimately show ?thesis by (simp add: cos_PostFilter_def st g a [symmetric] NewStatus_def)
  next
    case False
    then have "fl_le (fl_div float32 (fl_of_int float32 (?n - int a)) (fl_of_int float32 ?n)) (fl float32 (1 / 10))
        \<longleftrightarrow> 10 * (?n - int a) \<le> ?n"
      using assms(4) by (intro ratio_le_tenth) simp_all
    with False show ?thesis
      by (auto simp: cos_PostFilter_def cos_Unreserve_def st g a [symmetric] NewStatus_def Let_def)
  qed
qed

end

end
