(* ===== verification/CoschedulingProperties.thy ===== *)
theory CoschedulingProperties
  imports Coscheduling DemoApi
begin

text \<open>The properties of gang scheduling, each with a witness at a concrete cluster.\<close>

section \<open>A concrete manager\<close>

text \<open>A cache is the map of its keys to their expiry; the API server counts the patches.\<close>

definition demo_pgm :: "(int, (string, int) gomap, nat) pgm_api" where
  "demo_pgm = demo_api
     \<lparr>cache_new = (\<lambda>_ _. []),
      cache_get = (\<lambda>c now k. case map_of c k of None \<Rightarrow> False | Some e \<Rightarrow> now \<le> e),
      cache_add = (\<lambda>c now k d. if (case map_of c k of None \<Rightarrow> False | Some e \<Rightarrow> now \<le> e) then c
                               else mput k (now + sint d) c),
      cache_delete = (\<lambda>c k. mdel k c),
      marshal_pg = (\<lambda>_. Inr ''{}''), merge_pg = (\<lambda>_ _ _. Inr ''{status}''),
      patch_pg = (\<lambda>w _ _ _. (None, w + 1))\<rparr>"

lemma demo_cache_laws: "cache_laws demo_pgm"
  by (auto simp: cache_laws_def demo_pgm_def demo_api_def split: option.splits)

lemma demo_patches: "patches_work demo_pgm"
  by (simp add: patches_work_def demo_pgm_def demo_api_def)

lemma demo_quantities: "quantity_laws demo_pgm of_int"
  by (simp add: quantity_laws_def demo_pgm_def sgn_if)

definition demo_group :: "i32 \<Rightarrow> int resource_list option \<Rightarrow> int pod_group" where
  "demo_group minMember minResources =
     \<lparr>pgName = ''g'', pgNamespace = ''ns'', pgCreation = 7,
      pgSpec = \<lparr>MinMember = minMember, MinResources = minResources, ScheduleTimeoutSeconds = Some 5\<rparr>,
      pgStatus = \<lparr>Phase = PodGroupPreScheduling, OccupiedBy = '''', Scheduled = 0, Running = 0,
        Succeeded = 0, Failed = 0, ScheduleStartTime = 0\<rparr>\<rparr>"

lemma demo_group_sel [simp]:
  "pgName (demo_group a r) = ''g''" "pgNamespace (demo_group a r) = ''ns''" "pgCreation (demo_group a r) = 7"
  "MinMember (pgSpec (demo_group a r)) = a" "MinResources (pgSpec (demo_group a r)) = r"
  "ScheduleTimeoutSeconds (pgSpec (demo_group a r)) = Some 5"
  by (simp_all add: demo_group_def)

definition demo_manager :: "int pod_group \<Rightarrow> (int, (string, int) gomap) pg_manager" where
  "demo_manager pg = NewPodGroupManager demo_pgm (10 * Second) (20 * Second) [(''ns/g'', pg)]"

definition demo_member :: "string \<Rightarrow> int pod" where
  "demo_member u = (demo_pod ''ns'' u 500 0)\<lparr>podLabels := [(PodGroupLabel, ''g'')]\<rparr>"

definition demo_worker :: "int pod list \<Rightarrow> int node_info" where
  "demo_worker pods =
     \<lparr>niNode = Some \<lparr>nodeName = ''n'', nodeAllocatable = [], nodeCapacity = []\<rparr>, niPods = pods,
      niAllocatable = zero_resource\<lparr>MilliCPU := 4000, AllowedPodNumber := 10\<rparr>,
      niRequested = zero_resource\<lparr>MilliCPU := 1000\<rparr>, niNonZero = zero_resource, niTransient = None\<rparr>"

definition demo_view :: "int pod list \<Rightarrow> int cluster_view" where
  "demo_view pods =
     \<lparr>pods_list = (\<lambda>ns sel. Inr pods), nodes_list = Inr [demo_worker pods]\<rparr>"

lemma demo_member_group: "GetPodGroupFullName (demo_member u) = ''ns/g''"
  by (simp add: demo_member_def GetPodGroupFullName_eq GetPodGroupLabel_def mget_Cons)

lemma demo_member_sel [simp]: "podNamespace (demo_member u) = ''ns''" "GetPodGroupLabel (demo_member u) = ''g''"
  by (simp_all add: demo_member_def GetPodGroupLabel_def mget_Cons)

lemma demo_get: "GetPodGroup (demo_manager pg) (demo_member u) = (''ns/g'', Some pg)"
  by (simp add: GetPodGroup_eq demo_member_group demo_manager_def NewPodGroupManager_def)

section \<open>Permit\<close>

text \<open>C11: the gang gate: a pod of an existing group passes Permit exactly when the pods of the
  group that already have a node, and the pod itself, reach MinMember; then every waiting pod of
  the group is let through, and no other. Otherwise the pod waits, for the group's timeout or,
  where that is absent or zero, the plugin's.\<close>

theorem cos_permit_gate:
  assumes "snd (GetPodGroup (fst m) pod) = Some pg" and "nodes_list V = Inr nodes"
    and "assigned = length (filter (assigned_to (pgName pg) (pgNamespace pg)) (concat (map niPods nodes)))"
    and "assigned < 2147483647"
  shows "cos_Permit (podGroupManager K) V timeout waiting m pod node = Inr
    (if sint (MinMember (pgSpec pg)) \<le> int assigned + 1
     then (NewStatus Success '''', 0,
           map AllowPod (filter (\<lambda>p. GetPodGroupFullName p = GetPodGroupFullName pod) waiting))
     else (NewStatus Wait '''',
           case ScheduleTimeoutSeconds (pgSpec pg) of
             Some s \<Rightarrow> if s = 0 then timeout else to_i64 s * Second
           | None \<Rightarrow> timeout, []))"
proof -
  have "m_CalculateAssignedPods (podGroupManager K) V (pgName pg) (pgNamespace pg) = assigned"
    using assms(2,3) by (simp add: podGroupManager_def CalculateAssignedPods_eq)
  moreover have "snd (m_GetPodGroup (podGroupManager K) m pod) = Some pg"
    using assms(1) by (simp add: podGroupManager_def)
  ultimately show ?thesis using gang.permit_outcome [of K m pod pg V] assms(4) by simp
qed

theorem cos_permit_gate_witness:
  "cos_Permit (podGroupManager demo_pgm) (demo_view [demo_member ''a'']) 9 [demo_member ''w'']
     (demo_manager (demo_group 2 None), 0) (demo_member ''p'') ''n''
   = Inr (NewStatus Success '''', 0, [AllowPod (demo_member ''w'')])"
proof -
  have "assigned_to ''g'' ''ns'' (demo_member ''a'')"
    by (simp add: assigned_to_def) (simp add: demo_member_def)
  then have n: "1 = length (filter (assigned_to (pgName (demo_group 2 None)) (pgNamespace (demo_group 2 None)))
      (concat (map niPods [demo_worker [demo_member ''a'']])))"
    by (simp add: demo_worker_def)
  have "nodes_list (demo_view [demo_member ''a'']) = Inr [demo_worker [demo_member ''a'']]"
    by (simp add: demo_view_def)
  then show ?thesis
    using cos_permit_gate [OF _ _ n, of "(demo_manager (demo_group 2 None), 0)" "demo_member ''p''"
        "demo_view [demo_member ''a'']" demo_pgm 9 "[demo_member ''w'']" "''n''"]
    by (simp add: demo_get demo_member_group)
qed

section \<open>Rejection of a group\<close>

text \<open>C12: when Unreserve gives up a pod of a group, every waiting pod of the group is rejected, and
  from then until the denial expires PreFilter rejects every pod of the group, whatever the
  cluster looks like, leaving the manager as it is and the marker for PostFilter in the cycle
  state.\<close>

theorem cos_unreserve_denies_group:
  assumes "cache_laws K" and "snd (GetPodGroup (fst m) pod) = Some pg"
    and "\<not> cache_get K (lastDeniedPG (fst m)) now (GetPodGroupFullName pod)"
    and "0 < sint (lastDeniedPGExpirationTime (fst m))"
    and "cos_Unreserve (podGroupManager K) now waiting m pod = (m', verdicts)"
    and "GetPodGroupFullName pod' = GetPodGroupFullName pod"
    and "now \<le> t" and "t \<le> now + sint (lastDeniedPGExpirationTime (fst m))"
  shows "verdicts = map RejectPod (filter (\<lambda>p. podNamespace p = podNamespace pod
           \<and> GetPodGroupLabel p = pgName pg) waiting) \<and>
    (\<exists>err. cos_PreFilter C (podGroupManager K) V t (m', st) pod'
       = (NewStatus Unschedulable err, m', cs_write C st getStateKey NewNoopStateData))"
proof -
  have g: "snd (m_GetPodGroup (podGroupManager K) m pod) = Some pg"
    using assms(2) by (simp add: podGroupManager_def)
  from gang.unreserve_outcome [OF g, of now waiting] assms(5)
  have m': "m' = m_DeletePermittedPodGroup (podGroupManager K)
       (m_AddDeniedPodGroup (podGroupManager K) now m (GetPodGroupFullName pod)) (GetPodGroupFullName pod)"
    and v: "verdicts = map RejectPod (filter (\<lambda>p. podNamespace p = podNamespace pod
           \<and> GetPodGroupLabel p = pgName pg) waiting)"
    by simp_all
  from gang.denied_until [OF assms(1,3,4) g assms(6,7,8) m'] v show ?thesis by simp
qed

theorem cos_unreserve_denies_group_witness:
  "\<exists>err. fst (cos_PreFilter (demo_cycle ()) (podGroupManager demo_pgm) (demo_view []) 1000
     (fst (cos_Unreserve (podGroupManager demo_pgm) 0 [] (demo_manager (demo_group 2 None), 0) (demo_member ''p'')), [])
     (demo_member ''q'')) = NewStatus Unschedulable err"
proof -
  let ?m = "(demo_manager (demo_group 2 None), 0)"
  have g: "snd (GetPodGroup (fst ?m) (demo_member ''p'')) = Some (demo_group 2 None)" by (simp add: demo_get)
  have d: "\<not> cache_get demo_pgm (lastDeniedPG (fst ?m)) 0 (GetPodGroupFullName (demo_member ''p''))"
    and e: "sint (lastDeniedPGExpirationTime (demo_manager (demo_group 2 None))) = 20000000000"
    by (simp_all add: demo_manager_def NewPodGroupManager_def demo_pgm_def demo_api_def Second_def)
  from cos_unreserve_denies_group [OF demo_cache_laws g d, of "[]" _ _ "demo_member ''q''" 1000 "demo_cycle ()" "demo_view []" "[]"]
  show ?thesis
    by (cases "cos_Unreserve (podGroupManager demo_pgm) 0 [] ?m (demo_member ''p'')")
      (fastforce simp: e demo_member_group)
qed



section \<open>The order of the queue\<close>

text \<open>C14: Less is a strict order of the queue that leaves two pods unordered only when they have the
  same priority, the same time and the same namespaced name; and a gang stays together in it: a
  pod that sorts between two pods of one group with equal priorities has their priority and the
  creation time of their group.\<close>

theorem cos_less_keeps_gangs_together:
  "irreflp (cos_Less K (podGroupManager E) m) \<and> transp (cos_Less K (podGroupManager E) m) \<and>
    (cos_Less K (podGroupManager E) m p q \<or> cos_Less K (podGroupManager E) m q p \<or>
      (pod_priority K (qpPod p) = pod_priority K (qpPod q) \<and>
       GetCreationTimestamp (fst m) (qpPod p) (qpInitialAttempt p)
         = GetCreationTimestamp (fst m) (qpPod q) (qpInitialAttempt q) \<and>
       GetNamespacedName (qpPod p) = GetNamespacedName (qpPod q))) \<and>
    (GetPodGroupFullName (qpPod a) = GetPodGroupFullName (qpPod b) \<and>
      snd (GetPodGroup (fst m) (qpPod a)) = Some pg \<and> pod_priority K (qpPod a) = pod_priority K (qpPod b) \<and>
      cos_Less K (podGroupManager E) m a c \<and> cos_Less K (podGroupManager E) m c b \<longrightarrow>
      pod_priority K (qpPod c) = pod_priority K (qpPod a) \<and>
      GetCreationTimestamp (fst m) (qpPod c) (qpInitialAttempt c) = pgCreation pg)"
proof (intro conjI impI; (elim conjE)?)
  show "irreflp (cos_Less K (podGroupManager E) m)" by (rule irreflpI) (rule cos_Less_irrefl)
  show "transp (cos_Less K (podGroupManager E) m)" by (rule transpI) (rule cos_Less_trans)
  assume between: "cos_Less K (podGroupManager E) m a c" "cos_Less K (podGroupManager E) m c b"
    and gang: "GetPodGroupFullName (qpPod a) = GetPodGroupFullName (qpPod b)"
      "snd (GetPodGroup (fst m) (qpPod a)) = Some pg" "pod_priority K (qpPod a) = pod_priority K (qpPod b)"
  have "snd (m_GetPodGroup (podGroupManager E) m (qpPod a)) = Some pg"
    using gang(2) by (simp add: podGroupManager_def)
  from gang.less_between [OF gang(1) this gang(3) between]
  show "pod_priority K (qpPod c) = pod_priority K (qpPod a)"
    and "GetCreationTimestamp (fst m) (qpPod c) (qpInitialAttempt c) = pgCreation pg"
    by (simp_all add: podGroupManager_def)
qed (use cos_Less_total [of K "podGroupManager E" m p q] in \<open>simp add: podGroupManager_def\<close>)

definition demo_queued :: "string \<Rightarrow> int queued_pod_info" where
  "demo_queued u = \<lparr>qpPod = demo_member u, qpInitialAttempt = 3\<rparr>"

theorem cos_less_keeps_gangs_together_witness:
  "GetCreationTimestamp (demo_manager (demo_group 2 None)) (qpPod (demo_queued ''b'')) 3 = 7"
proof -
  let ?m = "(demo_manager (demo_group 2 None), 0)"
  have l: "cos_Less (demo_api ()) (podGroupManager demo_pgm) ?m (demo_queued ''a'') (demo_queued ''b'')"
    "cos_Less (demo_api ()) (podGroupManager demo_pgm) ?m (demo_queued ''b'') (demo_queued ''c'')"
    by code_simp+
  have "GetPodGroupFullName (qpPod (demo_queued ''a'')) = GetPodGroupFullName (qpPod (demo_queued ''c''))"
    "snd (GetPodGroup (fst ?m) (qpPod (demo_queued ''a''))) = Some (demo_group 2 None)"
    "pod_priority (demo_api ()) (qpPod (demo_queued ''a'')) = pod_priority (demo_api ()) (qpPod (demo_queued ''c''))"
    by (simp_all add: demo_queued_def demo_member_group demo_get) (simp add: demo_member_def)
  from cos_less_keeps_gangs_together [of "demo_api ()" demo_pgm ?m "demo_queued ''a''" "demo_queued ''a''"
      "demo_queued ''a''" "demo_queued ''c''" "demo_group 2 None" "demo_queued ''b''"] this l show ?thesis
    by (simp add: demo_queued_def)
qed

section \<open>PreFilter of the manager\<close>



section \<open>PostBind\<close>

text \<open>C16: PostBind counts the bindings: starting from a group with no scheduled pod, after any
  number of bindings of its pods, with the API server accepting every patch, the cached group
  has that number as Scheduled, its phase is Scheduled when the number reaches MinMember and
  Scheduling before, and nothing else of it has changed.\<close>

theorem core_postbind_counts:
  assumes "patches_work K" and "wf_store s" and "label \<noteq> ''''"
    and "map_of (pgStore s) (ns @ ''/'' @ label) = Some pg" and "Scheduled (pgStatus pg) = 0"
    and "\<forall>(now, pod, node) \<in> set bs. podNamespace pod = ns \<and> GetPodGroupLabel pod = label"
    and "bs \<noteq> []" and "int (length bs) < 2147483648"
  shows "\<exists>scheduled. sint scheduled = int (length bs) \<and>
    map_of (pgStore (fst (fold (\<lambda>(now, pod, node) sw. pgm_PostBind K now sw pod node) bs (s, w))))
      (ns @ ''/'' @ label)
    = Some (pg\<lparr>pgStatus := (pgStatus pg)
        \<lparr>Phase := (if sint (MinMember (pgSpec pg)) \<le> int (length bs) then PodGroupScheduled
                    else PodGroupScheduling),
         Scheduled := scheduled\<rparr>\<rparr>)"
proof -
  let ?st = "(bound_status (MinMember (pgSpec pg)) ^^ length bs) (pgStatus pg)"
  have "\<exists>a b. (bound_status m ^^ n) st = st\<lparr>Phase := a, Scheduled := b\<rparr>" for m n st
  proof (induction n)
    case 0
    show ?case by (rule exI [where x = "Phase st"], rule exI [where x = "Scheduled st"]) simp
  next
    case (Suc n)
    then obtain a b where ab: "(bound_status m ^^ n) st = st\<lparr>Phase := a, Scheduled := b\<rparr>" by blast
    have "bound_status m (st\<lparr>Phase := a, Scheduled := b\<rparr>) = st
        \<lparr>Phase := (if sint m \<le> sint (b + 1) then PodGroupScheduled else PodGroupScheduling), Scheduled := b + 1\<rparr>"
      by (simp add: bound_status_def)
    then show ?case unfolding funpow.simps comp_def ab by blast
  qed
  moreover have "x = st\<lparr>Phase := Phase x, Scheduled := Scheduled x\<rparr>"
    if "\<exists>a b. x = st\<lparr>Phase := a, Scheduled := b\<rparr>" for x st :: pg_status
    using that by auto
  ultimately have frame: "(bound_status m ^^ n) st = st\<lparr>Phase := Phase ((bound_status m ^^ n) st),
      Scheduled := Scheduled ((bound_status m ^^ n) st)\<rparr>" for m n st
    by blast
  note run = PostBind_run [OF assms(1-3,6,4), THEN conjunct2]
  note count = bound_status_iterate [OF assms(5,8), of "MinMember (pgSpec pg)"]
  show ?thesis
    unfolding run using count assms(7) frame [of "length bs" "MinMember (pgSpec pg)" "pgStatus pg"]
    by (intro exI [where x = "Scheduled ?st"]) simp
qed

theorem core_postbind_counts_witness:
  "\<exists>pg. map_of (pgStore (fst (fold (\<lambda>(now, pod, node) sw. pgm_PostBind demo_pgm now sw pod node)
      [(1, demo_member ''a'', ''n''), (2, demo_member ''b'', ''n'')] (demo_manager (demo_group 2 None), 0)))) ''ns/g''
    = Some pg \<and> Phase (pgStatus pg) = PodGroupScheduled"
proof -
  let ?s = "demo_manager (demo_group 2 None)"
  have "wf_store ?s" by (simp add: wf_store_def demo_manager_def NewPodGroupManager_def)
  moreover have "map_of (pgStore ?s) (''ns'' @ ''/'' @ ''g'') = Some (demo_group 2 None)"
    by (simp add: demo_manager_def NewPodGroupManager_def)
  moreover have "Scheduled (pgStatus (demo_group 2 None)) = 0" by (simp add: demo_group_def)
  ultimately show ?thesis
    using core_postbind_counts [OF demo_patches, of ?s "''g''" "''ns''" "demo_group 2 None"
        "[(1, demo_member ''a'', ''n''), (2, demo_member ''b'', ''n'')]" 0]
    by auto
qed

section \<open>How long a pod waits\<close>

text \<open>The wait of a group's pods is exactly its ScheduleTimeoutSeconds, without overflow, where
  set, and the given default otherwise, even when that is zero; without either the function
  panics on the nil pointer instead of falling back to DefaultWaitTime.\<close>

theorem util_wait_time:
  "(\<exists>w. GetWaitTimeDuration (Some (pg\<lparr>pgSpec := (pgSpec pg)\<lparr>ScheduleTimeoutSeconds := Some s\<rparr>\<rparr>)) t = Inr w
      \<and> sint w = sint s * 1000000000) \<and>
   GetWaitTimeDuration (Some (pg\<lparr>pgSpec := (pgSpec pg)\<lparr>ScheduleTimeoutSeconds := None\<rparr>\<rparr>)) (Some d) = Inr d \<and>
   GetWaitTimeDuration (Some (pg\<lparr>pgSpec := (pgSpec pg)\<lparr>ScheduleTimeoutSeconds := None\<rparr>\<rparr>)) None
     = Inl (Panic ''nil pointer dereference'')"
  by (simp add: GetWaitTimeDuration_def sint_wait_seconds)

end
