(* ===== verification/GoSlice.thy ===== *)
theory GoSlice
  imports Prelude
begin

text \<open>
  Go slices that share backing arrays. The store is the list of the arrays, each a list of
  cells as long as its capacity; a slice is an array, if any, and a length (no slice of the
  modelled code starts past index 0). \<^verbatim>\<open>append\<close> writes in place when the array has room
  and copies to an array of twice the capacity otherwise, which is Go's rule below 1024 cells.
\<close>

type_synonym 'a store = "'a option list list"

datatype slice = Slice (sl_array: "nat option") (sl_len: nat)

definition nil_slice :: slice where
  "nil_slice = Slice None 0"

definition slice_append :: "'a store \<Rightarrow> slice \<Rightarrow> 'a \<Rightarrow> 'a store \<times> slice" where
  "slice_append h s x =
     (case sl_array s of
        None \<Rightarrow> (h @ [[Some x]], Slice (Some (length h)) 1)
      | Some a \<Rightarrow>
          let arr = h ! a; n = sl_len s; c = length arr
          in if n < c then (h[a := arr[n := Some x]], Slice (Some a) (n + 1))
             else (h @ [take n arr @ Some x # replicate (2 * c - n - 1) None],
                   Slice (Some (length h)) (n + 1)))"

definition deref :: "'a store \<Rightarrow> slice \<Rightarrow> 'a list" where
  "deref h s = (case sl_array s of None \<Rightarrow> [] | Some a \<Rightarrow> map the (take (sl_len s) (h ! a)))"

text \<open>A slice of the store: its array exists, is not empty and has at least its length.\<close>

definition valid_slice :: "'a store \<Rightarrow> slice \<Rightarrow> bool" where
  "valid_slice h s \<longleftrightarrow>
     (case sl_array s of
        None \<Rightarrow> sl_len s = 0
      | Some a \<Rightarrow> a < length h \<and> 0 < length (h ! a) \<and> sl_len s \<le> length (h ! a))"

text \<open>
  What the holder of slice \<open>s\<close> may assume of code that appends to it: arrays keep their
  capacity, other arrays keep their cells, and so do the cells of \<open>s\<close>.
\<close>

definition keeps_slice :: "slice \<Rightarrow> 'a store \<Rightarrow> 'a store \<Rightarrow> bool" where
  "keeps_slice s h h' \<longleftrightarrow> length h \<le> length h' \<and>
     (\<forall>a < length h. length (h' ! a) = length (h ! a) \<and>
        (if sl_array s = Some a then take (sl_len s) (h' ! a) = take (sl_len s) (h ! a)
         else h' ! a = h ! a))"

lemma valid_nil [simp]: "valid_slice h nil_slice"
  by (simp add: valid_slice_def nil_slice_def)

lemma deref_nil [simp]: "deref h nil_slice = []"
  by (simp add: deref_def nil_slice_def)

lemma keeps_slice_refl [simp]: "keeps_slice s h h"
  by (simp add: keeps_slice_def)

lemma keeps_slice_trans:
  assumes "keeps_slice s h h'" and "keeps_slice s h' h''"
  shows "keeps_slice s h h''"
  using assms unfolding keeps_slice_def by (metis order_less_le_trans order_trans)

lemma keeps_slice_valid: "keeps_slice s h h' \<Longrightarrow> valid_slice h s \<Longrightarrow> valid_slice h' s"
  by (auto simp: keeps_slice_def valid_slice_def split: option.splits)

lemma keeps_slice_deref: "keeps_slice s h h' \<Longrightarrow> valid_slice h s \<Longrightarrow> deref h' s = deref h s"
  by (auto simp: keeps_slice_def valid_slice_def deref_def split: option.splits)

lemma slice_append_ok:
  assumes "valid_slice h s" and "slice_append h s x = (h', s')"
  shows "valid_slice h' s'" and "deref h' s' = deref h s @ [x]" and "keeps_slice s h h'"
    and "sl_len s' = sl_len s + 1"
  using assms
  by (auto simp: slice_append_def valid_slice_def deref_def keeps_slice_def nth_append Let_def
      nth_list_update take_Suc_conv_app_nth Suc_le_eq split: option.splits if_splits)

text \<open>Code that only appends to the longer slice keeps the shorter one it was made from.\<close>

lemma keeps_slice_append:
  assumes "valid_slice h s" and "slice_append h s x = (h1, s1)" and "keeps_slice s1 h1 h2"
  shows "keeps_slice s h h2"
proof -
  have k: "keeps_slice s h h1" by (rule slice_append_ok(3) [OF assms(1,2)])
  show ?thesis
    unfolding keeps_slice_def
  proof (intro conjI allI impI)
    show "length h \<le> length h2" using k assms(3) by (simp add: keeps_slice_def)
  next
    fix a assume a: "a < length h"
    then have a1: "a < length h1" using k by (simp add: keeps_slice_def)
    show "length (h2 ! a) = length (h ! a)" using k assms(3) a a1 by (simp add: keeps_slice_def)
    show "if sl_array s = Some a then take (sl_len s) (h2 ! a) = take (sl_len s) (h ! a) else h2 ! a = h ! a"
    proof (cases "sl_array s1 = Some a")
      case True
      then have s: "sl_array s = Some a" using assms(2) a
        by (auto simp: slice_append_def Let_def split: option.splits if_splits)
      have "take (sl_len s1) (h2 ! a) = take (sl_len s1) (h1 ! a)"
        using True a1 assms(3) by (simp add: keeps_slice_def)
      then have "take (sl_len s) (h2 ! a) = take (sl_len s) (h1 ! a)"
        using slice_append_ok(4) [OF assms(1,2)] by (metis less_add_one min.absorb3 take_take)
      with s k a show ?thesis by (simp add: keeps_slice_def)
    next
      case False
      then have "h2 ! a = h1 ! a" using a1 assms(3) by (simp add: keeps_slice_def)
      with k a show ?thesis by (simp add: keeps_slice_def)
    qed
  qed
qed

end
