(* ===== verification/CrossNodePreemption.thy ===== *)
theory CrossNodePreemption
  imports Preemption GoSlice
begin

text \<open>
  \<^verbatim>\<open>pkg/crossnodepreemption\<close>: PostFilter, preempt, FindCandidates, the brute-force search
  over all sets of lower-priority pods and the dry run of one set. The search keeps the set it
  is building in a slice and stores that slice in the candidates it finds, so slices and their
  backing arrays are explicit (theory GoSlice). The snapshot's \<^verbatim>\<open>Get\<close> is the parameter
  \<open>get_node\<close>; its error is ignored by the code, which then calls \<^verbatim>\<open>Clone\<close> on a nil
  \<^verbatim>\<open>NodeInfo\<close> and panics.
\<close>

section \<open>The code\<close>

record xnp_candidate =
  xcVictims :: slice
  xcName :: string

text \<open>\<^verbatim>\<open>Victims()\<close> and \<^verbatim>\<open>Name()\<close>: what the rest of the scheduler reads of a candidate.\<close>

definition xnp_Victims :: "'q pod store \<Rightarrow> xnp_candidate \<Rightarrow> 'q candidate" where
  "xnp_Victims h c = \<lparr>candVictims = deref h (xcVictims c), candNumPDBViolations = 0, candName = xcName c\<rparr>"

definition xnp_Name :: string where
  "xnp_Name = ''CrossNodePreemption''"

fun xnp_nodesWherePreemptionMightHelp ::
  "('q, 'z) kube_api_scheme \<Rightarrow> 'q node_info list \<Rightarrow> node_statuses \<Rightarrow> 'q node_info list \<Rightarrow>
   error + 'q node_info list"
where
  "xnp_nodesWherePreemptionMightHelp K [] m potentialNodes = Inr potentialNodes"
| "xnp_nodesWherePreemptionMightHelp K (node # nodes) m potentialNodes =
     (case niNode node of
        None \<Rightarrow> Inl (Panic ''nil Node()'')
      | Some nd \<Rightarrow>
          if status_code K (map_of m (nodeName nd)) = UnschedulableAndUnresolvable then
            xnp_nodesWherePreemptionMightHelp K nodes m potentialNodes
          else xnp_nodesWherePreemptionMightHelp K nodes m (potentialNodes @ [node]))"

text \<open>The removal loop of a pass: a fresh copy of the node for each victim.\<close>

fun remove_victims ::
  "('q, 'st, 'd, 'sel, 's, 'z) preempt_api_scheme \<Rightarrow> (string \<Rightarrow> 'q node_info option) \<Rightarrow>
   'q pod list \<Rightarrow> 'st \<Rightarrow> 'q node_info list \<Rightarrow> error + 'st \<times> 'q node_info list"
where
  "remove_victims K get_node [] st nodeCopies = Inr (st, nodeCopies)"
| "remove_victims K get_node (pod # pods) st nodeCopies =
     (case get_node (podNodeName pod) of
        None \<Rightarrow> Inl (Panic ''nil NodeInfo'')
      | Some nodeInfo \<Rightarrow>
          let nodeCopy = (case ni_remove K nodeInfo pod of Inl _ \<Rightarrow> nodeInfo | Inr ni \<Rightarrow> ni);
              (_, st) = run_ext_remove K st pod pod nodeCopy
          in remove_victims K get_node pods st (nodeCopies @ [nodeCopy]))"

text \<open>The filter loop of a pass.\<close>

fun filter_copies ::
  "('q, 'st, 'd, 'sel, 's, 'z) preempt_api_scheme \<Rightarrow> 'st \<Rightarrow> 'q pod \<Rightarrow> slice \<Rightarrow>
   'q node_info list \<Rightarrow> xnp_candidate list \<Rightarrow> error + xnp_candidate list"
where
  "filter_copies K st preemptor pods [] candidates = Inr candidates"
| "filter_copies K st preemptor pods (ni # nis) candidates =
     (if passes_filters K st preemptor ni then
        (case niNode ni of
           None \<Rightarrow> Inl (Panic ''nil Node()'')
         | Some nd \<Rightarrow>
             filter_copies K st preemptor pods nis
               (candidates @ [\<lparr>xcVictims = pods, xcName = nodeName nd\<rparr>]))
      else filter_copies K st preemptor pods nis candidates)"

definition dryRunOnePass ::
  "('q, 'st, 'd, 'sel, 's, 'z) preempt_api_scheme \<Rightarrow> (string \<Rightarrow> 'q node_info option) \<Rightarrow> 'st \<Rightarrow>
   'q pod \<Rightarrow> 'q pod store \<Rightarrow> slice \<Rightarrow> error + xnp_candidate list"
where
  "dryRunOnePass K get_node state preemptor h pods =
     (case remove_victims K get_node (deref h pods) (cs_clone K state) [] of
        Inl err \<Rightarrow> Inl err
      | Inr (stateCopy, nodeCopies) \<Rightarrow> filter_copies K stateCopy preemptor pods nodeCopies [])"

text \<open>\<open>dfs pods i path (h, result) f\<close>: the store and the result slice are the state.\<close>

function dfs ::
  "'a list \<Rightarrow> nat \<Rightarrow> slice \<Rightarrow> 'a store \<times> 'c list \<Rightarrow> ('a store \<Rightarrow> slice \<Rightarrow> error + 'c list) \<Rightarrow>
   error + 'a store \<times> 'c list"
where
  "dfs pods i path (h, result) f =
     (if i \<ge> length pods then
        (case f h path of Inl err \<Rightarrow> Inl err | Inr cs \<Rightarrow> Inr (h, result @ cs))
      else
        let (h1, path1) = slice_append h path (pods ! i)
        in case dfs pods (i + 1) path1 (h1, result) f of
             Inl err \<Rightarrow> Inl err
           | Inr s \<Rightarrow> dfs pods (i + 1) path s f)"
  by pat_completeness auto
termination by (relation "measure (\<lambda>(pods, i, _). length pods - i)") auto

declare dfs.simps [simp del]

text \<open>The pods of the nodes whose priority is lower than the preemptor's.\<close>

fun lower_priority_pods ::
  "('q, 'z) kube_api_scheme \<Rightarrow> i32 \<Rightarrow> 'q node_info list \<Rightarrow> 'q pod list \<Rightarrow> 'q pod list"
where
  "lower_priority_pods K priority [] pods = pods"
| "lower_priority_pods K priority (node # nodes) pods =
     lower_priority_pods K priority nodes
       (pods @ filter (\<lambda>p. sint (pod_priority K p) < sint priority) (niPods node))"

definition bruteForceDryRunPreemption ::
  "('q, 'st, 'd, 'sel, 's, 'z) preempt_api_scheme \<Rightarrow> (string \<Rightarrow> 'q node_info option) \<Rightarrow> 'st \<Rightarrow>
   'q pod \<Rightarrow> 'q node_info list \<Rightarrow> error + 'q pod store \<times> xnp_candidate list"
where
  "bruteForceDryRunPreemption K get_node state pod potentialNodes =
     (let pods = lower_priority_pods K (pod_priority K pod) potentialNodes []
      in dfs pods 0 nil_slice ([], []) (dryRunOnePass K get_node state pod))"

definition xnp_FindCandidates ::
  "('q, 'st, 'd, 'sel, 's, 'z) preempt_api_scheme \<Rightarrow> ('q, 'w) cluster_api \<Rightarrow>
   (string \<Rightarrow> 'q node_info option) \<Rightarrow> 'st \<Rightarrow> 'q pod \<Rightarrow> node_statuses \<Rightarrow> error + 'q candidate list"
where
  "xnp_FindCandidates K C get_node state pod m =
     (case list_nodes C of
        Inl err \<Rightarrow> Inl err
      | Inr allNodes \<Rightarrow>
          if length allNodes = 0 then Inl ErrNoNodesAvailable
          else
            (case xnp_nodesWherePreemptionMightHelp K allNodes m [] of
               Inl err \<Rightarrow> Inl err
             | Inr potentialNodes \<Rightarrow>
                 (case bruteForceDryRunPreemption K get_node state pod potentialNodes of
                    Inl err \<Rightarrow> Inl err
                  | Inr (h, candidates) \<Rightarrow> Inr (map (xnp_Victims h) candidates))))"

definition xnp_preempt ::
  "('q, 'st, 'd, 'sel, 's, 'z) preempt_api_scheme \<Rightarrow> ('q, 'w) cluster_api \<Rightarrow>
   (string \<Rightarrow> 'q node_info option) \<Rightarrow> 'w \<Rightarrow> 'st \<Rightarrow> 'q pod \<Rightarrow> node_statuses \<Rightarrow> (error + string) \<times> 'w"
where
  "xnp_preempt K C get_node w state pod m =
     (case get_updated_pod C w pod of
        Inl err \<Rightarrow> (Inl err, w)
      | Inr pod \<Rightarrow>
          if \<not> eligible_to_preempt C pod (map_of m (podNominated pod)) then (Inr '''', w)
          else nominate C pod (xnp_FindCandidates K C get_node state pod m, w))"

definition xnp_PostFilter ::
  "('q, 'st, 'd, 'sel, 's, 'z) preempt_api_scheme \<Rightarrow> ('q, 'w) cluster_api \<Rightarrow>
   (string \<Rightarrow> 'q node_info option) \<Rightarrow> 'w \<Rightarrow> 'st \<Rightarrow> 'q pod \<Rightarrow> node_statuses \<Rightarrow>
   (string option \<times> status) \<times> 'w"
where
  "xnp_PostFilter K C get_node w state pod m =
     (let (r, w) = xnp_preempt K C get_node w state pod m in (post_filter_result r, w))"

end
