(* ===== verification/CrossNodeProperties.thy ===== *)
theory CrossNodeProperties
  imports CrossNodePreemption DemoApi
begin

text \<open>
  Properties of \<^verbatim>\<open>pkg/crossnodepreemption\<close>. The reference is the enumeration of all
  subsequences of the lower-priority pods (\<open>subseqs\<close>): the search makes one pass for each, in
  that order. What the search keeps of a set is a slice, whose cells a later pass may
  overwrite; the sets of the passes and the victims of the candidates are compared here.
\<close>

section \<open>The passes of the search\<close>

text \<open>The names of the nodes that a pass over the set \<open>S\<close> finds to fit.\<close>

fun fitting_names ::
  "('q, 'st, 'd, 'sel, 's, 'z) preempt_api_scheme \<Rightarrow> 'st \<Rightarrow> 'q pod \<Rightarrow> 'q node_info list \<Rightarrow>
   error + string list"
where
  "fitting_names K st p [] = Inr []"
| "fitting_names K st p (ni # nis) =
     (if passes_filters K st p ni then
        (case niNode ni of
           None \<Rightarrow> Inl (Panic ''nil Node()'')
         | Some nd \<Rightarrow> (case fitting_names K st p nis of Inl e \<Rightarrow> Inl e | Inr ns \<Rightarrow> Inr (nodeName nd # ns)))
      else fitting_names K st p nis)"

definition pass_names ::
  "('q, 'st, 'd, 'sel, 's, 'z) preempt_api_scheme \<Rightarrow> (string \<Rightarrow> 'q node_info option) \<Rightarrow> 'st \<Rightarrow>
   'q pod \<Rightarrow> 'q pod list \<Rightarrow> error + string list"
where
  "pass_names K get_node state p S =
     (case remove_victims K get_node S (cs_clone K state) [] of
        Inl err \<Rightarrow> Inl err
      | Inr (st, nis) \<Rightarrow> fitting_names K st p nis)"

text \<open>The hits of a list of sets: each set with each node name its pass finds.\<close>

fun all_passes :: "('a list \<Rightarrow> error + 'n list) \<Rightarrow> 'a list list \<Rightarrow> error + ('a list \<times> 'n) list" where
  "all_passes g [] = Inr []"
| "all_passes g (S # Ss) =
     (case g S of
        Inl e \<Rightarrow> Inl e
      | Inr ns \<Rightarrow> (case all_passes g Ss of Inl e \<Rightarrow> Inl e | Inr hits \<Rightarrow> Inr (map (Pair S) ns @ hits)))"

lemma all_passes_append:
  "all_passes g (Ss @ Ts) =
     (case all_passes g Ss of
        Inl e \<Rightarrow> Inl e
      | Inr hits \<Rightarrow> (case all_passes g Ts of Inl e \<Rightarrow> Inl e | Inr hits' \<Rightarrow> Inr (hits @ hits')))"
  by (induction Ss) (auto split: sum.splits)

lemma all_passes_hit:
  "all_passes g Ss = Inr hits \<Longrightarrow> (S, n) \<in> set hits \<Longrightarrow> S \<in> set Ss \<and> (\<exists>ns. g S = Inr ns \<and> n \<in> set ns)"
  by (induction Ss arbitrary: hits) (auto split: sum.splits)

lemma filter_copies_names:
  "filter_copies K st p s nis cs =
     (case fitting_names K st p nis of
        Inl e \<Rightarrow> Inl e
      | Inr ns \<Rightarrow> Inr (cs @ map (\<lambda>n. \<lparr>xcVictims = s, xcName = n\<rparr>) ns))"
  by (induction nis arbitrary: cs) (auto split: sum.splits option.splits)

definition pass_fn :: "('a list \<Rightarrow> error + 'n list) \<Rightarrow> (slice \<Rightarrow> 'n \<Rightarrow> 'c) \<Rightarrow> 'a store \<Rightarrow> slice \<Rightarrow> error + 'c list" where
  "pass_fn g mk h s = (case g (deref h s) of Inl e \<Rightarrow> Inl e | Inr ns \<Rightarrow> Inr (map (mk s) ns))"

lemma dryRunOnePass_pass:
  "dryRunOnePass K get_node state p =
     pass_fn (pass_names K get_node state p) (\<lambda>s n. \<lparr>xcVictims = s, xcName = n\<rparr>)"
  by (intro ext)
    (auto simp: dryRunOnePass_def pass_fn_def pass_names_def filter_copies_names split: sum.splits)

lemma keeps_valid_any: "keeps_slice t h h' \<Longrightarrow> valid_slice h s \<Longrightarrow> valid_slice h' s"
  by (auto simp: keeps_slice_def valid_slice_def split: option.splits)

text \<open>
  Depth-first search is the enumeration: an error of the search is the first error of the
  passes, and otherwise the new candidates are the hits, in order, each with a slice as long
  as its set.
\<close>

definition hit_of :: "'a store \<Rightarrow> (slice \<Rightarrow> 'n \<Rightarrow> 'c) \<Rightarrow> 'c \<Rightarrow> 'a list \<times> 'n \<Rightarrow> bool" where
  "hit_of h mk c hit \<longleftrightarrow>
     (\<exists>s. c = mk s (snd hit) \<and> valid_slice h s \<and> sl_len s = length (fst hit))"

lemma hit_of_keeps: "keeps_slice t h h' \<Longrightarrow> hit_of h mk c hit \<Longrightarrow> hit_of h' mk c hit"
  unfolding hit_of_def using keeps_valid_any by metis

lemma deref_length: "valid_slice h s \<Longrightarrow> length (deref h s) = sl_len s"
  by (auto simp: valid_slice_def deref_def split: option.splits)

definition search_ok ::
  "('a list \<Rightarrow> error + 'n list) \<Rightarrow> (slice \<Rightarrow> 'n \<Rightarrow> 'c) \<Rightarrow> 'a list list \<Rightarrow> slice \<Rightarrow> 'a store \<Rightarrow> 'c list \<Rightarrow>
   error + 'a store \<times> 'c list \<Rightarrow> bool"
where
  "search_ok g mk Ss path h res r \<longleftrightarrow>
     (case r of
        Inl e \<Rightarrow> all_passes g Ss = Inl e
      | Inr (h', res') \<Rightarrow> keeps_slice path h h' \<and>
          (\<exists>hits new. all_passes g Ss = Inr hits \<and> res' = res @ new \<and> list_all2 (hit_of h' mk) new hits))"

lemma search_okI:
  assumes "keeps_slice path h h'" and "all_passes g Ss = Inr hits"
    and "list_all2 (hit_of h' mk) new hits"
  shows "search_ok g mk Ss path h res (Inr (h', res @ new))"
  using assms by (auto simp: search_ok_def)

lemma dfs_base: "length pods \<le> i \<Longrightarrow> dfs pods i path (h, res) f =
    (case f h path of Inl err \<Rightarrow> Inl err | Inr cs \<Rightarrow> Inr (h, res @ cs))"
  by (simp add: dfs.simps)

lemma dfs_step: "i < length pods \<Longrightarrow> slice_append h path (pods ! i) = (h1, path1) \<Longrightarrow>
    dfs pods i path (h, res) f =
      (case dfs pods (i + 1) path1 (h1, res) f of Inl err \<Rightarrow> Inl err | Inr s \<Rightarrow> dfs pods (i + 1) path s f)"
  by (simp add: dfs.simps [of pods i])

lemma dfs_search_ok:
  assumes "valid_slice h path"
  shows "search_ok g mk (map ((@) (deref h path)) (subseqs (drop i pods))) path h res
    (dfs pods i path (h, res) (pass_fn g mk))"
  using assms
proof (induction "length pods - i" arbitrary: i path h res)
  case 0
  then have i: "length pods \<le> i" by simp
  show ?case
  proof (cases "g (deref h path)")
    case (Inl e)
    with i show ?thesis by (simp add: dfs_base pass_fn_def search_ok_def)
  next
    case (Inr ns)
    have "list_all2 (hit_of h mk) (map (mk path) ns) (map (Pair (deref h path)) ns)"
      using deref_length [OF 0(2)] 0(2)
      by (auto simp: list_all2_conv_all_nth hit_of_def)
    then have "search_ok g mk [deref h path] path h res (Inr (h, res @ map (mk path) ns))"
      by (rule search_okI [rotated 2]) (simp_all add: Inr)
    with i Inr show ?thesis by (simp add: dfs_base pass_fn_def)
  qed
next
  case (Suc n)
  then have i: "i < length pods" and n: "n = length pods - (i + 1)" by auto
  obtain h1 path1 where a: "slice_append h path (pods ! i) = (h1, path1)" by fastforce
  note ok = slice_append_ok [OF Suc.prems a]
  let ?Ss = "map ((@) (deref h path)) (map ((#) (pods ! i)) (subseqs (drop (i + 1) pods)))"
  let ?Ts = "map ((@) (deref h path)) (subseqs (drop (i + 1) pods))"
  have split: "map ((@) (deref h path)) (subseqs (drop i pods)) = ?Ss @ ?Ts"
    using i by (simp add: Cons_nth_drop_Suc [symmetric] Let_def)
  have Ss: "?Ss = map ((@) (deref h1 path1)) (subseqs (drop (i + 1) pods))"
    by (simp add: ok(2))
  have first: "search_ok g mk ?Ss path1 h1 res (dfs pods (i + 1) path1 (h1, res) (pass_fn g mk))"
    unfolding Ss by (rule Suc.hyps(1) [OF n ok(1)])
  show ?case
  proof (cases "dfs pods (i + 1) path1 (h1, res) (pass_fn g mk)")
    case (Inl e)
    with first show ?thesis
      unfolding split
      by (simp add: dfs_step [OF i a] search_ok_def all_passes_append del: map_map)
  next
    case (Inr s)
    then obtain h2 res2 where s: "dfs pods (i + 1) path1 (h1, res) (pass_fn g mk) = Inr (h2, res2)"
      by (cases s) simp
    with first obtain hits new where f: "keeps_slice path1 h1 h2" "all_passes g ?Ss = Inr hits"
      "res2 = res @ new" "list_all2 (hit_of h2 mk) new hits"
      by (auto simp: search_ok_def)
    have k: "keeps_slice path h h2" by (rule keeps_slice_append [OF Suc.prems a f(1)])
    note v = keeps_slice_valid [OF k Suc.prems] and d = keeps_slice_deref [OF k Suc.prems]
    have second: "search_ok g mk ?Ts path h2 res2 (dfs pods (i + 1) path (h2, res2) (pass_fn g mk))"
      using Suc.hyps(1) [OF n v, of res2] unfolding d .
    have step: "dfs pods i path (h, res) (pass_fn g mk) = dfs pods (i + 1) path (h2, res2) (pass_fn g mk)"
      by (simp add: dfs_step [OF i a] s [simplified])
    show ?thesis
    proof (cases "dfs pods (i + 1) path (h2, res2) (pass_fn g mk)")
      case (Inl e)
      with second f(2) show ?thesis
        unfolding split step by (simp add: search_ok_def all_passes_append del: map_map)
    next
      case (Inr s)
      then obtain h3 res3 where s3: "dfs pods (i + 1) path (h2, res2) (pass_fn g mk) = Inr (h3, res3)"
        by (cases s) simp
      with second obtain hits' new' where e: "keeps_slice path h2 h3" "all_passes g ?Ts = Inr hits'"
        "res3 = res2 @ new'" "list_all2 (hit_of h3 mk) new' hits'"
        by (auto simp: search_ok_def)
      have "list_all2 (hit_of h3 mk) new hits"
        using f(4) hit_of_keeps [OF e(1)] by (rule list_all2_mono)
      then have "list_all2 (hit_of h3 mk) (new @ new') (hits @ hits')"
        using e(4) by (rule list_all2_appendI)
      then have "search_ok g mk (?Ss @ ?Ts) path h res (Inr (h3, res @ (new @ new')))"
        by (rule search_okI [OF keeps_slice_trans [OF k e(1)], rotated])
          (simp only: all_passes_append f(2) e(2) sum.case)
      then show ?thesis unfolding split step unfolding s3 unfolding e(3) f(3) by simp
    qed
  qed
qed

lemma map_append_Nil [simp]: "map ((@) []) xs = xs"
  by (induction xs) auto

lemma xnp_search_ok:
  "search_ok (pass_names K get_node state p) (\<lambda>s n. \<lparr>xcVictims = s, xcName = n\<rparr>)
     (subseqs (lower_priority_pods K (pod_priority K p) nodes [])) nil_slice [] []
     (bruteForceDryRunPreemption K get_node state p nodes)"
  using dfs_search_ok [of "[]" nil_slice "pass_names K get_node state p" _ 0 _ "[]"]
  by (simp add: bruteForceDryRunPreemption_def dryRunOnePass_pass)

lemma hits_map:
  assumes "list_all2 (hit_of h (\<lambda>s n. \<lparr>xcVictims = s, xcName = n\<rparr>)) new hits"
  shows "map (\<lambda>c. (length (candVictims (xnp_Victims h c)), candName (xnp_Victims h c))) new
    = map (\<lambda>(S, n). (length S, n)) hits"
  using assms by (induction rule: list_all2_induct) (auto simp: hit_of_def xnp_Victims_def deref_length)

lemma xnp_search_names:
  assumes "bruteForceDryRunPreemption K get_node state p nodes = Inr (h, cs)"
  obtains hits where "all_passes (pass_names K get_node state p)
      (subseqs (lower_priority_pods K (pod_priority K p) nodes [])) = Inr hits"
    and "map (\<lambda>c. candName (xnp_Victims h c)) cs = map snd hits"
proof -
  obtain hits where hits: "all_passes (pass_names K get_node state p)
      (subseqs (lower_priority_pods K (pod_priority K p) nodes [])) = Inr hits"
    and new: "list_all2 (hit_of h (\<lambda>s n. \<lparr>xcVictims = s, xcName = n\<rparr>)) cs hits"
    using xnp_search_ok [of K get_node state p nodes] unfolding assms by (auto simp: search_ok_def)
  from arg_cong [OF hits_map [OF new], of "map snd"] have "map (\<lambda>c. candName (xnp_Victims h c)) cs = map snd hits"
    by (simp add: comp_def split_def)
  with hits show thesis by (rule that)
qed

text \<open>C23: the brute-force search is exhaustive: it makes exactly one pass for each subsequence of the
  lower-priority pods, in the order of \<open>subseqs\<close> (every choice of victims once, the full set
  first, the empty set last), and returns the nodes that these passes find, each with as many
  victims as its set has; an error is the first error of a pass.\<close>

theorem xnp_search_is_exhaustive:
  "(case bruteForceDryRunPreemption K get_node state p nodes of
      Inl e \<Rightarrow> Inl e
    | Inr (h, cs) \<Rightarrow>
        Inr (map (\<lambda>c. (length (candVictims (xnp_Victims h c)), candName (xnp_Victims h c))) cs))
   = (case all_passes (pass_names K get_node state p)
             (subseqs (lower_priority_pods K (pod_priority K p) nodes [])) of
        Inl e \<Rightarrow> Inl e
      | Inr hits \<Rightarrow> Inr (map (\<lambda>(S, n). (length S, n)) hits))"
  using xnp_search_ok [of K get_node state p nodes] by (auto simp: search_ok_def hits_map split: sum.splits)

section \<open>The victims a candidate ends up with\<close>

text \<open>
  A candidate keeps its set when no later pass writes into the cells of its slice. Appending
  twice to one slice writes twice into the same cell when the array has room, which first
  happens at length 3 of capacity 4 with two pods left, so it takes five pods.
\<close>

definition full_slice :: "'a store \<Rightarrow> slice \<Rightarrow> bool" where
  "full_slice h s = (case sl_array s of None \<Rightarrow> True | Some a \<Rightarrow> length (h ! a) = sl_len s)"

definition extends :: "'a store \<Rightarrow> 'a store \<Rightarrow> bool" where
  "extends h h' \<longleftrightarrow> length h \<le> length h' \<and> (\<forall>a < length h. h' ! a = h ! a)"

definition kept :: "'a store \<Rightarrow> (slice \<Rightarrow> 'n \<Rightarrow> 'c) \<Rightarrow> 'c \<Rightarrow> 'a list \<times> 'n \<Rightarrow> bool" where
  "kept h mk c hit \<longleftrightarrow> (\<exists>s. c = mk s (snd hit) \<and> valid_slice h s \<and> deref h s = fst hit)"

lemma extends_refl [simp]: "extends h h"
  by (simp add: extends_def)

lemma extends_trans: "extends h h' \<Longrightarrow> extends h' h'' \<Longrightarrow> extends h h''"
  by (auto simp: extends_def)

lemma kept_extends: "extends h h' \<Longrightarrow> kept h mk c hit \<Longrightarrow> kept h' mk c hit"
  by (auto simp: extends_def kept_def valid_slice_def deref_def split: option.splits)

lemma append_full:
  assumes "full_slice h s" and "slice_append h s x = (h1, s1)"
  shows "\<exists>arr. h1 = h @ [arr] \<and> sl_array s1 = Some (length h) \<and>
    (sl_len s \<le> 1 \<longrightarrow> s1 = Slice (Some (length h)) (length arr))"
proof (cases "sl_array s")
  case None
  with assms(2) show ?thesis by (auto simp: slice_append_def)
next
  case (Some a)
  then have "length (h ! a) = sl_len s" using assms(1) by (simp add: full_slice_def)
  then have "slice_append h s x =
      (h @ [take (sl_len s) (h ! a) @ Some x # replicate (sl_len s - 1) None], Slice (Some (length h)) (sl_len s + 1))"
    using Some by (simp add: slice_append_def Let_def)
  then have h: "h1 = h @ [take (sl_len s) (h ! a) @ Some x # replicate (sl_len s - 1) None]"
    and s: "s1 = Slice (Some (length h)) (sl_len s + 1)" using assms(2) by simp_all
  have "length (take (sl_len s) (h ! a) @ Some x # replicate (sl_len s - 1) None) = sl_len s + 1"
    if "sl_len s \<le> 1"
    using that \<open>length (h ! a) = sl_len s\<close> by simp
  with h s show ?thesis by simp
qed

lemma append_full_extends:
  assumes "full_slice h s" and "slice_append h s x = (h1, s1)" and "keeps_slice s1 h1 h2"
  shows "extends h h2"
proof -
  obtain arr where "h1 = h @ [arr]" "sl_array s1 = Some (length h)"
    using append_full [OF assms(1,2)] by blast
  then show ?thesis using assms(3) by (auto simp: extends_def keeps_slice_def nth_append)
qed

lemma append_full_full:
  assumes "full_slice h s" and "slice_append h s x = (h1, s1)" and "sl_len s \<le> 1"
  shows "full_slice h1 s1"
proof -
  obtain arr where "h1 = h @ [arr]" and "s1 = Slice (Some (length h)) (length arr)"
    using append_full [OF assms(1,2)] assms(3) by blast
  then show ?thesis by (simp add: full_slice_def)
qed

text \<open>The condition on a search with at most four pods: its appends to one slice do not meet.\<close>

definition no_clash :: "'a store \<Rightarrow> slice \<Rightarrow> nat \<Rightarrow> bool" where
  "no_clash h s r \<longleftrightarrow> valid_slice h s \<and> sl_len s + r \<le> 4 \<and> (full_slice h s \<or> r \<le> 1)"

lemma kept_pass: "valid_slice h s \<Longrightarrow> list_all2 (kept h mk) (map (mk s) ns) (map (Pair (deref h s)) ns)"
  by (auto simp: list_all2_conv_all_nth kept_def)

lemma dfs_keeps_victims:
  assumes "no_clash h path (length pods - i)"
    and "dfs pods i path (h, res) (pass_fn g mk) = Inr (h', res')"
  shows "(\<exists>hits new. all_passes g (map ((@) (deref h path)) (subseqs (drop i pods))) = Inr hits \<and>
      res' = res @ new \<and> list_all2 (kept h' mk) new hits) \<and>
    (full_slice h path \<or> length pods \<le> i \<longrightarrow> extends h h')"
  using assms
proof (induction "length pods - i" arbitrary: i path h res h' res')
  case 0
  then have i: "length pods \<le> i" and v: "valid_slice h path" by (auto simp: no_clash_def)
  have d: "(case pass_fn g mk h path of Inl e \<Rightarrow> Inl e | Inr cs \<Rightarrow> Inr (h, res @ cs)) = Inr (h', res')"
    using 0(3) unfolding dfs_base [OF i] .
  then obtain ns where ns: "g (deref h path) = Inr ns"
    by (cases "g (deref h path)") (simp_all add: pass_fn_def)
  with d have r: "h' = h" "res' = res @ map (mk path) ns" by (simp_all add: pass_fn_def)
  show ?case
    by (intro conjI impI exI [of _ "map (Pair (deref h path)) ns"] exI [of _ "map (mk path) ns"])
      (simp_all add: i ns r kept_pass [OF v])
next
  case (Suc n)
  then have i: "i < length pods" and n: "n = length pods - (i + 1)" and v: "valid_slice h path"
    by (auto simp: no_clash_def)
  obtain h1 path1 where a: "slice_append h path (pods ! i) = (h1, path1)" by fastforce
  note ok = slice_append_ok [OF v a]
  let ?Ss = "map ((@) (deref h path)) (map ((#) (pods ! i)) (subseqs (drop (i + 1) pods)))"
  let ?Ts = "map ((@) (deref h path)) (subseqs (drop (i + 1) pods))"
  have split: "map ((@) (deref h path)) (subseqs (drop i pods)) = ?Ss @ ?Ts"
    using i by (simp add: Cons_nth_drop_Suc [symmetric] Let_def)
  have Ss: "?Ss = map ((@) (deref h1 path1)) (subseqs (drop (i + 1) pods))"
    by (simp add: ok(2))
  obtain h2 res2 where s: "dfs pods (i + 1) path1 (h1, res) (pass_fn g mk) = Inr (h2, res2)"
    and s3: "dfs pods (i + 1) path (h2, res2) (pass_fn g mk) = Inr (h', res')"
    using Suc.prems(2) by (auto simp: dfs_step [OF i a] split: sum.splits)
  have nc1: "no_clash h1 path1 (length pods - (i + 1))"
  proof (cases "length pods - (i + 1) \<le> 1")
    case True
    with Suc.prems(1) i ok show ?thesis by (auto simp: no_clash_def)
  next
    case False
    then have "full_slice h path" "sl_len path \<le> 1" using Suc.prems(1) by (auto simp: no_clash_def)
    from append_full_full [OF this(1) a this(2)] Suc.prems(1) i ok
    show ?thesis by (auto simp: no_clash_def)
  qed
  note first = Suc.hyps(1) [OF n nc1 s, folded Ss]
  have k1: "keeps_slice path1 h1 h2"
    using dfs_search_ok [OF ok(1), of g mk "i + 1" pods res] unfolding s by (simp add: search_ok_def)
  have k: "keeps_slice path h h2" by (rule keeps_slice_append [OF v a k1])
  have nc2: "no_clash h2 path (length pods - (i + 1))"
    using Suc.prems(1) keeps_slice_valid [OF k v] i v k
    by (auto simp: no_clash_def full_slice_def keeps_slice_def valid_slice_def split: option.splits)
  have d: "deref h2 path = deref h path" by (rule keeps_slice_deref [OF k v])
  note second = Suc.hyps(1) [OF n nc2 s3, unfolded d]
  have full2: "full_slice h2 path \<or> length pods \<le> i + 1" 
    using Suc.prems(1) v k i
    by (auto simp: no_clash_def full_slice_def keeps_slice_def valid_slice_def split: option.splits)
  then have e23: "extends h2 h'" using second by blast
  have "full_slice h path \<Longrightarrow> extends h h'"
    using append_full_extends [OF _ a k1] e23 extends_trans by blast
  moreover obtain hits new where f: "all_passes g ?Ss = Inr hits" "res2 = res @ new"
    "list_all2 (kept h2 mk) new hits" using first by blast
  moreover obtain hits' new' where e: "all_passes g ?Ts = Inr hits'" "res' = res2 @ new'"
    "list_all2 (kept h' mk) new' hits'" using second by blast
  moreover have "list_all2 (kept h' mk) (new @ new') (hits @ hits')"
    by (rule list_all2_appendI [OF list_all2_mono [OF f(3)] e(3)]) (rule kept_extends [OF e23])
  moreover have "all_passes g (?Ss @ ?Ts) = Inr (hits @ hits')"
    by (simp only: all_passes_append f(1) e(1) sum.case)
  ultimately show ?case unfolding split using i by auto
qed

text \<open>
  A scheduler for the examples: every pod is on one node, the state counts the CPU the
  extension was told to remove, and a filter asks for 1300 thousandths of it.
\<close>

definition demo_cpu :: "int pod \<Rightarrow> int" where
  "demo_cpu p = sum_list (map (\<lambda>c. mget 0 (ctRequests c) ''cpu'') (podContainers p))"

definition demo_xnp :: "(int \<Rightarrow> int node_info \<Rightarrow> bool) \<Rightarrow>
    (int, int, unit, (string \<times> string) list, (string \<times> string) list) preempt_api" where
  "demo_xnp fits = demo_api
     \<lparr>cs_read = (\<lambda>s k. Inr ()), cs_write = (\<lambda>s k d. s), cs_delete = (\<lambda>s k. s), cs_clone = (\<lambda>s. s),
      sort_slice = (\<lambda>_ ps. ps), more_important = (\<lambda>a b. False),
      run_ext_remove = (\<lambda>st pod rp ni. (None, st + demo_cpu rp)),
      run_ext_add = (\<lambda>st pod ap ni. (None, st - demo_cpu ap)),
      passes_filters = (\<lambda>st pod ni. fits st ni),
      selectors = \<lparr>as_selector = Inr, sel_empty = (\<lambda>s. s = []),
        sel_matches = (\<lambda>s ls. set s \<subseteq> set ls)\<rparr>,
      completion_order = (\<lambda>ns. ns)\<rparr>"

definition demo_xnode :: "int pod list \<Rightarrow> int node_info" where
  "demo_xnode ps =
     \<lparr>niNode = Some \<lparr>nodeName = ''node'', nodeAllocatable = [], nodeCapacity = []\<rparr>, niPods = ps,
      niAllocatable = zero_resource, niRequested = zero_resource, niNonZero = zero_resource,
      niTransient = None\<rparr>"

definition demo_one :: "int node_info \<Rightarrow> string \<Rightarrow> int node_info option" where
  "demo_one ni n = (if n = ''node'' then Some ni else None)"

definition demo_preemptor :: "int pod" where
  "demo_preemptor = demo_pod ''a'' ''p'' 1300 9"

lemma demo_two_search:
  "bruteForceDryRunPreemption (demo_xnp (\<lambda>st ni. 1300 \<le> st))
     (demo_one (demo_xnode [demo_pod ''a'' ''1'' 300 0, demo_pod ''a'' ''2'' 1000 0])) 0 demo_preemptor
     [demo_xnode [demo_pod ''a'' ''1'' 300 0, demo_pod ''a'' ''2'' 1000 0]]
   = Inr ([[Some (demo_pod ''a'' ''1'' 300 0)],
        [Some (demo_pod ''a'' ''1'' 300 0), Some (demo_pod ''a'' ''2'' 1000 0)],
        [Some (demo_pod ''a'' ''2'' 1000 0)]],
      replicate 2 \<lparr>xcVictims = Slice (Some 1) 2, xcName = ''node''\<rparr>)"
  by code_simp

definition demo_five :: "int pod list" where
  "demo_five = [demo_pod ''a'' ''1'' 100 0, demo_pod ''a'' ''2'' 100 0, demo_pod ''a'' ''3'' 100 0,
     demo_pod ''a'' ''4'' 1000 0, demo_pod ''a'' ''5'' 100 0]"

text \<open>With five lower-priority pods a candidate can end up with victims its pass never removed:
  the pass that removes the pods 1 to 4 fits, the set 1, 2, 3, 5 does not, and yet the
  candidates of the former are returned with the latter as their victims, since
  \<^verbatim>\<open>append(path, pods[i])\<close> of the later pass writes pod 5 over pod 4 in the shared array.\<close>

lemma five_pods_corrupt_victims:
  "pass_names (demo_xnp (\<lambda>st ni. 1300 \<le> st)) (demo_one (demo_xnode demo_five)) 0 demo_preemptor
      (take 4 demo_five) = Inr (replicate 4 ''node'') \<and>
   pass_names (demo_xnp (\<lambda>st ni. 1300 \<le> st)) (demo_one (demo_xnode demo_five)) 0 demo_preemptor
      (take 3 demo_five @ drop 4 demo_five) = Inr [] \<and>
   (case bruteForceDryRunPreemption (demo_xnp (\<lambda>st ni. 1300 \<le> st)) (demo_one (demo_xnode demo_five)) 0
           demo_preemptor [demo_xnode demo_five] of
      Inl e \<Rightarrow> False
    | Inr (h, cs) \<Rightarrow>
        map (\<lambda>c. candVictims (xnp_Victims h c)) (take 4 (drop 5 cs))
          = replicate 4 (take 3 demo_five @ drop 4 demo_five))"
  by code_simp

text \<open>C24: with at most four lower-priority pods, the victims of every candidate are exactly the pods
  whose removal its pass tried. Four is the limit: of five pods on one node, the pass that removes the
  pods 1 to 4 fits and the set 1, 2, 3, 5 does not, and yet the candidates of the former are
  returned with the latter as their victims, since \<^verbatim>\<open>append(path, pods[i])\<close> of a
  later pass writes over the victims in the shared array.\<close>

theorem xnp_victims_of_small_search:
  "(length (lower_priority_pods K (pod_priority K p) nodes []) \<le> 4 \<and>
      bruteForceDryRunPreemption K get_node state p nodes = Inr (h, cs) \<longrightarrow>
    all_passes (pass_names K get_node state p)
      (subseqs (lower_priority_pods K (pod_priority K p) nodes []))
    = Inr (map (\<lambda>c. (candVictims (xnp_Victims h c), candName (xnp_Victims h c))) cs)) \<and>
    pass_names (demo_xnp (\<lambda>st ni. 1300 \<le> st)) (demo_one (demo_xnode demo_five)) 0 demo_preemptor
        (take 4 demo_five) = Inr (replicate 4 ''node'') \<and>
     pass_names (demo_xnp (\<lambda>st ni. 1300 \<le> st)) (demo_one (demo_xnode demo_five)) 0 demo_preemptor
        (take 3 demo_five @ drop 4 demo_five) = Inr [] \<and>
     (case bruteForceDryRunPreemption (demo_xnp (\<lambda>st ni. 1300 \<le> st)) (demo_one (demo_xnode demo_five)) 0
             demo_preemptor [demo_xnode demo_five] of
        Inl e \<Rightarrow> False
      | Inr (h, cs) \<Rightarrow>
          map (\<lambda>c. candVictims (xnp_Victims h c)) (take 4 (drop 5 cs))
            = replicate 4 (take 3 demo_five @ drop 4 demo_five))"
proof (rule conjI, rule impI, elim conjE)
  let ?g = "pass_names K get_node state p" and ?mk = "\<lambda>s n. \<lparr>xcVictims = s, xcName = n\<rparr>"
  let ?pods = "lower_priority_pods K (pod_priority K p) nodes []"
  assume few: "length ?pods \<le> 4" and search: "bruteForceDryRunPreemption K get_node state p nodes = Inr (h, cs)"
  have nc: "no_clash [] nil_slice (length ?pods - 0)"
    using few by (simp add: no_clash_def full_slice_def nil_slice_def valid_slice_def)
  obtain hits where hits: "all_passes ?g (subseqs ?pods) = Inr hits" and new: "list_all2 (kept h ?mk) cs hits"
    using dfs_keeps_victims [OF nc] search
    unfolding bruteForceDryRunPreemption_def dryRunOnePass_pass Let_def by fastforce
  from new have "map (\<lambda>c. (candVictims (xnp_Victims h c), candName (xnp_Victims h c))) cs = hits"
    by (induction rule: list_all2_induct) (auto simp: kept_def xnp_Victims_def)
  with hits show "all_passes ?g (subseqs ?pods)
    = Inr (map (\<lambda>c. (candVictims (xnp_Victims h c), candName (xnp_Victims h c))) cs)" by simp
qed (rule five_pods_corrupt_victims)

theorem xnp_victims_of_small_search_witness:
  "all_passes (pass_names (demo_xnp (\<lambda>st ni. 1300 \<le> st))
      (demo_one (demo_xnode [demo_pod ''a'' ''1'' 300 0, demo_pod ''a'' ''2'' 1000 0])) 0 demo_preemptor)
      (subseqs [demo_pod ''a'' ''1'' 300 0, demo_pod ''a'' ''2'' 1000 0])
    = Inr (replicate 2 ([demo_pod ''a'' ''1'' 300 0, demo_pod ''a'' ''2'' 1000 0], ''node''))"
proof -
  have l: "lower_priority_pods (demo_xnp (\<lambda>st ni. 1300 \<le> st))
      (pod_priority (demo_xnp (\<lambda>st ni. 1300 \<le> st)) demo_preemptor)
      [demo_xnode [demo_pod ''a'' ''1'' 300 0, demo_pod ''a'' ''2'' 1000 0]] []
    = [demo_pod ''a'' ''1'' 300 0, demo_pod ''a'' ''2'' 1000 0]"
    by code_simp
  show ?thesis
    using xnp_victims_of_small_search [THEN conjunct1, THEN mp, OF conjI, OF _ demo_two_search] unfolding l
    by (simp add: numeral_2_eq_2 xnp_Victims_def deref_def)
qed

section \<open>One copy of the node per victim\<close>

lemma remove_victims_copies:
  assumes "remove_victims K get_node pods st nis = Inr (st', nis')"
  shows "\<exists>new. nis' = nis @ new \<and>
    list_all2 (\<lambda>pod ni. \<exists>n0. get_node (podNodeName pod) = Some n0 \<and>
      ni = (case ni_remove K n0 pod of Inl _ \<Rightarrow> n0 | Inr ni \<Rightarrow> ni)) pods new"
  using assms
proof (induction pods arbitrary: st nis)
  case (Cons pod pods)
  then obtain n0 where n0: "get_node (podNodeName pod) = Some n0"
    by (auto split: option.splits)
  let ?ni = "case ni_remove K n0 pod of Inl _ \<Rightarrow> n0 | Inr ni \<Rightarrow> ni"
  from Cons.prems n0 obtain st1 where "remove_victims K get_node pods st1 (nis @ [?ni]) = Inr (st', nis')"
    by (auto simp: Let_def split: prod.splits)
  from Cons.IH [OF this] n0 show ?case by auto
qed simp

lemma list_all2_right: "list_all2 P xs ys \<Longrightarrow> y \<in> set ys \<Longrightarrow> \<exists>x \<in> set xs. P x y"
  by (induction rule: list_all2_induct) auto

lemma fitting_names_none: "(\<And>ni. ni \<in> set nis \<Longrightarrow> \<not> passes_filters K st p ni) \<Longrightarrow> fitting_names K st p nis = Inr []"
  by (induction nis) auto

lemma all_passes_none:
  "all_passes g Ss = Inr hits \<Longrightarrow> (\<And>S ns. g S = Inr ns \<Longrightarrow> ns = []) \<Longrightarrow> hits = []"
  by (induction Ss arbitrary: hits) (auto split: sum.splits)

text \<open>The search finds nothing when the preemptor needs room from two pods of one node: each victim
  is removed from a copy of its own, so every node the filters see lacks at most one pod.
  Whenever no node of the snapshot fits as it is or with one pod removed, there is no candidate,
  whichever sets of victims the passes try.\<close>

theorem xnp_one_removal_per_copy:
  assumes "\<And>st n ni q. get_node n = Some ni \<Longrightarrow>
      \<not> passes_filters K st p ni \<and> (\<forall>ni'. ni_remove K ni q = Inr ni' \<longrightarrow> \<not> passes_filters K st p ni')"
    and "bruteForceDryRunPreemption K get_node state p nodes = Inr (h, cs)"
  shows "cs = []"
proof -
  let ?g = "pass_names K get_node state p"
  have "ns = []" if g: "?g S = Inr ns" for S ns
  proof -
    obtain st nis where r: "remove_victims K get_node S (cs_clone K state) [] = Inr (st, nis)"
      and f: "fitting_names K st p nis = Inr ns"
      using g by (auto simp: pass_names_def split: sum.splits)
    have "\<not> passes_filters K st p ni" if mem: "ni \<in> set nis" for ni
    proof -
      obtain q n0 where "get_node (podNodeName q) = Some n0"
        and ni: "ni = (case ni_remove K n0 q of Inl _ \<Rightarrow> n0 | Inr ni \<Rightarrow> ni)"
        using remove_victims_copies [OF r] list_all2_right [OF _ mem] by fastforce
      with assms(1) [of "podNodeName q" n0 st q] show ?thesis by (cases "ni_remove K n0 q") auto
    qed
    with f show ?thesis by (simp add: fitting_names_none)
  qed
  then have none: "hits = []" if "all_passes ?g Ss = Inr hits" for Ss hits
    by (rule all_passes_none [OF that])
  show ?thesis by (rule xnp_search_names [OF assms(2)]) (use none in fastforce)
qed

definition demo_pair :: "int pod list" where
  "demo_pair = [demo_pod ''a'' ''1'' 300 0, demo_pod ''a'' ''2'' 1000 0]"

lemma demo_pair_search:
  "bruteForceDryRunPreemption (demo_xnp (\<lambda>st ni. length (niPods ni) < 1)) (demo_one (demo_xnode demo_pair)) 0
     demo_preemptor [demo_xnode demo_pair]
   = Inr ([[Some (demo_pod ''a'' ''1'' 300 0)],
        [Some (demo_pod ''a'' ''1'' 300 0), Some (demo_pod ''a'' ''2'' 1000 0)],
        [Some (demo_pod ''a'' ''2'' 1000 0)]], [])"
  by code_simp

theorem xnp_one_removal_per_copy_witness:
  "([] :: xnp_candidate list) = [] \<and>
   passes_filters (demo_xnp (\<lambda>st ni. length (niPods ni) < 1)) 0 demo_preemptor (demo_xnode [])"
proof
  have no: "\<not> passes_filters (demo_xnp (\<lambda>st ni. length (niPods ni) < 1)) st demo_preemptor ni \<and>
      (\<forall>ni'. ni_remove (demo_xnp (\<lambda>st ni. length (niPods ni) < 1)) ni q = Inr ni' \<longrightarrow>
         \<not> passes_filters (demo_xnp (\<lambda>st ni. length (niPods ni) < 1)) st demo_preemptor ni')"
    if "demo_one (demo_xnode demo_pair) n = Some ni" for st n ni q
    using that
    by (auto simp: demo_one_def demo_xnp_def demo_api_def demo_xnode_def demo_pair_def demo_ni_remove_def
        length_remove1 split: if_splits)
  show "([] :: xnp_candidate list) = []"
    by (rule xnp_one_removal_per_copy [OF no demo_pair_search])
  show "passes_filters (demo_xnp (\<lambda>st ni. length (niPods ni) < 1)) 0 demo_preemptor (demo_xnode [])"
    by code_simp
qed

section \<open>PostFilter\<close>

lemma xnp_nodesWherePreemptionMightHelp_eq:
  "xnp_nodesWherePreemptionMightHelp K nodes m acc =
     (case nodesWherePreemptionMightHelp K nodes m of Inl e \<Rightarrow> Inl e | Inr ns \<Rightarrow> Inr (acc @ ns))"
  by (induction nodes arbitrary: acc) (auto split: option.splits sum.splits)

lemma lower_priority_pods_set:
  "set (lower_priority_pods K prio nodes acc) =
     set acc \<union> {p. sint (pod_priority K p) < sint prio \<and> (\<exists>node \<in> set nodes. p \<in> set (niPods node))}"
  by (induction nodes arbitrary: acc) auto

text \<open>C25: a node that PostFilter nominates is one at which the pass over some set of pods fits; the pods
  of the set have a lower priority than the preemptor and are on nodes that Filter did not rule
  out for good.\<close>

theorem xnp_postfilter_nominates:
  assumes "xnp_PostFilter K C get_node w state pod m = ((Some nn, s), w')" and "cluster_laws C"
  shows "stCode s = Success \<and> (\<exists>pod' nodes ps ns.
    get_updated_pod C w pod = Inr pod' \<and> list_nodes C = Inr nodes \<and>
    pass_names K get_node state pod' ps = Inr ns \<and> nn \<in> set ns \<and>
    (\<forall>p \<in> set ps. sint (pod_priority K p) < sint (pod_priority K pod') \<and>
       (\<exists>node \<in> set nodes. p \<in> set (niPods node) \<and>
         (\<exists>nd. niNode node = Some nd \<and>
           status_code K (map_of m (nodeName nd)) \<noteq> UnschedulableAndUnresolvable))))"
proof -
  obtain r where r: "xnp_preempt K C get_node w state pod m = (r, w')" and res: "post_filter_result r = (Some nn, s)"
    using assms(1) by (auto simp: xnp_PostFilter_def split: prod.splits)
  from res have nn: "r = Inr nn" "nn \<noteq> ''''" and s: "stCode s = Success"
    by (auto simp: post_filter_result_def NewStatus_def split: sum.splits if_splits)
  obtain pod' where pod': "get_updated_pod C w pod = Inr pod'"
    and nom: "nominate C pod' (xnp_FindCandidates K C get_node state pod' m, w) = (Inr nn, w')"
    using r nn by (auto simp: xnp_preempt_def split: sum.splits if_splits)
  obtain cs where cs: "xnp_FindCandidates K C get_node state pod' m = Inr cs" "nn \<in> candName ` set cs"
    by (rule nominate_member [OF nom nn(2) assms(2)])
  then obtain nodes pn h xcs where nodes: "list_nodes C = Inr nodes"
    and pn: "nodesWherePreemptionMightHelp K nodes m = Inr pn"
    and bf: "bruteForceDryRunPreemption K get_node state pod' pn = Inr (h, xcs)"
    and xcs: "cs = map (xnp_Victims h) xcs"
    by (auto simp: xnp_FindCandidates_def xnp_nodesWherePreemptionMightHelp_eq split: sum.splits if_splits)
  obtain hits where hits: "all_passes (pass_names K get_node state pod')
      (subseqs (lower_priority_pods K (pod_priority K pod') pn [])) = Inr hits"
    and map: "map (\<lambda>c. candName (xnp_Victims h c)) xcs = map snd hits"
    by (rule xnp_search_names [OF bf])
  have "candName ` set cs = snd ` set hits"
    using arg_cong [OF map, of set] by (simp add: xcs image_image)
  with cs(2) have "nn \<in> snd ` set hits" by simp
  then obtain ps where "(ps, nn) \<in> set hits" by auto
  from all_passes_hit [OF hits this] obtain ns where ps: "ps \<in> set (subseqs (lower_priority_pods K (pod_priority K pod') pn []))"
    and ns: "pass_names K get_node state pod' ps = Inr ns" "nn \<in> set ns" by blast
  have "set ps \<subseteq> set (lower_priority_pods K (pod_priority K pod') pn [])"
    using ps subseqs_powset by (metis PowD image_eqI)
  moreover have "sint (pod_priority K p) < sint (pod_priority K pod') \<and>
       (\<exists>node \<in> set nodes. p \<in> set (niPods node) \<and>
         (\<exists>nd. niNode node = Some nd \<and>
           status_code K (map_of m (nodeName nd)) \<noteq> UnschedulableAndUnresolvable))"
    if "p \<in> set (lower_priority_pods K (pod_priority K pod') pn [])" for p
    using that
    by (auto simp: lower_priority_pods_set nodesWherePreemptionMightHelp_eq [OF pn, symmetric] split: option.splits)
  ultimately show ?thesis using s pod' nodes ns by blast
qed

definition demo_xcluster :: "(int, string) cluster_api" where
  "demo_xcluster =
     \<lparr>get_updated_pod = (\<lambda>w p. Inr p), eligible_to_preempt = (\<lambda>p s. True),
      list_nodes = Inr [demo_xnode demo_pair], clear_nominated = (\<lambda>w p. (None, w)),
      call_extenders = (\<lambda>p cs. Inr cs),
      select_candidate = (\<lambda>cs. case cs of [] \<Rightarrow> None | c # _ \<Rightarrow> Some c),
      prepare_candidate = (\<lambda>w c p. (None, candName c))\<rparr>"

lemma demo_xnp_postfilter:
  "xnp_PostFilter (demo_xnp (\<lambda>st ni. 1300 \<le> st)) demo_xcluster (demo_one (demo_xnode demo_pair)) ''w'' 0
     demo_preemptor [] = ((Some ''node'', NewStatus Success ''''), ''node'')"
  by code_simp

theorem xnp_postfilter_nominates_witness:
  "\<exists>ps ns. pass_names (demo_xnp (\<lambda>st ni. 1300 \<le> st)) (demo_one (demo_xnode demo_pair)) 0 demo_preemptor ps
     = Inr ns \<and> ''node'' \<in> set ns"
proof -
  have "cluster_laws demo_xcluster"
    by (auto simp: cluster_laws_def demo_xcluster_def split: list.splits)
  from xnp_postfilter_nominates [OF demo_xnp_postfilter this]
  have "\<exists>pod' ps ns. get_updated_pod demo_xcluster ''w'' demo_preemptor = Inr pod' \<and>
      pass_names (demo_xnp (\<lambda>st ni. 1300 \<le> st)) (demo_one (demo_xnode demo_pair)) 0 pod' ps = Inr ns \<and>
      ''node'' \<in> set ns"
    by blast
  then show ?thesis by (auto simp: demo_xcluster_def)
qed

end
