(* ===== verification/PodGroupController.thy ===== *)
theory PodGroupController
  imports PodGroupUtil "HOL-Library.List_Lexorder" "HOL-Library.Char_ord"
begin

text \<open>
  \<^verbatim>\<open>pkg/controller/podgroup.go\<close>: the controller that moves a pod group through its phases.
  Its state is the work queue, the informer's store of pod groups, the pod lister, the two
  synced flags and the API client. The queue, cache keys, patches and the client are client-go
  code and parameters. A worker's \<^verbatim>\<open>sync\<close> is one step; the queue never hands a key to two
  workers at a time. A panic ends the process and is an error value.

  \<^verbatim>\<open>syncHandler\<close> gets a pointer into the informer's store, so the write of
  fillOccupiedObj changes the cached object; the pointer is the object's key in the store.
\<close>

section \<open>The interface and the state\<close>

record ('q, 'k, 'w) ctl_api = "'q kube_api" +
  meta_key :: "'q pod_group \<Rightarrow> error + string"
  split_key :: "string \<Rightarrow> string \<times> string"
  q_empty :: 'k
  q_add :: "'k \<Rightarrow> string \<Rightarrow> 'k"
  q_add_limited :: "'k \<Rightarrow> string \<Rightarrow> 'k"
  q_forget_obj :: "'k \<Rightarrow> 'q pod_group \<Rightarrow> 'k"
  q_get :: "'k \<Rightarrow> string option \<times> 'k"
  q_done :: "'k \<Rightarrow> string \<Rightarrow> 'k"
  client_get :: "'w \<Rightarrow> string \<Rightarrow> string \<Rightarrow> error + 'q pod_group"
  client_patch :: "'w \<Rightarrow> string \<Rightarrow> string \<Rightarrow> string \<Rightarrow> error option \<times> 'w"
  ctl_marshal :: "'q pod_group \<Rightarrow> error + string"
  ctl_merge :: "string \<Rightarrow> string \<Rightarrow> 'q pod_group \<Rightarrow> error + string"

record ('q, 'k, 'w) pg_controller =
  ctlQueue :: 'k
  ctlPgLister :: "(string, 'q pod_group) gomap"
  ctlPodLister :: "(string, string) gomap \<Rightarrow> error + 'q pod list"
  ctlPgSynced :: bool
  ctlPodSynced :: bool
  ctlClient :: 'w

text \<open>The events of the two informers for which handlers are registered.\<close>

datatype 'q ctl_event =
    PgAdd "'q pod_group"
  | PgUpdate "'q pod_group" "'q pod_group"
  | PodAdd "'q pod"
  | PodUpdate "'q pod" "'q pod"

definition NewPodGroupController ::
  "('q, 'k, 'w, 'z) ctl_api_scheme \<Rightarrow> (string, 'q pod_group) gomap \<Rightarrow> bool \<Rightarrow>
   ((string, string) gomap \<Rightarrow> error + 'q pod list) \<Rightarrow> bool \<Rightarrow> 'w \<Rightarrow> ('q, 'k, 'w) pg_controller"
where
  "NewPodGroupController K pgs pgSynced pods podSynced client =
     \<lparr>ctlQueue = q_empty K, ctlPgLister = pgs, ctlPodLister = pods, ctlPgSynced = pgSynced,
      ctlPodSynced = podSynced, ctlClient = client\<rparr>"

text \<open>Run waits for its caches and then starts the workers: the number of workers it starts.\<close>

definition ctl_Run :: "(bool list \<Rightarrow> bool) \<Rightarrow> ('q, 'k, 'w) pg_controller \<Rightarrow> int \<Rightarrow> nat" where
  "ctl_Run WaitForCacheSync s workers =
     (if \<not> WaitForCacheSync [ctlPgSynced s, ctlPgSynced s] then 0 else nat workers)"

section \<open>Event handlers\<close>

text \<open>\<^verbatim>\<open>time.Sub\<close> saturates.\<close>

definition time_Sub :: "int \<Rightarrow> int \<Rightarrow> i64" where
  "time_Sub t u = word_of_int (max (- 9223372036854775808) (min 9223372036854775807 (t - u)))"

definition pgAdded ::
  "('q, 'k, 'w, 'z) ctl_api_scheme \<Rightarrow> ('q, 'k, 'w) pg_controller \<Rightarrow> 'q pod_group \<Rightarrow>
   ('q, 'k, 'w) pg_controller"
where
  "pgAdded K s pg =
     (case meta_key K pg of
        Inl err \<Rightarrow> s
      | Inr key \<Rightarrow>
          if Phase (pgStatus pg) = PodGroupFinished \<or> Phase (pgStatus pg) = PodGroupFailed then s
          else if Scheduled (pgStatus pg) = MinMember (pgSpec pg) \<and> Running (pgStatus pg) = 0 \<and>
              sint (time_Sub (ScheduleStartTime (pgStatus pg)) (pgCreation pg)) > sint (48 * 3600 * Second)
            then s
          else s\<lparr>ctlQueue := q_add K (ctlQueue s) key\<rparr>)"

definition pgUpdated ::
  "('q, 'k, 'w, 'z) ctl_api_scheme \<Rightarrow> ('q, 'k, 'w) pg_controller \<Rightarrow> 'q pod_group \<Rightarrow> 'q pod_group \<Rightarrow>
   ('q, 'k, 'w) pg_controller"
where
  "pgUpdated K s old new = pgAdded K s new"

definition podAdded ::
  "('q, 'k, 'w, 'z) ctl_api_scheme \<Rightarrow> ('q, 'k, 'w) pg_controller \<Rightarrow> 'q pod \<Rightarrow>
   ('q, 'k, 'w) pg_controller"
where
  "podAdded K s pod =
     (let name = GetPodGroupLabel pod
      in if length name = 0 then s
         else case podGroup_Get (\<lambda>key. Inr (map_of (ctlPgLister s) key)) (podNamespace pod) name of
                Inl err \<Rightarrow> s
              | Inr pg \<Rightarrow> pgAdded K s pg)"

definition podUpdated ::
  "('q, 'k, 'w, 'z) ctl_api_scheme \<Rightarrow> ('q, 'k, 'w) pg_controller \<Rightarrow> 'q pod \<Rightarrow> 'q pod \<Rightarrow>
   ('q, 'k, 'w) pg_controller"
where
  "podUpdated K s old new = podAdded K s new"

fun ctl_dispatch ::
  "('q, 'k, 'w, 'z) ctl_api_scheme \<Rightarrow> ('q, 'k, 'w) pg_controller \<Rightarrow> 'q ctl_event \<Rightarrow>
   ('q, 'k, 'w) pg_controller"
where
  "ctl_dispatch K s (PgAdd pg) = pgAdded K s pg"
| "ctl_dispatch K s (PgUpdate old new) = pgUpdated K s old new"
| "ctl_dispatch K s (PodAdd pod) = podAdded K s pod"
| "ctl_dispatch K s (PodUpdate old new) = podUpdated K s old new"

section \<open>Synchronising one pod group\<close>

fun go_Join :: "string list \<Rightarrow> string \<Rightarrow> string" where
  "go_Join [] sep = ''''"
| "go_Join [x] sep = x"
| "go_Join (x # xs) sep = x @ sep @ go_Join xs sep"

definition fillOccupiedObj :: "'q pod_group \<Rightarrow> 'q pod \<Rightarrow> 'q pod_group" where
  "fillOccupiedObj pg pod =
     (let refs = map (\<lambda>owner. podNamespace pod @ ''/'' @ owner) (podOwners pod)
      in if length (OccupiedBy (pgStatus pg)) = 0 then pg
         else if length refs \<noteq> 0 then
           pg\<lparr>pgStatus := (pgStatus pg)\<lparr>OccupiedBy := go_Join (sort refs) '',''\<rparr>\<rparr>
         else pg)"

text \<open>The three counters of the pods' phases: running, succeeded, failed.\<close>

fun count_phases :: "'q pod list \<Rightarrow> i32 \<times> i32 \<times> i32 \<Rightarrow> i32 \<times> i32 \<times> i32" where
  "count_phases [] c = c"
| "count_phases (pod # pods) (running, succeeded, failed) =
     count_phases pods
       (if podPhase pod = ''Running'' then (running + 1, succeeded, failed)
        else if podPhase pod = ''Succeeded'' then (running, succeeded + 1, failed)
        else if podPhase pod = ''Failed'' then (running, succeeded, failed + 1)
        else (running, succeeded, failed))"

text \<open>The default branch of the switch: the counters, then four tests on the phase in turn.\<close>

definition update_phase :: "i32 \<Rightarrow> 'q pod list \<Rightarrow> pg_status \<Rightarrow> pg_status" where
  "update_phase minMember pods st =
     (let (running, succeeded, failed) = count_phases pods (0, 0, 0);
          st = st\<lparr>Failed := failed, Succeeded := succeeded, Running := running\<rparr>;
          st = (if sint (Scheduled st) \<ge> sint minMember \<and> Phase st = PodGroupScheduling
                then st\<lparr>Phase := PodGroupScheduled\<rparr> else st);
          st = (if sint (Succeeded st + Running st) \<ge> sint minMember \<and> Phase st = PodGroupScheduled
                then st\<lparr>Phase := PodGroupRunning\<rparr> else st);
          st = (if Failed st \<noteq> 0 \<and> sint (Failed st + Running st + Succeeded st) \<ge> sint minMember
                then st\<lparr>Phase := PodGroupFailed\<rparr> else st)
      in if sint (Succeeded st) \<ge> sint minMember then st\<lparr>Phase := PodGroupFinished\<rparr> else st)"

text \<open>The switch: the cached object and its copy after it.\<close>

definition sync_phase ::
  "'q pod list \<Rightarrow> 'q pod_group \<Rightarrow> error + 'q pod_group \<times> 'q pod_group"
where
  "sync_phase pods pg =
     (let pgCopy = pg
      in if Phase (pgStatus pgCopy) = '''' then
           Inr (pg, pgCopy\<lparr>pgStatus := (pgStatus pgCopy)\<lparr>Phase := PodGroupPending\<rparr>\<rparr>)
         else if Phase (pgStatus pgCopy) = PodGroupPending then
           (if int (length pods) \<ge> sint (MinMember (pgSpec pg)) then
              (case pods of
                 [] \<Rightarrow> Inl (Panic ''index out of range'')
               | pod # _ \<Rightarrow>
                   Inr (fillOccupiedObj pg pod,
                        pgCopy\<lparr>pgStatus := (pgStatus pgCopy)\<lparr>Phase := PodGroupPreScheduling\<rparr>\<rparr>))
            else Inr (pg, pgCopy))
         else Inr (pg, pgCopy\<lparr>pgStatus := update_phase (MinMember (pgSpec pg)) pods (pgStatus pgCopy)\<rparr>))"

definition patchPodGroup ::
  "('q, 'k, 'w, 'z) ctl_api_scheme \<Rightarrow> 'w \<Rightarrow> 'q pod_group \<Rightarrow> 'q pod_group \<Rightarrow> error option \<times> 'w"
where
  "patchPodGroup K w old new =
     (if old \<noteq> new then
        (case CreateMergePatch (ctl_marshal K) (ctl_merge K) old new of
           Inl err \<Rightarrow> (Some err, w)
         | Inr patch \<Rightarrow> client_patch K w (pgNamespace old) (pgName old) patch)
      else (None, w))"

definition syncHandler ::
  "('q, 'k, 'w, 'z) ctl_api_scheme \<Rightarrow> ('q, 'k, 'w) pg_controller \<Rightarrow> string \<Rightarrow> 'q pod_group \<Rightarrow>
   error + ('q, 'k, 'w) pg_controller"
where
  "syncHandler K s ptr pg =
     (case meta_key K pg of
        Inl err \<Rightarrow> Inr s
      | Inr key \<Rightarrow>
          (case ctlPodLister s [(PodGroupLabel, pgName pg)] of
             Inl err \<Rightarrow> Inr (s\<lparr>ctlQueue := q_add_limited K (ctlQueue s) key\<rparr>)
           | Inr pods \<Rightarrow>
               (case sync_phase pods pg of
                  Inl err \<Rightarrow> Inl err
                | Inr (pg, pgCopy) \<Rightarrow>
                    let s = s\<lparr>ctlPgLister := mput ptr pg (ctlPgLister s)\<rparr>;
                        (err, w) = patchPodGroup K (ctlClient s) pg pgCopy;
                        s = s\<lparr>ctlClient := w\<rparr>
                    in case err of
                         None \<Rightarrow> Inr (s\<lparr>ctlQueue := q_forget_obj K (ctlQueue s) pg\<rparr>)
                       | Some err \<Rightarrow> Inr (s\<lparr>ctlQueue := q_add_limited K (ctlQueue s) key\<rparr>))))"

definition ctl_sync ::
  "('q, 'k, 'w, 'z) ctl_api_scheme \<Rightarrow> ('q, 'k, 'w) pg_controller \<Rightarrow>
   error + ('q, 'k, 'w) pg_controller"
where
  "ctl_sync K s =
     (case q_get K (ctlQueue s) of
        (None, q) \<Rightarrow> Inr (s\<lparr>ctlQueue := q\<rparr>)
      | (Some key, q) \<Rightarrow>
          let s = s\<lparr>ctlQueue := q\<rparr>;
              (ns, name) = split_key K key;
              requeued = s\<lparr>ctlQueue := q_add_limited K (ctlQueue s) key\<rparr>
          in case (case podGroup_Get (\<lambda>key. Inr (map_of (ctlPgLister s) key)) ns name of
                     Inr pg \<Rightarrow> syncHandler K s (lister_key ns name) pg
                   | Inl err \<Rightarrow>
                       if err = NotFound then
                         (case client_get K (ctlClient s) ns name of
                            Inl err \<Rightarrow> if err = NotFound then Inr s else Inr requeued
                          | Inr pg \<Rightarrow> Inr requeued)
                       else Inr requeued) of
               Inl err \<Rightarrow> Inl err
             | Inr s \<Rightarrow> Inr (s\<lparr>ctlQueue := q_done K (ctlQueue s) key\<rparr>))"

end
