(* ===== verification/PodGroupLifecycle.thy ===== *)
theory PodGroupLifecycle
  imports PodGroupController DemoApi
begin

text \<open>
  What the pod group controller promises: the life cycle of a group as an abstract step
  relation over phases, of which every synchronisation is a sequence; the end it reaches; which
  events queue a group; and what the queue's retry counters do along any run of the controller.
\<close>

section \<open>The life cycle\<close>

text \<open>The pods of a list in one phase.\<close>

definition tally :: "string \<Rightarrow> 'q pod list \<Rightarrow> int" where
  "tally ph pods = int (length (filter (\<lambda>p. podPhase p = ph) pods))"

definition active :: "pg_phase \<Rightarrow> bool" where
  "active p \<longleftrightarrow> p \<noteq> '''' \<and> p \<noteq> PodGroupPending"

text \<open>
  One step of the life cycle of a group that needs \<open>m\<close> members, given its pods and how many the
  scheduler has bound.
\<close>

inductive group_step :: "int \<Rightarrow> int \<Rightarrow> 'q pod list \<Rightarrow> pg_phase \<Rightarrow> pg_phase \<Rightarrow> bool"
  for m scheduled pods
where
  accept: "group_step m scheduled pods '''' PodGroupPending"
| gather: "m \<le> int (length pods) \<Longrightarrow> group_step m scheduled pods PodGroupPending PodGroupPreScheduling"
| bound: "m \<le> scheduled \<Longrightarrow> group_step m scheduled pods PodGroupScheduling PodGroupScheduled"
| run: "m \<le> tally ''Succeeded'' pods + tally ''Running'' pods \<Longrightarrow>
    group_step m scheduled pods PodGroupScheduled PodGroupRunning"
| fail: "active p \<Longrightarrow> 0 < tally ''Failed'' pods \<Longrightarrow>
    m \<le> tally ''Failed'' pods + tally ''Running'' pods + tally ''Succeeded'' pods \<Longrightarrow>
    group_step m scheduled pods p PodGroupFailed"
| finish: "active p \<Longrightarrow> m \<le> tally ''Succeeded'' pods \<Longrightarrow> group_step m scheduled pods p PodGroupFinished"

inductive_cases group_step_finishedE: "group_step m scheduled pods PodGroupFinished p"
inductive_simps group_step_pending: "group_step m scheduled pods PodGroupPending p"

abbreviation group_steps :: "int \<Rightarrow> int \<Rightarrow> 'q pod list \<Rightarrow> pg_phase \<Rightarrow> pg_phase \<Rightarrow> bool" where
  "group_steps m scheduled pods \<equiv> (group_step m scheduled pods)\<^sup>*\<^sup>*"

section \<open>The counters\<close>

lemma count_phases_eq:
  "count_phases pods (r, s, f) =
     (r + word_of_int (tally ''Running'' pods), s + word_of_int (tally ''Succeeded'' pods),
      f + word_of_int (tally ''Failed'' pods))"
  by (induction pods arbitrary: r s f) (auto simp: tally_def)

lemma tally_bounds:
  "0 \<le> tally a pods"
  "tally ''Failed'' pods + tally ''Running'' pods + tally ''Succeeded'' pods \<le> int (length pods)"
  by (induction pods) (auto simp: tally_def)

text \<open>For fewer than $2^{31}$ pods no counter wraps, and neither do their sums.\<close>

lemma counters:
  assumes "int (length pods) < 2147483648"
  shows "sint (word_of_int (tally ''Succeeded'' pods) :: i32) = tally ''Succeeded'' pods"
    and "(word_of_int (tally ''Failed'' pods) :: i32) \<noteq> 0 \<longleftrightarrow> 0 < tally ''Failed'' pods"
    and "sint (word_of_int (tally ''Succeeded'' pods) + word_of_int (tally ''Running'' pods) :: i32)
      = tally ''Succeeded'' pods + tally ''Running'' pods"
    and "sint (word_of_int (tally ''Failed'' pods) + word_of_int (tally ''Running'' pods)
        + word_of_int (tally ''Succeeded'' pods) :: i32)
      = tally ''Failed'' pods + tally ''Running'' pods + tally ''Succeeded'' pods"
proof -
  note b = tally_bounds(1) [of "''Failed''" pods] tally_bounds(1) [of "''Running''" pods]
    tally_bounds(1) [of "''Succeeded''" pods] tally_bounds(2) [of pods]
  have s: "sint (word_of_int x :: i32) = x" if "0 \<le> x" "x \<le> int (length pods)" for x
    using that assms by (intro sint32_of_int) auto
  show "sint (word_of_int (tally ''Succeeded'' pods) :: i32) = tally ''Succeeded'' pods"
    using b by (intro s) auto
  have "(word_of_int (tally ''Failed'' pods) :: i32) = 0 \<longleftrightarrow> tally ''Failed'' pods = 0"
  proof
    assume "(word_of_int (tally ''Failed'' pods) :: i32) = 0"
    then have "sint (word_of_int (tally ''Failed'' pods) :: i32) = 0" by simp
    then show "tally ''Failed'' pods = 0" using s [of "tally ''Failed'' pods"] b by simp
  qed simp
  with b show "(word_of_int (tally ''Failed'' pods) :: i32) \<noteq> 0 \<longleftrightarrow> 0 < tally ''Failed'' pods" by auto
  show "sint (word_of_int (tally ''Succeeded'' pods) + word_of_int (tally ''Running'' pods) :: i32)
      = tally ''Succeeded'' pods + tally ''Running'' pods"
    unfolding wi_hom_add using b by (intro s) auto
  show "sint (word_of_int (tally ''Failed'' pods) + word_of_int (tally ''Running'' pods)
        + word_of_int (tally ''Succeeded'' pods) :: i32)
      = tally ''Failed'' pods + tally ''Running'' pods + tally ''Succeeded'' pods"
    unfolding wi_hom_add using b by (intro s) auto
qed

text \<open>The phase after the default branch, over the integers.\<close>

definition new_phase :: "int \<Rightarrow> int \<Rightarrow> 'q pod list \<Rightarrow> pg_phase \<Rightarrow> pg_phase" where
  "new_phase m scheduled pods p =
     (let p = (if scheduled \<ge> m \<and> p = PodGroupScheduling then PodGroupScheduled else p);
          p = (if tally ''Succeeded'' pods + tally ''Running'' pods \<ge> m \<and> p = PodGroupScheduled
               then PodGroupRunning else p);
          p = (if 0 < tally ''Failed'' pods \<and>
                 tally ''Failed'' pods + tally ''Running'' pods + tally ''Succeeded'' pods \<ge> m
               then PodGroupFailed else p)
      in if tally ''Succeeded'' pods \<ge> m then PodGroupFinished else p)"

lemma if_Phase: "(if b then st\<lparr>Phase := p\<rparr> else st) = st\<lparr>Phase := (if b then p else Phase st)\<rparr>"
  by simp

lemma update_phase_Phase:
  assumes "int (length pods) < 2147483648"
  shows "Phase (update_phase m pods st) = new_phase (sint m) (sint (Scheduled st)) pods (Phase st)"
  unfolding update_phase_def new_phase_def count_phases_eq if_Phase
  by (simp add: Let_def counters [OF assms] cong: if_cong split del: if_split)

lemma update_phase_frame [simp]:
  "Scheduled (update_phase m pods st) = Scheduled st"
  "OccupiedBy (update_phase m pods st) = OccupiedBy st"
  unfolding update_phase_def count_phases_eq if_Phase by (simp_all add: Let_def)

lemma update_phase_counters:
  "Running (update_phase m pods st) = word_of_int (tally ''Running'' pods)"
  "Succeeded (update_phase m pods st) = word_of_int (tally ''Succeeded'' pods)"
  "Failed (update_phase m pods st) = word_of_int (tally ''Failed'' pods)"
  "update_phase m pods st = st\<lparr>Phase := Phase (update_phase m pods st),
     Running := Running (update_phase m pods st), Succeeded := Succeeded (update_phase m pods st),
     Failed := Failed (update_phase m pods st)\<rparr>"
  unfolding update_phase_def count_phases_eq if_Phase by (simp_all add: Let_def cong: if_cong split del: if_split)

lemma new_phase_steps:
  assumes "active p"
  shows "group_steps m scheduled pods p (new_phase m scheduled pods p)"
proof -
  define p1 where "p1 = (if scheduled \<ge> m \<and> p = PodGroupScheduling then PodGroupScheduled else p)"
  define p2 where "p2 = (if tally ''Succeeded'' pods + tally ''Running'' pods \<ge> m \<and> p1 = PodGroupScheduled
    then PodGroupRunning else p1)"
  define p3 where "p3 = (if 0 < tally ''Failed'' pods \<and>
      tally ''Failed'' pods + tally ''Running'' pods + tally ''Succeeded'' pods \<ge> m
    then PodGroupFailed else p2)"
  define p4 where "p4 = (if tally ''Succeeded'' pods \<ge> m then PodGroupFinished else p3)"
  have act: "active p1" "active p2" "active p3"
    using assms by (auto simp: p1_def p2_def p3_def active_def phase_defs)
  have "group_steps m scheduled pods p p1" by (auto simp: p1_def intro: group_step.bound)
  also have "group_steps m scheduled pods p1 p2" by (auto simp: p2_def intro: group_step.run)
  also have "group_steps m scheduled pods p2 p3" using act by (auto simp: p3_def intro: group_step.fail)
  also have "group_steps m scheduled pods p3 p4" using act by (auto simp: p4_def intro: group_step.finish)
  finally show ?thesis unfolding new_phase_def Let_def p4_def p3_def p2_def p1_def .
qed

lemma sync_phase_cases:
  assumes "sync_phase pods pg = Inr (pg', pgCopy)" and "int (length pods) < 2147483648"
  obtains (new) "Phase (pgStatus pg) = ''''" and "Phase (pgStatus pgCopy) = PodGroupPending"
    | (wait) "Phase (pgStatus pg) = PodGroupPending" and "Phase (pgStatus pgCopy) = PodGroupPending"
    | (gather) "Phase (pgStatus pg) = PodGroupPending" and "Phase (pgStatus pgCopy) = PodGroupPreScheduling"
        and "sint (MinMember (pgSpec pg)) \<le> int (length pods)"
    | (active) "active (Phase (pgStatus pg))" and "Phase (pgStatus pgCopy)
        = new_phase (sint (MinMember (pgSpec pg))) (sint (Scheduled (pgStatus pg))) pods (Phase (pgStatus pg))"
proof -
  show thesis
  proof (cases "active (Phase (pgStatus pg))")
    case True
    with assms show thesis
      by (intro active) (auto simp: sync_phase_def Let_def active_def update_phase_Phase)
  next
    case False
    with assms show thesis
      by (cases "Phase (pgStatus pg) = ''''")
        (auto simp: sync_phase_def Let_def active_def intro: new wait gather split: if_splits list.splits)
  qed
qed

text \<open>C17: every synchronisation of a group follows the life cycle: from the phase it reads to the phase
  it writes there is a sequence of steps whose guards hold of the listed pods (counted without
  wrap-around for fewer than $2^{31}$ pods), the other fields of the copy keep their values, and
  the counters it stores are the numbers of the group's running, succeeded and failed pods.\<close>

theorem ctl_phase_refines_lifecycle:
  assumes "sync_phase pods pg = Inr (pg', pgCopy)" and "int (length pods) < 2147483648"
  shows "group_steps (sint (MinMember (pgSpec pg))) (sint (Scheduled (pgStatus pg))) pods
      (Phase (pgStatus pg)) (Phase (pgStatus pgCopy)) \<and>
    pgCopy = pg\<lparr>pgStatus := (pgStatus pg)\<lparr>Phase := Phase (pgStatus pgCopy),
      Running := Running (pgStatus pgCopy), Succeeded := Succeeded (pgStatus pgCopy),
      Failed := Failed (pgStatus pgCopy)\<rparr>\<rparr> \<and>
    (active (Phase (pgStatus pg)) \<longrightarrow>
      sint (Succeeded (pgStatus pgCopy)) = tally ''Succeeded'' pods \<and>
      Running (pgStatus pgCopy) = word_of_int (tally ''Running'' pods) \<and>
      Failed (pgStatus pgCopy) = word_of_int (tally ''Failed'' pods))"
proof (intro conjI impI)
  show "group_steps (sint (MinMember (pgSpec pg))) (sint (Scheduled (pgStatus pg))) pods
      (Phase (pgStatus pg)) (Phase (pgStatus pgCopy))"
    using assms
    by (cases rule: sync_phase_cases) (auto intro: group_step.accept group_step.gather new_phase_steps)
  show "pgCopy = pg\<lparr>pgStatus := (pgStatus pg)\<lparr>Phase := Phase (pgStatus pgCopy),
      Running := Running (pgStatus pgCopy), Succeeded := Succeeded (pgStatus pgCopy),
      Failed := Failed (pgStatus pgCopy)\<rparr>\<rparr>"
  proof (cases "active (Phase (pgStatus pg))")
    case True
    then have "pgCopy = pg\<lparr>pgStatus := update_phase (MinMember (pgSpec pg)) pods (pgStatus pg)\<rparr>"
      using assms(1) by (auto simp: sync_phase_def Let_def active_def)
    then show ?thesis using update_phase_counters(4) [of "MinMember (pgSpec pg)" pods "pgStatus pg"] by simp
  next
    case False
    with assms(1) show ?thesis
      by (auto simp: sync_phase_def Let_def active_def split: if_splits list.splits)
  qed
  assume a: "active (Phase (pgStatus pg))"
  then have c: "pgCopy = pg\<lparr>pgStatus := update_phase (MinMember (pgSpec pg)) pods (pgStatus pg)\<rparr>"
    using assms(1) by (auto simp: sync_phase_def Let_def active_def)
  show "sint (Succeeded (pgStatus pgCopy)) = tally ''Succeeded'' pods"
    "Running (pgStatus pgCopy) = word_of_int (tally ''Running'' pods)"
    "Failed (pgStatus pgCopy) = word_of_int (tally ''Failed'' pods)"
    unfolding c using counters(1) [OF assms(2)] by (simp_all add: update_phase_counters(1-3))
qed

definition demo_members :: "string \<Rightarrow> string \<Rightarrow> int pod list" where
  "demo_members ns ph = [(demo_pod ns ''1'' 100 0)\<lparr>podPhase := ph\<rparr>, (demo_pod ns ''2'' 100 0)\<lparr>podPhase := ph\<rparr>]"

definition demo_pg :: "pg_phase \<Rightarrow> int pod_group" where
  "demo_pg ph =
     \<lparr>pgName = ''g'', pgNamespace = ''a'', pgCreation = 0,
      pgSpec = \<lparr>MinMember = 2, MinResources = None, ScheduleTimeoutSeconds = None\<rparr>,
      pgStatus = \<lparr>Phase = ph, OccupiedBy = '''', Scheduled = 2, Running = 0, Succeeded = 0, Failed = 0,
        ScheduleStartTime = 0\<rparr>\<rparr>"

lemma demo_sync_running:
  "sync_phase (demo_members ''a'' ''Running'') (demo_pg ''Scheduling'')
     = Inr (demo_pg ''Scheduling'',
         (demo_pg ''Running'')\<lparr>pgStatus := (pgStatus (demo_pg ''Running''))\<lparr>Running := 2\<rparr>\<rparr>)"
  by code_simp

theorem ctl_phase_refines_lifecycle_witness:
  "group_steps 2 2 (demo_members ''a'' ''Running'') ''Scheduling'' ''Running''"
  using ctl_phase_refines_lifecycle [OF demo_sync_running]
  by (simp add: demo_pg_def demo_members_def)

section \<open>Every group whose members succeed finishes\<close>

text \<open>Synchronising again and again, each time on the object the last patch produced.\<close>

fun sync_iter :: "nat \<Rightarrow> 'q pod list \<Rightarrow> 'q pod_group \<Rightarrow> error + 'q pod_group" where
  "sync_iter 0 pods pg = Inr pg"
| "sync_iter (Suc n) pods pg =
     (case sync_phase pods pg of Inl err \<Rightarrow> Inl err | Inr (_, pgCopy) \<Rightarrow> sync_iter n pods pgCopy)"

lemma sync_phase_total:
  "0 < sint (MinMember (pgSpec pg)) \<Longrightarrow> \<exists>pg' pgCopy. sync_phase pods pg = Inr (pg', pgCopy)"
  by (auto simp: sync_phase_def Let_def split: list.splits)

lemma sync_phase_spec: "sync_phase pods pg = Inr (pg', pgCopy) \<Longrightarrow> pgSpec pgCopy = pgSpec pg"
  by (auto simp: sync_phase_def Let_def split: if_splits list.splits)

text \<open>The number of synchronisations a group with enough successes still needs.\<close>

definition syncs_left :: "pg_phase \<Rightarrow> nat" where
  "syncs_left p = (if p = PodGroupFinished then 0 else if active p then 1 else if p = PodGroupPending then 2 else 3)"

lemma sync_progress:
  assumes "sync_phase pods pg = Inr (pg', pgCopy)" and "int (length pods) < 2147483648"
    and "sint (MinMember (pgSpec pg)) \<le> tally ''Succeeded'' pods"
  shows "syncs_left (Phase (pgStatus pgCopy)) \<le> syncs_left (Phase (pgStatus pg)) - 1"
proof -
  have m: "sint (MinMember (pgSpec pg)) \<le> int (length pods)"
    using assms(3) tally_bounds(1) [of "''Failed''" pods] tally_bounds(1) [of "''Running''" pods]
      tally_bounds(2) [of pods] by linarith
  from assms(1,2) show ?thesis
  proof (cases rule: sync_phase_cases)
    case wait
    with assms(1) m show ?thesis by (auto simp: sync_phase_def Let_def phase_defs split: list.splits)
  next
    case active
    then have "Phase (pgStatus pgCopy) = PodGroupFinished" using assms(3) by (simp add: new_phase_def Let_def)
    then show ?thesis by (simp add: syncs_left_def)
  qed (auto simp: syncs_left_def active_def phase_defs)
qed

text \<open>C18: a group whose members succeed finishes: when at least MinMember of its pods have succeeded,
  three synchronisations bring it to the phase Finished whatever phase it starts from, none of
  them panics, and further synchronisations leave it there.\<close>

theorem ctl_succeeded_group_finishes:
  assumes "0 < sint (MinMember (pgSpec pg))" and "int (length pods) < 2147483648"
    and "sint (MinMember (pgSpec pg)) \<le> tally ''Succeeded'' pods" and "3 \<le> n"
  shows "\<exists>pg'. sync_iter n pods pg = Inr pg' \<and> Phase (pgStatus pg') = PodGroupFinished"
proof -
  have "\<exists>pg'. sync_iter n pods pg = Inr pg' \<and> Phase (pgStatus pg') = PodGroupFinished"
    if "syncs_left (Phase (pgStatus pg)) \<le> n" for n
    using that assms(1,3)
  proof (induction n arbitrary: pg)
    case 0
    then show ?case by (simp add: syncs_left_def split: if_splits)
  next
    case (Suc n)
    obtain pg1 pg2 where s: "sync_phase pods pg = Inr (pg1, pg2)"
      using sync_phase_total [OF Suc.prems(2)] by blast
    have "syncs_left (Phase (pgStatus pg2)) \<le> n"
      using sync_progress [OF s assms(2) Suc.prems(3)] Suc.prems(1) by linarith
    from Suc.IH [OF this] Suc.prems(2,3) show ?case by (simp add: s sync_phase_spec [OF s])
  qed
  moreover have "syncs_left (Phase (pgStatus pg)) \<le> n" using assms(4) by (simp add: syncs_left_def)
  ultimately show ?thesis .
qed

theorem ctl_succeeded_group_finishes_witness:
  "\<exists>pg'. sync_iter 3 (demo_members ''a'' ''Succeeded'') (demo_pg '''') = Inr pg' \<and>
     Phase (pgStatus pg') = PodGroupFinished"
  by (rule ctl_succeeded_group_finishes) (simp_all add: demo_pg_def demo_members_def tally_def)

section \<open>Synchronisation settles\<close>

lemma new_phase_idem: "new_phase m k pods (new_phase m k pods p) = new_phase m k pods p"
  by (auto simp: new_phase_def Let_def phase_defs)

lemma new_phase_active: "active p \<Longrightarrow> active (new_phase m k pods p)"
  by (auto simp: new_phase_def Let_def phase_defs active_def)

lemma update_phase_idem:
  assumes "int (length pods) < 2147483648"
  shows "update_phase m pods (update_phase m pods st) = update_phase m pods st"
proof -
  let ?u = "update_phase m pods st"
  have "Phase (update_phase m pods ?u) = Phase ?u"
    by (simp add: update_phase_Phase [OF assms] new_phase_idem)
  then show ?thesis
    using update_phase_counters(4) [of m pods ?u] by (simp add: update_phase_counters(1-3))
qed

text \<open>A group that another synchronisation would not change.\<close>

definition settled :: "'q pod list \<Rightarrow> 'q pod_group \<Rightarrow> bool" where
  "settled pods pg \<longleftrightarrow> sync_phase pods pg = Inr (pg, pg)"

lemma active_settles:
  assumes "sync_phase pods pg = Inr (pg', pgCopy)" and "int (length pods) < 2147483648" and "active (Phase (pgStatus pg))"
  shows "settled pods pgCopy"
proof -
  have c: "pgCopy = pg\<lparr>pgStatus := update_phase (MinMember (pgSpec pg)) pods (pgStatus pg)\<rparr>"
    using assms(1,3) by (auto simp: sync_phase_def Let_def active_def)
  then have "active (Phase (pgStatus pgCopy))"
    using assms(3) by (simp add: update_phase_Phase [OF assms(2)] new_phase_active)
  then show ?thesis by (simp add: settled_def sync_phase_def Let_def active_def c update_phase_idem [OF assms(2)])
qed

text \<open>The number of synchronisations before a group is settled.\<close>

definition settle_left :: "'q pod list \<Rightarrow> 'q pod_group \<Rightarrow> nat" where
  "settle_left pods pg = (if settled pods pg then 0 else if active (Phase (pgStatus pg)) then 1
     else if Phase (pgStatus pg) = PodGroupPending then 2 else 3)"

lemma settle_progress:
  assumes "sync_phase pods pg = Inr (pg', pgCopy)" and "int (length pods) < 2147483648"
  shows "settle_left pods pgCopy \<le> settle_left pods pg - 1"
proof (cases "settled pods pg")
  case True
  with assms(1) show ?thesis by (simp add: settled_def settle_left_def)
next
  case False
  from assms(1,2) show ?thesis
  proof (cases rule: sync_phase_cases)
    case new
    then show ?thesis using False by (simp add: settle_left_def active_def phase_defs)
  next
    case wait
    with assms(1) have "pgCopy = pg" "pg' = pg"
      by (auto simp: sync_phase_def Let_def phase_defs split: if_splits list.splits)
    with assms(1) False show ?thesis by (simp add: settled_def)
  next
    case gather
    then show ?thesis using False by (simp add: settle_left_def active_def phase_defs)
  next
    case active
    from active_settles [OF assms this(1)] show ?thesis by (simp add: settle_left_def)
  qed
qed

text \<open>C19: synchronisation settles: while the pods of a group stay as they are, at most three
  synchronisations bring the group, from any phase, to a status that further ones leave alone, so the controller
  stops patching it; none of them panics when MinMember is positive.\<close>

theorem ctl_sync_settles:
  assumes "0 < sint (MinMember (pgSpec pg))" and "int (length pods) < 2147483648" and "3 \<le> n"
  shows "\<exists>pg'. sync_iter n pods pg = Inr pg' \<and> sync_phase pods pg' = Inr (pg', pg') \<and>
    patchPodGroup K w pg' pg' = (None, w)"
proof -
  have "\<exists>pg'. sync_iter n pods pg = Inr pg' \<and> settled pods pg'" if "settle_left pods pg \<le> n" for n
    using that assms(1)
  proof (induction n arbitrary: pg)
    case 0
    then show ?case by (simp add: settle_left_def split: if_splits)
  next
    case (Suc n)
    obtain pg1 pg2 where s: "sync_phase pods pg = Inr (pg1, pg2)" using sync_phase_total [OF Suc.prems(2)] by blast
    have "settle_left pods pg2 \<le> n" using settle_progress [OF s assms(2)] Suc.prems(1) by linarith
    from Suc.IH [OF this] Suc.prems(2) show ?case by (simp add: s sync_phase_spec [OF s])
  qed
  moreover have "settle_left pods pg \<le> n" using assms(3) by (simp add: settle_left_def)
  ultimately show ?thesis by (auto simp: settled_def patchPodGroup_def)
qed

section \<open>Which events queue a group\<close>

text \<open>The group an event is about, and whether the controller still takes care of it, over the
  integers: a group is left alone when it has ended, or when its pods seem to have been collected
  two days or more after its creation.\<close>

definition group_of_pod :: "('q, 'k, 'w) pg_controller \<Rightarrow> 'q pod \<Rightarrow> 'q pod_group option" where
  "group_of_pod s pod =
     (if GetPodGroupLabel pod = '''' then None else map_of (ctlPgLister s) (GetPodGroupFullName pod))"

fun event_group :: "('q, 'k, 'w) pg_controller \<Rightarrow> 'q ctl_event \<Rightarrow> 'q pod_group option" where
  "event_group s (PgAdd pg) = Some pg"
| "event_group s (PgUpdate old new) = Some new"
| "event_group s (PodAdd pod) = group_of_pod s pod"
| "event_group s (PodUpdate old new) = group_of_pod s new"

definition worth_queueing :: "'q pod_group \<Rightarrow> bool" where
  "worth_queueing pg \<longleftrightarrow>
     Phase (pgStatus pg) \<notin> {PodGroupFinished, PodGroupFailed} \<and>
     \<not> (Scheduled (pgStatus pg) = MinMember (pgSpec pg) \<and> Running (pgStatus pg) = 0 \<and>
        ScheduleStartTime (pgStatus pg) - pgCreation pg > 48 * 3600 * 10 ^ 9)"

lemma time_Sub_48h: "sint (time_Sub t u) > sint (48 * 3600 * Second) \<longleftrightarrow> t - u > 48 * 3600 * 10 ^ 9"
proof -
  have "sint (time_Sub t u) = max (- 9223372036854775808) (min 9223372036854775807 (t - u))"
    unfolding time_Sub_def by (rule sint64_of_int) auto
  moreover have "sint (48 * 3600 * Second) = 172800000000000" by (simp add: Second_def)
  ultimately show ?thesis by auto
qed

lemma pgAdded_eq:
  assumes "meta_key K pg = Inr key"
  shows "pgAdded K s pg = (if worth_queueing pg then s\<lparr>ctlQueue := q_add K (ctlQueue s) key\<rparr> else s)"
  unfolding pgAdded_def worth_queueing_def time_Sub_48h using assms by simp

text \<open>C20: an event of either informer queues exactly the group it is about, under its namespaced name,
  when that group is known and still worth a synchronisation, and otherwise changes nothing;
  saturation of the time difference does not matter.\<close>

theorem ctl_enqueue_policy:
  assumes "\<And>pg. meta_key K pg = Inr (lister_key (pgNamespace pg) (pgName pg))"
  shows "ctl_dispatch K s e =
    (case event_group s e of
       None \<Rightarrow> s
     | Some pg \<Rightarrow>
         if worth_queueing pg then
           s\<lparr>ctlQueue := q_add K (ctlQueue s) (lister_key (pgNamespace pg) (pgName pg))\<rparr>
         else s)"
proof -
  have pod: "podAdded K s p = (case group_of_pod s p of None \<Rightarrow> s | Some pg \<Rightarrow> pgAdded K s pg)" for p
    by (simp add: podAdded_def group_of_pod_def podGroup_Get_def GetPodGroupFullName_eq Let_def split: option.splits)
  show ?thesis
    by (cases e) (auto simp: pgUpdated_def podUpdated_def pod pgAdded_eq [OF assms]
        split: option.splits)
qed

text \<open>A queue that keeps its waiting keys and a count of retries per item; the pod group objects that
  are forgotten have counts of their own.\<close>

definition demo_ctl :: "(int, string list \<times> (string, nat) gomap, string list) ctl_api" where
  "demo_ctl = demo_api
     \<lparr>meta_key = (\<lambda>pg. Inr (lister_key (pgNamespace pg) (pgName pg))),
      split_key = (\<lambda>k. (takeWhile (\<lambda>c. c \<noteq> CHR ''/'') k, drop 1 (dropWhile (\<lambda>c. c \<noteq> CHR ''/'') k))),
      q_empty = ([], []), q_add = (\<lambda>(ks, f) k. (ks @ [k], f)),
      q_add_limited = (\<lambda>(ks, f) k. (ks @ [k], mput k (mget 0 f k + 1) f)),
      q_forget_obj = (\<lambda>q pg. q),
      q_get = (\<lambda>(ks, f). case ks of [] \<Rightarrow> (None, (ks, f)) | k # ks \<Rightarrow> (Some k, (ks, f))),
      q_done = (\<lambda>q k. q), client_get = (\<lambda>w ns name. Inl NotFound),
      client_patch = (\<lambda>w ns name patch. (None, w @ [patch])),
      ctl_marshal = (\<lambda>pg. Inr (Phase (pgStatus pg))), ctl_merge = (\<lambda>a b pg. Inr b)\<rparr>"

theorem ctl_sync_settles_witness:
  "\<exists>pg'. sync_iter 3 (demo_members ''a'' ''Running'') (demo_pg ''Scheduling'') = Inr pg' \<and>
     sync_phase (demo_members ''a'' ''Running'') pg' = Inr (pg', pg') \<and>
     patchPodGroup demo_ctl [] pg' pg' = (None, [])"
  by (rule ctl_sync_settles) (simp_all add: demo_pg_def demo_members_def)

definition demo_controller :: "int pod_group \<Rightarrow> int pod list \<Rightarrow>
    (int, string list \<times> (string, nat) gomap, string list) pg_controller" where
  "demo_controller pg pods =
     NewPodGroupController demo_ctl [(''a/g'', pg)] True
       (\<lambda>sel. Inr (filter (\<lambda>p. set sel \<subseteq> set (podLabels p)) pods)) True []"

definition demo_labelled_member :: "string \<Rightarrow> string \<Rightarrow> int pod" where
  "demo_labelled_member ns ph =
     (demo_pod ns ''m'' 100 0)\<lparr>podLabels := [(PodGroupLabel, ''g'')], podPhase := ph\<rparr>"

theorem ctl_enqueue_policy_witness:
  "ctlQueue (ctl_dispatch demo_ctl (demo_controller (demo_pg ''Running'') [])
     (PodAdd (demo_labelled_member ''a'' ''Running''))) = ([''a/g''], [])"
proof -
  have key: "meta_key demo_ctl pg = Inr (lister_key (pgNamespace pg) (pgName pg))" for pg
    by (simp add: demo_ctl_def demo_api_def)
  have g: "event_group (demo_controller (demo_pg ''Running'') [])
      (PodAdd (demo_labelled_member ''a'' ''Running'')) = Some (demo_pg ''Running'')"
    and w: "worth_queueing (demo_pg ''Running'')"
    and q: "q_add demo_ctl (ctlQueue (demo_controller (demo_pg ''Running'') []))
      (lister_key (pgNamespace (demo_pg ''Running'')) (pgName (demo_pg ''Running''))) = ([''a/g''], [])"
    by code_simp+
  show ?thesis unfolding ctl_enqueue_policy [OF key] g option.case using w q by simp
qed

section \<open>Runs of the controller\<close>

inductive ctl_reach ::
  "('q, 'k, 'w, 'z) ctl_api_scheme \<Rightarrow> ('q, 'k, 'w) pg_controller \<Rightarrow> ('q, 'k, 'w) pg_controller \<Rightarrow> bool"
  for K s0
where
  start: "ctl_reach K s0 s0"
| event: "ctl_reach K s0 s \<Longrightarrow> ctl_reach K s0 (ctl_dispatch K s e)"
| sync: "ctl_reach K s0 s \<Longrightarrow> ctl_sync K s = Inr s' \<Longrightarrow> ctl_reach K s0 s'"

text \<open>
  The retry counter that the queue keeps per item, as documented: only AddRateLimited raises
  it, only Forget resets it, and the items of this queue that count are the string keys.
\<close>

definition retry_laws :: "('q, 'k, 'w, 'z) ctl_api_scheme \<Rightarrow> ('k \<Rightarrow> string \<Rightarrow> nat) \<Rightarrow> bool" where
  "retry_laws K retries \<longleftrightarrow>
     (\<forall>q k k'. retries (q_add K q k) k' = retries q k') \<and>
     (\<forall>q k k'. retries (q_add_limited K q k) k' = retries q k' + (if k' = k then 1 else 0)) \<and>
     (\<forall>q pg k. retries (q_forget_obj K q pg) k = retries q k) \<and>
     (\<forall>q k. retries (snd (q_get K q)) k = retries q k) \<and>
     (\<forall>q k k'. retries (q_done K q k) k' = retries q k')"

lemma retry_lawsD:
  assumes "retry_laws K retries"
  shows "retries (q_add K q k) k' = retries q k'"
    and "retries (q_add_limited K q k) k' = retries q k' + (if k' = k then 1 else 0)"
    and "retries (q_forget_obj K q pg) k = retries q k"
    and "retries (snd (q_get K q)) k = retries q k"
    and "retries (q_done K q k) k' = retries q k'"
  using assms by (simp_all add: retry_laws_def)

lemma dispatch_frame:
  "ctlPgLister (ctl_dispatch K s e) = ctlPgLister s"
  "ctlQueue (ctl_dispatch K s e) = ctlQueue s \<or> (\<exists>k. ctlQueue (ctl_dispatch K s e) = q_add K (ctlQueue s) k)"
proof -
  have pg: "ctlPgLister (pgAdded K s pg) = ctlPgLister s"
    "ctlQueue (pgAdded K s pg) = ctlQueue s \<or> (\<exists>k. ctlQueue (pgAdded K s pg) = q_add K (ctlQueue s) k)" for pg
    by (auto simp: pgAdded_def split: sum.splits)
  show "ctlPgLister (ctl_dispatch K s e) = ctlPgLister s"
    by (cases e) (auto simp: pgUpdated_def podUpdated_def podAdded_def Let_def pg(1) split: sum.splits)
  show "ctlQueue (ctl_dispatch K s e) = ctlQueue s \<or> (\<exists>k. ctlQueue (ctl_dispatch K s e) = q_add K (ctlQueue s) k)"
    using pg(2) by (cases e) (auto simp: pgUpdated_def podUpdated_def podAdded_def Let_def split: sum.splits)
qed

lemma syncHandler_retries:
  "retry_laws K retries \<Longrightarrow> syncHandler K s ptr pg = Inr s' \<Longrightarrow>
    retries (ctlQueue s) k \<le> retries (ctlQueue s') k"
  by (auto simp: syncHandler_def Let_def retry_lawsD split: sum.splits prod.splits option.splits)

lemma ctl_sync_retries:
  assumes "retry_laws K retries" and "ctl_sync K s = Inr s'"
  shows "retries (ctlQueue s) k \<le> retries (ctlQueue s') k"
proof -
  obtain r q where get: "q_get K (ctlQueue s) = (r, q)" by fastforce
  have q: "retries q k = retries (ctlQueue s) k"
    using retry_lawsD(4) [OF assms(1), of "ctlQueue s" k] by (simp add: get)
  show ?thesis
    using assms(2) syncHandler_retries [OF assms(1), of "s\<lparr>ctlQueue := q\<rparr>" _ _ _ k] q
    by (auto simp: ctl_sync_def get Let_def retry_lawsD [OF assms(1)]
        split: option.splits prod.splits sum.splits if_splits; force)
qed


text \<open>The example: a group is synchronised and a patch fails, then the group is synchronised again.\<close>

lemma demo_retry_laws: "retry_laws demo_ctl (\<lambda>q k. mget 0 (snd q) k)"
  by (auto simp: retry_laws_def demo_ctl_def demo_api_def mget_mput split: list.splits)

definition demo_requeued :: "(int, string list \<times> (string, nat) gomap, string list) pg_controller" where
  "demo_requeued = (demo_controller (demo_pg ''Running'') [])\<lparr>ctlQueue := ([''a/g''], [(''a/g'', 3)])\<rparr>"

lemma demo_synced: "\<exists>s'. ctl_sync demo_ctl demo_requeued = Inr s' \<and> ctlQueue s' = ([], [(''a/g'', 3)])"
proof -
  have "(case ctl_sync demo_ctl demo_requeued of Inl e \<Rightarrow> False | Inr s' \<Rightarrow> ctlQueue s' = ([], [(''a/g'', 3)]))"
    by code_simp
  then show ?thesis by (auto split: sum.splits)
qed


text \<open>Two versions of a cached object: the later one differs in OccupiedBy at most, and not even in that
  when it is empty.\<close>

definition same_object :: "'q pod_group \<Rightarrow> 'q pod_group \<Rightarrow> bool" where
  "same_object pg pg' \<longleftrightarrow>
     (\<exists>occ. pg' = pg\<lparr>pgStatus := (pgStatus pg)\<lparr>OccupiedBy := occ\<rparr>\<rparr> \<and>
       (OccupiedBy (pgStatus pg) = '''' \<longrightarrow> occ = ''''))"

lemma same_object_refl [simp]: "same_object pg pg"
  unfolding same_object_def by (rule exI [of _ "OccupiedBy (pgStatus pg)"]) simp

lemma same_object_trans: "same_object a b \<Longrightarrow> same_object b c \<Longrightarrow> same_object a c"
  by (auto simp: same_object_def)

lemma fillOccupiedObj_same [simp]: "same_object pg (fillOccupiedObj pg pod)"
proof (cases "OccupiedBy (pgStatus pg) = '''' \<or> podOwners pod = []")
  case True
  then have "fillOccupiedObj pg pod = pg" by (auto simp: fillOccupiedObj_def Let_def)
  then show ?thesis by simp
next
  case False
  then show ?thesis by (auto simp: fillOccupiedObj_def Let_def same_object_def)
qed

lemma sync_phase_same_object: "sync_phase pods pg = Inr (pg', pgCopy) \<Longrightarrow> same_object pg pg'"
  by (auto simp: sync_phase_def Let_def split: if_splits list.splits)

lemma syncHandler_cache:
  assumes "syncHandler K s ptr pg = Inr s'" and "map_of (ctlPgLister s) ptr = Some pg"
  shows "rel_option same_object (map_of (ctlPgLister s) k) (map_of (ctlPgLister s') k)"
proof -
  have "ctlPgLister s' = ctlPgLister s \<or>
      (\<exists>pods pg' pgCopy. sync_phase pods pg = Inr (pg', pgCopy) \<and> ctlPgLister s' = mput ptr pg' (ctlPgLister s))"
    using assms(1)
    by (auto simp: syncHandler_def Let_def split: sum.splits prod.splits option.splits) blast+
  then show ?thesis using assms(2) sync_phase_same_object by (auto simp: option.rel_refl)
qed

lemma ctl_sync_cache:
  assumes "ctl_sync K s = Inr s'"
  shows "rel_option same_object (map_of (ctlPgLister s) k) (map_of (ctlPgLister s') k)"
proof -
  obtain r q where get: "q_get K (ctlQueue s) = (r, q)" by fastforce
  show ?thesis
    using assms syncHandler_cache [of K "s\<lparr>ctlQueue := q\<rparr>" _ _ _ k]
    by (auto simp: ctl_sync_def get Let_def podGroup_Get_def lister_key_def option.rel_refl
        split: option.splits prod.splits sum.splits if_splits; force simp: option.rel_refl)
qed

text \<open>C22: the controller treats the informer's cache as read-only but for one field: in any run it adds and
  drops no object, and a cached object keeps all its fields except OccupiedBy. It does not even
  record an occupant, since a group whose OccupiedBy is empty is never written to.\<close>

theorem ctl_cache_read_only:
  assumes "ctl_reach K s s'"
  shows "rel_option same_object (map_of (ctlPgLister s) k) (map_of (ctlPgLister s') k)"
  using assms
proof (induction rule: ctl_reach.induct)
  case start
  show ?case by (simp add: option.rel_refl)
next
  case (event s' e)
  then show ?case by (simp add: dispatch_frame(1))
next
  case (sync s1 s2)
  from sync.IH ctl_sync_cache [OF sync.hyps(2), of k] show ?case
    by (auto simp: option_rel_Some1 option_rel_Some2 rel_option_iff split: option.splits dest: same_object_trans)
qed

theorem ctl_cache_read_only_witness:
  "\<exists>s'. ctl_sync demo_ctl demo_requeued = Inr s' \<and>
     rel_option same_object (Some (demo_pg ''Running'')) (map_of (ctlPgLister s') ''a/g'')"
proof -
  obtain s' where s': "ctl_sync demo_ctl demo_requeued = Inr s'" using demo_synced by blast
  from ctl_cache_read_only [OF ctl_reach.sync [OF ctl_reach.start s'], of "''a/g''"] s' show ?thesis
    by (auto simp: demo_requeued_def demo_controller_def NewPodGroupController_def)
qed

text \<open>The pods of a group are looked up by label in all namespaces, so a group is declared Finished by
  the pods of another namespace: the group \<open>a/g\<close> needs two members, has none, and finishes
  when two pods of the group of the same name in namespace \<open>b\<close> have succeeded.\<close>

theorem ctl_foreign_pods_finish_group:
  "(case ctl_sync demo_ctl ((demo_controller (demo_pg ''Scheduled'')
       [demo_labelled_member ''b'' ''Succeeded'', demo_labelled_member ''b'' ''Succeeded''])
       \<lparr>ctlQueue := ([''a/g''], [])\<rparr>) of
      Inl e \<Rightarrow> False
    | Inr s' \<Rightarrow> ctlClient s' = [PodGroupFinished])"
  by code_simp

end
