(* ===== verification/ScoreNormalization.thy ===== *)
theory ScoreNormalization
  imports KubeApi
begin

text \<open>
  What the two score plugins of the repository that normalise their scores have in common: the
  score list of the framework, the loop that finds its extremes, the rescaling of one score to
  the framework's range, and, as a locale, the contract of a normaliser with its consequences.
\<close>

record node_score =
  nsName :: string
  nsScore :: i64

definition MinNodeScore :: i64 where "MinNodeScore = 0"
definition MaxNodeScore :: i64 where "MaxNodeScore = 100"

definition MaxInt64 :: i64 where "MaxInt64 = 9223372036854775807"

section \<open>Extremes and rescaling over the integers\<close>

abbreviation raw :: "node_score \<Rightarrow> int" where
  "raw n \<equiv> sint (nsScore n)"

definition top_score :: "node_score list \<Rightarrow> int" where
  "top_score ns = Max (raw ` set ns)"

definition bottom_score :: "node_score list \<Rightarrow> int" where
  "bottom_score ns = Min (raw ` set ns)"

text \<open>Scores whose range, times the new range, fits in 64 bits.\<close>

definition scalable :: "node_score list \<Rightarrow> bool" where
  "scalable ns \<longleftrightarrow> (\<forall>n \<in> set ns. - 9223372036854775808 < raw n) \<and>
     100 * (top_score ns - bottom_score ns) < 9223372036854775808"

definition rescaled :: "int \<Rightarrow> int \<Rightarrow> int \<Rightarrow> int" where
  "rescaled lo hi s = (if hi = lo then 0 else (100 * (s - lo)) div (hi - lo))"

definition extremes :: "node_score list \<Rightarrow> i64 \<times> i64 \<Rightarrow> i64 \<times> i64" where
  "extremes = fold (\<lambda>n (h, l). (if sint (nsScore n) > sint h then nsScore n else h,
     if sint (nsScore n) < sint l then nsScore n else l))"

lemma extremes_fold:
  "sint (fst (extremes ns (h, l))) = fold max (map raw ns) (sint h) \<and>
   sint (snd (extremes ns (h, l))) = fold min (map raw ns) (sint l)"
proof (induction ns arbitrary: h l)
  case (Cons n ns)
  have "max (raw n) (sint h) = sint (if sint (nsScore n) > sint h then nsScore n else h)"
    "min (raw n) (sint l) = sint (if sint (nsScore n) < sint l then nsScore n else l)" by auto
  with Cons show ?case by (simp add: extremes_def)
qed (simp add: extremes_def)

lemma extremes_scalable:
  assumes "scalable ns" and "ns \<noteq> []"
  shows "sint (fst (extremes ns (- MaxInt64, MaxInt64))) = top_score ns"
    and "sint (snd (extremes ns (- MaxInt64, MaxInt64))) = bottom_score ns"
proof -
  have m: "sint (- MaxInt64) = - 9223372036854775807" "sint MaxInt64 = 9223372036854775807"
    by (simp_all add: MaxInt64_def)
  obtain n where n: "n \<in> set ns" using assms(2) by (cases ns) auto
  have "- 9223372036854775807 \<le> raw n" using n assms(1) by (auto simp: scalable_def)
  also have "raw n \<le> Max (raw ` set ns)" using n by simp
  finally have "Max (set (sint (- MaxInt64) # map raw ns)) = Max (raw ` set ns)"
    using n unfolding m by (simp del: Max_insert) (subst Max_insert, auto)
  then show "sint (fst (extremes ns (- MaxInt64, MaxInt64))) = top_score ns"
    by (simp only: extremes_fold top_score_def Max.set_eq_fold)
  have "Min (raw ` set ns) \<le> raw n" using n by simp
  also have "raw n \<le> 9223372036854775807" using sint64_bounds(2) [of "nsScore n"] by simp
  finally have "Min (set (sint MaxInt64 # map raw ns)) = Min (raw ` set ns)"
    using n unfolding m by (simp del: Min_insert) (subst Min_insert, auto)
  then show "sint (snd (extremes ns (- MaxInt64, MaxInt64))) = bottom_score ns"
    by (simp only: extremes_fold bottom_score_def Min.set_eq_fold)
qed

lemma score_between:
  "n \<in> set ns \<Longrightarrow> bottom_score ns \<le> raw n" "n \<in> set ns \<Longrightarrow> raw n \<le> top_score ns"
  by (simp_all add: bottom_score_def top_score_def)

text \<open>The body that both plugins' NormalizeScore have: the second loop writes every score anew.\<close>

definition normalize_scores :: "node_score list \<Rightarrow> node_score list" where
  "normalize_scores scores =
     (let (highest, lowest) = extremes scores (- MaxInt64, MaxInt64);
          oldRange = highest - lowest;
          newRange = MaxNodeScore - MinNodeScore
      in map (\<lambda>nodeScore. nodeScore\<lparr>nsScore :=
           if oldRange = 0 then MinNodeScore
           else go_div ((nsScore nodeScore - lowest) * newRange) oldRange + MinNodeScore\<rparr>) scores)"

lemma rescaled_top: "lo < hi \<Longrightarrow> 100 * (hi - lo) div (hi - lo) = (100 :: int)"
  by (rule nonzero_mult_div_cancel_right) simp

lemma rescaled_bounds: "lo \<le> s \<Longrightarrow> s \<le> hi \<Longrightarrow> 0 \<le> rescaled lo hi s \<and> rescaled lo hi s \<le> 100"
proof -
  assume "lo \<le> s" and "s \<le> hi"
  then have "0 \<le> 100 * (s - lo) div (hi - lo)" and "100 * (s - lo) div (hi - lo) \<le> 100 * (hi - lo) div (hi - lo)"
    if "lo < hi"
    using that by (simp add: pos_imp_zdiv_nonneg_iff, intro zdiv_mono1) simp_all
  moreover have "lo < hi" if "hi \<noteq> lo" using that \<open>lo \<le> s\<close> \<open>s \<le> hi\<close> by simp
  ultimately show ?thesis unfolding rescaled_def using rescaled_top by fastforce
qed

lemma rescaled_mono: "lo \<le> hi \<Longrightarrow> s \<le> t \<Longrightarrow> rescaled lo hi s \<le> rescaled lo hi t"
  by (auto simp: rescaled_def intro: zdiv_mono1)

lemma go_div_nonneg:
  assumes "0 \<le> sint a" and "0 < sint b"
  shows "sint (go_div a b :: i64) = sint a div sint b"
proof -
  have "sint a sdiv sint b = sint a div sint b"
    using assms by (simp add: signed_divide_int_def sgn_if)
  moreover have "0 \<le> sint a div sint b" "sint a div sint b \<le> sint a"
    using assms zdiv_mono2 [of "sint a" 1 "sint b"] by (simp_all add: pos_imp_zdiv_nonneg_iff)
  ultimately show ?thesis
    unfolding go_div_def using sint64_bounds(2) [of a] by (simp add: sint64_of_int)
qed

lemma normalize_scores_rescales:
  assumes "scalable ns"
  shows "map raw (normalize_scores ns) = map (rescaled (bottom_score ns) (top_score ns)) (map raw ns)"
proof (cases "ns = []")
  case False
  obtain h l where hl: "extremes ns (- MaxInt64, MaxInt64) = (h, l)" by fastforce
  have h: "sint h = top_score ns" and l: "sint l = bottom_score ns"
    using extremes_scalable [OF assms False] by (simp_all add: hl)
  have le: "bottom_score ns \<le> top_score ns"
    using False score_between [of "hd ns" ns] by simp
  have range: "100 * (sint h - sint l) < 9223372036854775808" using assms by (simp add: scalable_def h l)
  have d: "sint (h - l) = sint h - sint l" using le range by (intro sint64_sub) (simp_all add: h l)
  have eq: "h = l \<longleftrightarrow> top_score ns = bottom_score ns"
    using h l by (metis signed_word_eqI)
  have "sint (go_div ((nsScore n - l) * 100) (h - l)) = (100 * (raw n - bottom_score ns)) div (top_score ns - bottom_score ns)"
    if n: "n \<in> set ns" and ne: "top_score ns \<noteq> bottom_score ns" for n
  proof -
    note b = score_between [OF n]
    have s: "sint (nsScore n - l) = raw n - sint l"
      using b range by (intro sint64_sub) (simp_all add: h l)
    have "sint ((nsScore n - l) * 100) = sint (nsScore n - l) * sint (100 :: i64)"
      using b range by (intro sint64_mul) (simp_all add: s h l)
    then have m: "sint ((nsScore n - l) * 100) = 100 * (raw n - bottom_score ns)" by (simp add: s l)
    have "sint (go_div ((nsScore n - l) * 100) (h - l)) = sint ((nsScore n - l) * 100) div sint (h - l)"
      using b ne le by (intro go_div_nonneg) (simp_all only: m d h l, simp_all)
    then show ?thesis unfolding m d h l .
  qed
  then show ?thesis
    by (auto simp: normalize_scores_def hl Let_def eq rescaled_def MaxNodeScore_def MinNodeScore_def)
qed (simp add: normalize_scores_def)

section \<open>The contract of a normaliser\<close>

locale score_normalizer =
  fixes normalize :: "node_score list \<Rightarrow> node_score list"
  assumes names: "map nsName (normalize ns) = map nsName ns"
    and rescales: "scalable ns \<Longrightarrow>
      map raw (normalize ns) = map (rescaled (bottom_score ns) (top_score ns)) (map raw ns)"
begin

lemma length_normalize [simp]: "length (normalize ns) = length ns"
  using arg_cong [OF names, of length] by simp

lemma score_nth:
  assumes "scalable ns" and "i < length ns"
  shows "raw (normalize ns ! i) = rescaled (bottom_score ns) (top_score ns) (raw (ns ! i))"
  using arg_cong [OF rescales [OF assms(1)], of "\<lambda>xs. xs ! i"] assms(2) by simp

lemma in_range:
  assumes "scalable ns" and "i < length ns"
  shows "0 \<le> raw (normalize ns ! i) \<and> raw (normalize ns ! i) \<le> 100"
  unfolding score_nth [OF assms] using score_between [OF nth_mem [OF assms(2)]] by (rule rescaled_bounds)

lemma keeps_order:
  assumes "scalable ns" and "i < length ns" and "j < length ns" and "raw (ns ! i) \<le> raw (ns ! j)"
  shows "raw (normalize ns ! i) \<le> raw (normalize ns ! j)"
  unfolding score_nth [OF assms(1,2)] score_nth [OF assms(1,3)]
  using order_trans [OF score_between(1) score_between(2)] assms(2,4)
  by (intro rescaled_mono) (auto dest: nth_mem)

lemma best_gets_100:
  assumes "scalable ns" and "i < length ns" and "raw (ns ! i) = top_score ns"
    and "bottom_score ns < top_score ns"
  shows "raw (normalize ns ! i) = 100"
  using score_nth [OF assms(1,2)] assms(3,4) rescaled_top [OF assms(4)] by (simp only: rescaled_def if_False) simp

lemma worst_gets_0:
  assumes "scalable ns" and "i < length ns" and "raw (ns ! i) = bottom_score ns"
  shows "raw (normalize ns ! i) = 0"
  using score_nth [OF assms(1,2)] assms(3) by (simp add: rescaled_def)

end

end
