(* ===== verification/ConfigTypes.thy ===== *)
theory ConfigTypes
  imports KubeApi GoFloat
begin

text \<open>
  The plugin arguments: the internal types of \<^verbatim>\<open>pkg/apis/config/types.go\<close> and the
  versioned ones of \<^verbatim>\<open>pkg/apis/config/v1beta1/types.go\<close>, whose optional fields are
  pointers. A resource list, which may be a nil map, is an option; so is a slice of resource
  specs. The prefix \<open>b\<close> marks the versioned type.
\<close>

record type_meta =
  Kind :: string
  APIVersion :: string

record resource_spec =
  rsName :: string
  rsWeight :: i64

section \<open>Internal types\<close>

record CoschedulingArgs =
  csMeta :: type_meta
  csPermitWaitingTimeSeconds :: i64
  csDeniedPGExpirationTimeSeconds :: i64
  csKubeMaster :: string
  csKubeConfigPath :: string

type_synonym ModeType = string

definition Least_mode :: ModeType where "Least_mode = ''Least''"
definition Most_mode :: ModeType where "Most_mode = ''Most''"

record NodeResourcesAllocatableArgs =
  nraMeta :: type_meta
  nraResources :: "resource_spec list option"
  nraMode :: ModeType

record CapacitySchedulingArgs =
  capMeta :: type_meta
  capKubeConfigPath :: string

type_synonym MetricProviderType = string

definition KubernetesMetricsServer :: MetricProviderType where
  "KubernetesMetricsServer = ''KubernetesMetricsServer''"
definition Prometheus :: MetricProviderType where "Prometheus = ''Prometheus''"
definition SignalFx :: MetricProviderType where "SignalFx = ''SignalFx''"

record MetricProviderSpec =
  mpType :: MetricProviderType
  mpAddress :: string
  mpToken :: string

record 'q TargetLoadPackingArgs =
  tlpMeta :: type_meta
  tlpDefaultRequests :: "'q resource_list option"
  tlpDefaultRequestsMultiplier :: string
  tlpTargetUtilization :: i64
  tlpMetricProvider :: MetricProviderSpec
  tlpWatcherAddress :: string

record LoadVariationRiskBalancingArgs =
  lvrMeta :: type_meta
  lvrMetricProvider :: MetricProviderSpec
  lvrWatcherAddress :: string
  lvrSafeVarianceMargin :: gofloat
  lvrSafeVarianceSensitivity :: gofloat

section \<open>Versioned types\<close>

record bCoschedulingArgs =
  bcsMeta :: type_meta
  bcsPermitWaitingTimeSeconds :: "i64 option"
  bcsDeniedPGExpirationTimeSeconds :: "i64 option"
  bcsKubeMaster :: "string option"
  bcsKubeConfigPath :: "string option"

record bNodeResourcesAllocatableArgs =
  bnraMeta :: type_meta
  bnraResources :: "resource_spec list option"
  bnraMode :: ModeType

record bCapacitySchedulingArgs =
  bcapMeta :: type_meta
  bcapKubeConfigPath :: "string option"

record bMetricProviderSpec =
  bmpType :: MetricProviderType
  bmpAddress :: "string option"
  bmpToken :: "string option"

record 'q bTargetLoadPackingArgs =
  btlpMeta :: type_meta
  btlpDefaultRequests :: "'q resource_list option"
  btlpDefaultRequestsMultiplier :: "string option"
  btlpTargetUtilization :: "i64 option"
  btlpMetricProvider :: bMetricProviderSpec
  btlpWatcherAddress :: "string option"

record bLoadVariationRiskBalancingArgs =
  blvrMeta :: type_meta
  blvrMetricProvider :: bMetricProviderSpec
  blvrWatcherAddress :: "string option"
  blvrSafeVarianceMargin :: "gofloat option"
  blvrSafeVarianceSensitivity :: "gofloat option"

text \<open>A \<^verbatim>\<open>runtime.Object\<close> that a plugin's constructor gets: nil, or one of the types.\<close>

datatype 'q runtime_object =
    NilObject
  | ObjCoscheduling CoschedulingArgs
  | ObjNodeResources NodeResourcesAllocatableArgs
  | ObjCapacity CapacitySchedulingArgs
  | ObjTargetLoad "'q TargetLoadPackingArgs"
  | ObjLoadVariation LoadVariationRiskBalancingArgs
  | OtherObject

end
