(* ===== verification/NodeResources.thy ===== *)
theory NodeResources
  imports ScoreNormalization ConfigTypes DemoApi
begin

text \<open>
  \<^verbatim>\<open>pkg/noderesources\<close>: the score plugin that prefers nodes with the least or the most
  allocatable resources (\<^verbatim>\<open>allocatable.go\<close>, \<^verbatim>\<open>resource_allocation.go\<close>). Go's
  \<^verbatim>\<open>/\<close> panics on a zero divisor, which is an error value. The node snapshot's lookup is
  the parameter \<open>get_node\<close>.
\<close>

section \<open>Resource requests\<close>

type_synonym resourceToWeightMap = "(string, i64) gomap"
type_synonym resourceToValueMap = "(string, i64) gomap"

definition defaultResourcesToWeightMap :: resourceToWeightMap where
  "defaultResourcesToWeightMap = [(''memory'', 1), (''cpu'', push_bit 20 1)]"

definition calculatePodResourceRequest :: "('q, 'z) kube_api_scheme \<Rightarrow> 'q pod \<Rightarrow> string \<Rightarrow> i64" where
  "calculatePodResourceRequest K pod resource =
     (let podRequest = fold (\<lambda>container podRequest.
            podRequest + nonzero_request K resource (ctRequests container)) (podContainers pod) 0;
          podRequest = fold (\<lambda>initContainer podRequest.
            let value = nonzero_request K resource (ctRequests initContainer)
            in if sint podRequest < sint value then value else podRequest) (podInitContainers pod) podRequest
      in case podOverhead pod of
           Some overhead \<Rightarrow>
             if feature_on K PodOverhead then
               (case map_of overhead resource of
                  Some quantity \<Rightarrow> podRequest + q_value K quantity
                | None \<Rightarrow> podRequest)
             else podRequest
         | None \<Rightarrow> podRequest)"

definition calculateResourceAllocatableRequest ::
  "('q, 'z) kube_api_scheme \<Rightarrow> 'q node_info \<Rightarrow> 'q pod \<Rightarrow> string \<Rightarrow> i64 \<times> i64"
where
  "calculateResourceAllocatableRequest K nodeInfo pod resource =
     (let podRequest = calculatePodResourceRequest K pod resource
      in if resource = ''cpu'' then
           (MilliCPU (niAllocatable nodeInfo), MilliCPU (niNonZero nodeInfo) + podRequest)
         else if resource = ''memory'' then
           (Memory (niAllocatable nodeInfo), Memory (niNonZero nodeInfo) + podRequest)
         else if resource = ''ephemeral-storage'' then
           (EphemeralStorage (niAllocatable nodeInfo), EphemeralStorage (niRequested nodeInfo) + podRequest)
         else if is_scalar_name K resource then
           (mget 0 (ScalarResources (niAllocatable nodeInfo)) resource,
            mget 0 (ScalarResources (niRequested nodeInfo)) resource + podRequest)
         else (0, 0))"

section \<open>The scorer\<close>

text \<open>\<^verbatim>\<open>resourceAllocationScorer\<close>: its weight map may be nil; the scorer gets the requested and
  allocatable amounts, whether to include volumes, and two volume counts.\<close>

record resource_allocation_scorer =
  rasName :: string
  rasScorer :: "resourceToValueMap \<Rightarrow> resourceToValueMap \<Rightarrow> bool \<Rightarrow> i64 \<Rightarrow> i64 \<Rightarrow> error + i64"
  rasWeights :: "resourceToWeightMap option"

definition ras_score ::
  "('q, 'z) kube_api_scheme \<Rightarrow> resource_allocation_scorer \<Rightarrow> 'q pod \<Rightarrow> 'q node_info \<Rightarrow>
   error + i64 \<times> status option"
where
  "ras_score K r pod nodeInfo =
     (if niNode nodeInfo = None then Inr (0, Some (NewStatus Error ''node not found''))
      else case rasWeights r of
        None \<Rightarrow> Inr (0, Some (NewStatus Error ''resources not found''))
      | Some weights \<Rightarrow>
          let (requested, allocatable) = fold (\<lambda>(resource, _) (requested, allocatable).
                let (a, q) = calculateResourceAllocatableRequest K nodeInfo pod resource
                in (mput resource q requested, mput resource a allocatable)) weights ([], []);
              scored =
                (case niTransient nodeInfo of
                   Some (requestedVolumes, allocatableVolumes) \<Rightarrow>
                     if feature_on K BalanceAttachedNodeVolumes then
                       rasScorer r requested allocatable True requestedVolumes allocatableVolumes
                     else rasScorer r requested allocatable False 0 0
                 | None \<Rightarrow> rasScorer r requested allocatable False 0 0)
          in case scored of Inl err \<Rightarrow> Inl err | Inr s \<Rightarrow> Inr (s, None))"

definition score_capacity :: "i64 \<Rightarrow> string \<Rightarrow> i64" where
  "score_capacity capacity mode =
     (if mode = Least_mode then - 1 * capacity else if mode = Most_mode then capacity else 0)"

definition resourceScorer ::
  "resourceToWeightMap \<Rightarrow> string \<Rightarrow> resourceToValueMap \<Rightarrow> resourceToValueMap \<Rightarrow> bool \<Rightarrow> i64 \<Rightarrow> i64 \<Rightarrow>
   error + i64"
where
  "resourceScorer resToWeightMap mode requested allocable includeVolumes requestedVolumes allocatableVolumes =
     (let (nodeScore, weightSum) = fold (\<lambda>(resource, weight) (nodeScore, weightSum).
            let resourceScore = score_capacity (mget 0 allocable resource) mode
            in (nodeScore + resourceScore * weight, weightSum + weight)) resToWeightMap (0, 0)
      in if weightSum = 0 then Inl (Panic ''integer divide by zero'')
         else Inr (go_div nodeScore weightSum))"

section \<open>The plugin\<close>

definition AllocatableName :: string where "AllocatableName = ''NodeResourcesAllocatable''"

definition validateResources :: "resource_spec list \<Rightarrow> error option" where
  "validateResources resources =
     (if \<exists>r \<in> set resources. sint (rsWeight r) \<le> 0
      then Some (Err ''resource Weight should be a positive value'') else None)"

definition NewAllocatable :: "'q runtime_object \<Rightarrow> error + resource_allocation_scorer" where
  "NewAllocatable allocArgs =
     (let build = (\<lambda>mode resToWeightMap.
            \<lparr>rasName = AllocatableName, rasScorer = resourceScorer resToWeightMap mode,
             rasWeights = Some resToWeightMap\<rparr>)
      in case allocArgs of
           NilObject \<Rightarrow> Inr (build Least_mode defaultResourcesToWeightMap)
         | ObjNodeResources args \<Rightarrow>
             let mode = (if nraMode args \<noteq> '''' then nraMode args else Least_mode)
             in if nraMode args \<noteq> '''' \<and> mode \<noteq> Least_mode \<and> mode \<noteq> Most_mode then Inl (Err ''invalid mode'')
                else (case nraResources args of
                  Some (r # rs) \<Rightarrow>
                    (case validateResources (r # rs) of
                       Some err \<Rightarrow> Inl err
                     | None \<Rightarrow>
                         Inr (build mode (fold (\<lambda>resource m. mput (rsName resource) (rsWeight resource) m) (r # rs) [])))
                | _ \<Rightarrow> Inr (build mode defaultResourcesToWeightMap))
         | _ \<Rightarrow> Inl (Err ''want args to be of type NodeResourcesAllocatableArgs''))"

definition alloc_Score ::
  "('q, 'z) kube_api_scheme \<Rightarrow> resource_allocation_scorer \<Rightarrow> (string \<Rightarrow> error + 'q node_info) \<Rightarrow>
   'q pod \<Rightarrow> string \<Rightarrow> error + i64 \<times> status option"
where
  "alloc_Score K alloc get_node pod name =
     (case get_node name of
        Inl err \<Rightarrow> Inr (0, Some (NewStatus Error ''getting node from Snapshot''))
      | Inr nodeInfo \<Rightarrow> ras_score K alloc pod nodeInfo)"

definition alloc_NormalizeScore :: "node_score list \<Rightarrow> node_score list \<times> status option" where
  "alloc_NormalizeScore scores = (normalize_scores scores, None)"

interpretation alloc: score_normalizer "\<lambda>ns. fst (alloc_NormalizeScore ns)"
  by unfold_locales
    (simp add: alloc_NormalizeScore_def normalize_scores_def Let_def comp_def split: prod.split,
     simp add: alloc_NormalizeScore_def normalize_scores_rescales)

end
