(* ===== verification/PodState.thy ===== *)
theory PodState
  imports ScoreNormalization
begin

text \<open>
  \<^verbatim>\<open>pkg/podstate/pod_state.go\<close>: the score plugin that prefers nodes with terminating
  pods and avoids nodes with nominated ones. The snapshot's lookup and the number of pods
  nominated for a node are parameters.
\<close>

definition ps_Name :: string where "ps_Name = ''PodState''"

definition ps_score :: "(string \<Rightarrow> nat) \<Rightarrow> 'q node_info \<Rightarrow> error + i64 \<times> status option" where
  "ps_score nominatedPodsForNode nodeInfo =
     (case niNode nodeInfo of
        None \<Rightarrow> Inl (Panic ''nil pointer dereference'')
      | Some node \<Rightarrow>
          let nominatedPodNum = of_nat (nominatedPodsForNode (nodeName node));
              terminatingPodNum = fold (\<lambda>p terminatingPodNum.
                if podDeletion p \<noteq> None then terminatingPodNum + 1 else terminatingPodNum) (niPods nodeInfo) 0
          in Inr (terminatingPodNum - nominatedPodNum, None))"

definition ps_Score ::
  "(string \<Rightarrow> nat) \<Rightarrow> (string \<Rightarrow> error + 'q node_info) \<Rightarrow> string \<Rightarrow> error + i64 \<times> status option"
where
  "ps_Score nominatedPodsForNode get_node name =
     (case get_node name of
        Inl err \<Rightarrow> Inr (0, Some (NewStatus Error ''getting node from Snapshot''))
      | Inr nodeInfo \<Rightarrow> ps_score nominatedPodsForNode nodeInfo)"

definition ps_NormalizeScore :: "node_score list \<Rightarrow> node_score list \<times> status option" where
  "ps_NormalizeScore scores = (normalize_scores scores, None)"

interpretation podstate: score_normalizer "\<lambda>ns. fst (ps_NormalizeScore ns)"
  by unfold_locales
    (simp add: ps_NormalizeScore_def normalize_scores_def Let_def comp_def split: prod.split,
     simp add: ps_NormalizeScore_def normalize_scores_rescales)

text \<open>The score over the integers: terminating minus nominated pods.\<close>

definition pod_balance :: "(string \<Rightarrow> nat) \<Rightarrow> 'q node_info \<Rightarrow> int" where
  "pod_balance nominated ni =
     int (length (filter (\<lambda>p. podDeletion p \<noteq> None) (niPods ni)))
     - (case niNode ni of None \<Rightarrow> 0 | Some nd \<Rightarrow> int (nominated (nodeName nd)))"

lemma ps_score_balance:
  assumes "niNode ni = Some nd" and "length (niPods ni) < 2147483648" and "nominated (nodeName nd) < 2147483648"
  shows "\<exists>s. ps_score nominated ni = Inr (s, None) \<and> sint s = pod_balance nominated ni
    \<and> \<bar>sint s\<bar> < 2147483648"
proof -
  have count: "fold (\<lambda>p n. if podDeletion p \<noteq> None then n + 1 else n) ps k
      = (k + of_nat (length (filter (\<lambda>p. podDeletion p \<noteq> None) ps)) :: i64)" for ps :: "'a pod list" and k
    by (induction ps arbitrary: k) (auto simp: add.assoc [symmetric] add.commute)
  let ?n = "length (filter (\<lambda>p. podDeletion p \<noteq> None) (niPods ni))" and ?m = "nominated (nodeName nd)"
  have n: "?n < 2147483648" using assms(2) length_filter_le le_less_trans by blast
  have s: "sint (of_nat x :: i64) = int x" if "x < 2147483648" for x
    using that sint64_of_int [of "int x"] by simp
  have d: "sint (of_nat ?n - of_nat ?m :: i64) = int ?n - int ?m"
    using n assms(3) by (subst sint64_sub) (simp_all add: s)
  show ?thesis
    unfolding ps_score_def pod_balance_def assms(1) option.case count Let_def
    using d n assms(3) by (simp del: not_None_eq)
qed

end
