(* ===== verification/ScoreProperties.thy ===== *)
theory ScoreProperties
  imports NodeResources PodState
begin

text \<open>
  What the score plugins promise: the resource score is a weighted average that orders nodes by
  their allocatable resources in the direction of the mode, and normalised scores lie in the
  framework's range and keep that order.
\<close>

section \<open>The weighted average\<close>

text \<open>The amount of a resource that a node can allocate; it does not depend on the pod.\<close>

definition node_amount :: "('q, 'z) kube_api_scheme \<Rightarrow> 'q node_info \<Rightarrow> string \<Rightarrow> i64" where
  "node_amount K ni r =
     (if r = ''cpu'' then MilliCPU (niAllocatable ni)
      else if r = ''memory'' then Memory (niAllocatable ni)
      else if r = ''ephemeral-storage'' then EphemeralStorage (niAllocatable ni)
      else if is_scalar_name K r then mget 0 (ScalarResources (niAllocatable ni)) r else 0)"

lemma fst_calculate [simp]: "fst (calculateResourceAllocatableRequest K ni pod r) = node_amount K ni r"
  by (simp add: calculateResourceAllocatableRequest_def node_amount_def Let_def)

definition weighted_sum :: "(string \<Rightarrow> int) \<Rightarrow> resourceToWeightMap \<Rightarrow> int" where
  "weighted_sum v ws = sum_list (map (\<lambda>(r, w). v r * sint w) ws)"

definition weight_sum :: "resourceToWeightMap \<Rightarrow> int" where
  "weight_sum ws = sum_list (map (\<lambda>(r, w). sint w) ws)"

text \<open>Positive weights and non-negative amounts whose sums fit in 64 bits.\<close>

definition sums_fit :: "(string \<Rightarrow> int) \<Rightarrow> resourceToWeightMap \<Rightarrow> bool" where
  "sums_fit v ws \<longleftrightarrow> (\<forall>(r, w) \<in> set ws. 0 \<le> v r \<and> 0 < sint w) \<and>
     weighted_sum v ws < 9223372036854775808 \<and> weight_sum ws < 9223372036854775808"

lemma sums_nonneg:
  "\<forall>(r, w) \<in> set ws. 0 \<le> v r \<and> 0 < sint w \<Longrightarrow> 0 \<le> weighted_sum v ws \<and> 0 \<le> weight_sum ws"
  by (induction ws) (auto simp: weighted_sum_def weight_sum_def)

text \<open>The scorer's loop, with a sign for the mode.\<close>

lemma scorer_fold:
  "fold (\<lambda>(resource, weight) (nodeScore, weightSum).
       (nodeScore + score_capacity (mget 0 allocable resource) mode * weight, weightSum + weight)) ws (n, k)
   = (n + word_of_int (sum_list (map (\<lambda>(r, w). sint (score_capacity (mget 0 allocable r) mode) * sint w) ws)),
      k + word_of_int (weight_sum ws))"
proof (induction ws arbitrary: n k)
  case Nil
  show ?case by (simp add: weight_sum_def)
next
  case (Cons rw ws)
  then show ?case
    by (cases rw) (simp add: weight_sum_def wi_hom_add [symmetric] wi_hom_mult [symmetric] add.assoc)
qed

lemma allocatable_fold:
  "snd (fold (\<lambda>(r, _) (requested, allocatable).
       let (a, q) = calculateResourceAllocatableRequest K ni pod r
       in (mput r q requested, mput r a allocatable)) ws (req, acc))
   = fold (\<lambda>(r, _). mput r (node_amount K ni r)) ws acc"
proof (induction ws arbitrary: req acc)
  case (Cons rw ws)
  obtain a q where c: "calculateResourceAllocatableRequest K ni pod (fst rw) = (a, q)" by fastforce
  then have "a = node_amount K ni (fst rw)" by (metis fst_calculate fst_conv)
  with Cons c show ?case by (cases rw) simp
qed simp

lemma mget_amounts:
  "r \<in> gkeys ws \<or> mget 0 acc r = node_amount K ni r \<Longrightarrow>
    mget 0 (fold (\<lambda>(r, _). mput r (node_amount K ni r)) ws acc) r = node_amount K ni r"
  by (induction ws arbitrary: acc) (auto simp: mget_mput)

text \<open>The quotient of the scorer for either mode.\<close>

lemma go_div_neg:
  assumes "0 \<le> a" and "a < 9223372036854775808" and "0 < sint b"
  shows "sint (go_div (word_of_int (- a)) b :: i64) = - (a div sint b)"
proof -
  have "sint (word_of_int (- a) :: i64) = - a" using assms by (intro sint64_of_int) auto
  moreover have "(- a) sdiv sint b = - (a div sint b)"
    using assms by (simp add: signed_divide_int_def sgn_if)
  moreover have "0 \<le> a div sint b" "a div sint b \<le> a"
    using assms zdiv_mono2 [of a 1 "sint b"] by (simp_all add: pos_imp_zdiv_nonneg_iff)
  moreover from calculation(3,4) assms(2)
  have "sint (word_of_int (- (a div sint b)) :: i64) = - (a div sint b)"
    by (intro sint64_of_int) auto
  ultimately show ?thesis unfolding go_div_def by (simp only:)
qed

lemma modes_differ [simp]: "Least_mode \<noteq> Most_mode" "Most_mode \<noteq> Least_mode"
  by (simp_all add: Least_mode_def Most_mode_def)

lemma resourceScorer_eq:
  assumes fit: "sums_fit (\<lambda>r. sint (mget 0 allocable r)) ws" and "ws \<noteq> []" and "mode = Least_mode \<or> mode = Most_mode"
  shows "\<exists>s. resourceScorer ws mode requested allocable b i j = Inr s \<and>
    sint s = (if mode = Most_mode then 1 else - 1) *
      (weighted_sum (\<lambda>r. sint (mget 0 allocable r)) ws div weight_sum ws)"
proof -
  let ?v = "\<lambda>r. sint (mget 0 allocable r)"
  have nn: "0 \<le> weighted_sum ?v ws" using sums_nonneg fit by (auto simp: sums_fit_def)
  obtain r w ws' where ws: "ws = (r, w) # ws'" using assms(2) by (cases ws) auto
  then have "0 < weight_sum ws"
    using fit sums_nonneg [of ws' ?v] by (auto simp: sums_fit_def weight_sum_def)
  then have W: "sint (word_of_int (weight_sum ws) :: i64) = weight_sum ws" and pos: "0 < weight_sum ws"
    using fit by (auto simp: sums_fit_def intro!: sint64_of_int)
  then have nz: "(word_of_int (weight_sum ws) :: i64) \<noteq> 0" by auto
  have Most: "sum_list (map (\<lambda>(r, w). sint (score_capacity (mget 0 allocable r) Most_mode) * sint w) ws) = weighted_sum ?v ws"
    by (simp add: weighted_sum_def score_capacity_def Most_mode_def Least_mode_def)
  have least: "sint (score_capacity x Least_mode) = - sint x" if "0 \<le> sint x" for x
    using that sint64_sub [of 0 x] sint64_bounds(2) [of x] by (simp add: score_capacity_def)
  have Least: "sum_list (map (\<lambda>(r, w). sint (score_capacity (mget 0 allocable r) Least_mode) * sint w) ws)
      = - weighted_sum ?v ws"
  proof -
    have "\<forall>(r, w) \<in> set ws. 0 \<le> ?v r" using fit by (auto simp: sums_fit_def)
    then show ?thesis unfolding weighted_sum_def by (induction ws) (auto simp: least)
  qed
  show ?thesis
    using assms(3)
  proof
    assume m: "mode = Most_mode"
    have "sint (go_div (word_of_int (weighted_sum ?v ws)) (word_of_int (weight_sum ws)) :: i64)
        = weighted_sum ?v ws div weight_sum ws"
      using fit nn pos W by (subst go_div_nonneg) (auto simp: sums_fit_def sint64_of_int)
    then show ?thesis using nz by (simp add: resourceScorer_def scorer_fold m Most Let_def)
  next
    assume m: "mode = Least_mode"
    have "sint (go_div (word_of_int (- weighted_sum ?v ws)) (word_of_int (weight_sum ws)) :: i64)
        = - (weighted_sum ?v ws div weight_sum ws)"
      using fit nn pos by (subst go_div_neg) (auto simp: sums_fit_def W)
    then show ?thesis
      using nz by (simp add: resourceScorer_def scorer_fold m Least Let_def)
  qed
qed

text \<open>What the constructor builds: a non-empty map of positive weights and one of the two modes.\<close>

definition args_mode :: "'q runtime_object \<Rightarrow> string" where
  "args_mode allocArgs =
     (case allocArgs of
        ObjNodeResources args \<Rightarrow> if nraMode args = '''' then Least_mode else nraMode args
      | _ \<Rightarrow> Least_mode)"

definition good_weights :: "resourceToWeightMap \<Rightarrow> bool" where
  "good_weights ws \<longleftrightarrow> ws \<noteq> [] \<and> gwf ws \<and> (\<forall>(r, w) \<in> set ws. 0 < sint w)"

lemma mput_fold_weights:
  assumes "\<forall>r \<in> set rs. 0 < sint (rsWeight r)" and "gwf m" and "\<forall>(r, w) \<in> set m. 0 < sint w"
    and "rs \<noteq> [] \<or> m \<noteq> []"
  shows "good_weights (fold (\<lambda>r m. mput (rsName r) (rsWeight r) m) rs m)"
  using assms unfolding good_weights_def
proof (induction rs arbitrary: m)
  case (Cons r rs)
  have "set (mput (rsName r) (rsWeight r) m) \<subseteq> insert (rsName r, rsWeight r) (set m)" by (induction m) auto
  then have "\<forall>(r, w) \<in> set (mput (rsName r) (rsWeight r) m). 0 < sint w" using Cons.prems(1,3) by auto
  moreover have "mput (rsName r) (rsWeight r) m \<noteq> []" by (cases m) auto
  ultimately show ?case using Cons.IH [of "mput (rsName r) (rsWeight r) m"] Cons.prems by simp
qed simp

lemma default_weights: "good_weights defaultResourcesToWeightMap"
  by (simp add: good_weights_def defaultResourcesToWeightMap_def push_bit_eq_mult)

lemma NewAllocatable_Inr:
  assumes "NewAllocatable args = Inr alloc" and "rasWeights alloc = Some ws"
  shows "rasScorer alloc = resourceScorer ws (args_mode args) \<and> good_weights ws \<and>
    (args_mode args = Least_mode \<or> args_mode args = Most_mode)"
proof (cases args)
  case (ObjNodeResources a)
  define md where "md = args_mode args"
  have mode: "md = (if nraMode a \<noteq> '''' then nraMode a else Least_mode)"
    by (simp add: md_def args_mode_def ObjNodeResources)
  have ok: "md = Least_mode \<or> md = Most_mode"
    using assms(1) by (auto simp: NewAllocatable_def ObjNodeResources mode Let_def split: if_splits)
  have "\<not> (nraMode a \<noteq> '''' \<and> nraMode a \<noteq> Least_mode \<and> nraMode a \<noteq> Most_mode)"
    using ok by (simp add: mode split: if_splits)
  then have new: "NewAllocatable args = (case nraResources a of
      Some (r # rs) \<Rightarrow> (case validateResources (r # rs) of
           Some err \<Rightarrow> Inl err
         | None \<Rightarrow> Inr \<lparr>rasName = AllocatableName,
             rasScorer = resourceScorer (fold (\<lambda>r m. mput (rsName r) (rsWeight r) m) (r # rs) []) (md),
             rasWeights = Some (fold (\<lambda>r m. mput (rsName r) (rsWeight r) m) (r # rs) [])\<rparr>)
    | _ \<Rightarrow> Inr \<lparr>rasName = AllocatableName, rasScorer = resourceScorer defaultResourcesToWeightMap (md),
             rasWeights = Some defaultResourcesToWeightMap\<rparr>)"
    by (cases "nraMode a = ''''") (auto simp: NewAllocatable_def ObjNodeResources mode Let_def split: option.split list.split)
  show ?thesis
  proof (cases "\<exists>r rs. nraResources a = Some (r # rs)")
    case False
    then have "alloc = \<lparr>rasName = AllocatableName,
        rasScorer = resourceScorer defaultResourcesToWeightMap md,
        rasWeights = Some defaultResourcesToWeightMap\<rparr>"
      using assms(1) unfolding new by (auto split: option.splits list.splits)
    with assms(2) ok default_weights show ?thesis by (simp flip: md_def)
  next
    case True
    then obtain r rs where rs: "nraResources a = Some (r # rs)" by blast
    let ?m = "fold (\<lambda>r m. mput (rsName r) (rsWeight r) m) (r # rs) []"
    have v: "validateResources (r # rs) = None" and alloc: "alloc = \<lparr>rasName = AllocatableName,
        rasScorer = resourceScorer ?m md, rasWeights = Some ?m\<rparr>"
      using assms(1) unfolding new rs by (auto split: option.splits)
    then have "\<forall>r \<in> set (r # rs). 0 < sint (rsWeight r)"
      by (auto simp: validateResources_def not_le split: if_splits)
    from mput_fold_weights [OF this, of "[]"] have "good_weights ?m" by simp
    with assms(2) ok alloc show ?thesis by (simp flip: md_def)
  qed
qed (use assms default_weights in \<open>auto simp: NewAllocatable_def args_mode_def Let_def\<close>)

lemma weighted_sum_cong:
  "(\<And>r. r \<in> gkeys ws \<Longrightarrow> v r = v' r) \<Longrightarrow> weighted_sum v ws = weighted_sum v' ws \<and> sums_fit v ws = sums_fit v' ws"
proof -
  assume v: "\<And>r. r \<in> gkeys ws \<Longrightarrow> v r = v' r"
  then have "weighted_sum v ws = weighted_sum v' ws"
    by (induction ws) (auto simp: weighted_sum_def)
  moreover have "(\<forall>(r, w) \<in> set ws. 0 \<le> v r \<and> 0 < sint w) = (\<forall>(r, w) \<in> set ws. 0 \<le> v' r \<and> 0 < sint w)"
    using v gkeysI by fastforce
  ultimately show ?thesis by (simp add: sums_fit_def)
qed

lemma alloc_Score_eq:
  assumes "NewAllocatable args = Inr alloc" and "rasWeights alloc = Some ws"
    and "get_node name = Inr ni" and "niNode ni \<noteq> None"
    and "sums_fit (\<lambda>r. sint (node_amount K ni r)) ws"
  shows "\<exists>s. alloc_Score K alloc get_node pod name = Inr (s, None) \<and>
    sint s = (if args_mode args = Most_mode then 1 else - 1) *
      (weighted_sum (\<lambda>r. sint (node_amount K ni r)) ws div weight_sum ws)"
proof -
  note b = NewAllocatable_Inr [OF assms(1,2)]
  let ?acc = "fold (\<lambda>(r, _). mput r (node_amount K ni r)) ws []"
  obtain req all where f: "fold (\<lambda>(r, _) (requested, allocatable).
       let (a, q) = calculateResourceAllocatableRequest K ni pod r
       in (mput r q requested, mput r a allocatable)) ws ([], []) = (req, all)" by fastforce
  then have all: "all = ?acc" 
    using allocatable_fold [where K = K and ni = ni and pod = pod and ws = ws and req = "[]" and acc = "[]"]
    unfolding f by simp
  have amount: "sint (mget 0 all r) = sint (node_amount K ni r)" if "r \<in> gkeys ws" for r
    unfolding all using mget_amounts [of r ws "[]" K ni] that by simp
  note cong = weighted_sum_cong [OF amount]
  have "\<exists>s. rasScorer alloc req all v i j = Inr s \<and>
      sint s = (if args_mode args = Most_mode then 1 else - 1) *
        (weighted_sum (\<lambda>r. sint (node_amount K ni r)) ws div weight_sum ws)" for v i j
    using resourceScorer_eq [of all ws "args_mode args" req v i j] b assms(5) cong
    unfolding good_weights_def by (elim conjE) simp
  note sc = this
  have "\<exists>v i j. alloc_Score K alloc get_node pod name =
      (case rasScorer alloc req all v i j of Inl e \<Rightarrow> Inl e | Inr s \<Rightarrow> Inr (s, None))"
  proof (cases "\<exists>i j. niTransient ni = Some (i, j) \<and> feature_on K BalanceAttachedNodeVolumes")
    case True
    then obtain i j where "niTransient ni = Some (i, j)" "feature_on K BalanceAttachedNodeVolumes" by blast
    then have "alloc_Score K alloc get_node pod name =
        (case rasScorer alloc req all True i j of Inl e \<Rightarrow> Inl e | Inr s \<Rightarrow> Inr (s, None))"
      using assms(2-4) by (auto simp: alloc_Score_def ras_score_def f [unfolded Let_def])
    then show ?thesis by blast
  next
    case False
    then have "alloc_Score K alloc get_node pod name =
        (case rasScorer alloc req all False 0 0 of Inl e \<Rightarrow> Inl e | Inr s \<Rightarrow> Inr (s, None))"
      using assms(2-4) by (auto simp: alloc_Score_def ras_score_def f [unfolded Let_def] split: option.split)
    then show ?thesis by blast
  qed
  then obtain v i j where "alloc_Score K alloc get_node pod name =
      (case rasScorer alloc req all v i j of Inl e \<Rightarrow> Inl e | Inr s \<Rightarrow> Inr (s, None))" by blast
  with sc [of v i j] show ?thesis by (elim exE conjE) simp
qed


text \<open>Two nodes for the example.\<close>

definition demo_alloc_node :: "string \<Rightarrow> i64 \<Rightarrow> i64 \<Rightarrow> int node_info" where
  "demo_alloc_node name cpu mem =
     \<lparr>niNode = Some \<lparr>nodeName = name, nodeAllocatable = [], nodeCapacity = []\<rparr>, niPods = [],
      niAllocatable = zero_resource\<lparr>MilliCPU := cpu, Memory := mem\<rparr>,
      niRequested = zero_resource, niNonZero = zero_resource, niTransient = None\<rparr>"

definition demo_two_nodes :: "string \<Rightarrow> error + int node_info" where
  "demo_two_nodes name = Inr (if name = ''a'' then demo_alloc_node ''a'' 1000 1073741824
     else demo_alloc_node name 2000 2147483648)"

definition demo_alloc :: resource_allocation_scorer where
  "demo_alloc = \<lparr>rasName = AllocatableName,
     rasScorer = resourceScorer defaultResourcesToWeightMap Least_mode,
     rasWeights = Some defaultResourcesToWeightMap\<rparr>"


text \<open>There is no upper bound on weights, so their sum can wrap to zero, and then scoring panics.\<close>

lemma nr_weight_sum_wraps:
  "(case NewAllocatable (ObjNodeResources \<lparr>nraMeta = \<lparr>Kind = '''', APIVersion = ''''\<rparr>,
        nraResources = Some (map (\<lambda>n. \<lparr>rsName = n, rsWeight = 4611686018427387904\<rparr>)
          [''cpu'', ''memory'', ''a/x'', ''a/y'']), nraMode = ''Most''\<rparr> :: int runtime_object) of
      Inl e \<Rightarrow> False
    | Inr alloc \<Rightarrow> alloc_Score (demo_api ()) alloc demo_two_nodes (demo_pod ''a'' ''1'' 100 0) ''a''
        = Inl (Panic ''integer divide by zero''))"
  by code_simp

section \<open>Normalised scores\<close>

text \<open>C28: both score plugins normalise in the same way: for scores whose range fits, every normalised
  score lies between 0 and 100, a node with at least the raw score of another has at least its
  normalised score, the best node gets 100 unless all are equal, and the worst gets 0.\<close>

theorem score_normalisation_bounds:
  assumes "scalable ns" and "i < length ns" and "j < length ns" and "raw (ns ! i) \<le> raw (ns ! j)"
  shows "fst (ps_NormalizeScore ns) = fst (alloc_NormalizeScore ns) \<and>
    0 \<le> raw (fst (alloc_NormalizeScore ns) ! i) \<and>
    raw (fst (alloc_NormalizeScore ns) ! i) \<le> raw (fst (alloc_NormalizeScore ns) ! j) \<and>
    raw (fst (alloc_NormalizeScore ns) ! j) \<le> 100 \<and>
    raw (fst (ps_NormalizeScore ns) ! j)
      = (if top_score ns = bottom_score ns then 0
         else 100 * (raw (ns ! j) - bottom_score ns) div (top_score ns - bottom_score ns))"
  using alloc.in_range [OF assms(1,2)] alloc.in_range [OF assms(1,3)] alloc.keeps_order [OF assms]
    podstate.score_nth [OF assms(1,3)]
  by (auto simp: rescaled_def alloc_NormalizeScore_def ps_NormalizeScore_def)

definition demo_scores :: "node_score list" where
  "demo_scores = [\<lparr>nsName = ''a'', nsScore = - 7\<rparr>, \<lparr>nsName = ''b'', nsScore = 5\<rparr>, \<lparr>nsName = ''c'', nsScore = 1\<rparr>]"

theorem score_normalisation_bounds_witness:
  "raw (fst (alloc_NormalizeScore demo_scores) ! 2) \<le> 100 \<and> raw (fst (ps_NormalizeScore demo_scores) ! 2) = 66"
proof -
  have e: "top_score demo_scores = 5" "bottom_score demo_scores = - 7"
    by (simp_all add: top_score_def bottom_score_def demo_scores_def)
  then have sc: "scalable demo_scores" by (simp add: scalable_def demo_scores_def)
  have i: "0 < length demo_scores" "2 < length demo_scores" and r: "raw (demo_scores ! 0) \<le> raw (demo_scores ! 2)"
    and v: "raw (demo_scores ! 2) = 1"
    by (simp_all add: demo_scores_def)
  from score_normalisation_bounds [OF sc i r]
  have "raw (fst (alloc_NormalizeScore demo_scores) ! 2) \<le> 100"
    and "raw (fst (ps_NormalizeScore demo_scores) ! 2)
      = (if (5 :: int) = - 7 then 0 else 100 * (1 - - 7) div (5 - - 7))"
    unfolding e v by blast+
  then show ?thesis by simp
qed

text \<open>C29: the pod-state plugin prefers nodes about to free resources: after scoring and normalising, a node
  whose terminating pods exceed its nominated ones by at least as much as another's has at least
  the other's final score, for fewer than $2^{31}$ pods per node.\<close>

theorem ps_prefers_terminating:
  assumes "list_all2 (\<lambda>ni n. ps_score nominated ni = Inr (nsScore n, None)) nodes ns"
    and "\<And>ni. ni \<in> set nodes \<Longrightarrow> \<exists>nd. niNode ni = Some nd \<and> nominated (nodeName nd) < 2147483648"
    and "\<And>ni. ni \<in> set nodes \<Longrightarrow> length (niPods ni) < 2147483648"
    and "i < length nodes" and "j < length nodes"
    and "pod_balance nominated (nodes ! i) \<le> pod_balance nominated (nodes ! j)"
  shows "raw (fst (ps_NormalizeScore ns) ! i) \<le> raw (fst (ps_NormalizeScore ns) ! j)"
proof -
  have len: "length ns = length nodes" using assms(1) by (simp add: list_all2_lengthD)
  have bal: "raw (ns ! k) = pod_balance nominated (nodes ! k) \<and> \<bar>raw (ns ! k)\<bar> < 2147483648"
    if k: "k < length nodes" for k
  proof -
    obtain nd where "niNode (nodes ! k) = Some nd" "nominated (nodeName nd) < 2147483648"
      using assms(2) [OF nth_mem [OF k]] by blast
    from ps_score_balance [of "nodes ! k" nd nominated, OF this(1) assms(3) [OF nth_mem [OF k]] this(2)]
      list_all2_nthD [OF assms(1) k]
    show ?thesis by auto
  qed
  then have small: "\<bar>raw n\<bar> < 2147483648" if "n \<in> set ns" for n
    using that len by (metis in_set_conv_nth)
  have "top_score ns \<in> raw ` set ns" "bottom_score ns \<in> raw ` set ns"
    using assms(4) len unfolding top_score_def bottom_score_def by (auto intro!: Max_in Min_in)
  then have "\<bar>top_score ns\<bar> < 2147483648" "\<bar>bottom_score ns\<bar> < 2147483648" using small by auto
  moreover have "- 9223372036854775808 < raw n" if "n \<in> set ns" for n using small [OF that] by linarith
  ultimately have "scalable ns" by (auto simp: scalable_def abs_less_iff)
  then show ?thesis using assms(4-6) bal len by (intro podstate.keeps_order) auto
qed

definition demo_term_node :: "string \<Rightarrow> nat \<Rightarrow> int node_info" where
  "demo_term_node name n = (demo_alloc_node name 0 0)
     \<lparr>niPods := replicate n ((demo_pod ''a'' ''t'' 0 0)\<lparr>podDeletion := Some 1\<rparr>)\<rparr>"

theorem ps_prefers_terminating_witness:
  "raw (fst (ps_NormalizeScore [\<lparr>nsName = ''a'', nsScore = - 1\<rparr>, \<lparr>nsName = ''b'', nsScore = 1\<rparr>]) ! 0)
   \<le> raw (fst (ps_NormalizeScore [\<lparr>nsName = ''a'', nsScore = - 1\<rparr>, \<lparr>nsName = ''b'', nsScore = 1\<rparr>]) ! 1)"
  by (rule ps_prefers_terminating [where nominated = "\<lambda>_. 1" and nodes = "[demo_term_node ''a'' 0, demo_term_node ''b'' 2]"])
    (auto simp: ps_score_def demo_term_node_def demo_alloc_node_def pod_balance_def numeral_2_eq_2)

end
