(* ===== verification/QueueSort.thy ===== *)
theory QueueSort
  imports DemoApi
begin

text \<open>
  \<^verbatim>\<open>pkg/qos/queue_sort.go\<close>: the queue order by priority and then by quality-of-service
  class. The class of a pod is computed by Kubernetes code and is the parameter \<open>GetPodQOS\<close>.
\<close>

definition qos_Name :: string where "qos_Name = ''QOSSort''"

definition Guaranteed :: string where "Guaranteed = ''Guaranteed''"
definition Burstable :: string where "Burstable = ''Burstable''"
definition BestEffort :: string where "BestEffort = ''BestEffort''"

definition compQOS :: "('q pod \<Rightarrow> string) \<Rightarrow> 'q pod \<Rightarrow> 'q pod \<Rightarrow> bool" where
  "compQOS GetPodQOS p1 p2 =
     (let p1QOS = GetPodQOS p1; p2QOS = GetPodQOS p2
      in if p1QOS = Guaranteed then True
         else if p1QOS = Burstable then p2QOS \<noteq> Guaranteed
         else p2QOS = BestEffort)"

definition qos_Less :: "('q, 'z) kube_api_scheme \<Rightarrow> ('q pod \<Rightarrow> string) \<Rightarrow> 'q pod \<Rightarrow> 'q pod \<Rightarrow> bool" where
  "qos_Less K GetPodQOS pInfo1 pInfo2 =
     (let p1 = pod_priority K pInfo1; p2 = pod_priority K pInfo2
      in sint p1 > sint p2 \<or> p1 = p2 \<and> compQOS GetPodQOS pInfo1 pInfo2)"

text \<open>The position of a pod in the queue: its priority, then the rank of its class. Positions are a linear
  order, in which a smaller position is served first.\<close>

definition qos_rank :: "string \<Rightarrow> nat" where
  "qos_rank c = (if c = Guaranteed then 2 else if c = Burstable then 1 else 0)"

datatype queue_position = QueuePosition int nat

instantiation queue_position :: linorder
begin

fun less_eq_queue_position :: "queue_position \<Rightarrow> queue_position \<Rightarrow> bool" where
  "QueuePosition p r \<le> QueuePosition p' r' \<longleftrightarrow> p > p' \<or> p = p' \<and> r \<ge> r'"

fun less_queue_position :: "queue_position \<Rightarrow> queue_position \<Rightarrow> bool" where
  "QueuePosition p r < QueuePosition p' r' \<longleftrightarrow> p > p' \<or> p = p' \<and> r > r'"

instance
proof
  fix x y z :: queue_position
  show "(x < y) = (x \<le> y \<and> \<not> y \<le> x)" by (cases x; cases y) auto
  show "x \<le> x" by (cases x) simp
  show "x \<le> y \<Longrightarrow> y \<le> z \<Longrightarrow> x \<le> z" by (cases x; cases y; cases z) auto
  show "x \<le> y \<Longrightarrow> y \<le> x \<Longrightarrow> x = y" by (cases x; cases y) auto
  show "x \<le> y \<or> y \<le> x" by (cases x; cases y) auto
qed

end

definition qos_position :: "('q, 'z) kube_api_scheme \<Rightarrow> ('q pod \<Rightarrow> string) \<Rightarrow> 'q pod \<Rightarrow> queue_position" where
  "qos_position K GetPodQOS p = QueuePosition (sint (pod_priority K p)) (qos_rank (GetPodQOS p))"

lemma compQOS_rank:
  assumes "range GetPodQOS \<subseteq> {Guaranteed, Burstable, BestEffort}"
  shows "compQOS GetPodQOS p q \<longleftrightarrow> qos_rank (GetPodQOS q) \<le> qos_rank (GetPodQOS p)"
proof -
  have "GetPodQOS p \<in> {Guaranteed, Burstable, BestEffort}" "GetPodQOS q \<in> {Guaranteed, Burstable, BestEffort}"
    using assms by blast+
  then show ?thesis
    by (auto simp: compQOS_def qos_rank_def Guaranteed_def Burstable_def BestEffort_def)
qed

text \<open>C30: the queue order of the QoS plugin ranks pods by priority and then by class, but its
  \<^verbatim>\<open>Less\<close> is the reflexive order and not the strict one that a queue expects: it says of
  two pods that each comes first exactly when they have equal priorities and classes, so also of
  a pod and itself; the strict order is that \<^verbatim>\<open>Less\<close> holds one way only.\<close>

theorem qos_less_is_reflexive:
  assumes "range GetPodQOS \<subseteq> {Guaranteed, Burstable, BestEffort}"
  shows "(qos_Less K GetPodQOS p q \<longleftrightarrow> qos_position K GetPodQOS p \<le> qos_position K GetPodQOS q) \<and>
    (qos_Less K GetPodQOS p q \<and> qos_Less K GetPodQOS q p \<longleftrightarrow> qos_position K GetPodQOS p = qos_position K GetPodQOS q) \<and>
    (qos_position K GetPodQOS p < qos_position K GetPodQOS q
      \<longleftrightarrow> qos_Less K GetPodQOS p q \<and> \<not> qos_Less K GetPodQOS q p) \<and>
    qos_Less K GetPodQOS p p"
proof -
  have eq: "pod_priority K p = pod_priority K q \<longleftrightarrow> sint (pod_priority K p) = sint (pod_priority K q)" for p q
    by (metis signed_word_eqI)
  have less: "qos_Less K GetPodQOS p q \<longleftrightarrow> qos_position K GetPodQOS p \<le> qos_position K GetPodQOS q" for p q
    unfolding qos_Less_def Let_def compQOS_rank [OF assms] eq qos_position_def by auto
  show ?thesis unfolding less by (simp add: eq_iff less_le_not_le)
qed

theorem qos_less_is_reflexive_witness:
  "qos_Less (demo_api ()) (\<lambda>p. Burstable) (demo_pod ''a'' ''1'' 100 0) (demo_pod ''a'' ''1'' 100 0) \<and>
   qos_Less (demo_api ()) (\<lambda>p. Burstable) (demo_pod ''a'' ''1'' 100 0) (demo_pod ''a'' ''2'' 100 0)"
proof -
  have r: "range (\<lambda>p :: int pod. Burstable) \<subseteq> {Guaranteed, Burstable, BestEffort}" by auto
  have "qos_position (demo_api ()) (\<lambda>p. Burstable) (demo_pod ''a'' ''1'' 100 0)
      = qos_position (demo_api ()) (\<lambda>p. Burstable) (demo_pod ''a'' ''2'' 100 0)"
    by (simp add: qos_position_def)
  with qos_less_is_reflexive [OF r, of "demo_api ()" "demo_pod ''a'' ''1'' 100 0" "demo_pod ''a'' ''2'' 100 0"]
  show ?thesis by blast
qed

end
