(* ===== verification/Trimaran.thy ===== *)
theory Trimaran
  imports CapacityScheduling
begin

text \<open>
  \<^verbatim>\<open>pkg/trimaran/handler.go\<close>: the cache of recently bound pods that the load-aware plugins
  share. A time is a number of nanoseconds; \<open>now\<close> is the clock reading a step makes. Every
  handler holds the lock, so a step is one handler. The cells that the code clears behind a
  shortened slice are not part of the slice.
\<close>

section \<open>The state and the handlers\<close>

record 'q pod_info =
  piTimestamp :: int
  piPod :: "'q pod"

type_synonym 'q scheduled_pods = "(string, 'q pod_info list) gomap"

definition nanos :: "int \<Rightarrow> int" where "nanos s = s * 1000000000"

definition metricsAgentReportingIntervalSeconds :: int where
  "metricsAgentReportingIntervalSeconds = 60"

definition NewPodAssignEventHandler :: "'q scheduled_pods" where
  "NewPodAssignEventHandler = []"

definition updateCache :: "int \<Rightarrow> 'q scheduled_pods \<Rightarrow> 'q pod \<Rightarrow> 'q scheduled_pods" where
  "updateCache now cache pod =
     (if podNodeName pod = '''' then cache
      else mput (podNodeName pod)
             (mget [] cache (podNodeName pod) @ [\<lparr>piTimestamp = now, piPod = pod\<rparr>]) cache)"

definition OnAdd :: "int \<Rightarrow> 'q scheduled_pods \<Rightarrow> 'q inf_obj \<Rightarrow> error + 'q scheduled_pods" where
  "OnAdd now cache obj =
     (case as_pod obj of Inl err \<Rightarrow> Inl err | Inr pod \<Rightarrow> Inr (updateCache now cache pod))"

definition OnUpdate ::
  "int \<Rightarrow> 'q scheduled_pods \<Rightarrow> 'q inf_obj \<Rightarrow> 'q inf_obj \<Rightarrow> error + 'q scheduled_pods"
where
  "OnUpdate now cache oldObj newObj =
     (case as_pod oldObj of
        Inl err \<Rightarrow> Inl err
      | Inr oldPod \<Rightarrow>
          (case as_pod newObj of
             Inl err \<Rightarrow> Inl err
           | Inr newPod \<Rightarrow>
               if podNodeName oldPod \<noteq> podNodeName newPod then Inr (updateCache now cache newPod)
               else Inr cache))"

text \<open>The loop of OnDelete removes the first entry with the pod's UID.\<close>

fun delete_first :: "string \<Rightarrow> 'q pod_info list \<Rightarrow> 'q pod_info list" where
  "delete_first uid [] = []"
| "delete_first uid (v # vs) = (if uid = podUID (piPod v) then vs else v # delete_first uid vs)"

definition OnDelete :: "'q scheduled_pods \<Rightarrow> 'q inf_obj \<Rightarrow> error + 'q scheduled_pods" where
  "OnDelete cache obj =
     (case as_pod obj of
        Inl err \<Rightarrow> Inl err
      | Inr pod \<Rightarrow>
          (case map_of cache (podNodeName pod) of
             None \<Rightarrow> Inr cache
           | Some infos \<Rightarrow> Inr (mput (podNodeName pod) (delete_first (podUID pod) infos) cache)))"

section \<open>Cleaning up\<close>

text \<open>\<^verbatim>\<open>sort.Search\<close>: binary search for the least index at which a monotone test holds.\<close>

function search_between :: "(nat \<Rightarrow> bool) \<Rightarrow> nat \<Rightarrow> nat \<Rightarrow> nat" where
  "search_between f i j =
     (if i < j then
        let h = (i + j) div 2
        in if \<not> f h then search_between f (h + 1) j else search_between f i h
      else i)"
  by pat_completeness auto
termination by (relation "measure (\<lambda>(f, i, j). j - i)") auto

declare search_between.simps [simp del]

definition sort_Search :: "nat \<Rightarrow> (nat \<Rightarrow> bool) \<Rightarrow> nat" where
  "sort_Search n f = search_between f 0 n"

text \<open>One node: \<open>None\<close> deletes its entry.\<close>

definition cleanup_node :: "int \<Rightarrow> 'q pod_info list \<Rightarrow> 'q pod_info list option" where
  "cleanup_node curTime cache =
     (let idx = sort_Search (length cache)
            (\<lambda>i. piTimestamp (cache ! i) + nanos metricsAgentReportingIntervalSeconds > curTime)
      in if idx = length cache then Some cache
         else let cache = drop idx cache in if length cache = 0 then None else Some cache)"

text \<open>The loop over the nodes; \<open>clock\<close> gives the time it reads at each.\<close>

definition cleanupCache :: "(string \<Rightarrow> int) \<Rightarrow> 'q scheduled_pods \<Rightarrow> 'q scheduled_pods" where
  "cleanupCache clock cache =
     fold (\<lambda>(name, infos) m.
         case cleanup_node (clock name) infos of
           None \<Rightarrow> mdel name m
         | Some infos \<Rightarrow> mput name infos m)
       cache cache"

section \<open>Which events reach the handlers\<close>

definition isAssigned :: "'q pod \<Rightarrow> bool" where
  "isAssigned pod \<longleftrightarrow> length (podNodeName pod) \<noteq> 0"

fun tri_FilterFunc :: "'q inf_obj \<Rightarrow> bool" where
  "tri_FilterFunc (PodObj pod) = isAssigned pod"
| "tri_FilterFunc (Tombstone (PodObj pod)) = isAssigned pod"
| "tri_FilterFunc _ = False"

section \<open>Binary search\<close>

lemma search_between_spec:
  assumes "i \<le> j" and "i = 0 \<or> \<not> f (i - 1)" and "f j \<or> j = n"
  shows "i \<le> search_between f i j \<and> search_between f i j \<le> j \<and>
    (f (search_between f i j) \<or> search_between f i j = n) \<and>
    (search_between f i j = 0 \<or> \<not> f (search_between f i j - 1))"
  using assms
proof (induction f i j rule: search_between.induct)
  case (1 f i j)
  show ?case
  proof (cases "i < j")
    case True
    let ?h = "(i + j) div 2"
    have h: "i \<le> ?h" "?h < j" using True by auto
    show ?thesis
    proof (cases "f ?h")
      case f: True
      have "search_between f i j = search_between f i ?h"
        using True f by (simp add: search_between.simps [of f i j])
      with "1.IH"(2) [OF True refl] f h "1.prems" show ?thesis by auto
    next
      case f: False
      have "search_between f i j = search_between f (?h + 1) j"
        using True f by (simp add: search_between.simps [of f i j])
      with "1.IH"(1) [OF True refl] f h "1.prems" show ?thesis by auto
    qed
  next
    case False
    then have "search_between f i j = i" by (simp add: search_between.simps [of f i j])
    with False "1.prems" show ?thesis by auto
  qed
qed

lemma sort_Search_spec:
  "sort_Search n f \<le> n" "sort_Search n f < n \<Longrightarrow> f (sort_Search n f)"
  "0 < sort_Search n f \<Longrightarrow> \<not> f (sort_Search n f - 1)"
  using search_between_spec [of 0 n f n] by (auto simp: sort_Search_def)

text \<open>On a sorted cache the search splits the list into the stale and the fresh entries.\<close>

definition fresh :: "int \<Rightarrow> 'q pod_info \<Rightarrow> bool" where
  "fresh now v \<longleftrightarrow> now < piTimestamp v + nanos metricsAgentReportingIntervalSeconds"

lemma drop_search_filter:
  assumes "sorted (map piTimestamp vs)"
  shows "drop (sort_Search (length vs) (\<lambda>i. fresh now (vs ! i))) vs = filter (fresh now) vs"
proof -
  let ?k = "sort_Search (length vs) (\<lambda>i. fresh now (vs ! i))"
  note s = sort_Search_spec [of "length vs" "\<lambda>i. fresh now (vs ! i)"]
  have mono: "piTimestamp (vs ! i) \<le> piTimestamp (vs ! j)" if "i \<le> j" "j < length vs" for i j
    using sorted_nth_mono [OF assms, of i j] that by simp
  have lo: "\<not> fresh now v" if v: "v \<in> set (take ?k vs)" for v
  proof -
    obtain i where i: "i < ?k" "i < length vs" "v = vs ! i"
      using v by (metis in_set_conv_nth length_take min_less_iff_conj nth_take)
    have "piTimestamp (vs ! i) \<le> piTimestamp (vs ! (?k - 1))" using i(1) s(1) by (intro mono) linarith+
    moreover have "\<not> fresh now (vs ! (?k - 1))" using s(3) i(1) by simp
    ultimately show ?thesis unfolding i(3) fresh_def by linarith
  qed
  have hi: "fresh now v" if v: "v \<in> set (drop ?k vs)" for v
  proof -
    obtain i where d: "i < length (drop ?k vs)" "drop ?k vs ! i = v"
      using v unfolding in_set_conv_nth by blast
    then have i: "?k + i < length vs" "v = vs ! (?k + i)" using s(1) by simp_all
    have "piTimestamp (vs ! ?k) \<le> piTimestamp (vs ! (?k + i))" using i(1) by (intro mono) simp_all
    moreover have "fresh now (vs ! ?k)" using s(2) i(1) by simp
    ultimately show ?thesis unfolding i(2) fresh_def by linarith
  qed
  have "filter (fresh now) vs = filter (fresh now) (take ?k vs) @ filter (fresh now) (drop ?k vs)"
    by (metis append_take_drop_id filter_append)
  also have "filter (fresh now) (take ?k vs) = []" using lo unfolding filter_empty_conv by blast
  also have "filter (fresh now) (drop ?k vs) = drop ?k vs" using hi unfolding filter_id_conv by blast
  finally show ?thesis by simp
qed

end
