(* ===== verification/TrimaranProperties.thy ===== *)
theory TrimaranProperties
  imports Trimaran DemoApi
begin

text \<open>
  The cache of recently bound pods over all its runs: the entries of a node are in time order
  and are pods of that node, which is what the binary search of the clean-up needs; and what the
  clean-up keeps, also of the nodes it should forget.
\<close>

section \<open>The loop over the nodes\<close>

lemma cleanup_node_Some: "cleanup_node t vs \<noteq> None"
proof -
  let ?k = "sort_Search (length vs) (\<lambda>i. piTimestamp (vs ! i) + nanos metricsAgentReportingIntervalSeconds > t)"
  have "?k \<le> length vs" by (rule sort_Search_spec(1))
  then show ?thesis by (simp add: cleanup_node_def Let_def)
qed

lemma cleanup_fold:
  assumes "distinct (map fst xs)"
  shows "map_of (fold (\<lambda>(name, infos) m.
       case cleanup_node (clock name) infos of None \<Rightarrow> mdel name m | Some infos \<Rightarrow> mput name infos m) xs m) n
    = (case map_of xs n of None \<Rightarrow> map_of m n | Some infos \<Rightarrow> cleanup_node (clock n) infos)"
  using assms
proof (induction xs arbitrary: m)
  case (Cons x xs)
  obtain name infos where x: "x = (name, infos)" by fastforce
  with Cons.prems have "map_of xs name = None" by (simp add: map_of_eq_None_iff image_iff)
  with Cons x show ?case by (auto split: option.splits)
qed simp

lemma map_of_cleanupCache:
  assumes "gwf c"
  shows "map_of (cleanupCache clock c) n = (case map_of c n of None \<Rightarrow> None | Some vs \<Rightarrow> cleanup_node (clock n) vs)"
  using cleanup_fold [of c clock c n] assms
  by (simp add: cleanupCache_def gwf_def split: option.split)

lemma gwf_cleanupCache: "gwf c \<Longrightarrow> gwf (cleanupCache clock c)"
  unfolding cleanupCache_def by (rule fold_invariant_list) (auto split: option.splits)

section \<open>The invariant\<close>

definition entries_ok :: "int \<Rightarrow> string \<Rightarrow> 'q pod_info list \<Rightarrow> bool" where
  "entries_ok t n vs \<longleftrightarrow> n \<noteq> '''' \<and> sorted (map piTimestamp vs) \<and>
     (\<forall>v \<in> set vs. piTimestamp v \<le> t \<and> podNodeName (piPod v) = n)"

definition cache_ok :: "int \<Rightarrow> 'q scheduled_pods \<Rightarrow> bool" where
  "cache_ok t c \<longleftrightarrow> gwf c \<and> (\<forall>n vs. map_of c n = Some vs \<longrightarrow> entries_ok t n vs)"

lemma cache_okD: "cache_ok t c \<Longrightarrow> map_of c n = Some vs \<Longrightarrow> entries_ok t n vs"
  by (simp add: cache_ok_def)

lemma cache_ok_later: "cache_ok t c \<Longrightarrow> t \<le> t' \<Longrightarrow> cache_ok t' c"
  by (force simp: cache_ok_def entries_ok_def)

lemma cache_ok_mput: "cache_ok t c \<Longrightarrow> entries_ok t n vs \<Longrightarrow> cache_ok t (mput n vs c)"
  by (simp add: cache_ok_def)

lemma updateCache_ok: "cache_ok t c \<Longrightarrow> cache_ok t (updateCache t c pod)"
proof -
  assume c: "cache_ok t c"
  show "cache_ok t (updateCache t c pod)"
  proof (cases "podNodeName pod = ''''")
    case False
    have "entries_ok t (podNodeName pod) (mget [] c (podNodeName pod) @ [\<lparr>piTimestamp = t, piPod = pod\<rparr>])"
      using False cache_okD [OF c, of "podNodeName pod"]
      by (auto simp: entries_ok_def mget_def sorted_append split: option.split)
    with False c show ?thesis by (simp add: updateCache_def cache_ok_mput)
  qed (use c in \<open>simp add: updateCache_def\<close>)
qed

lemma delete_first_set: "set (delete_first uid vs) \<subseteq> set vs"
  by (induction vs) auto

lemma delete_first_sorted: "sorted (map f vs) \<Longrightarrow> sorted (map f (delete_first uid vs))"
  using delete_first_set by (induction vs) fastforce+

lemma entries_ok_delete: "entries_ok t n vs \<Longrightarrow> entries_ok t n (delete_first uid vs)"
  using delete_first_set delete_first_sorted by (fastforce simp: entries_ok_def)

lemma entries_ok_filter: "entries_ok t n vs \<Longrightarrow> entries_ok t n (filter p vs)"
  by (auto simp: entries_ok_def sorted_filter)

lemma cleanup_node_eq:
  assumes "sorted (map piTimestamp vs)"
  shows "cleanup_node t vs = Some (if \<exists>v \<in> set vs. fresh t v then filter (fresh t) vs else vs)"
proof -
  let ?k = "sort_Search (length vs) (\<lambda>i. fresh t (vs ! i))"
  have d: "drop ?k vs = filter (fresh t) vs" by (rule drop_search_filter [OF assms])
  then have "?k = length vs \<longleftrightarrow> \<not> (\<exists>v \<in> set vs. fresh t v)"
    using sort_Search_spec(1) [of "length vs" "\<lambda>i. fresh t (vs ! i)"]
    by (metis drop_eq_Nil filter_empty_conv le_antisym)
  moreover have "cleanup_node t vs = (if ?k = length vs then Some vs
      else if drop ?k vs = [] then None else Some (drop ?k vs))"
    unfolding cleanup_node_def fresh_def Let_def by simp
  ultimately show ?thesis unfolding d by (auto simp: filter_empty_conv)
qed

lemma cleanup_ok:
  assumes "cache_ok t c"
  shows "cache_ok t (cleanupCache clock c)"
  unfolding cache_ok_def
proof (intro conjI allI impI)
  show "gwf (cleanupCache clock c)" using assms by (simp add: cache_ok_def gwf_cleanupCache)
next
  fix n vs assume a: "map_of (cleanupCache clock c) n = Some vs"
  then obtain ws where ws: "map_of c n = Some ws" "cleanup_node (clock n) ws = Some vs"
    using assms by (auto simp: cache_ok_def map_of_cleanupCache split: option.splits)
  note ok = cache_okD [OF assms ws(1)]
  have "sorted (map piTimestamp ws)" using ok by (simp add: entries_ok_def)
  from ws(2) [unfolded cleanup_node_eq [OF this]] show "entries_ok t n vs"
    using ok entries_ok_filter [OF ok] by (auto split: if_splits)
qed

text \<open>The runs of the handler on a clock that does not go backwards.\<close>

inductive tri_reach :: "int \<Rightarrow> 'q scheduled_pods \<Rightarrow> bool" where
  new: "tri_reach t NewPodAssignEventHandler"
| wait: "tri_reach t c \<Longrightarrow> t \<le> t' \<Longrightarrow> tri_reach t' c"
| add: "tri_reach t c \<Longrightarrow> OnAdd t c obj = Inr c' \<Longrightarrow> tri_reach t c'"
| update: "tri_reach t c \<Longrightarrow> OnUpdate t c old new = Inr c' \<Longrightarrow> tri_reach t c'"
| delete: "tri_reach t c \<Longrightarrow> OnDelete c obj = Inr c' \<Longrightarrow> tri_reach t c'"
| cleanup: "tri_reach t c \<Longrightarrow> (\<And>n. t \<le> clock n \<and> clock n \<le> t') \<Longrightarrow> tri_reach t' (cleanupCache clock c)"

lemma tri_reach_ok: "tri_reach t c \<Longrightarrow> cache_ok t c"
proof (induction rule: tri_reach.induct)
  case (new t)
  show ?case by (simp add: cache_ok_def NewPodAssignEventHandler_def)
next
  case (wait t c t')
  then show ?case by (simp add: cache_ok_later)
next
  case (add t c obj c')
  then show ?case by (auto simp: OnAdd_def updateCache_ok split: sum.splits)
next
  case (update t c old new c')
  then show ?case by (auto simp: OnUpdate_def updateCache_ok split: sum.splits if_splits)
next
  case (delete t c obj c')
  then show ?case
    by (auto simp: OnDelete_def intro!: cache_ok_mput entries_ok_delete
        dest: cache_okD split: sum.splits option.splits)
next
  case (cleanup t c clock t')
  then have "t \<le> t'" using order_trans by blast
  with cleanup.IH show ?case by (intro cleanup_ok) (rule cache_ok_later)
qed

text \<open>C31: in every run on a clock that does not go backwards the entries of a node are in time order, no
  later than the present, and are pods bound to that node; no entry is kept for the empty node
  name.\<close>

theorem tri_cache_invariant:
  assumes "tri_reach t c" and "map_of c n = Some vs"
  shows "n \<noteq> '''' \<and> sorted (map piTimestamp vs) \<and>
    (\<forall>v \<in> set vs. piTimestamp v \<le> t \<and> podNodeName (piPod v) = n)"
  using cache_okD [OF tri_reach_ok [OF assms(1)] assms(2)] by (simp add: entries_ok_def)

text \<open>C32: the clean-up, by binary search, keeps exactly the entries of a node that are less than 60 seconds
  old when there is one; but a node whose entries are all older (or gone) keeps them all, so no
  node is ever removed from the cache.\<close>

theorem tri_cleanup_policy:
  assumes "tri_reach t c"
  shows "map_of (cleanupCache clock c) n =
    map_option (\<lambda>vs. if \<exists>v \<in> set vs. clock n < piTimestamp v + nanos 60
      then filter (\<lambda>v. clock n < piTimestamp v + nanos 60) vs else vs) (map_of c n)"
proof (cases "map_of c n")
  case None
  with tri_reach_ok [OF assms] show ?thesis by (simp add: cache_ok_def map_of_cleanupCache)
next
  case (Some vs)
  note c = tri_reach_ok [OF assms]
  have s: "sorted (map piTimestamp vs)" using cache_okD [OF c Some] by (simp add: entries_ok_def)
  have f: "fresh (clock n) = (\<lambda>v. clock n < piTimestamp v + nanos 60)"
    by (rule ext) (simp add: fresh_def metricsAgentReportingIntervalSeconds_def)
  from c have "gwf c" by (simp add: cache_ok_def)
  from map_of_cleanupCache [OF this, of clock n] show ?thesis
    by (simp only: Some option.case option.map cleanup_node_eq [OF s] f)
qed

text \<open>The example: a pod bound at second 0 and one at second 50, cleaned up at second 70 and at 200.\<close>

definition demo_bound :: "string \<Rightarrow> int pod" where
  "demo_bound u = demo_pod ''a'' u 100 0"

definition demo_cache :: "int scheduled_pods" where
  "demo_cache = [(''node'', [\<lparr>piTimestamp = 0, piPod = demo_bound ''1''\<rparr>,
     \<lparr>piTimestamp = nanos 50, piPod = demo_bound ''2''\<rparr>])]"

lemma demo_cache_reach: "tri_reach (nanos 50) demo_cache"
proof -
  have 1: "tri_reach 0 [(''node'', [\<lparr>piTimestamp = 0, piPod = demo_bound ''1''\<rparr>])]"
    by (rule tri_reach.add [OF tri_reach.new, where obj = "PodObj (demo_bound ''1'')"])
      (simp add: OnAdd_def updateCache_def demo_bound_def NewPodAssignEventHandler_def)
  have 2: "tri_reach (nanos 50) [(''node'', [\<lparr>piTimestamp = 0, piPod = demo_bound ''1''\<rparr>])]"
    by (rule tri_reach.wait [OF 1]) (simp add: nanos_def)
  show ?thesis
    by (rule tri_reach.add [OF 2, where obj = "PodObj (demo_bound ''2'')"])
      (simp add: OnAdd_def updateCache_def demo_bound_def demo_cache_def mget_Cons)
qed

theorem tri_cache_invariant_witness: "sorted (map piTimestamp (mget [] demo_cache ''node''))"
  using tri_cache_invariant [OF demo_cache_reach, of "''node''"] by (simp add: demo_cache_def mget_def)

theorem tri_cleanup_policy_witness:
  "map_of (cleanupCache (\<lambda>_. nanos 70) demo_cache) ''node'' = Some (drop 1 (mget [] demo_cache ''node'')) \<and>
   map_of (cleanupCache (\<lambda>_. nanos 200) demo_cache) ''node'' = Some (mget [] demo_cache ''node'')"
  unfolding tri_cleanup_policy [OF demo_cache_reach] by (simp add: demo_cache_def mget_def nanos_def)

text \<open>A tombstone passes the filter, and the deletion handler panics on it.\<close>

lemma tri_tombstone_panics:
  "tri_FilterFunc (Tombstone (PodObj pod)) = isAssigned pod \<and>
   OnDelete c (Tombstone (PodObj pod)) = Inl (Panic ''interface conversion: not *v1.Pod'')"
  by (simp add: OnDelete_def)

end
