(* ===== verification/ConfigDefaults.thy ===== *)
theory ConfigDefaults
  imports ConfigTypes
begin

text \<open>
  \<^verbatim>\<open>pkg/apis/config/v1beta1/defaults.go\<close> and
  \<^verbatim>\<open>zz_generated.defaults.go\<close>: the defaulting of the versioned plugin arguments. A setter
  that assigns through its pointer returns the argument updated. \<^verbatim>\<open>resource.MustParse\<close> is
  a parameter.
\<close>

section \<open>The package's variables\<close>

definition defaultPermitWaitingTimeSeconds :: i64 where
  "defaultPermitWaitingTimeSeconds = 60"
definition defaultDeniedPGExpirationTimeSeconds :: i64 where
  "defaultDeniedPGExpirationTimeSeconds = 20"

definition defaultNodeResourcesAllocatableMode :: ModeType where
  "defaultNodeResourcesAllocatableMode = Least_mode"

definition defaultNodeResourcesAllocatableResourcesToWeightMap :: "resource_spec list" where
  "defaultNodeResourcesAllocatableResourcesToWeightMap =
     [\<lparr>rsName = ''cpu'', rsWeight = push_bit 20 1\<rparr>, \<lparr>rsName = ''memory'', rsWeight = 1\<rparr>]"

definition DefaultRequestsMilliCores :: i64 where "DefaultRequestsMilliCores = 1000"
definition DefaultRequestsMultiplier :: string where "DefaultRequestsMultiplier = ''1.5''"
definition DefaultTargetUtilizationPercent :: i64 where "DefaultTargetUtilizationPercent = 40"
definition DefaultSafeVarianceMargin :: gofloat where "DefaultSafeVarianceMargin = Fin 1"
definition DefaultSafeVarianceSensitivity :: gofloat where "DefaultSafeVarianceSensitivity = Fin 1"
definition DefaultMetricProviderType :: MetricProviderType where
  "DefaultMetricProviderType = KubernetesMetricsServer"
definition defaultKubeConfigPath :: string where
  "defaultKubeConfigPath = ''/etc/kubernetes/scheduler.conf''"

section \<open>The setters\<close>

definition SetDefaultsCoschedulingArgs :: "bCoschedulingArgs \<Rightarrow> bCoschedulingArgs" where
  "SetDefaultsCoschedulingArgs obj =
     (let obj = (if bcsPermitWaitingTimeSeconds obj = None
            then obj\<lparr>bcsPermitWaitingTimeSeconds := Some defaultPermitWaitingTimeSeconds\<rparr> else obj)
      in if bcsDeniedPGExpirationTimeSeconds obj = None
         then obj\<lparr>bcsDeniedPGExpirationTimeSeconds := Some defaultDeniedPGExpirationTimeSeconds\<rparr>
         else obj)"

definition SetDefaultsNodeResourcesAllocatableArgs ::
  "bNodeResourcesAllocatableArgs \<Rightarrow> bNodeResourcesAllocatableArgs"
where
  "SetDefaultsNodeResourcesAllocatableArgs obj =
     (let obj = (case bnraResources obj of
            Some (r # rs) \<Rightarrow> obj
          | _ \<Rightarrow> obj\<lparr>bnraResources := Some defaultNodeResourcesAllocatableResourcesToWeightMap\<rparr>)
      in if bnraMode obj = '''' then obj\<lparr>bnraMode := defaultNodeResourcesAllocatableMode\<rparr> else obj)"

definition SetDefaultsCapacitySchedulingArgs :: "bCapacitySchedulingArgs \<Rightarrow> bCapacitySchedulingArgs" where
  "SetDefaultsCapacitySchedulingArgs obj =
     (if bcapKubeConfigPath obj = None then obj\<lparr>bcapKubeConfigPath := Some defaultKubeConfigPath\<rparr>
      else obj)"

text \<open>\<^verbatim>\<open>strconv.FormatInt(n, 10)\<close> of a number that is not negative.\<close>

fun digits :: "nat \<Rightarrow> string" where
  "digits n = (if n < 10 then [char_of (48 + n)] else digits (n div 10) @ [char_of (48 + n mod 10)])"

declare digits.simps [simp del]

definition SetDefaultTargetLoadPackingArgs ::
  "(string \<Rightarrow> 'q) \<Rightarrow> 'q bTargetLoadPackingArgs \<Rightarrow> 'q bTargetLoadPackingArgs"
where
  "SetDefaultTargetLoadPackingArgs MustParse args =
     (let args = (if btlpDefaultRequests args = None
            then args\<lparr>btlpDefaultRequests :=
              Some [(''cpu'', MustParse (digits (unat DefaultRequestsMilliCores) @ ''m''))]\<rparr>
            else args);
          args = (if btlpDefaultRequestsMultiplier args = None
            then args\<lparr>btlpDefaultRequestsMultiplier := Some DefaultRequestsMultiplier\<rparr> else args)
      in if (case btlpTargetUtilization args of None \<Rightarrow> True | Some t \<Rightarrow> sint t \<le> 0)
         then args\<lparr>btlpTargetUtilization := Some DefaultTargetUtilizationPercent\<rparr> else args)"

definition validMetricProviderType :: "MetricProviderType \<Rightarrow> bool" where
  "validMetricProviderType t \<longleftrightarrow> t = KubernetesMetricsServer \<or> t = Prometheus \<or> t = SignalFx"

text \<open>A nil pointer, or a value below zero.\<close>

definition unset_or_negative :: "gofloat option \<Rightarrow> bool" where
  "unset_or_negative v \<longleftrightarrow> (case v of None \<Rightarrow> True | Some x \<Rightarrow> fl_lt x (Fin 0))"

definition SetDefaultLoadVariationRiskBalancingArgs ::
  "bLoadVariationRiskBalancingArgs \<Rightarrow> bLoadVariationRiskBalancingArgs"
where
  "SetDefaultLoadVariationRiskBalancingArgs args =
     (let args = (if blvrWatcherAddress args = None \<and> \<not> validMetricProviderType (bmpType (blvrMetricProvider args))
            then args\<lparr>blvrMetricProvider := (blvrMetricProvider args)\<lparr>bmpType := DefaultMetricProviderType\<rparr>\<rparr>
            else args);
          args = (if unset_or_negative (blvrSafeVarianceMargin args)
            then args\<lparr>blvrSafeVarianceMargin := Some DefaultSafeVarianceMargin\<rparr> else args)
      in if unset_or_negative (blvrSafeVarianceSensitivity args)
         then args\<lparr>blvrSafeVarianceSensitivity := Some DefaultSafeVarianceSensitivity\<rparr> else args)"

section \<open>The generated entry points\<close>

text \<open>The versioned objects of the group, and the function that the scheme runs on each.\<close>

datatype 'q versioned_object =
    VCapacity bCapacitySchedulingArgs
  | VCoscheduling bCoschedulingArgs
  | VNodeResources bNodeResourcesAllocatableArgs
  | VTargetLoad "'q bTargetLoadPackingArgs"
  | VLoadVariation bLoadVariationRiskBalancingArgs

definition SetObjectDefaultsCapacitySchedulingArgs :: "bCapacitySchedulingArgs \<Rightarrow> bCapacitySchedulingArgs" where
  "SetObjectDefaultsCapacitySchedulingArgs = SetDefaultsCapacitySchedulingArgs"

definition SetObjectDefaultsCoschedulingArgs :: "bCoschedulingArgs \<Rightarrow> bCoschedulingArgs" where
  "SetObjectDefaultsCoschedulingArgs = SetDefaultsCoschedulingArgs"

definition SetObjectDefaultsNodeResourcesAllocatableArgs ::
  "bNodeResourcesAllocatableArgs \<Rightarrow> bNodeResourcesAllocatableArgs"
where
  "SetObjectDefaultsNodeResourcesAllocatableArgs = SetDefaultsNodeResourcesAllocatableArgs"

definition SetObjectDefaultsTargetLoadPackingArgs ::
  "(string \<Rightarrow> 'q) \<Rightarrow> 'q bTargetLoadPackingArgs \<Rightarrow> 'q bTargetLoadPackingArgs"
where
  "SetObjectDefaultsTargetLoadPackingArgs = SetDefaultTargetLoadPackingArgs"

definition SetObjectDefaultsLoadVariationRiskBalancingArgs ::
  "bLoadVariationRiskBalancingArgs \<Rightarrow> bLoadVariationRiskBalancingArgs"
where
  "SetObjectDefaultsLoadVariationRiskBalancingArgs = SetDefaultLoadVariationRiskBalancingArgs"

fun RegisterDefaults :: "(string \<Rightarrow> 'q) \<Rightarrow> 'q versioned_object \<Rightarrow> 'q versioned_object" where
  "RegisterDefaults MustParse (VCapacity a) = VCapacity (SetObjectDefaultsCapacitySchedulingArgs a)"
| "RegisterDefaults MustParse (VCoscheduling a) = VCoscheduling (SetObjectDefaultsCoschedulingArgs a)"
| "RegisterDefaults MustParse (VNodeResources a) = VNodeResources (SetObjectDefaultsNodeResourcesAllocatableArgs a)"
| "RegisterDefaults MustParse (VTargetLoad a) = VTargetLoad (SetObjectDefaultsTargetLoadPackingArgs MustParse a)"
| "RegisterDefaults MustParse (VLoadVariation a) = VLoadVariation (SetObjectDefaultsLoadVariationRiskBalancingArgs a)"

lemmas set_object_defaults =
  SetObjectDefaultsCapacitySchedulingArgs_def SetObjectDefaultsCoschedulingArgs_def
  SetObjectDefaultsNodeResourcesAllocatableArgs_def SetObjectDefaultsTargetLoadPackingArgs_def
  SetObjectDefaultsLoadVariationRiskBalancingArgs_def

lemmas set_defaults =
  SetDefaultsCoschedulingArgs_def SetDefaultsNodeResourcesAllocatableArgs_def
  SetDefaultsCapacitySchedulingArgs_def SetDefaultTargetLoadPackingArgs_def
  SetDefaultLoadVariationRiskBalancingArgs_def

text \<open>The setters write every optional field they know, so a second run changes nothing.\<close>

lemma defaults_idempotent:
  "RegisterDefaults MustParse (RegisterDefaults MustParse obj) = RegisterDefaults MustParse obj"
proof (cases obj)
  case (VCapacity a)
  then show ?thesis by (simp add: set_object_defaults set_defaults)
next
  case (VCoscheduling a)
  then show ?thesis by (simp add: set_object_defaults set_defaults Let_def)
next
  case (VNodeResources a)
  then show ?thesis
    by (cases "bnraResources a"; cases "the (bnraResources a)")
      (simp_all add: set_object_defaults set_defaults Let_def defaultNodeResourcesAllocatableMode_def
        Least_mode_def defaultNodeResourcesAllocatableResourcesToWeightMap_def)
next
  case (VTargetLoad a)
  then show ?thesis
    by (cases "btlpTargetUtilization a")
      (simp_all add: set_object_defaults set_defaults Let_def DefaultTargetUtilizationPercent_def)
next
  case (VLoadVariation a)
  then show ?thesis
    by (simp add: set_object_defaults set_defaults Let_def unset_or_negative_def validMetricProviderType_def
        DefaultMetricProviderType_def DefaultSafeVarianceMargin_def DefaultSafeVarianceSensitivity_def)
qed

end
