(* ===== verification/TargetLoadPacking.thy ===== *)
theory TargetLoadPacking
  imports Trimaran ConfigDefaults
begin

text \<open>
  \<^verbatim>\<open>pkg/trimaran/targetloadpacking\<close>: the score plugin that packs pods onto nodes up to a
  target CPU utilisation. The load watcher (its constants, its clients and what they measure),
  \<^verbatim>\<open>strconv.ParseFloat\<close> and \<^verbatim>\<open>math.Pow\<close> are parameters; a client whose creation
  failed is nil, and calling it panics. The package's variables are a record that New writes.
  \<^verbatim>\<open>rl.Cpu()\<close> is the entry for CPU or a zero quantity.
\<close>

section \<open>The load watcher\<close>

record metric =
  metType :: string
  metOperator :: string
  metValue :: gofloat

text \<open>Of the watcher's answer, the fields the plugins read; the metrics of a node may be nil.\<close>

record watcher_metrics =
  wmWindowEnd :: i64
  wmNodes :: "(string, metric list option) gomap"

record ('q, 'cl) watcher_api = "'q kube_api" +
  w_CPU :: string
  w_Memory :: string
  w_Average :: string
  w_Std :: string
  w_Latest :: string
  service_client :: "string \<Rightarrow> 'cl option \<times> error option"
  library_client :: "string \<Rightarrow> string \<Rightarrow> string \<Rightarrow> 'cl option \<times> error option"
  latest_metrics :: "'cl \<Rightarrow> error + watcher_metrics"
  ParseFloat :: "string \<Rightarrow> error + gofloat"
  math_Pow :: "gofloat \<Rightarrow> gofloat \<Rightarrow> gofloat"

section \<open>The plugin\<close>

definition tlp_Name :: string where "tlp_Name = ''TargetLoadPacking''"

record tlp_vars =
  requestsMilliCores :: i64
  hostTargetUtilizationPercent :: i64
  requestsMultiplier :: gofloat

definition tlp_vars0 :: tlp_vars where
  "tlp_vars0 = \<lparr>requestsMilliCores = DefaultRequestsMilliCores,
     hostTargetUtilizationPercent = DefaultTargetUtilizationPercent, requestsMultiplier = Fin 0\<rparr>"

record ('q, 'cl) target_load_packing =
  tpClient :: "'cl option"
  tpMetrics :: watcher_metrics
  tpScheduled :: "'q scheduled_pods"

definition no_metrics :: watcher_metrics where
  "no_metrics = \<lparr>wmWindowEnd = 0, wmNodes = []\<rparr>"

definition cpu_milli :: "('q, 'z) kube_api_scheme \<Rightarrow> 'q resource_list \<Rightarrow> i64" where
  "cpu_milli K rl = q_milli K (mget (q_zero K) rl ''cpu'')"

definition tlp_getArgs ::
  "('q, 'cl, 'z) watcher_api_scheme \<Rightarrow> 'q runtime_object \<Rightarrow> error + 'q TargetLoadPackingArgs"
where
  "tlp_getArgs K obj =
     (case obj of
        ObjTargetLoad args \<Rightarrow>
          let bad = (tlpWatcherAddress args = '''' \<and> mpType (tlpMetricProvider args) \<noteq> '''' \<and>
                mpType (tlpMetricProvider args) \<noteq> KubernetesMetricsServer \<and>
                mpType (tlpMetricProvider args) \<noteq> Prometheus \<and> mpType (tlpMetricProvider args) \<noteq> SignalFx);
              args = (if tlpWatcherAddress args = '''' \<and> mpType (tlpMetricProvider args) = '''' then
                args\<lparr>tlpMetricProvider := (tlpMetricProvider args)\<lparr>mpType := KubernetesMetricsServer\<rparr>\<rparr> else args)
          in if bad then Inl (Err ''invalid MetricProvider.Type'')
             else (case ParseFloat K (tlpDefaultRequestsMultiplier args) of
                     Inl err \<Rightarrow> Inl (Err ''unable to parse DefaultRequestsMultiplier'')
                   | Inr _ \<Rightarrow> Inr args)
      | _ \<Rightarrow> Inl (Err ''want args to be of type TargetLoadPackingArgs''))"

text \<open>A failed update keeps the old metrics.\<close>

definition tlp_updateMetrics ::
  "('q, 'cl, 'z) watcher_api_scheme \<Rightarrow> ('q, 'cl) target_load_packing \<Rightarrow>
   error + error option \<times> ('q, 'cl) target_load_packing"
where
  "tlp_updateMetrics K pl =
     (case tpClient pl of
        None \<Rightarrow> Inl (Panic ''nil pointer dereference'')
      | Some client \<Rightarrow>
          (case latest_metrics K client of
             Inl err \<Rightarrow> Inr (Some err, pl)
           | Inr metrics \<Rightarrow> Inr (None, pl\<lparr>tpMetrics := metrics\<rparr>)))"

definition tlp_New ::
  "('q, 'cl, 'z) watcher_api_scheme \<Rightarrow> tlp_vars \<Rightarrow> 'q runtime_object \<Rightarrow>
   error + ('q, 'cl) target_load_packing \<times> tlp_vars"
where
  "tlp_New K vars obj =
     (case tlp_getArgs K obj of
        Inl err \<Rightarrow> Inl err
      | Inr args \<Rightarrow>
          let vars = vars
                \<lparr>hostTargetUtilizationPercent := tlpTargetUtilization args,
                 requestsMilliCores := cpu_milli K (case tlpDefaultRequests args of None \<Rightarrow> [] | Some rl \<Rightarrow> rl),
                 requestsMultiplier :=
                   (case ParseFloat K (tlpDefaultRequestsMultiplier args) of Inl _ \<Rightarrow> Fin 0 | Inr x \<Rightarrow> x)\<rparr>;
              (client, err) =
                (if tlpWatcherAddress args \<noteq> '''' then service_client K (tlpWatcherAddress args)
                 else library_client K (mpType (tlpMetricProvider args)) (mpAddress (tlpMetricProvider args))
                   (mpToken (tlpMetricProvider args)));
              pl = \<lparr>tpClient = client, tpMetrics = no_metrics, tpScheduled = NewPodAssignEventHandler\<rparr>
          in case tlp_updateMetrics K pl of
               Inl err \<Rightarrow> Inl err
             | Inr (err, pl) \<Rightarrow> Inr (pl, vars))"

section \<open>Score\<close>

definition PredictUtilisation ::
  "('q, 'z) kube_api_scheme \<Rightarrow> tlp_vars \<Rightarrow> 'q container \<Rightarrow> i64"
where
  "PredictUtilisation K vars container =
     (if map_of (ctLimits container) ''cpu'' \<noteq> None then cpu_milli K (ctLimits container)
      else if map_of (ctRequests container) ''cpu'' \<noteq> None then
        int64_of_float (math_Round (fl_mul float64
          (fl_of_int float64 (sint (cpu_milli K (ctRequests container)))) (requestsMultiplier vars)))
      else requestsMilliCores vars)"

text \<open>The sums of the two loops: the pod to place, and the bound pods the metrics do not show yet.\<close>

definition pod_usage :: "('q, 'z) kube_api_scheme \<Rightarrow> tlp_vars \<Rightarrow> 'q pod \<Rightarrow> i64" where
  "pod_usage K vars pod =
     fold (\<lambda>container usage. usage + PredictUtilisation K vars container) (podContainers pod) 0"

definition overhead_list :: "'q pod \<Rightarrow> 'q resource_list" where
  "overhead_list pod = (case podOverhead pod of None \<Rightarrow> [] | Some rl \<Rightarrow> rl)"

definition curPodCPUUsage :: "('q, 'z) kube_api_scheme \<Rightarrow> tlp_vars \<Rightarrow> 'q pod \<Rightarrow> i64" where
  "curPodCPUUsage K vars pod =
     (case podOverhead pod of
        Some overhead \<Rightarrow> pod_usage K vars pod + cpu_milli K overhead
      | None \<Rightarrow> pod_usage K vars pod)"

text \<open>\<^verbatim>\<open>Unix()\<close>: whole seconds since 1970.\<close>

definition time_Unix :: "int \<Rightarrow> i64" where
  "time_Unix t = word_of_int (t div 1000000000 - 62135596800)"

definition outside_window :: "watcher_metrics \<Rightarrow> 'q pod_info \<Rightarrow> bool" where
  "outside_window metrics info \<longleftrightarrow>
     (let ts = time_Unix (piTimestamp info)
      in sint ts > sint (wmWindowEnd metrics) \<or>
         sint ts \<le> sint (wmWindowEnd metrics) \<and>
         sint (wmWindowEnd metrics - ts) < metricsAgentReportingIntervalSeconds)"

definition missingCPUUtilMillis ::
  "('q, 'z) kube_api_scheme \<Rightarrow> tlp_vars \<Rightarrow> watcher_metrics \<Rightarrow> 'q pod_info list \<Rightarrow> i64"
where
  "missingCPUUtilMillis K vars metrics infos =
     fold (\<lambda>info missing.
         if outside_window metrics info then
           fold (\<lambda>container missing. missing + PredictUtilisation K vars container)
             (podContainers (piPod info)) missing + cpu_milli K (overhead_list (piPod info))
         else missing) infos 0"

text \<open>The last CPU metric of the two operators, if any.\<close>

definition cpu_metric :: "('q, 'cl, 'z) watcher_api_scheme \<Rightarrow> metric list \<Rightarrow> gofloat option" where
  "cpu_metric K metrics =
     fold (\<lambda>metric found.
         if metType metric = w_CPU K \<and> (metOperator metric = w_Average K \<or> metOperator metric = w_Latest K)
         then Some (metValue metric) else found) metrics None"

definition predictedCPUUsage :: "gofloat \<Rightarrow> gofloat \<Rightarrow> i64 \<Rightarrow> i64 \<Rightarrow> gofloat" where
  "predictedCPUUsage nodeCPUUtilMillis nodeCPUCapMillis cur missing =
     (if \<not> fl_eq nodeCPUCapMillis (Fin 0) then
        fl_div float64
          (fl_mul float64 (Fin 100)
            (fl_add float64 (fl_add float64 nodeCPUUtilMillis (fl_of_int float64 (sint cur)))
              (fl_of_int float64 (sint missing))))
          nodeCPUCapMillis
      else Fin 0)"

text \<open>The score of a predicted utilisation: rising up to the target, then penalised.\<close>

definition packing_score :: "tlp_vars \<Rightarrow> gofloat \<Rightarrow> i64" where
  "packing_score vars predicted =
     (let target = fl_of_int float64 (sint (hostTargetUtilizationPercent vars));
          rest = fl_sub float64 (Fin 100) target
      in if fl_lt target predicted then
           if fl_lt (Fin 100) predicted then 0
           else int64_of_float (math_Round (fl_div float64
                  (fl_mul float64 (Fin 50) (fl_sub float64 (Fin 100) predicted)) rest))
         else int64_of_float (math_Round (fl_add float64
                (fl_div float64 (fl_mul float64 rest predicted) target) target)))"

definition tlp_Score ::
  "('q, 'cl, 'z) watcher_api_scheme \<Rightarrow> tlp_vars \<Rightarrow> ('q, 'cl) target_load_packing \<Rightarrow>
   (string \<Rightarrow> error + 'q node_info) \<Rightarrow> 'q pod \<Rightarrow> string \<Rightarrow> error + i64 \<times> status option"
where
  "tlp_Score K vars pl get_node pod name =
     (case get_node name of
        Inl err \<Rightarrow> Inr (0, Some (NewStatus Error ''getting node from Snapshot''))
      | Inr nodeInfo \<Rightarrow>
          (case map_of (wmNodes (tpMetrics pl)) name of
             None \<Rightarrow> Inr (0, None)
           | Some nodeMetrics \<Rightarrow>
               (case cpu_metric K (case nodeMetrics of None \<Rightarrow> [] | Some ms \<Rightarrow> ms) of
                  None \<Rightarrow> Inr (0, None)
                | Some nodeCPUUtilPercent \<Rightarrow>
                    (case niNode nodeInfo of
                       None \<Rightarrow> Inl (Panic ''nil pointer dereference'')
                     | Some node \<Rightarrow>
                         let capMillis = fl_of_int float64 (sint (cpu_milli K (nodeCapacity node)));
                             utilMillis = fl_mul float64 (fl_div float64 nodeCPUUtilPercent (Fin 100)) capMillis;
                             missing = missingCPUUtilMillis K vars (tpMetrics pl) (mget [] (tpScheduled pl) name)
                         in Inr (packing_score vars
                                  (predictedCPUUsage utilMillis capMillis (curPodCPUUsage K vars pod) missing),
                                Some (NewStatus Success ''''))))))"

end
