(* ===== verification/LoadVariation.thy ===== *)
theory LoadVariation
  imports TargetLoadPacking ScoreNormalization
begin

text \<open>
  \<^verbatim>\<open>pkg/trimaran/loadvariationriskbalancing\<close>: the score plugin that balances the risk of
  load variation. \<^verbatim>\<open>analysis.go\<close> computes the score of one resource from its measured
  average and deviation, \<^verbatim>\<open>collector.go\<close> keeps the watcher's data, and the plugin
  combines the scores for CPU and memory.
\<close>

section \<open>analysis.go\<close>

record resourceStats =
  usedAvg :: gofloat
  usedStdev :: gofloat
  rsReq :: gofloat
  rsCapacity :: gofloat

text \<open>\<^verbatim>\<open>math.Max(math.Min(v, hi), 0)\<close>, and the score of a resource.\<close>

definition clamp :: "gofloat \<Rightarrow> gofloat \<Rightarrow> gofloat" where
  "clamp v hi = math_Max (math_Min v hi) (Fin 0)"

definition computeScore ::
  "('q, 'cl, 'z) watcher_api_scheme \<Rightarrow> resourceStats \<Rightarrow> gofloat \<Rightarrow> gofloat \<Rightarrow> gofloat"
where
  "computeScore K rs margin sensitivity =
     (if fl_le (rsCapacity rs) (Fin 0) then Fin 0
      else let rs = rs\<lparr>rsReq := math_Max (rsReq rs) (Fin 0)\<rparr>;
               rs = rs\<lparr>usedAvg := clamp (usedAvg rs) (rsCapacity rs)\<rparr>;
               rs = rs\<lparr>usedStdev := clamp (usedStdev rs) (rsCapacity rs)\<rparr>;
               mu = fl_div float64 (fl_add float64 (usedAvg rs) (rsReq rs)) (rsCapacity rs);
               mu = clamp mu (Fin 1);
               sigma = fl_div float64 (usedStdev rs) (rsCapacity rs);
               sigma = clamp sigma (Fin 1);
               sigma = (if fl_le (Fin 0) sensitivity
                  then math_Pow K sigma (fl_div float64 (Fin 1) sensitivity) else sigma);
               sigma = fl_mul float64 sigma margin;
               sigma = clamp sigma (Fin 1);
               risk = fl_div float64 (fl_add float64 mu sigma) (Fin 2)
           in fl_mul float64 (fl_sub float64 (Fin 1) risk) (fl_of_int float64 (sint MaxNodeScore)))"

text \<open>The loop keeps the average, the deviation, and whether data was found at all.\<close>

definition resource_data_step ::
  "('q, 'cl, 'z) watcher_api_scheme \<Rightarrow> string \<Rightarrow> metric \<Rightarrow> gofloat \<times> gofloat \<times> bool \<times> bool \<Rightarrow>
   gofloat \<times> gofloat \<times> bool \<times> bool"
where
  "resource_data_step K resourceType metric =
     (\<lambda>(avg, stDev, avgFound, isValid).
        if metType metric = resourceType then
          if metOperator metric = w_Average K then (metValue metric, stDev, True, True)
          else if metOperator metric = w_Std K then (avg, metValue metric, avgFound, True)
          else if (metOperator metric = '''' \<or> metOperator metric = w_Latest K) \<and> \<not> avgFound
          then (metValue metric, stDev, avgFound, True)
          else (avg, stDev, avgFound, True)
        else (avg, stDev, avgFound, isValid))"

definition getResourceData ::
  "('q, 'cl, 'z) watcher_api_scheme \<Rightarrow> metric list \<Rightarrow> string \<Rightarrow> gofloat \<times> gofloat \<times> bool"
where
  "getResourceData K metrics resourceType =
     (case fold (resource_data_step K resourceType) metrics (Fin 0, Fin 0, False, False) of
        (avg, stDev, avgFound, isValid) \<Rightarrow> (avg, stDev, isValid))"

text \<open>The switch over the requests of an init container.\<close>

definition init_request ::
  "('q, 'z) kube_api_scheme \<Rightarrow> string \<times> 'q \<Rightarrow> resource \<Rightarrow> resource"
where
  "init_request K rq result =
     (case rq of (rName, rQuantity) \<Rightarrow>
        if rName = ''cpu'' then
          (let cpu = q_milli K rQuantity
           in if sint cpu > sint (MilliCPU result) then result\<lparr>MilliCPU := cpu\<rparr> else result)
        else if rName = ''memory'' then
          (let mem = q_value K rQuantity
           in if sint mem > sint (Memory result) then result\<lparr>Memory := mem\<rparr> else result)
        else result)"

definition getResourceRequested :: "('q, 'z) kube_api_scheme \<Rightarrow> 'q pod \<Rightarrow> resource" where
  "getResourceRequested K pod =
     (let result = fold (\<lambda>container r. res_add K r (ctRequests container)) (podContainers pod) zero_resource;
          result = fold (\<lambda>container. fold (init_request K) (ctRequests container))
            (podInitContainers pod) result
      in case podOverhead pod of None \<Rightarrow> result | Some overhead \<Rightarrow> res_add K result overhead)"

text \<open>\<^verbatim>\<open>megaFactor\<close>, a constant expression.\<close>

definition megaFactor :: gofloat where "megaFactor = fl float64 (1 / 1024 / 1024)"

definition createResourceStats ::
  "('q, 'cl, 'z) watcher_api_scheme \<Rightarrow> metric list \<Rightarrow> 'q node option \<Rightarrow> resource \<Rightarrow> string \<Rightarrow> string \<Rightarrow>
   error + resourceStats option"
where
  "createResourceStats K metrics node podRequest resourceName watcherType =
     (case node of
        None \<Rightarrow> Inl (Panic ''nil pointer dereference'')
      | Some node \<Rightarrow>
          (case getResourceData K metrics watcherType of (nodeUtil, nodeStd, metricFound) \<Rightarrow>
             if \<not> metricFound then Inr None
             else let am = mget (q_zero K) (nodeAllocatable node) resourceName;
                      (capacity, req) =
                        (if resourceName = ''cpu'' then
                           (fl_of_int float64 (sint (q_milli K am)), fl_of_int float64 (sint (MilliCPU podRequest)))
                         else
                           (fl_mul float64 (fl_of_int float64 (sint (q_value K am))) megaFactor,
                            fl_mul float64 (fl_of_int float64 (sint (Memory podRequest))) megaFactor))
                  in Inr (Some
                       \<lparr>usedAvg = fl_div float64 (fl_mul float64 nodeUtil capacity) (Fin 100),
                        usedStdev = fl_div float64 (fl_mul float64 nodeStd capacity) (Fin 100),
                        rsReq = req, rsCapacity = capacity\<rparr>)))"

section \<open>collector.go\<close>

record 'cl collector =
  coClient :: "'cl option"
  coMetrics :: watcher_metrics
  coArgs :: LoadVariationRiskBalancingArgs

definition lvr_getArgs :: "'q runtime_object \<Rightarrow> LoadVariationRiskBalancingArgs" where
  "lvr_getArgs obj =
     (case obj of
        ObjLoadVariation args \<Rightarrow> args
      | _ \<Rightarrow>
          \<lparr>lvrMeta = \<lparr>Kind = '''', APIVersion = ''''\<rparr>,
           lvrMetricProvider = \<lparr>mpType = DefaultMetricProviderType, mpAddress = '''', mpToken = ''''\<rparr>,
           lvrWatcherAddress = '''', lvrSafeVarianceMargin = DefaultSafeVarianceMargin,
           lvrSafeVarianceSensitivity = DefaultSafeVarianceSensitivity\<rparr>)"

definition lvr_updateMetrics ::
  "('q, 'cl, 'z) watcher_api_scheme \<Rightarrow> 'cl collector \<Rightarrow> error + error option \<times> 'cl collector"
where
  "lvr_updateMetrics K collector =
     (case coClient collector of
        None \<Rightarrow> Inl (Panic ''nil pointer dereference'')
      | Some client \<Rightarrow>
          (case latest_metrics K client of
             Inl err \<Rightarrow> Inr (Some err, collector)
           | Inr metrics \<Rightarrow> Inr (None, collector\<lparr>coMetrics := metrics\<rparr>)))"

definition newCollector ::
  "('q, 'cl, 'z) watcher_api_scheme \<Rightarrow> 'q runtime_object \<Rightarrow> error + 'cl collector"
where
  "newCollector K obj =
     (let args = lvr_getArgs obj;
          (client, _) =
            (if lvrWatcherAddress args \<noteq> '''' then service_client K (lvrWatcherAddress args)
             else library_client K (mpType (lvrMetricProvider args)) (mpAddress (lvrMetricProvider args))
               (mpToken (lvrMetricProvider args)))
      in case lvr_updateMetrics K \<lparr>coClient = client, coMetrics = no_metrics, coArgs = args\<rparr> of
           Inl err \<Rightarrow> Inl err
         | Inr (err, collector) \<Rightarrow> Inr collector)"

definition getAllMetrics :: "'cl collector \<Rightarrow> watcher_metrics" where
  "getAllMetrics collector = coMetrics collector"

definition getNodeMetrics :: "'cl collector \<Rightarrow> string \<Rightarrow> metric list option" where
  "getNodeMetrics collector name =
     (let allMetrics = getAllMetrics collector
      in case map_of (wmNodes allMetrics) name of None \<Rightarrow> None | Some metrics \<Rightarrow> metrics)"

section \<open>The plugin\<close>

definition lvr_Name :: string where "lvr_Name = ''LoadVariationRiskBalancing''"

record ('q, 'cl) load_variation =
  lvScheduled :: "'q scheduled_pods"
  lvCollector :: "'cl collector"

definition lvr_New ::
  "('q, 'cl, 'z) watcher_api_scheme \<Rightarrow> 'q runtime_object \<Rightarrow> error + ('q, 'cl) load_variation"
where
  "lvr_New K obj =
     (case newCollector K obj of
        Inl err \<Rightarrow> Inl err
      | Inr collector \<Rightarrow> Inr \<lparr>lvScheduled = NewPodAssignEventHandler, lvCollector = collector\<rparr>)"

text \<open>The score of one resource: zero when it has no data.\<close>

definition stats_score ::
  "('q, 'cl, 'z) watcher_api_scheme \<Rightarrow> LoadVariationRiskBalancingArgs \<Rightarrow> resourceStats option \<Rightarrow> gofloat"
where
  "stats_score K args stats =
     (case stats of
        None \<Rightarrow> Fin 0
      | Some rs \<Rightarrow> computeScore K rs (lvrSafeVarianceMargin args) (lvrSafeVarianceSensitivity args))"

definition total_score :: "resourceStats option \<Rightarrow> resourceStats option \<Rightarrow> gofloat \<Rightarrow> gofloat \<Rightarrow> gofloat" where
  "total_score cpuStats memoryStats cpuScore memoryScore =
     (if memoryStats \<noteq> None \<and> cpuStats \<noteq> None then math_Min memoryScore cpuScore
      else math_Max memoryScore cpuScore)"

definition lvr_Score ::
  "('q, 'cl, 'z) watcher_api_scheme \<Rightarrow> ('q, 'cl) load_variation \<Rightarrow>
   (string \<Rightarrow> error + 'q node_info) \<Rightarrow> 'q pod \<Rightarrow> string \<Rightarrow> error + i64 \<times> status option"
where
  "lvr_Score K pl get_node pod name =
     (let score = MinNodeScore; args = coArgs (lvCollector pl)
      in case get_node name of
           Inl err \<Rightarrow> Inr (score, Some (NewStatus Error ''getting node from Snapshot''))
         | Inr nodeInfo \<Rightarrow>
             (case getNodeMetrics (lvCollector pl) name of
                None \<Rightarrow> Inr (score, None)
              | Some metrics \<Rightarrow>
                  let podRequest = getResourceRequested K pod; node = niNode nodeInfo
                  in case createResourceStats K metrics node podRequest ''cpu'' (w_CPU K) of
                       Inl err \<Rightarrow> Inl err
                     | Inr cpuStats \<Rightarrow>
                         (case createResourceStats K metrics node podRequest ''memory'' (w_Memory K) of
                            Inl err \<Rightarrow> Inl err
                          | Inr memoryStats \<Rightarrow>
                              let totalScore = total_score cpuStats memoryStats
                                    (stats_score K args cpuStats) (stats_score K args memoryStats)
                              in Inr (int64_of_float (math_Round totalScore), Some (NewStatus Success '''')))))"

definition lvr_NormalizeScore :: "node_score list \<Rightarrow> node_score list \<times> status option" where
  "lvr_NormalizeScore scores = (scores, None)"

definition lvr_isAssigned :: "'q pod \<Rightarrow> bool" where
  "lvr_isAssigned pod \<longleftrightarrow> length (podNodeName pod) \<noteq> 0"

fun lvr_FilterFunc :: "'q inf_obj \<Rightarrow> bool" where
  "lvr_FilterFunc (PodObj pod) = lvr_isAssigned pod"
| "lvr_FilterFunc (Tombstone (PodObj pod)) = lvr_isAssigned pod"
| "lvr_FilterFunc _ = False"

end
