(* ===== verification/FloatRange.thy ===== *)
theory FloatRange
  imports GoFloat
begin

text \<open>
  Ranges of float64 computations: an operation whose exact result lies between two integers
  of at most 53 bits has a finite result between them, and rounding keeps the order.
\<close>

definition r64 :: "rat \<Rightarrow> rat" where
  "r64 = fl_round 53 (- 1074)"

text \<open>Finite values between two bounds, and values that are not negative and not NaN.\<close>

definition fl_within :: "rat \<Rightarrow> rat \<Rightarrow> gofloat \<Rightarrow> bool" where
  "fl_within lo hi a \<longleftrightarrow> (\<exists>x. a = Fin x \<and> lo \<le> x \<and> x \<le> hi)"

definition nonneg :: "gofloat \<Rightarrow> bool" where
  "nonneg a \<longleftrightarrow> a = PInf \<or> (\<exists>x. a = Fin x \<and> 0 \<le> x)"

lemma within_Fin [simp]: "fl_within lo hi (Fin x) \<longleftrightarrow> lo \<le> x \<and> x \<le> hi"
  by (simp add: fl_within_def)

lemma nonneg_Fin [simp]: "nonneg (Fin x) \<longleftrightarrow> 0 \<le> x" "nonneg PInf" "\<not> nonneg NaN" "\<not> nonneg NInf"
  by (simp_all add: nonneg_def)

lemma r64_mono: "x \<le> y \<Longrightarrow> r64 x \<le> r64 y"
  unfolding r64_def by (rule fl_round_mono) simp_all

lemma r64_int: "\<bar>m\<bar> \<le> 2 ^ 53 \<Longrightarrow> r64 (of_int m) = of_int m"
  unfolding r64_def by (rule fl_round_int) simp_all

lemma r64_0 [simp]: "r64 0 = 0"
  using r64_int [of 0] by simp

lemma r64_nonneg: "0 \<le> x \<Longrightarrow> 0 \<le> r64 x"
  using r64_mono [of 0 x] by simp

lemma fl64_eq: "\<bar>r64 x\<bar> < 2 powi 1024 \<Longrightarrow> fl float64 x = Fin (r64 x)"
  by (auto simp: fl_def float64_def r64_def Let_def abs_less_iff)

text \<open>Exact results between representable integers.\<close>

lemma r64_between:
  assumes "of_int m \<le> x" and "x \<le> of_int n" and "\<bar>m\<bar> \<le> 2 ^ 53" and "\<bar>n\<bar> \<le> 2 ^ 53"
  shows "of_int m \<le> r64 x" and "r64 x \<le> of_int n" and "fl float64 x = Fin (r64 x)"
proof -
  show lo: "of_int m \<le> r64 x" using r64_mono [OF assms(1)] r64_int [OF assms(3)] by simp
  show hi: "r64 x \<le> of_int n" using r64_mono [OF assms(2)] r64_int [OF assms(4)] by simp
  have "- (2 ^ 53) \<le> (of_int m :: rat)" "(of_int n :: rat) \<le> 2 ^ 53"
    using assms(3,4) by (metis abs_le_iff minus_le_iff of_int_le_iff of_int_minus of_int_numeral of_int_power)+
  with lo hi have "\<bar>r64 x\<bar> \<le> 2 ^ 53" by simp
  also have "(2 :: rat) ^ 53 < 2 powi 1024" by simp
  finally show "fl float64 x = Fin (r64 x)" by (rule fl64_eq)
qed

lemma within_fl:
  assumes "of_int m \<le> x" and "x \<le> of_int n" and "\<bar>m\<bar> \<le> 2 ^ 53" and "\<bar>n\<bar> \<le> 2 ^ 53"
  shows "fl_within (of_int m) (of_int n) (fl float64 x)"
  using r64_between [OF assms] by simp

lemma fl_of_int64: "\<bar>i\<bar> \<le> 2 ^ 53 \<Longrightarrow> fl_of_int float64 i = Fin (of_int i)"
  using r64_between(3) [of i "of_int i" i] r64_int [of i] by (simp add: fl_of_int_def)

lemma nonneg_fl: "0 \<le> x \<Longrightarrow> nonneg (fl float64 x)"
proof -
  assume "0 \<le> x"
  from r64_nonneg [OF this] have r: "0 \<le> fl_round 53 (- 1074) x" by (simp add: r64_def)
  moreover have "- (2 powi 1024) < (0 :: rat)" by simp
  ultimately have "\<not> fl_round 53 (- 1074) x \<le> - (2 powi 1024)" by linarith
  with r show ?thesis by (simp add: fl_def float64_def Let_def)
qed

lemma nonneg_of_int: "0 \<le> i \<Longrightarrow> nonneg (fl_of_int float64 i)"
  by (simp add: fl_of_int_def nonneg_fl)

lemma nonneg_add: "nonneg a \<Longrightarrow> nonneg b \<Longrightarrow> nonneg (fl_add float64 a b)"
  by (cases a; cases b) (simp_all add: nonneg_fl)

lemma nonneg_mul: "nonneg a \<Longrightarrow> nonneg b \<Longrightarrow> (\<exists>x. a = Fin x \<and> 0 < x) \<or> (\<exists>x y. a = Fin x \<and> b = Fin y) \<Longrightarrow>
    nonneg (fl_mul float64 a b)"
  by (cases a; cases b) (auto simp: nonneg_fl fl_inf_def)

lemma nonneg_div: "nonneg a \<Longrightarrow> 0 < c \<Longrightarrow> nonneg (fl_div float64 a (Fin c))"
  by (cases a) (simp_all add: nonneg_fl fl_inf_def)

text \<open>Every int64 converts to a finite value.\<close>

lemma fl_of_i64:
  fixes w :: i64
  obtains x where "fl_of_int float64 (sint w) = Fin x" and "\<bar>x\<bar> \<le> 2 ^ 63" and "0 \<le> sint w \<Longrightarrow> 0 \<le> x"
proof -
  let ?x = "of_int (sint w) :: rat"
  have "r64 (2 ^ 63) = 2 ^ 63" "r64 (- (2 ^ 63)) = - (2 ^ 63)"
    using fl_round_exact [of 1 53 "- 1074" 63] fl_round_exact [of "- 1" 53 "- 1074" 63]
    by (simp_all add: r64_def)
  moreover have "- (2 ^ 63) \<le> sint w" "sint w < 2 ^ 63"
    using sint_greater_eq [of w] sint_lt [of w] by simp_all
  then have "(of_int (- (2 ^ 63)) :: rat) \<le> ?x" "?x \<le> of_int (2 ^ 63)" by (simp_all only: of_int_le_iff)
  then have "- (2 ^ 63) \<le> ?x" "?x \<le> 2 ^ 63" by simp_all
  ultimately have b: "\<bar>r64 ?x\<bar> \<le> 2 ^ 63" using r64_mono [of "- (2 ^ 63)" ?x] r64_mono [of ?x "2 ^ 63"]
    by simp
  also have "(2 :: rat) ^ 63 < 2 powi 1024" by simp
  finally have "fl_of_int float64 (sint w) = Fin (r64 ?x)" by (simp only: fl_of_int_def fl64_eq)
  moreover have "0 \<le> r64 ?x" if "0 \<le> sint w" using that by (intro r64_nonneg) (simp only: of_int_0_le_iff)
  ultimately show thesis using that b by blast
qed

lemma nonneg_mul_pos: "nonneg a \<Longrightarrow> 0 < y \<Longrightarrow> nonneg (fl_mul float64 a (Fin y))"
  by (cases a) (simp_all add: nonneg_fl fl_inf_def)

text \<open>A finite product or quotient is rounded, so it is no NaN.\<close>

lemma fl_not_NaN [simp]: "fl F x \<noteq> NaN"
  by (simp add: fl_def Let_def split: prod.split)

text \<open>Rounding to a float64 keeps the order, overflow included.\<close>

lemma fl64_mono:
  assumes "x \<le> y"
  shows "fl_le (fl float64 x) (fl float64 y)"
proof -
  let ?E = "2 powi 1024 :: rat" and ?x = "fl_round 53 (- 1074) x" and ?y = "fl_round 53 (- 1074) y"
  have e: "?x \<le> ?y" using fl_round_mono [of 53 x y] assms by simp
  have f: "fl float64 z = (let r = fl_round 53 (- 1074) z in if r \<ge> ?E then PInf else if r \<le> - ?E then NInf else Fin r)"
    for z by (simp only: fl_def float64_def prod.case)
  consider "?E \<le> ?y" | "?y < ?E" "?x \<le> - ?E" | "- ?E < ?x" "?y < ?E" by linarith
  then show ?thesis
  proof cases
    case 1
    then have "fl float64 y = PInf" unfolding f Let_def by simp
    then show ?thesis using fl_not_NaN [of float64 x] by (cases "fl float64 x") simp_all
  next
    case 2
    then have "fl float64 x = NInf \<or> fl float64 x = PInf \<and> ?E \<le> ?x" unfolding f Let_def by simp
    then have "fl float64 x = NInf" using 2 e by auto
    then show ?thesis using fl_not_NaN [of float64 y] by (cases "fl float64 y") simp_all
  next
    case 3
    then have "fl float64 x = Fin ?x" "fl float64 y = Fin ?y" using e unfolding f Let_def by auto
    with e show ?thesis by simp
  qed
qed

lemma fl_le_PInf [simp]: "fl_le a PInf \<longleftrightarrow> a \<noteq> NaN"
  by (cases a) simp_all

lemma fl_div_mono:
  assumes "fl_le a b" and "nonneg a" and "nonneg b" and "0 < c"
  shows "fl_le (fl_div float64 a (Fin c)) (fl_div float64 b (Fin c))"
  using assms by (cases a; cases b) (auto simp: fl_inf_def fl64_mono divide_right_mono)

text \<open>\<^verbatim>\<open>int64(math.Round(x))\<close> of a value in a range of integers stays in the range and
  keeps the order.\<close>

definition round_half :: "rat \<Rightarrow> int" where
  "round_half x = (if x \<ge> 0 then \<lfloor>x + 1 / 2\<rfloor> else - \<lfloor>1 / 2 - x\<rfloor>)"

lemma round_half_mono: "x \<le> y \<Longrightarrow> round_half x \<le> round_half y"
proof -
  assume xy: "x \<le> y"
  consider "0 \<le> x" | "x < 0" "0 \<le> y" | "y < 0" by linarith
  then show ?thesis
  proof cases
    case 2
    then have "0 \<le> \<lfloor>1 / 2 - x\<rfloor>" "0 \<le> \<lfloor>y + 1 / 2\<rfloor>" by (simp_all add: le_floor_iff)
    moreover have "round_half x = - \<lfloor>1 / 2 - x\<rfloor>" "round_half y = \<lfloor>y + 1 / 2\<rfloor>"
      using 2 by (simp_all add: round_half_def)
    ultimately show ?thesis by linarith
  qed (use xy in \<open>auto simp: round_half_def intro!: floor_mono\<close>)
qed

lemma round_half_int [simp]: "round_half (of_int m) = m"
proof -
  have "\<lfloor>of_int m + 1 / 2 :: rat\<rfloor> = m" "\<lfloor>1 / 2 - of_int m :: rat\<rfloor> = - m"
    by (simp_all add: floor_eq_iff)
  then show ?thesis by (simp add: round_half_def)
qed

lemma round_range:
  assumes "of_int m \<le> x" and "x \<le> of_int n" and "- 9223372036854775808 \<le> m" and "n < 9223372036854775808"
  shows "sint (int64_of_float (math_Round (Fin x))) = round_half x"
    and "m \<le> round_half x" and "round_half x \<le> n"
proof -
  show k: "m \<le> round_half x" "round_half x \<le> n"
    using round_half_mono [OF assms(1)] round_half_mono [OF assms(2)] by simp_all
  have "int64_of_float (math_Round (Fin x)) = word_of_int (round_half x)"
    using k assms(3,4) by (auto simp: int64_of_float_def round_half_def [symmetric])
  moreover have "sint (word_of_int (round_half x) :: i64) = round_half x"
    using k assms(3,4) by (intro sint64_of_int) auto
  ultimately show "sint (int64_of_float (math_Round (Fin x))) = round_half x" by simp
qed

end
