(* ===== verification/LoadAwareProperties.thy ===== *)
theory LoadAwareProperties
  imports TargetLoadPacking LoadVariation FloatRange DemoApi
begin

text \<open>
  The scores of the load-aware plugins, on Go's rounded floating-point arithmetic: their range,
  and how they order nodes.
\<close>

section \<open>Target load packing\<close>

text \<open>The two branches of the score over rounded rationals.\<close>

definition target :: "tlp_vars \<Rightarrow> int" where
  "target vars = sint (hostTargetUtilizationPercent vars)"

definition rising :: "int \<Rightarrow> rat \<Rightarrow> rat" where
  "rising T p = r64 (r64 (r64 (of_int (100 - T) * p) / of_int T) + of_int T)"

definition falling :: "int \<Rightarrow> rat \<Rightarrow> rat" where
  "falling T p = r64 (r64 (50 * r64 (100 - p)) / of_int (100 - T))"

lemma small53: "\<bar>m\<bar> \<le> 10000 \<Longrightarrow> \<bar>m :: int\<bar> \<le> 2 ^ 53"
  by simp

lemma rising_range:
  assumes "0 < T" and "T \<le> 100" and "0 \<le> p" and "p \<le> of_int T"
  shows "of_int T \<le> rising T p" and "rising T p \<le> 100"
    and "fl_add float64 (fl_div float64 (fl_mul float64 (Fin (of_int (100 - T))) (Fin p)) (Fin (of_int T))) (Fin (of_int T))
      = Fin (rising T p)"
proof -
  let ?a = "of_int (100 - T) * p"
  have T: "0 \<le> (of_int T :: rat)" "(of_int T :: rat) \<le> 100" using assms by simp_all
  have a: "of_int 0 \<le> ?a" "?a \<le> of_int ((100 - T) * T)"
    using assms by (simp_all add: mult_left_mono)
  have "(100 - T) * T \<le> 100 * 100" using assms by (intro mult_mono) auto
  then have ma: "\<bar>(100 - T) * T\<bar> \<le> 2 ^ 53" using assms by simp
  note ra = r64_between [OF a small53 ma, simplified]
  let ?b = "r64 ?a / of_int T"
  have b: "of_int 0 \<le> ?b" "?b \<le> of_int (100 - T)"
    using ra assms by (simp_all add: pos_divide_le_eq)
  note rb = r64_between [OF b small53 small53, simplified]
  let ?c = "r64 ?b + of_int T"
  have c: "of_int T \<le> ?c" "?c \<le> of_int 100" using rb assms by simp_all
  note rc = r64_between [OF c small53 small53, simplified]
  show "of_int T \<le> rising T p" "rising T p \<le> 100" using rc assms by (simp_all add: rising_def)
  show "fl_add float64 (fl_div float64 (fl_mul float64 (Fin (of_int (100 - T))) (Fin p)) (Fin (of_int T))) (Fin (of_int T))
      = Fin (rising T p)"
    using ra rb rc assms by (simp add: rising_def)
qed

lemma falling_range:
  assumes "0 < T" and "of_int T < p" and "p \<le> 100"
  shows "0 \<le> falling T p" and "falling T p \<le> 50"
    and "fl_div float64 (fl_mul float64 (Fin 50) (fl_sub float64 (Fin 100) (Fin p))) (Fin (of_int (100 - T)))
      = Fin (falling T p)"
proof -
  have T: "T < 100" using assms by (metis of_int_less_iff of_int_numeral order_less_le_trans)
  have a: "of_int 0 \<le> 100 - p" "100 - p \<le> of_int (100 - T)" using assms by simp_all
  note ra = r64_between [OF a small53 small53, simplified]
  let ?b = "50 * r64 (100 - p)"
  have b: "of_int 0 \<le> ?b" "?b \<le> of_int (50 * (100 - T))" using ra T assms by simp_all
  note rb = r64_between [OF b small53 small53, simplified]
  let ?c = "r64 ?b / of_int (100 - T)"
  have c: "of_int 0 \<le> ?c" "?c \<le> of_int 50" using rb T assms by (simp_all add: pos_divide_le_eq)
  note rc = r64_between [OF c small53 small53, simplified]
  show "0 \<le> falling T p" "falling T p \<le> 50" using rc by (simp_all add: falling_def)
  show "fl_div float64 (fl_mul float64 (Fin 50) (fl_sub float64 (Fin 100) (Fin p))) (Fin (of_int (100 - T)))
      = Fin (falling T p)"
    using ra rb rc T assms by (simp add: falling_def fl_sub_def)
qed

text \<open>The score in closed form.\<close>

lemma packing_score_eq:
  assumes "0 < target vars" and "target vars \<le> 100" and "nonneg p"
  shows "sint (packing_score vars p) =
    (if fl_le p (Fin (of_int (target vars))) then round_half (rising (target vars) (case p of Fin x \<Rightarrow> x | _ \<Rightarrow> 0))
     else if fl_lt (Fin 100) p then 0 else round_half (falling (target vars) (case p of Fin x \<Rightarrow> x | _ \<Rightarrow> 0)))"
proof -
  let ?T = "target vars"
  have fT: "fl_of_int float64 (sint (hostTargetUtilizationPercent vars)) = Fin (of_int ?T)"
    using assms by (simp add: target_def fl_of_int64)
  have rest: "fl_sub float64 (Fin 100) (Fin (of_int ?T)) = Fin (of_int (100 - ?T))"
    using r64_between(3) [of "100 - ?T" "of_int (100 - ?T)" "100 - ?T"] r64_int [of "100 - ?T"] assms
    by (simp add: fl_sub_def)
  show ?thesis
  proof (cases p)
    case (Fin x)
    then have x: "0 \<le> x" using assms(3) by simp
    consider "x \<le> of_int ?T" | "of_int ?T < x" "x \<le> 100" | "of_int ?T < x" "100 < x" by linarith
    then show ?thesis
    proof cases
      case 1
      then have n: "\<not> of_int ?T < x" by simp
      note r = rising_range [OF assms(1,2) x 1]
      have "packing_score vars p = int64_of_float (math_Round (Fin (rising ?T x)))"
        by (simp only: packing_score_def Let_def fT rest Fin fl_lt.simps n if_False r(3))
      then show ?thesis
        using round_range(1) [of ?T "rising ?T x" 100] r assms by (simp add: Fin n)
    next
      case 2
      then have n: "\<not> 100 < x" by simp
      note r = falling_range [OF assms(1) 2]
      have "packing_score vars p = int64_of_float (math_Round (Fin (falling ?T x)))"
        by (simp only: packing_score_def Let_def fT rest Fin fl_lt.simps 2(1) n if_True if_False r(3))
      then show ?thesis
        using round_range(1) [of 0 "falling ?T x" 50] r 2 by (simp add: Fin)
    next
      case 3
      then show ?thesis by (simp only: packing_score_def Let_def fT rest Fin) (simp add: Fin)
    qed
  next
    case PInf
    then show ?thesis by (simp add: packing_score_def fT)
  qed (use assms(3) in simp_all)
qed

lemma rising_mono: "0 < T \<Longrightarrow> T \<le> 100 \<Longrightarrow> x \<le> y \<Longrightarrow> rising T x \<le> rising T y"
  unfolding rising_def by (intro r64_mono add_right_mono divide_right_mono mult_left_mono) simp_all

lemma falling_anti: "T < 100 \<Longrightarrow> x \<le> y \<Longrightarrow> falling T y \<le> falling T x"
  unfolding falling_def by (intro r64_mono divide_right_mono mult_left_mono diff_left_mono) simp_all

lemma packing_score_range:
  assumes "0 < target vars" and "target vars \<le> 100" and "nonneg p"
  shows "0 \<le> sint (packing_score vars p)" and "sint (packing_score vars p) \<le> 100"
    and "fl_le p (Fin (of_int (target vars))) \<Longrightarrow> target vars \<le> sint (packing_score vars p)"
    and "\<not> fl_le p (Fin (of_int (target vars))) \<Longrightarrow> sint (packing_score vars p) \<le> 50"
proof -
  let ?T = "target vars" and ?s = "sint (packing_score vars p)"
  have "(fl_le p (Fin (of_int ?T)) \<longrightarrow> ?T \<le> ?s \<and> ?s \<le> 100) \<and>
    (\<not> fl_le p (Fin (of_int ?T)) \<longrightarrow> 0 \<le> ?s \<and> ?s \<le> 50)"
  proof (cases p)
    case (Fin x)
    then have x: "0 \<le> x" using assms(3) by simp
    note eq = packing_score_eq [OF assms]
    consider "x \<le> of_int ?T" | "of_int ?T < x" "x \<le> 100" | "of_int ?T < x" "100 < x" by linarith
    then show ?thesis
    proof cases
      case 1
      with rising_range(1,2) [OF assms(1,2) x 1]
        round_half_mono [of "of_int ?T" "rising ?T x"] round_half_mono [of "rising ?T x" "of_int 100"]
      show ?thesis by (simp only: eq round_half_int) (simp add: Fin)
    next
      case 2
      with falling_range(1,2) [OF assms(1) 2]
        round_half_mono [of "of_int 0" "falling ?T x"] round_half_mono [of "falling ?T x" "of_int 50"]
      show ?thesis by (simp only: eq round_half_int) (simp add: Fin)
    next
      case 3
      then show ?thesis by (simp only: eq) (simp add: Fin)
    qed
  next
    case PInf
    show ?thesis by (simp add: PInf packing_score_eq [OF assms, unfolded PInf])
  qed (use assms(3) in simp_all)
  with assms(1) show "0 \<le> ?s" "?s \<le> 100" "fl_le p (Fin (of_int ?T)) \<Longrightarrow> ?T \<le> ?s"
    "\<not> fl_le p (Fin (of_int ?T)) \<Longrightarrow> ?s \<le> 50"
    by linarith+
qed

lemma packing_score_mono:
  assumes "0 < target vars" and "target vars \<le> 100" and "0 \<le> x" and "x \<le> y"
  shows "y \<le> of_int (target vars) \<Longrightarrow> sint (packing_score vars (Fin x)) \<le> sint (packing_score vars (Fin y))"
    and "of_int (target vars) < x \<Longrightarrow> sint (packing_score vars (Fin y)) \<le> sint (packing_score vars (Fin x))"
proof -
  let ?T = "target vars"
  have n: "nonneg (Fin x)" "nonneg (Fin y)" using assms by simp_all
  note eq = packing_score_eq [OF assms(1,2) n(1)] packing_score_eq [OF assms(1,2) n(2)]
  show "sint (packing_score vars (Fin x)) \<le> sint (packing_score vars (Fin y))" if "y \<le> of_int ?T"
    using that assms(4) round_half_mono [OF rising_mono [OF assms(1,2,4)]] by (simp add: eq)
  show "sint (packing_score vars (Fin y)) \<le> sint (packing_score vars (Fin x))" if T: "of_int ?T < x"
  proof (cases "100 < y")
    case True
    then have "sint (packing_score vars (Fin y)) = 0" using T assms(4) by (simp add: eq)
    with packing_score_range(1) [OF assms(1,2) n(1)] show ?thesis by simp
  next
    case False
    then have "(of_int ?T :: rat) < of_int 100" using T assms(4) by simp
    then have "?T < 100" by (simp only: of_int_less_iff)
    from round_half_mono [OF falling_anti [OF this assms(4)]] False T assms(4)
    show ?thesis by (simp add: eq)
  qed
qed

text \<open>What the prediction is made of is not negative, so neither is the prediction.\<close>

lemma predicted_nonneg:
  fixes cap cur missing :: i64
  assumes "nonneg pct" and "0 \<le> sint cap" and "0 \<le> sint cur" and "0 \<le> sint missing"
  shows "nonneg (predictedCPUUsage (fl_mul float64 (fl_div float64 pct (Fin 100)) (fl_of_int float64 (sint cap)))
    (fl_of_int float64 (sint cap)) cur missing)"
proof -
  obtain c where c: "fl_of_int float64 (sint cap) = Fin c" "0 \<le> c"
    using fl_of_i64 [of cap] assms(2) by metis
  show ?thesis
  proof (cases "c = 0")
    case False
    with c have pos: "0 < c" by simp
    have util: "nonneg (fl_mul float64 (fl_div float64 pct (Fin 100)) (Fin c))"
      using assms(1) pos by (intro nonneg_mul_pos nonneg_div) simp_all
    have sum: "nonneg (fl_add float64 (fl_add float64 (fl_mul float64 (fl_div float64 pct (Fin 100)) (Fin c))
        (fl_of_int float64 (sint cur))) (fl_of_int float64 (sint missing)))" (is "nonneg ?s")
      using util assms(3,4) by (intro nonneg_add nonneg_of_int)
    then have "nonneg (fl_mul float64 (Fin 100) ?s)" by (intro nonneg_mul) auto
    with pos show ?thesis by (simp add: predictedCPUUsage_def c fl_eq_def nonneg_div)
  qed (simp add: predictedCPUUsage_def c fl_eq_def)
qed

lemma cpu_metric_mem: "cpu_metric K ms = Some v \<Longrightarrow> \<exists>m \<in> set ms. metValue m = v"
proof -
  assume a: "cpu_metric K ms = Some v"
  have "fold (\<lambda>metric found.
         if metType metric = w_CPU K \<and> (metOperator metric = w_Average K \<or> metOperator metric = w_Latest K)
         then Some (metValue metric) else found) ms f = Some v \<Longrightarrow> f = Some v \<or> (\<exists>m \<in> set ms. metValue m = v)" for f
    by (induction ms arbitrary: f) (simp, fastforce split: if_splits)
  from this [of None] a show ?thesis by (simp add: cpu_metric_def)
qed

text \<open>The prediction that the score of a node rests on.\<close>

definition prediction ::
  "('q, 'cl, 'z) watcher_api_scheme \<Rightarrow> tlp_vars \<Rightarrow> ('q, 'cl) target_load_packing \<Rightarrow> 'q node \<Rightarrow> gofloat \<Rightarrow>
   'q pod \<Rightarrow> string \<Rightarrow> gofloat"
where
  "prediction K vars pl node pct pod name =
     (let cap = fl_of_int float64 (sint (cpu_milli K (nodeCapacity node)))
      in predictedCPUUsage (fl_mul float64 (fl_div float64 pct (Fin 100)) cap) cap (curPodCPUUsage K vars pod)
           (missingCPUUtilMillis K vars (tpMetrics pl) (mget [] (tpScheduled pl) name)))"

text \<open>Below the target a higher predicted utilisation never gets a lower score, above it never a higher
  one, so that pods are packed onto the busiest node within the target.\<close>

lemma packing_score_packs:
  assumes "0 < sint (hostTargetUtilizationPercent vars)" and "sint (hostTargetUtilizationPercent vars) \<le> 100"
    and "0 \<le> x" and "x \<le> y"
  shows "(y \<le> of_int (sint (hostTargetUtilizationPercent vars)) \<longrightarrow>
      sint (packing_score vars (Fin x)) \<le> sint (packing_score vars (Fin y))) \<and>
    (of_int (sint (hostTargetUtilizationPercent vars)) < x \<longrightarrow>
      sint (packing_score vars (Fin y)) \<le> sint (packing_score vars (Fin x)))"
  using packing_score_mono [of vars x y] assms by (auto simp: target_def)

text \<open>C33: the score of target load packing, on rounded floating-point arithmetic: for a target between 1 and
  100, measurements that are not negative and usages that do not wrap, every call on a known node
  with metrics returns a score between 0 and 100; a node whose predicted utilisation stays at or
  below the target scores at least the target, one above it at most 50, and one above 100 percent
  scores 0; and pods are packed onto the busiest node within the target: below the target a higher
  utilisation never gets a lower score, above it never a higher one.\<close>

theorem tlp_score_bounds:
  assumes "0 < sint (hostTargetUtilizationPercent vars)" and "sint (hostTargetUtilizationPercent vars) \<le> 100"
  shows "(get_node name = Inr ni \<and> niNode ni = Some node \<and>
      map_of (wmNodes (tpMetrics pl)) name = Some (Some ms) \<and> cpu_metric K ms = Some pct \<and>
      (\<forall>m \<in> set ms. nonneg (metValue m)) \<and> 0 \<le> sint (cpu_milli K (nodeCapacity node)) \<and>
      0 \<le> sint (curPodCPUUsage K vars pod) \<and>
      0 \<le> sint (missingCPUUtilMillis K vars (tpMetrics pl) (mget [] (tpScheduled pl) name)) \<longrightarrow>
    (\<exists>s. tlp_Score K vars pl get_node pod name = Inr (s, Some (NewStatus Success '''')) \<and>
    0 \<le> sint s \<and> sint s \<le> 100 \<and>
    (if fl_le (prediction K vars pl node pct pod name) (Fin (of_int (sint (hostTargetUtilizationPercent vars))))
     then sint (hostTargetUtilizationPercent vars) \<le> sint s else sint s \<le> 50) \<and>
    (fl_lt (Fin 100) (prediction K vars pl node pct pod name) \<longrightarrow> sint s = 0))) \<and>
    (0 \<le> x \<and> x \<le> y \<longrightarrow> (y \<le> of_int (sint (hostTargetUtilizationPercent vars)) \<longrightarrow>
        sint (packing_score vars (Fin x)) \<le> sint (packing_score vars (Fin y))) \<and>
      (of_int (sint (hostTargetUtilizationPercent vars)) < x \<longrightarrow>
        sint (packing_score vars (Fin y)) \<le> sint (packing_score vars (Fin x))))"
proof (rule conjI, rule impI, elim conjE)
  let ?p = "prediction K vars pl node pct pod name" and ?T = "target vars"
  have T: "0 < ?T" "?T \<le> 100" using assms(1,2) by (simp_all add: target_def)
  assume node: "get_node name = Inr ni" "niNode ni = Some node"
      "map_of (wmNodes (tpMetrics pl)) name = Some (Some ms)" "cpu_metric K ms = Some pct"
    and ms: "\<forall>m \<in> set ms. nonneg (metValue m)"
    and usage: "0 \<le> sint (cpu_milli K (nodeCapacity node))" "0 \<le> sint (curPodCPUUsage K vars pod)"
      "0 \<le> sint (missingCPUUtilMillis K vars (tpMetrics pl) (mget [] (tpScheduled pl) name))"
  have "nonneg pct" using cpu_metric_mem [OF node(4)] ms by auto
  from predicted_nonneg [OF this usage] have p: "nonneg ?p" by (simp add: prediction_def Let_def)
  have sc: "tlp_Score K vars pl get_node pod name = Inr (packing_score vars ?p, Some (NewStatus Success ''''))"
    using node by (simp add: tlp_Score_def prediction_def Let_def)
  have "sint (packing_score vars ?p) = 0" if h: "fl_lt (Fin 100) ?p"
  proof -
    have "\<not> fl_le ?p (Fin (of_int ?T))" using h p T by (cases ?p) auto
    with h show ?thesis by (simp add: packing_score_eq [OF T p])
  qed
  with packing_score_range [OF T p] sc show "\<exists>s. tlp_Score K vars pl get_node pod name
      = Inr (s, Some (NewStatus Success '''')) \<and> 0 \<le> sint s \<and> sint s \<le> 100 \<and>
    (if fl_le ?p (Fin (of_int (sint (hostTargetUtilizationPercent vars))))
     then sint (hostTargetUtilizationPercent vars) \<le> sint s else sint s \<le> 50) \<and>
    (fl_lt (Fin 100) ?p \<longrightarrow> sint s = 0)" by (simp add: target_def)
qed (use packing_score_packs [OF assms(1,2)] in blast)

text \<open>A load watcher for the examples: its power function is the identity in its first argument.\<close>

definition demo_watcher :: "(int, unit) watcher_api" where
  "demo_watcher = demo_api
     \<lparr>w_CPU = ''CPU'', w_Memory = ''Memory'', w_Average = ''AVG'', w_Std = ''STD'', w_Latest = ''Latest'',
      service_client = (\<lambda>_. (Some (), None)), library_client = (\<lambda>_ _ _. (Some (), None)),
      latest_metrics = (\<lambda>_. Inl (Err ''down'')),
      ParseFloat = (\<lambda>s. if s = ''1.5'' then Inr (Fin (3 / 2)) else Inl (Err ''invalid syntax'')),
      math_Pow = (\<lambda>x _. x)\<rparr>"

definition demo_node :: "int node_info" where
  "demo_node = \<lparr>niNode = Some \<lparr>nodeName = ''n'', nodeAllocatable = [(''cpu'', 4000), (''memory'', 8388608000)],
     nodeCapacity = [(''cpu'', 4000)]\<rparr>, niPods = [], niAllocatable = zero_resource, niRequested = zero_resource,
     niNonZero = zero_resource, niTransient = None\<rparr>"

definition demo_metrics :: watcher_metrics where
  "demo_metrics = \<lparr>wmWindowEnd = 0, wmNodes = [(''n'', Some
     [\<lparr>metType = ''CPU'', metOperator = ''AVG'', metValue = Fin 20\<rparr>,
      \<lparr>metType = ''CPU'', metOperator = ''STD'', metValue = Fin 10\<rparr>])]\<rparr>"

definition demo_packing :: "(int, unit) target_load_packing" where
  "demo_packing = \<lparr>tpClient = Some (), tpMetrics = demo_metrics, tpScheduled = []\<rparr>"

lemma demo_watcher_sel [simp]:
  "q_milli demo_watcher = word_of_int" "q_zero demo_watcher = 0" "w_CPU demo_watcher = ''CPU''"
  "w_Average demo_watcher = ''AVG''" "w_Latest demo_watcher = ''Latest''" "w_Memory demo_watcher = ''Memory''"
  "w_Std demo_watcher = ''STD''" "math_Pow demo_watcher = (\<lambda>x _. x)"
  "ParseFloat demo_watcher = (\<lambda>s. if s = ''1.5'' then Inr (Fin (3 / 2)) else Inl (Err ''invalid syntax''))"
  by (simp_all add: demo_watcher_def demo_api_def)

theorem tlp_score_bounds_witness:
  "\<exists>s. tlp_Score demo_watcher tlp_vars0 demo_packing (\<lambda>_. Inr demo_node) (demo_pod ''a'' ''1'' 500 0) ''n''
      = Inr (s, Some (NewStatus Success '''')) \<and> 0 \<le> sint s \<and> sint s \<le> 100"
proof -
  have h: "0 < sint (hostTargetUtilizationPercent tlp_vars0)" "sint (hostTargetUtilizationPercent tlp_vars0) \<le> 100"
    "niNode demo_node = Some \<lparr>nodeName = ''n'', nodeAllocatable = [(''cpu'', 4000), (''memory'', 8388608000)],
       nodeCapacity = [(''cpu'', 4000)]\<rparr>"
    by (simp_all add: tlp_vars0_def DefaultTargetUtilizationPercent_def demo_node_def)
  let ?ms = "[\<lparr>metType = ''CPU'', metOperator = ''AVG'', metValue = Fin 20\<rparr>,
      \<lparr>metType = ''CPU'', metOperator = ''STD'', metValue = Fin 10\<rparr>]"
  have m: "map_of (wmNodes (tpMetrics demo_packing)) ''n'' = Some (Some ?ms)"
    "cpu_metric demo_watcher ?ms = Some (Fin 20)" "\<And>m. m \<in> set ?ms \<Longrightarrow> nonneg (metValue m)"
    by (auto simp: demo_packing_def demo_metrics_def cpu_metric_def)
  have half: "\<lfloor>1 / 2 :: rat\<rfloor> = 0" by (simp add: floor_eq_iff)
  have c: "0 \<le> sint (cpu_milli demo_watcher (nodeCapacity \<lparr>nodeName = ''n'',
        nodeAllocatable = [(''cpu'', 4000), (''memory'', 8388608000)], nodeCapacity = [(''cpu'', 4000 :: int)]\<rparr>))"
    "0 \<le> sint (curPodCPUUsage demo_watcher tlp_vars0 (demo_pod ''a'' ''1'' 500 0))"
    "0 \<le> sint (missingCPUUtilMillis demo_watcher tlp_vars0 (tpMetrics demo_packing)
        (mget [] (tpScheduled demo_packing) ''n''))"
    by (simp_all add: cpu_milli_def curPodCPUUsage_def pod_usage_def PredictUtilisation_def tlp_vars0_def
        missingCPUUtilMillis_def demo_packing_def fl_of_int64 int64_of_float_def mget_def fl64_eq half)
  from m(3) have n: "\<forall>m \<in> set ?ms. nonneg (metValue m)" by blast
  from tlp_score_bounds [OF h(1,2), THEN conjunct1, rule_format, OF conjI, OF refl conjI, OF h(3) conjI, OF m(1) conjI,
      OF m(2) conjI, OF n conjI, OF c(1) conjI, OF c(2,3)] show ?thesis by blast
qed

section \<open>Risk balancing\<close>

text \<open>The two uses of \<^verbatim>\<open>math.Pow\<close> the score relies on: a base between 0 and 1 and an exponent that
  is not negative give a value between 0 and 1.\<close>

definition pow_law :: "('q, 'cl, 'z) watcher_api_scheme \<Rightarrow> bool" where
  "pow_law K \<longleftrightarrow> (\<forall>a b. fl_within 0 1 a \<and> nonneg b \<longrightarrow> fl_within 0 1 (math_Pow K a b))"

lemma clamp_simps [simp]:
  "clamp (Fin x) (Fin hi) = Fin (max (min x hi) 0)"
  "clamp PInf (Fin hi) = Fin (max hi 0)" "clamp NInf (Fin hi) = Fin 0"
  by (simp_all add: clamp_def math_Max_def math_Min_def max_def min_def)

lemma clamp_eq:
  assumes "v \<noteq> NaN" and "0 \<le> hi"
  obtains x where "clamp v (Fin hi) = Fin x" and "0 \<le> x" and "x \<le> hi"
  using assms by (cases v) simp_all

text \<open>The two factors of the risk.\<close>

definition load_factor :: "gofloat \<Rightarrow> gofloat \<Rightarrow> gofloat \<Rightarrow> gofloat" where
  "load_factor avg req cap =
     clamp (fl_div float64 (fl_add float64 (clamp avg cap) (math_Max req (Fin 0))) cap) (Fin 1)"

definition deviation_factor ::
  "('q, 'cl, 'z) watcher_api_scheme \<Rightarrow> gofloat \<Rightarrow> gofloat \<Rightarrow> gofloat \<Rightarrow> gofloat \<Rightarrow> gofloat"
where
  "deviation_factor K stdev cap margin sensitivity =
     (let sigma = clamp (fl_div float64 (clamp stdev cap) cap) (Fin 1);
          sigma = (if fl_le (Fin 0) sensitivity
             then math_Pow K sigma (fl_div float64 (Fin 1) sensitivity) else sigma)
      in clamp (fl_mul float64 sigma margin) (Fin 1))"

lemma computeScore_factors:
  "\<not> fl_le (rsCapacity rs) (Fin 0) \<Longrightarrow> computeScore K rs margin sensitivity =
     fl_mul float64 (fl_sub float64 (Fin 1)
       (fl_div float64 (fl_add float64 (load_factor (usedAvg rs) (rsReq rs) (rsCapacity rs))
         (deviation_factor K (usedStdev rs) (rsCapacity rs) margin sensitivity)) (Fin 2)))
       (fl_of_int float64 (sint MaxNodeScore))"
  by (simp add: computeScore_def load_factor_def deviation_factor_def Let_def)

lemma max_score_float: "fl_of_int float64 (sint MaxNodeScore) = Fin 100"
  using fl_of_int64 [of 100] by (simp add: MaxNodeScore_def)

text \<open>The last three operations, over factors between 0 and 1.\<close>

definition risk_score :: "rat \<Rightarrow> rat \<Rightarrow> rat" where
  "risk_score mu sigma = r64 (r64 (1 - r64 (r64 (mu + sigma) / 2)) * 100)"

lemma risk_score:
  assumes "0 \<le> mu" and "mu \<le> 1" and "0 \<le> sigma" and "sigma \<le> 1"
  shows "fl_mul float64 (fl_sub float64 (Fin 1) (fl_div float64 (fl_add float64 (Fin mu) (Fin sigma)) (Fin 2)))
      (Fin 100) = Fin (risk_score mu sigma)"
    and "0 \<le> risk_score mu sigma" and "risk_score mu sigma \<le> 100"
proof -
  have a: "of_int 0 \<le> mu + sigma" "mu + sigma \<le> of_int 2" using assms by simp_all
  note ra = r64_between [OF a small53 small53, simplified]
  have b: "of_int 0 \<le> r64 (mu + sigma) / 2" "r64 (mu + sigma) / 2 \<le> of_int 1" using ra by simp_all
  note rb = r64_between [OF b small53 small53, simplified]
  have c: "of_int 0 \<le> 1 - r64 (r64 (mu + sigma) / 2)" "1 - r64 (r64 (mu + sigma) / 2) \<le> of_int 1"
    using rb by simp_all
  note rc = r64_between [OF c small53 small53, simplified]
  have d: "of_int 0 \<le> r64 (1 - r64 (r64 (mu + sigma) / 2)) * 100"
    "r64 (1 - r64 (r64 (mu + sigma) / 2)) * 100 \<le> of_int 100" using rc by simp_all
  note rd = r64_between [OF d small53 small53, simplified]
  show "fl_mul float64 (fl_sub float64 (Fin 1) (fl_div float64 (fl_add float64 (Fin mu) (Fin sigma)) (Fin 2)))
      (Fin 100) = Fin (risk_score mu sigma)"
    using ra rb rc rd by (simp add: risk_score_def fl_sub_def)
  show "0 \<le> risk_score mu sigma" "risk_score mu sigma \<le> 100" using rd by (simp_all add: risk_score_def)
qed

lemma risk_score_anti: "mu \<le> mu' \<Longrightarrow> sigma \<le> sigma' \<Longrightarrow> risk_score mu' sigma' \<le> risk_score mu sigma"
  unfolding risk_score_def
  by (intro r64_mono mult_right_mono diff_left_mono divide_right_mono add_mono) simp_all

lemma clamp_mono:
  assumes "fl_le a b" and "0 \<le> hi"
  shows "\<exists>x y. clamp a (Fin hi) = Fin x \<and> clamp b (Fin hi) = Fin y \<and> x \<le> y"
  using assms by (cases a; cases b) auto

lemma load_sum:
  assumes "avg \<noteq> NaN" and "req \<noteq> NaN" and "0 < c"
  shows "nonneg (fl_add float64 (clamp avg (Fin c)) (math_Max req (Fin 0)))"
proof -
  obtain x where "clamp avg (Fin c) = Fin x" "0 \<le> x"
    using clamp_eq [OF assms(1) less_imp_le [OF assms(3)]] by blast
  moreover have "nonneg (math_Max req (Fin 0))"
    using assms(2) by (cases req) (simp_all add: math_Max_def)
  ultimately show ?thesis by (intro nonneg_add) simp_all
qed

lemma load_factor_range:
  assumes "avg \<noteq> NaN" and "req \<noteq> NaN" and "0 < c"
  obtains mu where "load_factor avg req (Fin c) = Fin mu" and "0 \<le> mu" and "mu \<le> 1"
proof -
  let ?q = "fl_div float64 (fl_add float64 (clamp avg (Fin c)) (math_Max req (Fin 0))) (Fin c)"
  have "nonneg ?q" by (intro nonneg_div load_sum assms)
  then have "?q \<noteq> NaN" by auto
  from clamp_eq [OF this zero_le_one] that show thesis unfolding load_factor_def by blast
qed

lemma load_factor_mono:
  assumes "fl_le avg avg'" and "req \<noteq> NaN" and "0 < c"
  shows "\<exists>x y. load_factor avg req (Fin c) = Fin x \<and> load_factor avg' req (Fin c) = Fin y \<and> x \<le> y"
proof -
  have n: "avg \<noteq> NaN" "avg' \<noteq> NaN" using assms(1) by (cases avg; cases avg'; simp)+
  obtain a b where ab: "clamp avg (Fin c) = Fin a" "clamp avg' (Fin c) = Fin b" "a \<le> b"
    using clamp_mono [OF assms(1) less_imp_le [OF assms(3)]] by blast
  have "fl_le (fl_add float64 (Fin a) (math_Max req (Fin 0))) (fl_add float64 (Fin b) (math_Max req (Fin 0)))"
    using assms(2) ab(3) by (cases req) (auto simp: math_Max_def intro!: fl64_mono)
  from fl_div_mono [OF this _ _ assms(3)] load_sum [OF n(1) assms(2,3)] load_sum [OF n(2) assms(2,3)]
  have "fl_le (fl_div float64 (fl_add float64 (Fin a) (math_Max req (Fin 0))) (Fin c))
      (fl_div float64 (fl_add float64 (Fin b) (math_Max req (Fin 0))) (Fin c))"
    by (simp add: ab)
  from clamp_mono [OF this zero_le_one] show ?thesis by (simp add: load_factor_def ab)
qed

lemma deviation_factor_range:
  assumes "pow_law K" and "stdev \<noteq> NaN" and "0 < c" and "margin = Fin m"
  obtains sigma where "deviation_factor K stdev (Fin c) margin sensitivity = Fin sigma"
    and "0 \<le> sigma" and "sigma \<le> 1"
proof -
  obtain s where s: "clamp stdev (Fin c) = Fin s" "0 \<le> s" "s \<le> c"
    using clamp_eq [OF assms(2) less_imp_le [OF assms(3)]] by blast
  have "fl_div float64 (Fin s) (Fin c) \<noteq> NaN" using assms(3) by simp
  from clamp_eq [OF this zero_le_one] obtain t where
    t: "clamp (fl_div float64 (Fin s) (Fin c)) (Fin 1) = Fin t" "0 \<le> t" "t \<le> 1" by blast
  have "nonneg (fl_div float64 (Fin 1) sensitivity)" if "fl_le (Fin 0) sensitivity"
    using that by (cases sensitivity) (auto simp: fl_inf_def nonneg_fl)
  with assms(1) t have "fl_le (Fin 0) sensitivity \<Longrightarrow>
      fl_within 0 1 (math_Pow K (Fin t) (fl_div float64 (Fin 1) sensitivity))"
    by (simp add: pow_law_def)
  then obtain u where u: "(if fl_le (Fin 0) sensitivity
      then math_Pow K (Fin t) (fl_div float64 (Fin 1) sensitivity) else Fin t) = Fin u"
    by (cases "fl_le (Fin 0) sensitivity") (auto simp: fl_within_def)
  have "fl_mul float64 (Fin u) margin \<noteq> NaN" by (simp add: assms(4))
  from clamp_eq [OF this zero_le_one] that show thesis
    unfolding deviation_factor_def s t u Let_def by blast
qed

text \<open>The score of one resource.\<close>

definition usable :: "resourceStats \<Rightarrow> bool" where
  "usable rs \<longleftrightarrow> usedAvg rs \<noteq> NaN \<and> usedStdev rs \<noteq> NaN \<and> rsReq rs \<noteq> NaN \<and> (\<exists>c. rsCapacity rs = Fin c)"

lemma computeScore_range:
  assumes "pow_law K" and "usable rs" and "margin = Fin m"
  obtains s where "computeScore K rs margin sensitivity = Fin s" and "0 \<le> s" and "s \<le> 100"
proof -
  obtain c where u: "usedAvg rs \<noteq> NaN" "usedStdev rs \<noteq> NaN" "rsReq rs \<noteq> NaN" "rsCapacity rs = Fin c"
    using assms(2) by (auto simp: usable_def)
  show thesis
  proof (cases "0 < c")
    case True
    obtain mu where mu: "load_factor (usedAvg rs) (rsReq rs) (Fin c) = Fin mu" "0 \<le> mu" "mu \<le> 1"
      using load_factor_range [OF u(1,3) True] by blast
    obtain sg where sg: "deviation_factor K (usedStdev rs) (Fin c) margin sensitivity = Fin sg" "0 \<le> sg" "sg \<le> 1"
      using deviation_factor_range [OF assms(1) u(2) True assms(3)] by blast
    have "\<not> fl_le (rsCapacity rs) (Fin 0)" using True u(4) by simp
    from computeScore_factors [OF this, of K margin sensitivity] that risk_score [OF mu(2,3) sg(2,3)]
    show thesis by (simp only: u(4) mu(1) sg(1) max_score_float)
  next
    case False
    then have "computeScore K rs margin sensitivity = Fin 0" by (simp add: computeScore_def u(4))
    with that show thesis by simp
  qed
qed

text \<open>The risk score of one resource, on rounded floating-point arithmetic and for every sensitivity: it lies
  between 0 and 100 and falls as the average use rises, all else equal.\<close>

lemma lvr_risk_order:
  assumes "pow_law K" and "margin = Fin m" and "usedStdev rs \<noteq> NaN" and "rsReq rs \<noteq> NaN"
    and "rsCapacity rs = Fin c" and "fl_le (usedAvg rs) avg"
  shows "\<exists>s t. computeScore K rs margin sensitivity = Fin s \<and>
    computeScore K (rs\<lparr>usedAvg := avg\<rparr>) margin sensitivity = Fin t \<and> 0 \<le> t \<and> t \<le> s \<and> s \<le> 100"
proof (cases "0 < c")
  case True
  have n: "usedAvg rs \<noteq> NaN" "avg \<noteq> NaN" using assms(6) by (cases "usedAvg rs"; cases avg; simp)+
  obtain x y where xy: "load_factor (usedAvg rs) (rsReq rs) (Fin c) = Fin x"
      "load_factor avg (rsReq rs) (Fin c) = Fin y" "x \<le> y"
    using load_factor_mono [OF assms(6,4) True] by blast
  have r: "0 \<le> x" "x \<le> 1" "0 \<le> y" "y \<le> 1"
    using load_factor_range [OF n(1) assms(4) True] load_factor_range [OF n(2) assms(4) True] xy
    by (metis gofloat.inject)+
  obtain sg where sg: "deviation_factor K (usedStdev rs) (Fin c) margin sensitivity = Fin sg" "0 \<le> sg" "sg \<le> 1"
    using deviation_factor_range [OF assms(1,3) True assms(2)] by blast
  have cap: "\<not> fl_le (rsCapacity rs) (Fin 0)" "\<not> fl_le (rsCapacity (rs\<lparr>usedAvg := avg\<rparr>)) (Fin 0)"
    using True assms(5) by simp_all
  have sel: "usedAvg (rs\<lparr>usedAvg := avg\<rparr>) = avg" "rsReq (rs\<lparr>usedAvg := avg\<rparr>) = rsReq rs"
    "usedStdev (rs\<lparr>usedAvg := avg\<rparr>) = usedStdev rs" "rsCapacity (rs\<lparr>usedAvg := avg\<rparr>) = Fin c"
    using assms(5) by simp_all
  have "computeScore K rs margin sensitivity = Fin (risk_score x sg)"
    "computeScore K (rs\<lparr>usedAvg := avg\<rparr>) margin sensitivity = Fin (risk_score y sg)"
    unfolding computeScore_factors [OF cap(1)] computeScore_factors [OF cap(2)] sel assms(5) xy(1,2) sg(1)
      max_score_float
    by (rule risk_score(1); use r sg in simp)+
  with risk_score(2) [OF r(3,4) sg(2,3)] risk_score_anti [OF xy(3) order_refl] risk_score(3) [OF r(1,2) sg(2,3)]
  show ?thesis by blast
next
  case False
  then show ?thesis by (simp add: computeScore_def assms(5))
qed

text \<open>The measurements of a node are finite, so its statistics are usable.\<close>

lemma getResourceData_finite:
  assumes "\<And>m. m \<in> set ms \<Longrightarrow> \<exists>x. metValue m = Fin x"
  obtains x y v where "getResourceData K ms t = (Fin x, Fin y, v)"
proof -
  have "\<exists>x y. fst (fold (resource_data_step K t) ms r) = Fin x \<and> fst (snd (fold (resource_data_step K t) ms r)) = Fin y"
    if "\<exists>x. fst r = Fin x" "\<exists>y. fst (snd r) = Fin y" for r
    using assms that
    by (induction ms arbitrary: r) (auto simp: resource_data_step_def split: prod.split)
  from this [of "(Fin 0, Fin 0, False, False)"] obtain x y where
    "fst (fold (resource_data_step K t) ms (Fin 0, Fin 0, False, False)) = Fin x"
    "fst (snd (fold (resource_data_step K t) ms (Fin 0, Fin 0, False, False))) = Fin y" by auto
  with that show thesis
    by (cases "fold (resource_data_step K t) ms (Fin 0, Fin 0, False, False)")
      (auto simp: getResourceData_def)
qed

lemma createResourceStats_usable:
  assumes "\<And>m. m \<in> set ms \<Longrightarrow> \<exists>x. metValue m = Fin x"
  obtains st where "createResourceStats K ms (Some node) req r t = Inr st"
    and "\<And>rs. st = Some rs \<Longrightarrow> usable rs"
proof -
  obtain x y v where d: "getResourceData K ms t = (Fin x, Fin y, v)"
    using getResourceData_finite [of ms K t] assms by metis
  let ?am = "mget (q_zero K) (nodeAllocatable node) r"
  obtain i j k l where i: "fl_of_int float64 (sint (q_milli K ?am)) = Fin i"
    "fl_of_int float64 (sint (q_value K ?am)) = Fin j" "\<bar>j\<bar> \<le> 2 ^ 63"
    "fl_of_int float64 (sint (MilliCPU req)) = Fin k" "fl_of_int float64 (sint (Memory req)) = Fin l"
    using fl_of_i64 by metis
  have mega: "megaFactor = Fin (1 / 1048576)"
  proof -
    have "(2 :: rat) powi - 20 = 1 / 1048576" by (simp add: power_int_minus inverse_eq_divide)
    then have e: "r64 (1 / 1048576) = 1 / 1048576"
      using fl_round_exact [of 1 53 "- 1074" "- 20"] by (simp only: r64_def) simp
    then have "\<bar>r64 (1 / 1048576)\<bar> < 2 powi 1024" by simp
    from fl64_eq [OF this] e show ?thesis by (simp add: megaFactor_def)
  qed
  have small: "\<exists>c. fl float64 (z / 1048576) = Fin c" if "\<bar>z\<bar> \<le> 2 ^ 63" for z
    using r64_between(3) [of "- (2 ^ 43)" "z / 1048576" "2 ^ 43"] that by (simp add: abs_le_iff)
  have n: "fl_div float64 (fl_mul float64 (Fin a) (Fin b)) (Fin 100) \<noteq> NaN" for a b
    using fl_not_NaN [of float64 "a * b"] by (cases "fl float64 (a * b)") (simp_all add: fl_inf_def)
  obtain c where c: "fl float64 (j / 1048576) = Fin c" using small [OF i(3)] by blast
  let ?cpu = "\<lparr>usedAvg = fl_div float64 (fl_mul float64 (Fin x) (Fin i)) (Fin 100),
      usedStdev = fl_div float64 (fl_mul float64 (Fin y) (Fin i)) (Fin 100), rsReq = Fin k, rsCapacity = Fin i\<rparr>"
  let ?mem = "\<lparr>usedAvg = fl_div float64 (fl_mul float64 (Fin x) (Fin c)) (Fin 100),
      usedStdev = fl_div float64 (fl_mul float64 (Fin y) (Fin c)) (Fin 100),
      rsReq = fl float64 (l / 1048576), rsCapacity = Fin c\<rparr>"
  have eq: "createResourceStats K ms (Some node) req r t
      = Inr (if v then Some (if r = ''cpu'' then ?cpu else ?mem) else None)"
    using d i mega c by (cases "r = ''cpu''") (simp_all add: createResourceStats_def Let_def mega c)
  have "usable ?cpu" "usable ?mem" unfolding usable_def using n by (simp_all del: fl_mul.simps)
  then have "\<And>rs. (if v then Some (if r = ''cpu'' then ?cpu else ?mem) else None) = Some rs \<Longrightarrow> usable rs"
    by (auto split: if_splits)
  with that eq show thesis by blast
qed

lemma stats_score_range:
  assumes "pow_law K" and "lvrSafeVarianceMargin args = Fin m" and "\<And>rs. st = Some rs \<Longrightarrow> usable rs"
  obtains s where "stats_score K args st = Fin s" and "0 \<le> s" and "s \<le> 100"
proof (cases st)
  case (Some rs)
  with computeScore_range [OF assms(1) assms(3) [OF Some] assms(2)] that show thesis
    by (metis option.case(2) stats_score_def)
qed (use that in \<open>simp add: stats_score_def\<close>)

text \<open>C34: the score of the risk plugin: with finite measurements and a finite margin, every call on a known
  node with metrics returns a score between 0 and 100, which is the rounded score of the worse of
  CPU and memory when both have data, and of the better of the score and zero when one has none,
  and the score of a resource never rises with its average use, all else equal.\<close>

theorem lvr_score_bounds:
  assumes "pow_law K" and "lvrSafeVarianceMargin (coArgs (lvCollector pl)) = Fin m"
    and "get_node name = Inr ni" and "niNode ni = Some node"
    and "getNodeMetrics (lvCollector pl) name = Some ms"
    and "\<And>m. m \<in> set ms \<Longrightarrow> \<exists>x. metValue m = Fin x"
  shows "\<exists>s cpu mem a b. lvr_Score K pl get_node pod name = Inr (s, Some (NewStatus Success '''')) \<and>
    createResourceStats K ms (Some node) (getResourceRequested K pod) ''cpu'' (w_CPU K) = Inr cpu \<and>
    createResourceStats K ms (Some node) (getResourceRequested K pod) ''memory'' (w_Memory K) = Inr mem \<and>
    stats_score K (coArgs (lvCollector pl)) cpu = Fin a \<and>
    stats_score K (coArgs (lvCollector pl)) mem = Fin b \<and>
    sint s = (if cpu \<noteq> None \<and> mem \<noteq> None then min (round_half a) (round_half b)
      else max (round_half a) (round_half b)) \<and>
    0 \<le> sint s \<and> sint s \<le> 100 \<and>
    (\<forall>rs c avg. usedStdev rs \<noteq> NaN \<and> rsReq rs \<noteq> NaN \<and> rsCapacity rs = Fin c \<and> fl_le (usedAvg rs) avg \<longrightarrow>
       (\<exists>x y. stats_score K (coArgs (lvCollector pl)) (Some rs) = Fin x \<and>
          stats_score K (coArgs (lvCollector pl)) (Some (rs\<lparr>usedAvg := avg\<rparr>)) = Fin y \<and> y \<le> x))"
proof -
  let ?args = "coArgs (lvCollector pl)"
  obtain cpu where cpu: "createResourceStats K ms (Some node) (getResourceRequested K pod) ''cpu'' (w_CPU K) = Inr cpu"
    "\<And>rs. cpu = Some rs \<Longrightarrow> usable rs" using createResourceStats_usable [OF assms(6)] by metis
  obtain mem where mem: "createResourceStats K ms (Some node) (getResourceRequested K pod) ''memory'' (w_Memory K) = Inr mem"
    "\<And>rs. mem = Some rs \<Longrightarrow> usable rs" using createResourceStats_usable [OF assms(6)] by metis
  obtain a where a: "stats_score K ?args cpu = Fin a" "0 \<le> a" "a \<le> 100"
    using stats_score_range [OF assms(1,2) cpu(2)] by metis
  obtain b where b: "stats_score K ?args mem = Fin b" "0 \<le> b" "b \<le> 100"
    using stats_score_range [OF assms(1,2) mem(2)] by metis
  define z where "z = (if cpu \<noteq> None \<and> mem \<noteq> None then min a b else max a b)"
  have z: "total_score cpu mem (Fin a) (Fin b) = Fin z" "0 \<le> z" "z \<le> 100"
    using a b by (auto simp: total_score_def z_def math_Min_def math_Max_def min_def max_def)
  have rz: "sint (int64_of_float (math_Round (Fin z))) = round_half z" "0 \<le> round_half z" "round_half z \<le> 100"
    using round_range [of 0 z 100] z by simp_all
  have eq: "round_half z = (if cpu \<noteq> None \<and> mem \<noteq> None then min (round_half a) (round_half b)
      else max (round_half a) (round_half b))"
    using mono_onI [of UNIV round_half] round_half_mono [of a b] round_half_mono [of b a]
    by (cases "a \<le> b") (auto simp: z_def min_def max_def)
  have sc: "lvr_Score K pl get_node pod name
      = Inr (int64_of_float (math_Round (Fin z)), Some (NewStatus Success ''''))"
    using assms(3-5) cpu(1) mem(1) a(1) b(1) z(1) unfolding lvr_Score_def Let_def by simp
  have order: "\<forall>rs c avg. usedStdev rs \<noteq> NaN \<and> rsReq rs \<noteq> NaN \<and> rsCapacity rs = Fin c \<and> fl_le (usedAvg rs) avg \<longrightarrow>
      (\<exists>x y. stats_score K ?args (Some rs) = Fin x \<and> stats_score K ?args (Some (rs\<lparr>usedAvg := avg\<rparr>)) = Fin y \<and> y \<le> x)"
    using lvr_risk_order [OF assms(1,2)] by (simp add: stats_score_def) blast
  with sc show ?thesis
    using cpu(1) mem(1) a(1) b(1) rz eq by (intro exI conjI) (assumption | simp only: rz(1))+
qed

definition demo_variation :: "(int, unit) load_variation" where
  "demo_variation = \<lparr>lvScheduled = [], lvCollector =
     \<lparr>coClient = Some (), coMetrics = demo_metrics, coArgs = lvr_getArgs (NilObject :: int runtime_object)\<rparr>\<rparr>"

theorem lvr_score_bounds_witness:
  "\<exists>s. lvr_Score demo_watcher demo_variation (\<lambda>_. Inr demo_node) (demo_pod ''a'' ''1'' 500 0) ''n''
      = Inr (s, Some (NewStatus Success '''')) \<and> 0 \<le> sint s \<and> sint s \<le> 100"
proof -
  let ?ms = "[\<lparr>metType = ''CPU'', metOperator = ''AVG'', metValue = Fin 20\<rparr>,
      \<lparr>metType = ''CPU'', metOperator = ''STD'', metValue = Fin 10\<rparr>]"
  have h: "pow_law demo_watcher" "lvrSafeVarianceMargin (coArgs (lvCollector demo_variation)) = Fin 1"
    "niNode demo_node = Some \<lparr>nodeName = ''n'', nodeAllocatable = [(''cpu'', 4000), (''memory'', 8388608000)],
       nodeCapacity = [(''cpu'', 4000)]\<rparr>"
    "getNodeMetrics (lvCollector demo_variation) ''n'' = Some ?ms" "\<And>m. m \<in> set ?ms \<Longrightarrow> \<exists>x. metValue m = Fin x"
    by (auto simp: pow_law_def demo_variation_def lvr_getArgs_def DefaultSafeVarianceMargin_def demo_node_def
        getNodeMetrics_def getAllMetrics_def demo_metrics_def)
  from lvr_score_bounds [OF h(1,2) refl h(3-5)] show ?thesis by blast
qed

end
