(* ===== verification/ConfigConversion.thy ===== *)
theory ConfigConversion
  imports ConfigDefaults
begin

text \<open>
  \<^verbatim>\<open>pkg/apis/config/v1beta1/zz_generated.conversion.go\<close>: the conversions between the
  versioned and the internal plugin arguments. A conversion reads \<^verbatim>\<open>in\<close> and writes the fields
  of \<^verbatim>\<open>out\<close>; the model returns the written \<^verbatim>\<open>out\<close>, or the error that stopped it. The
  conversions of pointers to primitive types are apimachinery's and a parameter. A slice or map
  that the code reinterprets through \<^verbatim>\<open>unsafe.Pointer\<close> has the same layout in both types.
\<close>

section \<open>apimachinery's conversions\<close>

record conversion_api =
  Convert_Pointer_string_To_string :: "string option \<Rightarrow> string \<Rightarrow> error + string"
  Convert_string_To_Pointer_string :: "string \<Rightarrow> string option \<Rightarrow> error + string option"
  Convert_Pointer_int64_To_int64 :: "i64 option \<Rightarrow> i64 \<Rightarrow> error + i64"
  Convert_int64_To_Pointer_int64 :: "i64 \<Rightarrow> i64 option \<Rightarrow> error + i64 option"
  Convert_Pointer_float64_To_float64 :: "gofloat option \<Rightarrow> gofloat \<Rightarrow> error + gofloat"
  Convert_float64_To_Pointer_float64 :: "gofloat \<Rightarrow> gofloat option \<Rightarrow> error + gofloat option"

text \<open>As documented: a nil pointer becomes the zero value, and no conversion fails.\<close>

definition conversion_laws :: "conversion_api \<Rightarrow> bool" where
  "conversion_laws C \<longleftrightarrow>
     (\<forall>v out. Convert_Pointer_string_To_string C v out = Inr (case v of None \<Rightarrow> '''' | Some s \<Rightarrow> s)) \<and>
     (\<forall>v out. Convert_Pointer_int64_To_int64 C v out = Inr (case v of None \<Rightarrow> 0 | Some s \<Rightarrow> s)) \<and>
     (\<forall>v out. Convert_Pointer_float64_To_float64 C v out = Inr (case v of None \<Rightarrow> Fin 0 | Some s \<Rightarrow> s)) \<and>
     (\<forall>v out. Convert_string_To_Pointer_string C v out = Inr (Some v)) \<and>
     (\<forall>v out. Convert_int64_To_Pointer_int64 C v out = Inr (Some v)) \<and>
     (\<forall>v out. Convert_float64_To_Pointer_float64 C v out = Inr (Some v))"

text \<open>One step of a conversion: \<^verbatim>\<open>if err := convert(&in.F, &out.F, s); err != nil { return err }\<close>.\<close>

definition conv_then :: "error + 'a \<Rightarrow> ('a \<Rightarrow> error + 'b) \<Rightarrow> error + 'b" where
  "conv_then r k = (case r of Inl err \<Rightarrow> Inl err | Inr v \<Rightarrow> k v)"

lemma conv_then_simps [simp]: "conv_then (Inr v) k = k v" "conv_then (Inl e) k = Inl e"
  by (simp_all add: conv_then_def)

section \<open>The generated functions\<close>

definition autoConvert_v1beta1_CapacitySchedulingArgs_To_config_CapacitySchedulingArgs ::
  "conversion_api \<Rightarrow> bCapacitySchedulingArgs \<Rightarrow> CapacitySchedulingArgs \<Rightarrow> error + CapacitySchedulingArgs"
where
  "autoConvert_v1beta1_CapacitySchedulingArgs_To_config_CapacitySchedulingArgs C src out =
     (conv_then (Convert_Pointer_string_To_string C (bcapKubeConfigPath src) (capKubeConfigPath out)) (\<lambda>v.
        let out = out\<lparr>capKubeConfigPath := v\<rparr> in Inr out))"

definition Convert_v1beta1_CapacitySchedulingArgs_To_config_CapacitySchedulingArgs ::
  "conversion_api \<Rightarrow> bCapacitySchedulingArgs \<Rightarrow> CapacitySchedulingArgs \<Rightarrow> error + CapacitySchedulingArgs"
where
  "Convert_v1beta1_CapacitySchedulingArgs_To_config_CapacitySchedulingArgs C src out =
     autoConvert_v1beta1_CapacitySchedulingArgs_To_config_CapacitySchedulingArgs C src out"

definition autoConvert_config_CapacitySchedulingArgs_To_v1beta1_CapacitySchedulingArgs ::
  "conversion_api \<Rightarrow> CapacitySchedulingArgs \<Rightarrow> bCapacitySchedulingArgs \<Rightarrow> error + bCapacitySchedulingArgs"
where
  "autoConvert_config_CapacitySchedulingArgs_To_v1beta1_CapacitySchedulingArgs C src out =
     (conv_then (Convert_string_To_Pointer_string C (capKubeConfigPath src) (bcapKubeConfigPath out)) (\<lambda>v.
        let out = out\<lparr>bcapKubeConfigPath := v\<rparr> in Inr out))"

definition Convert_config_CapacitySchedulingArgs_To_v1beta1_CapacitySchedulingArgs ::
  "conversion_api \<Rightarrow> CapacitySchedulingArgs \<Rightarrow> bCapacitySchedulingArgs \<Rightarrow> error + bCapacitySchedulingArgs"
where
  "Convert_config_CapacitySchedulingArgs_To_v1beta1_CapacitySchedulingArgs C src out =
     autoConvert_config_CapacitySchedulingArgs_To_v1beta1_CapacitySchedulingArgs C src out"

definition autoConvert_v1beta1_CoschedulingArgs_To_config_CoschedulingArgs ::
  "conversion_api \<Rightarrow> bCoschedulingArgs \<Rightarrow> CoschedulingArgs \<Rightarrow> error + CoschedulingArgs"
where
  "autoConvert_v1beta1_CoschedulingArgs_To_config_CoschedulingArgs C src out =
     (conv_then (Convert_Pointer_int64_To_int64 C (bcsPermitWaitingTimeSeconds src) (csPermitWaitingTimeSeconds out)) (\<lambda>v.
        let out = out\<lparr>csPermitWaitingTimeSeconds := v\<rparr> in
      conv_then (Convert_Pointer_int64_To_int64 C (bcsDeniedPGExpirationTimeSeconds src) (csDeniedPGExpirationTimeSeconds out)) (\<lambda>v.
        let out = out\<lparr>csDeniedPGExpirationTimeSeconds := v\<rparr> in
      conv_then (Convert_Pointer_string_To_string C (bcsKubeMaster src) (csKubeMaster out)) (\<lambda>v.
        let out = out\<lparr>csKubeMaster := v\<rparr> in
      conv_then (Convert_Pointer_string_To_string C (bcsKubeConfigPath src) (csKubeConfigPath out)) (\<lambda>v.
        let out = out\<lparr>csKubeConfigPath := v\<rparr> in Inr out)))))"

definition Convert_v1beta1_CoschedulingArgs_To_config_CoschedulingArgs ::
  "conversion_api \<Rightarrow> bCoschedulingArgs \<Rightarrow> CoschedulingArgs \<Rightarrow> error + CoschedulingArgs"
where
  "Convert_v1beta1_CoschedulingArgs_To_config_CoschedulingArgs C src out =
     autoConvert_v1beta1_CoschedulingArgs_To_config_CoschedulingArgs C src out"

definition autoConvert_config_CoschedulingArgs_To_v1beta1_CoschedulingArgs ::
  "conversion_api \<Rightarrow> CoschedulingArgs \<Rightarrow> bCoschedulingArgs \<Rightarrow> error + bCoschedulingArgs"
where
  "autoConvert_config_CoschedulingArgs_To_v1beta1_CoschedulingArgs C src out =
     (conv_then (Convert_int64_To_Pointer_int64 C (csPermitWaitingTimeSeconds src) (bcsPermitWaitingTimeSeconds out)) (\<lambda>v.
        let out = out\<lparr>bcsPermitWaitingTimeSeconds := v\<rparr> in
      conv_then (Convert_int64_To_Pointer_int64 C (csDeniedPGExpirationTimeSeconds src) (bcsDeniedPGExpirationTimeSeconds out)) (\<lambda>v.
        let out = out\<lparr>bcsDeniedPGExpirationTimeSeconds := v\<rparr> in
      conv_then (Convert_string_To_Pointer_string C (csKubeMaster src) (bcsKubeMaster out)) (\<lambda>v.
        let out = out\<lparr>bcsKubeMaster := v\<rparr> in
      conv_then (Convert_string_To_Pointer_string C (csKubeConfigPath src) (bcsKubeConfigPath out)) (\<lambda>v.
        let out = out\<lparr>bcsKubeConfigPath := v\<rparr> in Inr out)))))"

definition Convert_config_CoschedulingArgs_To_v1beta1_CoschedulingArgs ::
  "conversion_api \<Rightarrow> CoschedulingArgs \<Rightarrow> bCoschedulingArgs \<Rightarrow> error + bCoschedulingArgs"
where
  "Convert_config_CoschedulingArgs_To_v1beta1_CoschedulingArgs C src out =
     autoConvert_config_CoschedulingArgs_To_v1beta1_CoschedulingArgs C src out"

definition autoConvert_v1beta1_MetricProviderSpec_To_config_MetricProviderSpec ::
  "conversion_api \<Rightarrow> bMetricProviderSpec \<Rightarrow> MetricProviderSpec \<Rightarrow> error + MetricProviderSpec"
where
  "autoConvert_v1beta1_MetricProviderSpec_To_config_MetricProviderSpec C src out =
     (let out = out\<lparr>mpType := bmpType src\<rparr> in
      conv_then (Convert_Pointer_string_To_string C (bmpAddress src) (mpAddress out)) (\<lambda>v.
        let out = out\<lparr>mpAddress := v\<rparr> in
      conv_then (Convert_Pointer_string_To_string C (bmpToken src) (mpToken out)) (\<lambda>v.
        let out = out\<lparr>mpToken := v\<rparr> in Inr out)))"

definition Convert_v1beta1_MetricProviderSpec_To_config_MetricProviderSpec ::
  "conversion_api \<Rightarrow> bMetricProviderSpec \<Rightarrow> MetricProviderSpec \<Rightarrow> error + MetricProviderSpec"
where
  "Convert_v1beta1_MetricProviderSpec_To_config_MetricProviderSpec C src out =
     autoConvert_v1beta1_MetricProviderSpec_To_config_MetricProviderSpec C src out"

definition autoConvert_config_MetricProviderSpec_To_v1beta1_MetricProviderSpec ::
  "conversion_api \<Rightarrow> MetricProviderSpec \<Rightarrow> bMetricProviderSpec \<Rightarrow> error + bMetricProviderSpec"
where
  "autoConvert_config_MetricProviderSpec_To_v1beta1_MetricProviderSpec C src out =
     (let out = out\<lparr>bmpType := mpType src\<rparr> in
      conv_then (Convert_string_To_Pointer_string C (mpAddress src) (bmpAddress out)) (\<lambda>v.
        let out = out\<lparr>bmpAddress := v\<rparr> in
      conv_then (Convert_string_To_Pointer_string C (mpToken src) (bmpToken out)) (\<lambda>v.
        let out = out\<lparr>bmpToken := v\<rparr> in Inr out)))"

definition Convert_config_MetricProviderSpec_To_v1beta1_MetricProviderSpec ::
  "conversion_api \<Rightarrow> MetricProviderSpec \<Rightarrow> bMetricProviderSpec \<Rightarrow> error + bMetricProviderSpec"
where
  "Convert_config_MetricProviderSpec_To_v1beta1_MetricProviderSpec C src out =
     autoConvert_config_MetricProviderSpec_To_v1beta1_MetricProviderSpec C src out"

definition autoConvert_v1beta1_LoadVariationRiskBalancingArgs_To_config_LoadVariationRiskBalancingArgs ::
  "conversion_api \<Rightarrow> bLoadVariationRiskBalancingArgs \<Rightarrow> LoadVariationRiskBalancingArgs \<Rightarrow> error + LoadVariationRiskBalancingArgs"
where
  "autoConvert_v1beta1_LoadVariationRiskBalancingArgs_To_config_LoadVariationRiskBalancingArgs C src out =
     (conv_then (Convert_v1beta1_MetricProviderSpec_To_config_MetricProviderSpec C (blvrMetricProvider src) (lvrMetricProvider out)) (\<lambda>v.
        let out = out\<lparr>lvrMetricProvider := v\<rparr> in
      conv_then (Convert_Pointer_string_To_string C (blvrWatcherAddress src) (lvrWatcherAddress out)) (\<lambda>v.
        let out = out\<lparr>lvrWatcherAddress := v\<rparr> in
      conv_then (Convert_Pointer_float64_To_float64 C (blvrSafeVarianceMargin src) (lvrSafeVarianceMargin out)) (\<lambda>v.
        let out = out\<lparr>lvrSafeVarianceMargin := v\<rparr> in
      conv_then (Convert_Pointer_float64_To_float64 C (blvrSafeVarianceSensitivity src) (lvrSafeVarianceSensitivity out)) (\<lambda>v.
        let out = out\<lparr>lvrSafeVarianceSensitivity := v\<rparr> in Inr out)))))"

definition Convert_v1beta1_LoadVariationRiskBalancingArgs_To_config_LoadVariationRiskBalancingArgs ::
  "conversion_api \<Rightarrow> bLoadVariationRiskBalancingArgs \<Rightarrow> LoadVariationRiskBalancingArgs \<Rightarrow> error + LoadVariationRiskBalancingArgs"
where
  "Convert_v1beta1_LoadVariationRiskBalancingArgs_To_config_LoadVariationRiskBalancingArgs C src out =
     autoConvert_v1beta1_LoadVariationRiskBalancingArgs_To_config_LoadVariationRiskBalancingArgs C src out"

definition autoConvert_config_LoadVariationRiskBalancingArgs_To_v1beta1_LoadVariationRiskBalancingArgs ::
  "conversion_api \<Rightarrow> LoadVariationRiskBalancingArgs \<Rightarrow> bLoadVariationRiskBalancingArgs \<Rightarrow> error + bLoadVariationRiskBalancingArgs"
where
  "autoConvert_config_LoadVariationRiskBalancingArgs_To_v1beta1_LoadVariationRiskBalancingArgs C src out =
     (conv_then (Convert_config_MetricProviderSpec_To_v1beta1_MetricProviderSpec C (lvrMetricProvider src) (blvrMetricProvider out)) (\<lambda>v.
        let out = out\<lparr>blvrMetricProvider := v\<rparr> in
      conv_then (Convert_string_To_Pointer_string C (lvrWatcherAddress src) (blvrWatcherAddress out)) (\<lambda>v.
        let out = out\<lparr>blvrWatcherAddress := v\<rparr> in
      conv_then (Convert_float64_To_Pointer_float64 C (lvrSafeVarianceMargin src) (blvrSafeVarianceMargin out)) (\<lambda>v.
        let out = out\<lparr>blvrSafeVarianceMargin := v\<rparr> in
      conv_then (Convert_float64_To_Pointer_float64 C (lvrSafeVarianceSensitivity src) (blvrSafeVarianceSensitivity out)) (\<lambda>v.
        let out = out\<lparr>blvrSafeVarianceSensitivity := v\<rparr> in Inr out)))))"

definition Convert_config_LoadVariationRiskBalancingArgs_To_v1beta1_LoadVariationRiskBalancingArgs ::
  "conversion_api \<Rightarrow> LoadVariationRiskBalancingArgs \<Rightarrow> bLoadVariationRiskBalancingArgs \<Rightarrow> error + bLoadVariationRiskBalancingArgs"
where
  "Convert_config_LoadVariationRiskBalancingArgs_To_v1beta1_LoadVariationRiskBalancingArgs C src out =
     autoConvert_config_LoadVariationRiskBalancingArgs_To_v1beta1_LoadVariationRiskBalancingArgs C src out"

definition autoConvert_v1beta1_NodeResourcesAllocatableArgs_To_config_NodeResourcesAllocatableArgs ::
  "conversion_api \<Rightarrow> bNodeResourcesAllocatableArgs \<Rightarrow> NodeResourcesAllocatableArgs \<Rightarrow> error + NodeResourcesAllocatableArgs"
where
  "autoConvert_v1beta1_NodeResourcesAllocatableArgs_To_config_NodeResourcesAllocatableArgs C src out =
     (let out = out\<lparr>nraResources := bnraResources src\<rparr> in
      let out = out\<lparr>nraMode := bnraMode src\<rparr> in Inr out)"

definition Convert_v1beta1_NodeResourcesAllocatableArgs_To_config_NodeResourcesAllocatableArgs ::
  "conversion_api \<Rightarrow> bNodeResourcesAllocatableArgs \<Rightarrow> NodeResourcesAllocatableArgs \<Rightarrow> error + NodeResourcesAllocatableArgs"
where
  "Convert_v1beta1_NodeResourcesAllocatableArgs_To_config_NodeResourcesAllocatableArgs C src out =
     autoConvert_v1beta1_NodeResourcesAllocatableArgs_To_config_NodeResourcesAllocatableArgs C src out"

definition autoConvert_config_NodeResourcesAllocatableArgs_To_v1beta1_NodeResourcesAllocatableArgs ::
  "conversion_api \<Rightarrow> NodeResourcesAllocatableArgs \<Rightarrow> bNodeResourcesAllocatableArgs \<Rightarrow> error + bNodeResourcesAllocatableArgs"
where
  "autoConvert_config_NodeResourcesAllocatableArgs_To_v1beta1_NodeResourcesAllocatableArgs C src out =
     (let out = out\<lparr>bnraResources := nraResources src\<rparr> in
      let out = out\<lparr>bnraMode := nraMode src\<rparr> in Inr out)"

definition Convert_config_NodeResourcesAllocatableArgs_To_v1beta1_NodeResourcesAllocatableArgs ::
  "conversion_api \<Rightarrow> NodeResourcesAllocatableArgs \<Rightarrow> bNodeResourcesAllocatableArgs \<Rightarrow> error + bNodeResourcesAllocatableArgs"
where
  "Convert_config_NodeResourcesAllocatableArgs_To_v1beta1_NodeResourcesAllocatableArgs C src out =
     autoConvert_config_NodeResourcesAllocatableArgs_To_v1beta1_NodeResourcesAllocatableArgs C src out"

definition autoConvert_v1beta1_TargetLoadPackingArgs_To_config_TargetLoadPackingArgs ::
  "conversion_api \<Rightarrow> 'q bTargetLoadPackingArgs \<Rightarrow> 'q TargetLoadPackingArgs \<Rightarrow> error + 'q TargetLoadPackingArgs"
where
  "autoConvert_v1beta1_TargetLoadPackingArgs_To_config_TargetLoadPackingArgs C src out =
     (let out = out\<lparr>tlpDefaultRequests := btlpDefaultRequests src\<rparr> in
      conv_then (Convert_Pointer_string_To_string C (btlpDefaultRequestsMultiplier src) (tlpDefaultRequestsMultiplier out)) (\<lambda>v.
        let out = out\<lparr>tlpDefaultRequestsMultiplier := v\<rparr> in
      conv_then (Convert_Pointer_int64_To_int64 C (btlpTargetUtilization src) (tlpTargetUtilization out)) (\<lambda>v.
        let out = out\<lparr>tlpTargetUtilization := v\<rparr> in
      conv_then (Convert_v1beta1_MetricProviderSpec_To_config_MetricProviderSpec C (btlpMetricProvider src) (tlpMetricProvider out)) (\<lambda>v.
        let out = out\<lparr>tlpMetricProvider := v\<rparr> in
      conv_then (Convert_Pointer_string_To_string C (btlpWatcherAddress src) (tlpWatcherAddress out)) (\<lambda>v.
        let out = out\<lparr>tlpWatcherAddress := v\<rparr> in Inr out)))))"

definition Convert_v1beta1_TargetLoadPackingArgs_To_config_TargetLoadPackingArgs ::
  "conversion_api \<Rightarrow> 'q bTargetLoadPackingArgs \<Rightarrow> 'q TargetLoadPackingArgs \<Rightarrow> error + 'q TargetLoadPackingArgs"
where
  "Convert_v1beta1_TargetLoadPackingArgs_To_config_TargetLoadPackingArgs C src out =
     autoConvert_v1beta1_TargetLoadPackingArgs_To_config_TargetLoadPackingArgs C src out"

definition autoConvert_config_TargetLoadPackingArgs_To_v1beta1_TargetLoadPackingArgs ::
  "conversion_api \<Rightarrow> 'q TargetLoadPackingArgs \<Rightarrow> 'q bTargetLoadPackingArgs \<Rightarrow> error + 'q bTargetLoadPackingArgs"
where
  "autoConvert_config_TargetLoadPackingArgs_To_v1beta1_TargetLoadPackingArgs C src out =
     (let out = out\<lparr>btlpDefaultRequests := tlpDefaultRequests src\<rparr> in
      conv_then (Convert_string_To_Pointer_string C (tlpDefaultRequestsMultiplier src) (btlpDefaultRequestsMultiplier out)) (\<lambda>v.
        let out = out\<lparr>btlpDefaultRequestsMultiplier := v\<rparr> in
      conv_then (Convert_int64_To_Pointer_int64 C (tlpTargetUtilization src) (btlpTargetUtilization out)) (\<lambda>v.
        let out = out\<lparr>btlpTargetUtilization := v\<rparr> in
      conv_then (Convert_config_MetricProviderSpec_To_v1beta1_MetricProviderSpec C (tlpMetricProvider src) (btlpMetricProvider out)) (\<lambda>v.
        let out = out\<lparr>btlpMetricProvider := v\<rparr> in
      conv_then (Convert_string_To_Pointer_string C (tlpWatcherAddress src) (btlpWatcherAddress out)) (\<lambda>v.
        let out = out\<lparr>btlpWatcherAddress := v\<rparr> in Inr out)))))"

definition Convert_config_TargetLoadPackingArgs_To_v1beta1_TargetLoadPackingArgs ::
  "conversion_api \<Rightarrow> 'q TargetLoadPackingArgs \<Rightarrow> 'q bTargetLoadPackingArgs \<Rightarrow> error + 'q bTargetLoadPackingArgs"
where
  "Convert_config_TargetLoadPackingArgs_To_v1beta1_TargetLoadPackingArgs C src out =
     autoConvert_config_TargetLoadPackingArgs_To_v1beta1_TargetLoadPackingArgs C src out"

section \<open>The registered pairs\<close>

text \<open>The scheme calls the function registered for the two types with a new object to write to;
  another pair has no conversion.\<close>

definition no_conversion :: error where "no_conversion = Err ''no conversion function''"

fun RegisterConversions_to_config ::
  "conversion_api \<Rightarrow> 'q versioned_object \<Rightarrow> 'q runtime_object \<Rightarrow> error + 'q runtime_object"
where
  "RegisterConversions_to_config C (VCapacity a) (ObjCapacity b) =
     map_sum id ObjCapacity (Convert_v1beta1_CapacitySchedulingArgs_To_config_CapacitySchedulingArgs C a b)"
| "RegisterConversions_to_config C (VCoscheduling a) (ObjCoscheduling b) =
     map_sum id ObjCoscheduling (Convert_v1beta1_CoschedulingArgs_To_config_CoschedulingArgs C a b)"
| "RegisterConversions_to_config C (VNodeResources a) (ObjNodeResources b) =
     map_sum id ObjNodeResources (Convert_v1beta1_NodeResourcesAllocatableArgs_To_config_NodeResourcesAllocatableArgs C a b)"
| "RegisterConversions_to_config C (VTargetLoad a) (ObjTargetLoad b) =
     map_sum id ObjTargetLoad (Convert_v1beta1_TargetLoadPackingArgs_To_config_TargetLoadPackingArgs C a b)"
| "RegisterConversions_to_config C (VLoadVariation a) (ObjLoadVariation b) =
     map_sum id ObjLoadVariation (Convert_v1beta1_LoadVariationRiskBalancingArgs_To_config_LoadVariationRiskBalancingArgs C a b)"
| "RegisterConversions_to_config C _ _ = Inl no_conversion"

fun RegisterConversions_to_v1beta1 ::
  "conversion_api \<Rightarrow> 'q runtime_object \<Rightarrow> 'q versioned_object \<Rightarrow> error + 'q versioned_object"
where
  "RegisterConversions_to_v1beta1 C (ObjCapacity a) (VCapacity b) =
     map_sum id VCapacity (Convert_config_CapacitySchedulingArgs_To_v1beta1_CapacitySchedulingArgs C a b)"
| "RegisterConversions_to_v1beta1 C (ObjCoscheduling a) (VCoscheduling b) =
     map_sum id VCoscheduling (Convert_config_CoschedulingArgs_To_v1beta1_CoschedulingArgs C a b)"
| "RegisterConversions_to_v1beta1 C (ObjNodeResources a) (VNodeResources b) =
     map_sum id VNodeResources (Convert_config_NodeResourcesAllocatableArgs_To_v1beta1_NodeResourcesAllocatableArgs C a b)"
| "RegisterConversions_to_v1beta1 C (ObjTargetLoad a) (VTargetLoad b) =
     map_sum id VTargetLoad (Convert_config_TargetLoadPackingArgs_To_v1beta1_TargetLoadPackingArgs C a b)"
| "RegisterConversions_to_v1beta1 C (ObjLoadVariation a) (VLoadVariation b) =
     map_sum id VLoadVariation (Convert_config_LoadVariationRiskBalancingArgs_To_v1beta1_LoadVariationRiskBalancingArgs C a b)"
| "RegisterConversions_to_v1beta1 C _ _ = Inl no_conversion"

lemmas generated_conversions =
  autoConvert_v1beta1_CapacitySchedulingArgs_To_config_CapacitySchedulingArgs_def
  Convert_v1beta1_CapacitySchedulingArgs_To_config_CapacitySchedulingArgs_def
  autoConvert_config_CapacitySchedulingArgs_To_v1beta1_CapacitySchedulingArgs_def
  Convert_config_CapacitySchedulingArgs_To_v1beta1_CapacitySchedulingArgs_def
  autoConvert_v1beta1_CoschedulingArgs_To_config_CoschedulingArgs_def
  Convert_v1beta1_CoschedulingArgs_To_config_CoschedulingArgs_def
  autoConvert_config_CoschedulingArgs_To_v1beta1_CoschedulingArgs_def
  Convert_config_CoschedulingArgs_To_v1beta1_CoschedulingArgs_def
  autoConvert_v1beta1_MetricProviderSpec_To_config_MetricProviderSpec_def
  Convert_v1beta1_MetricProviderSpec_To_config_MetricProviderSpec_def
  autoConvert_config_MetricProviderSpec_To_v1beta1_MetricProviderSpec_def
  Convert_config_MetricProviderSpec_To_v1beta1_MetricProviderSpec_def
  autoConvert_v1beta1_LoadVariationRiskBalancingArgs_To_config_LoadVariationRiskBalancingArgs_def
  Convert_v1beta1_LoadVariationRiskBalancingArgs_To_config_LoadVariationRiskBalancingArgs_def
  autoConvert_config_LoadVariationRiskBalancingArgs_To_v1beta1_LoadVariationRiskBalancingArgs_def
  Convert_config_LoadVariationRiskBalancingArgs_To_v1beta1_LoadVariationRiskBalancingArgs_def
  autoConvert_v1beta1_NodeResourcesAllocatableArgs_To_config_NodeResourcesAllocatableArgs_def
  Convert_v1beta1_NodeResourcesAllocatableArgs_To_config_NodeResourcesAllocatableArgs_def
  autoConvert_config_NodeResourcesAllocatableArgs_To_v1beta1_NodeResourcesAllocatableArgs_def
  Convert_config_NodeResourcesAllocatableArgs_To_v1beta1_NodeResourcesAllocatableArgs_def
  autoConvert_v1beta1_TargetLoadPackingArgs_To_config_TargetLoadPackingArgs_def
  Convert_v1beta1_TargetLoadPackingArgs_To_config_TargetLoadPackingArgs_def
  autoConvert_config_TargetLoadPackingArgs_To_v1beta1_TargetLoadPackingArgs_def
  Convert_config_TargetLoadPackingArgs_To_v1beta1_TargetLoadPackingArgs_def

end
