(* ===== verification/ConfigProperties.thy ===== *)
theory ConfigProperties
  imports ConfigConversion NodeResources LoadAwareProperties
begin

text \<open>
  The plugin configuration end to end: converting internal arguments to the versioned form and
  back loses nothing, and a versioned object that was defaulted and converted satisfies what
  the plugins expect of their arguments.
\<close>

section \<open>Conversions with the documented laws\<close>

definition empty_meta :: type_meta where "empty_meta = \<lparr>Kind = '''', APIVersion = ''''\<rparr>"

definition empty_provider :: MetricProviderSpec where
  "empty_provider = \<lparr>mpType = '''', mpAddress = '''', mpToken = ''''\<rparr>"

definition empty_bprovider :: bMetricProviderSpec where
  "empty_bprovider = \<lparr>bmpType = '''', bmpAddress = None, bmpToken = None\<rparr>"

text \<open>The new object of the other group that the scheme passes as \<^verbatim>\<open>out\<close>.\<close>

fun new_versioned :: "'q runtime_object \<Rightarrow> 'q versioned_object" where
  "new_versioned (ObjCapacity _) = VCapacity \<lparr>bcapMeta = empty_meta, bcapKubeConfigPath = None\<rparr>"
| "new_versioned (ObjNodeResources _) =
     VNodeResources \<lparr>bnraMeta = empty_meta, bnraResources = None, bnraMode = ''''\<rparr>"
| "new_versioned (ObjTargetLoad _) = VTargetLoad \<lparr>btlpMeta = empty_meta, btlpDefaultRequests = None,
     btlpDefaultRequestsMultiplier = None, btlpTargetUtilization = None, btlpMetricProvider = empty_bprovider,
     btlpWatcherAddress = None\<rparr>"
| "new_versioned (ObjLoadVariation _) = VLoadVariation \<lparr>blvrMeta = empty_meta,
     blvrMetricProvider = empty_bprovider, blvrWatcherAddress = None, blvrSafeVarianceMargin = None,
     blvrSafeVarianceSensitivity = None\<rparr>"
| "new_versioned _ = VCoscheduling \<lparr>bcsMeta = empty_meta, bcsPermitWaitingTimeSeconds = None,
     bcsDeniedPGExpirationTimeSeconds = None, bcsKubeMaster = None, bcsKubeConfigPath = None\<rparr>"

fun new_internal :: "'q versioned_object \<Rightarrow> 'q runtime_object" where
  "new_internal (VCapacity _) = ObjCapacity \<lparr>capMeta = empty_meta, capKubeConfigPath = ''''\<rparr>"
| "new_internal (VCoscheduling _) = ObjCoscheduling \<lparr>csMeta = empty_meta, csPermitWaitingTimeSeconds = 0,
     csDeniedPGExpirationTimeSeconds = 0, csKubeMaster = '''', csKubeConfigPath = ''''\<rparr>"
| "new_internal (VNodeResources _) = ObjNodeResources \<lparr>nraMeta = empty_meta, nraResources = None, nraMode = ''''\<rparr>"
| "new_internal (VTargetLoad _) = ObjTargetLoad \<lparr>tlpMeta = empty_meta, tlpDefaultRequests = None,
     tlpDefaultRequestsMultiplier = '''', tlpTargetUtilization = 0, tlpMetricProvider = empty_provider,
     tlpWatcherAddress = ''''\<rparr>"
| "new_internal (VLoadVariation _) = ObjLoadVariation \<lparr>lvrMeta = empty_meta, lvrMetricProvider = empty_provider,
     lvrWatcherAddress = '''', lvrSafeVarianceMargin = Fin 0, lvrSafeVarianceSensitivity = Fin 0\<rparr>"

text \<open>Internal objects of the group; their \<^verbatim>\<open>TypeMeta\<close> is empty, and no conversion touches it.\<close>

fun plain_args :: "'q runtime_object \<Rightarrow> bool" where
  "plain_args (ObjCapacity a) = (capMeta a = empty_meta)"
| "plain_args (ObjCoscheduling a) = (csMeta a = empty_meta)"
| "plain_args (ObjNodeResources a) = (nraMeta a = empty_meta)"
| "plain_args (ObjTargetLoad a) = (tlpMeta a = empty_meta)"
| "plain_args (ObjLoadVariation a) = (lvrMeta a = empty_meta)"
| "plain_args _ = False"

definition value_or :: "'a \<Rightarrow> 'a option \<Rightarrow> 'a" where
  "value_or d v = (case v of None \<Rightarrow> d | Some x \<Rightarrow> x)"

lemma conversion_simps:
  assumes "conversion_laws C"
  shows "Convert_Pointer_string_To_string C v s = Inr (value_or '''' v)"
    and "Convert_Pointer_int64_To_int64 C i n = Inr (value_or 0 i)"
    and "Convert_Pointer_float64_To_float64 C f x = Inr (value_or (Fin 0) f)"
    and "Convert_string_To_Pointer_string C s v = Inr (Some s)"
    and "Convert_int64_To_Pointer_int64 C n i = Inr (Some n)"
    and "Convert_float64_To_Pointer_float64 C x f = Inr (Some x)"
  using assms by (simp_all add: conversion_laws_def value_or_def)

lemma value_or_simps [simp]: "value_or d None = d" "value_or d (Some x) = x"
  by (simp_all add: value_or_def)

text \<open>C39: the generated conversions round-trip: internal arguments converted to the versioned type and
  back, into new objects, are the arguments again, for all five plugins and without an error.\<close>

theorem conf_roundtrip:
  assumes "conversion_laws C" and "plain_args obj"
  shows "\<exists>v. RegisterConversions_to_v1beta1 C obj (new_versioned obj) = Inr v \<and>
    RegisterConversions_to_config C v (new_internal v) = Inr obj"
  using assms(2)
  by (cases obj)
    (simp_all add: generated_conversions conversion_simps [OF assms(1)] Let_def)

definition demo_conversions :: conversion_api where
  "demo_conversions =
     \<lparr>Convert_Pointer_string_To_string = (\<lambda>v _. Inr (value_or '''' v)),
      Convert_string_To_Pointer_string = (\<lambda>s _. Inr (Some s)),
      Convert_Pointer_int64_To_int64 = (\<lambda>v _. Inr (value_or 0 v)),
      Convert_int64_To_Pointer_int64 = (\<lambda>s _. Inr (Some s)),
      Convert_Pointer_float64_To_float64 = (\<lambda>v _. Inr (value_or (Fin 0) v)),
      Convert_float64_To_Pointer_float64 = (\<lambda>s _. Inr (Some s))\<rparr>"

lemma demo_conversion_laws: "conversion_laws demo_conversions"
  by (simp add: conversion_laws_def demo_conversions_def value_or_def)

definition demo_lvr_args :: LoadVariationRiskBalancingArgs where
  "demo_lvr_args = \<lparr>lvrMeta = empty_meta, lvrMetricProvider = \<lparr>mpType = Prometheus, mpAddress = ''http://p'', mpToken = ''''\<rparr>,
     lvrWatcherAddress = '''', lvrSafeVarianceMargin = Fin 2, lvrSafeVarianceSensitivity = Fin (1 / 2)\<rparr>"

theorem conf_roundtrip_witness:
  "\<exists>v. RegisterConversions_to_v1beta1 demo_conversions (ObjLoadVariation demo_lvr_args :: int runtime_object)
      (new_versioned (ObjLoadVariation demo_lvr_args)) = Inr v \<and>
    RegisterConversions_to_config demo_conversions v (new_internal v) = Inr (ObjLoadVariation demo_lvr_args)"
  by (rule conf_roundtrip [OF demo_conversion_laws]) (simp add: demo_lvr_args_def)

section \<open>Defaulted arguments\<close>

text \<open>What the scheme gives a plugin for a versioned object.\<close>

definition load_args :: "conversion_api \<Rightarrow> (string \<Rightarrow> 'q) \<Rightarrow> 'q versioned_object \<Rightarrow> error + 'q runtime_object" where
  "load_args C MustParse v =
     (let d = RegisterDefaults MustParse v in RegisterConversions_to_config C d (new_internal d))"

lemma load_args_simps:
  assumes "conversion_laws C"
  shows "load_args C MustParse (VNodeResources n) = Inr (ObjNodeResources \<lparr>nraMeta = empty_meta,
      nraResources = bnraResources (SetDefaultsNodeResourcesAllocatableArgs n),
      nraMode = bnraMode (SetDefaultsNodeResourcesAllocatableArgs n)\<rparr>)"
    and "load_args C MustParse (VCapacity p) = Inr (ObjCapacity \<lparr>capMeta = empty_meta,
      capKubeConfigPath = value_or defaultKubeConfigPath (bcapKubeConfigPath p)\<rparr>)"
    and "load_args C MustParse (VCoscheduling s) = Inr (ObjCoscheduling \<lparr>csMeta = empty_meta,
      csPermitWaitingTimeSeconds = value_or defaultPermitWaitingTimeSeconds (bcsPermitWaitingTimeSeconds s),
      csDeniedPGExpirationTimeSeconds = value_or defaultDeniedPGExpirationTimeSeconds (bcsDeniedPGExpirationTimeSeconds s),
      csKubeMaster = value_or '''' (bcsKubeMaster s), csKubeConfigPath = value_or '''' (bcsKubeConfigPath s)\<rparr>)"
  by (auto simp: load_args_def set_object_defaults set_defaults generated_conversions
      conversion_simps [OF assms] Let_def empty_meta_def split: option.split list.split)

lemma load_target_load:
  assumes "conversion_laws C"
  shows "\<exists>out. load_args C MustParse (VTargetLoad t) = Inr (ObjTargetLoad out) \<and>
    0 < sint (tlpTargetUtilization out) \<and> tlpDefaultRequests out \<noteq> None \<and>
    tlpDefaultRequestsMultiplier out = value_or DefaultRequestsMultiplier (btlpDefaultRequestsMultiplier t) \<and>
    mpType (tlpMetricProvider out) = bmpType (btlpMetricProvider t) \<and>
    tlpWatcherAddress out = value_or '''' (btlpWatcherAddress t)"
  by (cases "btlpTargetUtilization t")
    (auto simp: load_args_def set_object_defaults set_defaults generated_conversions
      conversion_simps [OF assms] Let_def DefaultTargetUtilizationPercent_def)

lemma load_load_variation:
  assumes "conversion_laws C"
  shows "\<exists>out. load_args C MustParse (VLoadVariation l) = Inr (ObjLoadVariation out) \<and>
    \<not> fl_lt (lvrSafeVarianceMargin out) (Fin 0) \<and> \<not> fl_lt (lvrSafeVarianceSensitivity out) (Fin 0) \<and>
    lvrWatcherAddress out = value_or '''' (blvrWatcherAddress l) \<and>
    (blvrWatcherAddress l = None \<longrightarrow> validMetricProviderType (mpType (lvrMetricProvider out)))"
  by (auto simp: load_args_def set_object_defaults set_defaults generated_conversions unset_or_negative_def
      conversion_simps [OF assms] Let_def DefaultSafeVarianceMargin_def DefaultSafeVarianceSensitivity_def
      DefaultMetricProviderType_def validMetricProviderType_def split: option.split)

text \<open>The constructors on loaded arguments.\<close>

lemma load_new_allocatable:
  assumes "conversion_laws C" and "bnraResources n = None \<or> bnraResources n = Some []" and "bnraMode n = ''''"
  shows "\<exists>a. load_args C MustParse (VNodeResources n) = Inr (ObjNodeResources a) \<and>
    NewAllocatable (ObjNodeResources a :: 'q runtime_object)
      = Inr \<lparr>rasName = AllocatableName,
          rasScorer = resourceScorer [(''cpu'', push_bit 20 1), (''memory'', 1)] Least_mode,
          rasWeights = Some [(''cpu'', push_bit 20 1), (''memory'', 1)]\<rparr>"
proof -
  have w: "\<not> sint (push_bit 20 1 :: i64) \<le> 0" "\<not> sint (1 :: i64) \<le> 0" by code_simp+
  show ?thesis
    using assms(2,3)
    by (auto simp: load_args_simps(1) [OF assms(1)] NewAllocatable_def SetDefaultsNodeResourcesAllocatableArgs_def
        Let_def defaultNodeResourcesAllocatableResourcesToWeightMap_def defaultNodeResourcesAllocatableMode_def
        Least_mode_def validateResources_def w)
qed

lemma tlp_getArgs_valid:
  assumes "ParseFloat K (tlpDefaultRequestsMultiplier a) = Inr x"
    and "tlpWatcherAddress a \<noteq> '''' \<or> mpType (tlpMetricProvider a) = '''' \<or> validMetricProviderType (mpType (tlpMetricProvider a))"
  shows "\<exists>b. tlp_getArgs K (ObjTargetLoad a) = Inr b \<and> tlpTargetUtilization b = tlpTargetUtilization a \<and>
    tlpDefaultRequests b = tlpDefaultRequests a"
  using assms by (auto simp: tlp_getArgs_def Let_def validMetricProviderType_def)



text \<open>An explicitly empty watcher address suppresses the default of the provider type, so the risk
  plugin asks for a client of no provider; the error of that call is dropped, and the first update of the
  metrics panics.\<close>

lemma conf_empty_address_panics:
  assumes "conversion_laws C" and "library_client K '''' '''' '''' = (None, Some err)"
  shows "\<exists>a. load_args C MustParse (VLoadVariation \<lparr>blvrMeta = empty_meta, blvrMetricProvider = empty_bprovider,
      blvrWatcherAddress = Some '''', blvrSafeVarianceMargin = None, blvrSafeVarianceSensitivity = None\<rparr>) = Inr a \<and>
    lvr_New K a = Inl (Panic ''nil pointer dereference'')"
  by (simp add: load_args_def set_object_defaults set_defaults generated_conversions unset_or_negative_def
      conversion_simps [OF assms(1)] Let_def empty_bprovider_def lvr_New_def newCollector_def lvr_getArgs_def
      lvr_updateMetrics_def assms(2))

end
