(* ===== verification/GoHeap.thy ===== *)
theory GoHeap
  imports ConfigTypes
begin

text \<open>
  Go values that hold references: a heap with one component per type of cell (strings,
  integers, floats, backing arrays of slices, maps) and a limit below which addresses are
  allocated, and, as a locale, the contract of a deep copy: equal contents, in cells that nothing
  shared before. A nil pointer, slice or map is \<open>None\<close>.
\<close>

section \<open>The heap\<close>

type_synonym addr = nat

record 'q go_heap =
  strs :: "addr \<Rightarrow> string"
  i64s :: "addr \<Rightarrow> i64"
  i32s :: "addr \<Rightarrow> i32"
  f64s :: "addr \<Rightarrow> gofloat"
  specs :: "addr \<Rightarrow> resource_spec list"
  rmaps :: "addr \<Rightarrow> 'q resource_list"
  mapvars :: "addr \<Rightarrow> addr option"
  lim :: addr

definition empty_heap :: "'q go_heap" where
  "empty_heap = \<lparr>strs = (\<lambda>_. ''''), i64s = (\<lambda>_. 0), i32s = (\<lambda>_. 0), f64s = (\<lambda>_. Fin 0), specs = (\<lambda>_. []),
     rmaps = (\<lambda>_. []), mapvars = (\<lambda>_. None), lim = 0\<rparr>"

text \<open>\<^verbatim>\<open>new(T)\<close> followed by the store of the value, \<^verbatim>\<open>make\<close> followed by its fill.\<close>

definition new_str :: "string \<Rightarrow> 'q go_heap \<Rightarrow> addr \<times> 'q go_heap" where
  "new_str x h = (lim h, h\<lparr>strs := (strs h)(lim h := x), lim := lim h + 1\<rparr>)"

definition new_i64 :: "i64 \<Rightarrow> 'q go_heap \<Rightarrow> addr \<times> 'q go_heap" where
  "new_i64 x h = (lim h, h\<lparr>i64s := (i64s h)(lim h := x), lim := lim h + 1\<rparr>)"

definition new_i32 :: "i32 \<Rightarrow> 'q go_heap \<Rightarrow> addr \<times> 'q go_heap" where
  "new_i32 x h = (lim h, h\<lparr>i32s := (i32s h)(lim h := x), lim := lim h + 1\<rparr>)"

definition new_f64 :: "gofloat \<Rightarrow> 'q go_heap \<Rightarrow> addr \<times> 'q go_heap" where
  "new_f64 x h = (lim h, h\<lparr>f64s := (f64s h)(lim h := x), lim := lim h + 1\<rparr>)"

definition new_specs :: "resource_spec list \<Rightarrow> 'q go_heap \<Rightarrow> addr \<times> 'q go_heap" where
  "new_specs x h = (lim h, h\<lparr>specs := (specs h)(lim h := x), lim := lim h + 1\<rparr>)"

definition new_rmap :: "'q resource_list \<Rightarrow> 'q go_heap \<Rightarrow> addr \<times> 'q go_heap" where
  "new_rmap x h = (lim h, h\<lparr>rmaps := (rmaps h)(lim h := x), lim := lim h + 1\<rparr>)"

definition new_mapvar :: "addr option \<Rightarrow> 'q go_heap \<Rightarrow> addr \<times> 'q go_heap" where
  "new_mapvar x h = (lim h, h\<lparr>mapvars := (mapvars h)(lim h := x), lim := lim h + 1\<rparr>)"

lemmas new_defs = new_str_def new_i64_def new_i32_def new_f64_def new_specs_def new_rmap_def new_mapvar_def

text \<open>Heaps that agree on a set of addresses, and heaps that only grew.\<close>

definition agree :: "addr set \<Rightarrow> 'q go_heap \<Rightarrow> 'q go_heap \<Rightarrow> bool" where
  "agree A h k \<longleftrightarrow> (\<forall>a \<in> A. strs h a = strs k a \<and> i64s h a = i64s k a \<and> i32s h a = i32s k a \<and>
     f64s h a = f64s k a \<and> specs h a = specs k a \<and> rmaps h a = rmaps k a \<and> mapvars h a = mapvars k a)"

definition grown :: "'q go_heap \<Rightarrow> 'q go_heap \<Rightarrow> bool" where
  "grown h k \<longleftrightarrow> lim h \<le> lim k \<and> agree {..<lim h} h k"

lemma agree_refl [simp]: "agree A h h"
  by (simp add: agree_def)

lemma agree_sym: "agree A h k \<Longrightarrow> agree A k h"
  by (simp add: agree_def)

lemma agree_mono: "agree B h k \<Longrightarrow> A \<subseteq> B \<Longrightarrow> agree A h k"
  by (auto simp: agree_def)

lemma agree_trans: "agree A h k \<Longrightarrow> agree A k l \<Longrightarrow> agree A h l"
  by (simp add: agree_def)

lemma grown_refl [simp]: "grown h h"
  by (simp add: grown_def)

lemma grown_trans: "grown h k \<Longrightarrow> grown k l \<Longrightarrow> grown h l"
  unfolding grown_def by (blast intro: agree_mono agree_trans order_trans lessThan_subset_iff [THEN iffD2])

lemma grown_agree: "grown h k \<Longrightarrow> A \<subseteq> {..<lim h} \<Longrightarrow> agree A h k"
  unfolding grown_def by (blast intro: agree_mono)

text \<open>Maps have distinct keys.\<close>

definition heap_ok :: "'q go_heap \<Rightarrow> bool" where
  "heap_ok h \<longleftrightarrow> (\<forall>a. gwf (rmaps h a))"

section \<open>The contract of a deep copy\<close>

text \<open>\<open>view\<close> reads a value with everything it refers to, \<open>reach\<close> is the set of its addresses.\<close>

definition copied ::
  "('q go_heap \<Rightarrow> 's \<Rightarrow> 'v) \<Rightarrow> ('q go_heap \<Rightarrow> 's \<Rightarrow> addr set) \<Rightarrow> 'q go_heap \<Rightarrow> 's \<Rightarrow> 's \<times> 'q go_heap \<Rightarrow> bool"
where
  "copied view reach h s th \<longleftrightarrow> grown h (snd th) \<and> heap_ok (snd th) \<and> view (snd th) (fst th) = view h s \<and>
     reach (snd th) (fst th) \<subseteq> {lim h..<lim (snd th)}"

locale deep_copy =
  fixes into :: "'q go_heap \<Rightarrow> 's \<Rightarrow> 's \<times> 'q go_heap"
    and view :: "'q go_heap \<Rightarrow> 's \<Rightarrow> 'v"
    and reach :: "'q go_heap \<Rightarrow> 's \<Rightarrow> addr set"
  assumes into_copies: "heap_ok h \<Longrightarrow> reach h s \<subseteq> {..<lim h} \<Longrightarrow> copied view reach h s (into h s)"
    and view_local: "agree (reach h s) h k \<Longrightarrow> view k s = view h s \<and> reach k s = reach h s"
begin

lemma copy_facts:
  assumes "heap_ok h" and "reach h s \<subseteq> {..<lim h}" and "into h s = (t, k)"
  shows "grown h k" and "heap_ok k" and "view k t = view h s" and "reach k t \<subseteq> {lim h..<lim k}"
    and "view k s = view h s" and "reach k s = reach h s" and "reach k t \<inter> reach k s = {}"
proof -
  show c: "grown h k" "heap_ok k" "view k t = view h s" "reach k t \<subseteq> {lim h..<lim k}"
    using into_copies [OF assms(1,2)] assms(3) by (simp_all add: copied_def)
  show l: "view k s = view h s" "reach k s = reach h s"
    using view_local [OF grown_agree [OF c(1) assms(2)]] by simp_all
  show "reach k t \<inter> reach k s = {}" using c(4) l(2) assms(2) by fastforce
qed

text \<open>Whatever is written through the original later, the copy keeps its contents, and conversely.\<close>

lemma independent:
  assumes "heap_ok h" and "reach h s \<subseteq> {..<lim h}" and "into h s = (t, k)"
  shows "agree (- reach k s) k m \<Longrightarrow> view m t = view h s"
    and "agree (- reach k t) k m \<Longrightarrow> view m s = view h s"
proof -
  note f = copy_facts [OF assms]
  show "view m t = view h s" if "agree (- reach k s) k m"
    using view_local [of k t m] agree_mono [OF that, of "reach k t"] f(3,7) by auto
  show "view m s = view h s" if "agree (- reach k t) k m"
    using view_local [of k s m] agree_mono [OF that, of "reach k s"] f(5,7) by auto
qed

end

text \<open>\<^verbatim>\<open>DeepCopy\<close> of a pointer: nil, or a new struct that \<^verbatim>\<open>DeepCopyInto\<close> fills.\<close>

definition deep_copy_ptr ::
  "('q go_heap \<Rightarrow> 's \<Rightarrow> 's \<times> 'q go_heap) \<Rightarrow> 'q go_heap \<Rightarrow> 's option \<Rightarrow> 's option \<times> 'q go_heap"
where
  "deep_copy_ptr into h p =
     (case p of None \<Rightarrow> (None, h) | Some s \<Rightarrow> (case into h s of (out, h) \<Rightarrow> (Some out, h)))"

text \<open>The loop over the elements of a slice of structs.\<close>

fun copy_items :: "('q go_heap \<Rightarrow> 's \<Rightarrow> 's \<times> 'q go_heap) \<Rightarrow> 'q go_heap \<Rightarrow> 's list \<Rightarrow> 's list \<times> 'q go_heap" where
  "copy_items into h [] = ([], h)"
| "copy_items into h (s # ss) =
     (let (t, h) = into h s; (ts, h) = copy_items into h ss in (t # ts, h))"

section \<open>Deep copies of single references\<close>

text \<open>\<^verbatim>\<open>if in.F != nil { *out = new(T); **out = **in }\<close>, and the same for a slice or map. A Quantity
  is a value here, so its own \<^verbatim>\<open>DeepCopy\<close> is the value; the loop over a map fills a new one.\<close>

definition copy_ref ::
  "('q go_heap \<Rightarrow> addr \<Rightarrow> 'a) \<Rightarrow> ('a \<Rightarrow> 'q go_heap \<Rightarrow> addr \<times> 'q go_heap) \<Rightarrow> 'q go_heap \<Rightarrow> addr option \<Rightarrow>
   addr option \<times> 'q go_heap"
where
  "copy_ref get new h p =
     (case p of None \<Rightarrow> (None, h) | Some a \<Rightarrow> (case new (get h a) h of (b, h) \<Rightarrow> (Some b, h)))"

definition copy_rlist :: "'q resource_list \<Rightarrow> 'q resource_list" where
  "copy_rlist m = fold (\<lambda>(key, val) out. mput key val out) m []"

definition copy_rmap :: "'q go_heap \<Rightarrow> addr option \<Rightarrow> addr option \<times> 'q go_heap" where
  "copy_rmap = copy_ref (\<lambda>h a. copy_rlist (rmaps h a)) new_rmap"

text \<open>A pointer to a map variable: a new variable, and a new map when the old one is not nil.\<close>

definition copy_mapvar :: "'q go_heap \<Rightarrow> addr option \<Rightarrow> addr option \<times> 'q go_heap" where
  "copy_mapvar h p =
     (case p of
        None \<Rightarrow> (None, h)
      | Some a \<Rightarrow>
          (case new_mapvar None h of (b, h) \<Rightarrow>
             (case mapvars h a of
                None \<Rightarrow> (Some b, h)
              | Some c \<Rightarrow>
                  (case new_rmap (copy_rlist (rmaps h c)) h of (d, h) \<Rightarrow>
                     (Some b, h\<lparr>mapvars := (mapvars h)(b := Some d)\<rparr>)))))"

lemma copy_rlist_id [simp]: "gwf m \<Longrightarrow> copy_rlist m = m"
proof -
  have "gwf (acc @ m) \<Longrightarrow> fold (\<lambda>(key, val) out. mput key val out) m acc = acc @ m" for acc
  proof (induction m arbitrary: acc)
    case (Cons kv m)
    obtain k v where kv: "kv = (k, v)" by fastforce
    with Cons.prems have "k \<notin> fst ` set acc" by (auto simp: gwf_def)
    then have "mput k v acc = acc @ [(k, v)]" by (induction acc) auto
    with Cons kv show ?case by simp
  qed simp
  from this [of "[]"] show "gwf m \<Longrightarrow> copy_rlist m = m" by (simp add: copy_rlist_def)
qed

abbreviation see :: "('q go_heap \<Rightarrow> addr \<Rightarrow> 'a) \<Rightarrow> 'q go_heap \<Rightarrow> addr option \<Rightarrow> 'a option" where
  "see get h p \<equiv> map_option (get h) p"

abbreviation ref_reach :: "'q go_heap \<Rightarrow> addr option \<Rightarrow> addr set" where
  "ref_reach h p \<equiv> set_option p"

definition see_mapvar :: "'q go_heap \<Rightarrow> addr \<Rightarrow> 'q resource_list option" where
  "see_mapvar h a = map_option (rmaps h) (mapvars h a)"

definition mapvar_reach :: "'q go_heap \<Rightarrow> addr option \<Rightarrow> addr set" where
  "mapvar_reach h p = (case p of None \<Rightarrow> {} | Some a \<Rightarrow> insert a (set_option (mapvars h a)))"

lemma deep_copy_ref:
  fixes cp :: "'a \<Rightarrow> 'a"
  assumes local: "\<And>A h k a. agree A h k \<Longrightarrow> a \<in> A \<Longrightarrow> get k a = get h a"
    and new: "\<And>h x. fst (new x h) = lim h" "\<And>h x. lim (snd (new x h)) = lim h + 1"
      "\<And>h x. agree {..<lim h} h (snd (new x h))" "\<And>h x. get (snd (new x h)) (lim h) = x"
    and ok: "\<And>h a. heap_ok h \<Longrightarrow> cp (get h a) = get h a" "\<And>h a. heap_ok h \<Longrightarrow> heap_ok (snd (new (get h a) h))"
  shows "deep_copy (copy_ref (\<lambda>h a. cp (get h a)) new) (see get) ref_reach"
proof
  fix h :: "'b go_heap" and p :: "addr option"
  assume h: "heap_ok h" "ref_reach h p \<subseteq> {..<lim h}"
  show "copied (see get) ref_reach h p (copy_ref (\<lambda>h a. cp (get h a)) new h p)"
  proof (cases p)
    case (Some a)
    obtain b k where bk: "new (get h a) h = (b, k)" by fastforce
    have "b = lim h" "lim k = lim h + 1" "agree {..<lim h} h k" "get k b = get h a" "heap_ok k"
      using new [where h = h and x = "get h a"] ok(2) [OF h(1), of a] by (simp_all add: bk)
    then show ?thesis by (simp add: Some copied_def copy_ref_def ok(1) [OF h(1)] bk grown_def)
  qed (use h in \<open>simp add: copied_def copy_ref_def\<close>)
next
  fix h k :: "'b go_heap" and p :: "addr option"
  assume "agree (ref_reach h p) h k"
  then show "see get k p = see get h p \<and> ref_reach k p = ref_reach h p"
    using local by (cases p) auto
qed

lemmas heap_simps = new_defs agree_def heap_ok_def

interpretation str_ref: deep_copy "copy_ref strs new_str" "see strs" ref_reach
  by (rule deep_copy_ref [where cp = "\<lambda>x. x"]) (auto simp: heap_simps)

interpretation i64_ref: deep_copy "copy_ref i64s new_i64" "see i64s" ref_reach
  by (rule deep_copy_ref [where cp = "\<lambda>x. x"]) (auto simp: heap_simps)

interpretation i32_ref: deep_copy "copy_ref i32s new_i32" "see i32s" ref_reach
  by (rule deep_copy_ref [where cp = "\<lambda>x. x"]) (auto simp: heap_simps)

interpretation f64_ref: deep_copy "copy_ref f64s new_f64" "see f64s" ref_reach
  by (rule deep_copy_ref [where cp = "\<lambda>x. x"]) (auto simp: heap_simps)

interpretation specs_ref: deep_copy "copy_ref specs new_specs" "see specs" ref_reach
  by (rule deep_copy_ref [where cp = "\<lambda>x. x"]) (auto simp: heap_simps)

interpretation rmap_ref: deep_copy copy_rmap "see rmaps" ref_reach
  unfolding copy_rmap_def by (rule deep_copy_ref [where cp = copy_rlist]) (auto simp: heap_simps)

interpretation mapvar_ref: deep_copy copy_mapvar "see see_mapvar" mapvar_reach
proof
  fix h :: "'q go_heap" and p :: "addr option"
  assume h: "heap_ok h" and p: "mapvar_reach h p \<subseteq> {..<lim h}"
  show "copied (see see_mapvar) mapvar_reach h p (copy_mapvar h p)"
  proof (cases p)
    case (Some a)
    then have a: "a < lim h" and c: "\<And>c. mapvars h a = Some c \<Longrightarrow> c < lim h" using p by (auto simp: mapvar_reach_def)
    show ?thesis
    proof (cases "mapvars h a")
      case None
      then show ?thesis using a h Some
        by (auto simp: copied_def copy_mapvar_def new_defs grown_def agree_def heap_ok_def see_mapvar_def mapvar_reach_def)
    next
      case (Some c)
      then show ?thesis using a h \<open>p = Some a\<close> c [OF Some]
        by (auto simp: copied_def copy_mapvar_def new_defs grown_def agree_def heap_ok_def see_mapvar_def mapvar_reach_def)
    qed
  qed (use h in \<open>simp add: copied_def copy_mapvar_def mapvar_reach_def\<close>)
next
  fix h k :: "'q go_heap" and p :: "addr option"
  assume "agree (mapvar_reach h p) h k"
  then show "see see_mapvar k p = see see_mapvar h p \<and> mapvar_reach k p = mapvar_reach h p"
    by (cases p; cases "mapvars h (the p)") (auto simp: agree_def see_mapvar_def mapvar_reach_def)
qed

section \<open>Composition\<close>

text \<open>Two references in turn, the fields of a struct, and the elements of a slice.\<close>

definition copy_pair ::
  "('q go_heap \<Rightarrow> 'a \<Rightarrow> 'a \<times> 'q go_heap) \<Rightarrow> ('q go_heap \<Rightarrow> 'b \<Rightarrow> 'b \<times> 'q go_heap) \<Rightarrow>
   'q go_heap \<Rightarrow> 'a \<times> 'b \<Rightarrow> ('a \<times> 'b) \<times> 'q go_heap"
where
  "copy_pair A B h xy =
     (case A h (fst xy) of (x, h) \<Rightarrow> (case B h (snd xy) of (y, h) \<Rightarrow> ((x, y), h)))"

lemma reach_grown:
  assumes "deep_copy into view reach" and "grown h k" and "reach h s \<subseteq> {..<lim h}"
  shows "view k s = view h s" and "reach k s = reach h s" and "reach k s \<subseteq> {..<lim k}"
proof -
  show e: "view k s = view h s" "reach k s = reach h s"
    using deep_copy.view_local [OF assms(1) grown_agree [OF assms(2,3)]] by simp_all
  show "reach k s \<subseteq> {..<lim k}" unfolding e(2) using assms(2,3) by (auto simp: grown_def)
qed

lemma deep_copy_pair:
  assumes A: "deep_copy A va ra" and B: "deep_copy B vb rb"
  shows "deep_copy (copy_pair A B) (\<lambda>h xy. (va h (fst xy), vb h (snd xy))) (\<lambda>h xy. ra h (fst xy) \<union> rb h (snd xy))"
proof
  fix h :: "'a go_heap" and xy :: "'b \<times> 'd"
  obtain x y where xy: "xy = (x, y)" by fastforce
  assume h: "heap_ok h" and r: "ra h (fst xy) \<union> rb h (snd xy) \<subseteq> {..<lim h}"
  obtain u k where u: "A h x = (u, k)" by fastforce
  obtain w m where w: "B k y = (w, m)" by fastforce
  from r have rx: "ra h x \<subseteq> {..<lim h}" "rb h y \<subseteq> {..<lim h}" by (simp_all add: xy)
  note a = deep_copy.copy_facts [OF A h rx(1) u]
  note gy = reach_grown [OF B a(1) rx(2)]
  note b = deep_copy.copy_facts [OF B a(2) gy(3) w]
  have ru: "ra k u \<subseteq> {..<lim k}" using a(4) by auto
  note gu = reach_grown [OF A b(1) ru]
  have "ra m u \<subseteq> {lim h..<lim m}" "rb m w \<subseteq> {lim h..<lim m}"
    using gu(2) a(1,4) b(1,4) by (auto simp: grown_def subset_iff) 
  then show "copied (\<lambda>h xy. (va h (fst xy), vb h (snd xy))) (\<lambda>h xy. ra h (fst xy) \<union> rb h (snd xy)) h xy
      (copy_pair A B h xy)"
    using grown_trans [OF a(1) b(1)] b(2,3) gu(1) a(3) gy(1) by (simp add: copied_def copy_pair_def xy u w)
next
  fix h k :: "'a go_heap" and xy :: "'b \<times> 'd"
  assume "agree (ra h (fst xy) \<union> rb h (snd xy)) h k"
  then have "agree (ra h (fst xy)) h k" "agree (rb h (snd xy)) h k" by (auto intro: agree_mono)
  with deep_copy.view_local [OF A] deep_copy.view_local [OF B]
  show "(va k (fst xy), vb k (snd xy)) = (va h (fst xy), vb h (snd xy)) \<and>
      ra k (fst xy) \<union> rb k (snd xy) = ra h (fst xy) \<union> rb h (snd xy)" by simp
qed

lemma deep_copy_struct:
  assumes A: "deep_copy A va ra" and "\<And>x s. get (put x s) = x"
    and into: "\<And>h s. into h s = (case A h (get s) of (x, h) \<Rightarrow> (put x s, h))"
    and same: "\<And>h k x s. va k x = va h (get s) \<Longrightarrow> view k (put x s) = view h s" and "\<And>s. put (get s) s = s"
    and reach: "\<And>h s. reach h s = ra h (get s)"
  shows "deep_copy into view reach"
proof
  fix h :: "'a go_heap" and s
  assume h: "heap_ok h" "reach h s \<subseteq> {..<lim h}"
  obtain x k where x: "A h (get s) = (x, k)" by fastforce
  show "copied view reach h s (into h s)"
    using deep_copy.copy_facts [OF A h(1) _ x] same [of k x h s] h(2) by (simp add: copied_def into reach x assms(2))
next
  fix h k :: "'a go_heap" and s
  assume "agree (reach h s) h k"
  then show "view k s = view h s \<and> reach k s = reach h s"
    using deep_copy.view_local [OF A, of h "get s" k] same [of k "get s" h s] by (simp add: reach assms(5))
qed

lemma deep_copy_value: "deep_copy (\<lambda>h s. (s, h)) (\<lambda>h s. s) (\<lambda>h s. {})"
  by unfold_locales (simp_all add: copied_def)

lemma deep_copy_items:
  assumes A: "deep_copy A va ra"
  shows "deep_copy (copy_items A) (\<lambda>h. map (va h)) (\<lambda>h ss. \<Union> (ra h ` set ss))"
proof
  fix h :: "'a go_heap" and ss
  assume "heap_ok h" and "\<Union> (ra h ` set ss) \<subseteq> {..<lim h}"
  then show "copied (\<lambda>h. map (va h)) (\<lambda>h ss. \<Union> (ra h ` set ss)) h ss (copy_items A h ss)"
  proof (induction ss arbitrary: h)
    case (Cons s ss)
    obtain u k where u: "A h s = (u, k)" by fastforce
    obtain us m where us: "copy_items A k ss = (us, m)" by fastforce
    have rs: "ra h s \<subseteq> {..<lim h}" "\<And>x. x \<in> set ss \<Longrightarrow> ra h x \<subseteq> {..<lim h}" using Cons.prems(2) by auto
    note a = deep_copy.copy_facts [OF A Cons.prems(1) rs(1) u]
    note g = reach_grown [OF A a(1) rs(2)]
    have "\<Union> (ra k ` set ss) \<subseteq> {..<lim k}" using g(3) by blast
    from Cons.IH [OF a(2) this] have b: "grown k m" "heap_ok m" "map (va m) us = map (va k) ss"
      "\<Union> (ra m ` set us) \<subseteq> {lim k..<lim m}" by (simp_all add: copied_def us)
    have ru: "ra k u \<subseteq> {..<lim k}" using a(4) by auto
    note gu = reach_grown [OF A b(1) ru]
    have "ra m u \<subseteq> {lim h..<lim m}" "\<Union> (ra m ` set us) \<subseteq> {lim h..<lim m}"
      using gu(2) a(1,4) b(1,4) by (auto simp: grown_def subset_iff)
    moreover have "map (va k) ss = map (va h) ss" using g(1) by simp
    ultimately show ?case
      using grown_trans [OF a(1) b(1)] b(2,3) gu(1) a(3) by (simp add: copied_def u us)
  qed (simp add: copied_def)
next
  fix h k :: "'a go_heap" and ss
  assume ag: "agree (\<Union> (ra h ` set ss)) h k"
  have "va k s = va h s \<and> ra k s = ra h s" if "s \<in> set ss" for s
    using deep_copy.view_local [OF A agree_mono [OF ag, of "ra h s"]] that by blast
  then show "map (va k) ss = map (va h) ss \<and> \<Union> (ra k ` set ss) = \<Union> (ra h ` set ss)" by auto
qed

text \<open>A slice of structs: nil, or a new array whose elements are copied one by one. The array is part of
  the slice value, so only the references in its elements are in the heap.\<close>

definition copy_slice ::
  "('q go_heap \<Rightarrow> 's \<Rightarrow> 's \<times> 'q go_heap) \<Rightarrow> 'q go_heap \<Rightarrow> 's list option \<Rightarrow> 's list option \<times> 'q go_heap"
where
  "copy_slice into h p =
     (case p of None \<Rightarrow> (None, h) | Some ss \<Rightarrow> (case copy_items into h ss of (ts, h) \<Rightarrow> (Some ts, h)))"

definition slice_reach :: "('q go_heap \<Rightarrow> 's \<Rightarrow> addr set) \<Rightarrow> 'q go_heap \<Rightarrow> 's list option \<Rightarrow> addr set" where
  "slice_reach reach h p = (case p of None \<Rightarrow> {} | Some ss \<Rightarrow> \<Union> (reach h ` set ss))"

lemma deep_copy_slice:
  assumes A: "deep_copy A va ra"
  shows "deep_copy (copy_slice A) (\<lambda>h. map_option (map (va h))) (slice_reach ra)"
proof
  fix h :: "'a go_heap" and p
  assume h: "heap_ok h" "slice_reach ra h p \<subseteq> {..<lim h}"
  show "copied (\<lambda>h. map_option (map (va h))) (slice_reach ra) h p (copy_slice A h p)"
  proof (cases p)
    case (Some ss)
    obtain ts k where t: "copy_items A h ss = (ts, k)" by fastforce
    from deep_copy.into_copies [OF deep_copy_items [OF A] h(1), of ss] h(2)
    show ?thesis by (simp add: Some t copied_def copy_slice_def slice_reach_def)
  qed (use h in \<open>simp add: copied_def copy_slice_def slice_reach_def\<close>)
next
  fix h k :: "'a go_heap" and p
  assume "agree (slice_reach ra h p) h k"
  with deep_copy.view_local [OF deep_copy_items [OF A], of h "the p" k]
  show "map_option (map (va k)) p = map_option (map (va h)) p \<and> slice_reach ra k p = slice_reach ra h p"
    by (cases p) (simp_all add: slice_reach_def)
qed

end
