(* ===== verification/ConfigDeepCopy.thy ===== *)
theory ConfigDeepCopy
  imports GoHeap ConfigDefaults
begin

text \<open>
  \<^verbatim>\<open>zz_generated.deepcopy.go\<close> of \<^verbatim>\<open>pkg/apis/config\<close> and of
  \<^verbatim>\<open>pkg/apis/config/v1beta1\<close>: the deep copies of the plugin arguments, on structs whose
  references are addresses. \<open>DeepCopyInto\<close> returns what it leaves in \<^verbatim>\<open>*out\<close>. Internal types
  without references are their own values; the prefix \<open>h\<close> marks a struct with references. Each type is an
  instance of the contract \<open>deep_copy\<close>; \<open>view\<close> reads the argument record of
  \<open>ConfigTypes\<close>.
\<close>

section \<open>Internal types\<close>

definition DeepCopyInto_config_CapacitySchedulingArgs :: "'q go_heap \<Rightarrow> CapacitySchedulingArgs \<Rightarrow> CapacitySchedulingArgs \<times> 'q go_heap" where
  "DeepCopyInto_config_CapacitySchedulingArgs h src =
     (let out = src;
          out = out\<lparr>capMeta := capMeta src\<rparr>
      in (out, h))"

definition DeepCopy_config_CapacitySchedulingArgs ::
  "'q go_heap \<Rightarrow> CapacitySchedulingArgs option \<Rightarrow> CapacitySchedulingArgs option \<times> 'q go_heap"
where
  "DeepCopy_config_CapacitySchedulingArgs = deep_copy_ptr DeepCopyInto_config_CapacitySchedulingArgs"

definition view_config_CapacitySchedulingArgs :: "'q go_heap \<Rightarrow> CapacitySchedulingArgs \<Rightarrow> CapacitySchedulingArgs" where
  "view_config_CapacitySchedulingArgs h s = s"

definition reach_config_CapacitySchedulingArgs :: "'q go_heap \<Rightarrow> CapacitySchedulingArgs \<Rightarrow> addr set" where
  "reach_config_CapacitySchedulingArgs h s = {}"

interpretation config_capacity: deep_copy DeepCopyInto_config_CapacitySchedulingArgs view_config_CapacitySchedulingArgs reach_config_CapacitySchedulingArgs
  by unfold_locales (simp_all add: copied_def DeepCopyInto_config_CapacitySchedulingArgs_def view_config_CapacitySchedulingArgs_def reach_config_CapacitySchedulingArgs_def)

definition DeepCopyInto_config_CoschedulingArgs :: "'q go_heap \<Rightarrow> CoschedulingArgs \<Rightarrow> CoschedulingArgs \<times> 'q go_heap" where
  "DeepCopyInto_config_CoschedulingArgs h src =
     (let out = src;
          out = out\<lparr>csMeta := csMeta src\<rparr>
      in (out, h))"

definition DeepCopy_config_CoschedulingArgs ::
  "'q go_heap \<Rightarrow> CoschedulingArgs option \<Rightarrow> CoschedulingArgs option \<times> 'q go_heap"
where
  "DeepCopy_config_CoschedulingArgs = deep_copy_ptr DeepCopyInto_config_CoschedulingArgs"

definition view_config_CoschedulingArgs :: "'q go_heap \<Rightarrow> CoschedulingArgs \<Rightarrow> CoschedulingArgs" where
  "view_config_CoschedulingArgs h s = s"

definition reach_config_CoschedulingArgs :: "'q go_heap \<Rightarrow> CoschedulingArgs \<Rightarrow> addr set" where
  "reach_config_CoschedulingArgs h s = {}"

interpretation config_coscheduling: deep_copy DeepCopyInto_config_CoschedulingArgs view_config_CoschedulingArgs reach_config_CoschedulingArgs
  by unfold_locales (simp_all add: copied_def DeepCopyInto_config_CoschedulingArgs_def view_config_CoschedulingArgs_def reach_config_CoschedulingArgs_def)

definition DeepCopyInto_config_LoadVariationRiskBalancingArgs :: "'q go_heap \<Rightarrow> LoadVariationRiskBalancingArgs \<Rightarrow> LoadVariationRiskBalancingArgs \<times> 'q go_heap" where
  "DeepCopyInto_config_LoadVariationRiskBalancingArgs h src =
     (let out = src;
          out = out\<lparr>lvrMeta := lvrMeta src\<rparr>;
          out = out\<lparr>lvrMetricProvider := lvrMetricProvider src\<rparr>
      in (out, h))"

definition DeepCopy_config_LoadVariationRiskBalancingArgs ::
  "'q go_heap \<Rightarrow> LoadVariationRiskBalancingArgs option \<Rightarrow> LoadVariationRiskBalancingArgs option \<times> 'q go_heap"
where
  "DeepCopy_config_LoadVariationRiskBalancingArgs = deep_copy_ptr DeepCopyInto_config_LoadVariationRiskBalancingArgs"

definition view_config_LoadVariationRiskBalancingArgs :: "'q go_heap \<Rightarrow> LoadVariationRiskBalancingArgs \<Rightarrow> LoadVariationRiskBalancingArgs" where
  "view_config_LoadVariationRiskBalancingArgs h s = s"

definition reach_config_LoadVariationRiskBalancingArgs :: "'q go_heap \<Rightarrow> LoadVariationRiskBalancingArgs \<Rightarrow> addr set" where
  "reach_config_LoadVariationRiskBalancingArgs h s = {}"

interpretation config_load_variation: deep_copy DeepCopyInto_config_LoadVariationRiskBalancingArgs view_config_LoadVariationRiskBalancingArgs reach_config_LoadVariationRiskBalancingArgs
  by unfold_locales (simp_all add: copied_def DeepCopyInto_config_LoadVariationRiskBalancingArgs_def view_config_LoadVariationRiskBalancingArgs_def reach_config_LoadVariationRiskBalancingArgs_def)

definition DeepCopyInto_config_MetricProviderSpec :: "'q go_heap \<Rightarrow> MetricProviderSpec \<Rightarrow> MetricProviderSpec \<times> 'q go_heap" where
  "DeepCopyInto_config_MetricProviderSpec h src =
     (let out = src
      in (out, h))"

definition DeepCopy_config_MetricProviderSpec ::
  "'q go_heap \<Rightarrow> MetricProviderSpec option \<Rightarrow> MetricProviderSpec option \<times> 'q go_heap"
where
  "DeepCopy_config_MetricProviderSpec = deep_copy_ptr DeepCopyInto_config_MetricProviderSpec"

definition view_config_MetricProviderSpec :: "'q go_heap \<Rightarrow> MetricProviderSpec \<Rightarrow> MetricProviderSpec" where
  "view_config_MetricProviderSpec h s = s"

definition reach_config_MetricProviderSpec :: "'q go_heap \<Rightarrow> MetricProviderSpec \<Rightarrow> addr set" where
  "reach_config_MetricProviderSpec h s = {}"

interpretation config_provider: deep_copy DeepCopyInto_config_MetricProviderSpec view_config_MetricProviderSpec reach_config_MetricProviderSpec
  by unfold_locales (simp_all add: copied_def DeepCopyInto_config_MetricProviderSpec_def view_config_MetricProviderSpec_def reach_config_MetricProviderSpec_def)

record hNodeResourcesAllocatableArgs =
  hnraMeta :: "type_meta"
  hnraResources :: "addr option"
  hnraMode :: "ModeType"

definition DeepCopyInto_config_NodeResourcesAllocatableArgs :: "'q go_heap \<Rightarrow> hNodeResourcesAllocatableArgs \<Rightarrow> hNodeResourcesAllocatableArgs \<times> 'q go_heap" where
  "DeepCopyInto_config_NodeResourcesAllocatableArgs h src =
     (let out = src;
          out = out\<lparr>hnraMeta := hnraMeta src\<rparr>;
          (p, h) = copy_ref specs new_specs h (hnraResources src); out = out\<lparr>hnraResources := p\<rparr>
      in (out, h))"

definition DeepCopy_config_NodeResourcesAllocatableArgs ::
  "'q go_heap \<Rightarrow> hNodeResourcesAllocatableArgs option \<Rightarrow> hNodeResourcesAllocatableArgs option \<times> 'q go_heap"
where
  "DeepCopy_config_NodeResourcesAllocatableArgs = deep_copy_ptr DeepCopyInto_config_NodeResourcesAllocatableArgs"

definition view_config_NodeResourcesAllocatableArgs :: "'q go_heap \<Rightarrow> hNodeResourcesAllocatableArgs \<Rightarrow> NodeResourcesAllocatableArgs" where
  "view_config_NodeResourcesAllocatableArgs h s = \<lparr>nraMeta = hnraMeta s, nraResources = see specs h (hnraResources s), nraMode = hnraMode s\<rparr>"

definition reach_config_NodeResourcesAllocatableArgs :: "'q go_heap \<Rightarrow> hNodeResourcesAllocatableArgs \<Rightarrow> addr set" where
  "reach_config_NodeResourcesAllocatableArgs h s = ref_reach h (hnraResources s)"

interpretation config_node_resources: deep_copy DeepCopyInto_config_NodeResourcesAllocatableArgs view_config_NodeResourcesAllocatableArgs reach_config_NodeResourcesAllocatableArgs
  by (rule deep_copy_struct [OF specs_ref.deep_copy_axioms,
        where get = "\<lambda>s. hnraResources s" and
          put = "\<lambda>x0 s. s\<lparr>hnraResources := x0\<rparr>"])
    (auto simp: DeepCopyInto_config_NodeResourcesAllocatableArgs_def view_config_NodeResourcesAllocatableArgs_def reach_config_NodeResourcesAllocatableArgs_def copy_pair_def Let_def
      split: prod.split)

record hTargetLoadPackingArgs =
  htlpMeta :: "type_meta"
  htlpDefaultRequests :: "addr option"
  htlpDefaultRequestsMultiplier :: "string"
  htlpTargetUtilization :: "i64"
  htlpMetricProvider :: "MetricProviderSpec"
  htlpWatcherAddress :: "string"

definition DeepCopyInto_config_TargetLoadPackingArgs :: "'q go_heap \<Rightarrow> hTargetLoadPackingArgs \<Rightarrow> hTargetLoadPackingArgs \<times> 'q go_heap" where
  "DeepCopyInto_config_TargetLoadPackingArgs h src =
     (let out = src;
          out = out\<lparr>htlpMeta := htlpMeta src\<rparr>;
          (p, h) = copy_rmap h (htlpDefaultRequests src); out = out\<lparr>htlpDefaultRequests := p\<rparr>;
          out = out\<lparr>htlpMetricProvider := htlpMetricProvider src\<rparr>
      in (out, h))"

definition DeepCopy_config_TargetLoadPackingArgs ::
  "'q go_heap \<Rightarrow> hTargetLoadPackingArgs option \<Rightarrow> hTargetLoadPackingArgs option \<times> 'q go_heap"
where
  "DeepCopy_config_TargetLoadPackingArgs = deep_copy_ptr DeepCopyInto_config_TargetLoadPackingArgs"

definition view_config_TargetLoadPackingArgs :: "'q go_heap \<Rightarrow> hTargetLoadPackingArgs \<Rightarrow> 'q TargetLoadPackingArgs" where
  "view_config_TargetLoadPackingArgs h s = \<lparr>tlpMeta = htlpMeta s, tlpDefaultRequests = see rmaps h (htlpDefaultRequests s),
     tlpDefaultRequestsMultiplier = htlpDefaultRequestsMultiplier s, tlpTargetUtilization = htlpTargetUtilization s,
     tlpMetricProvider = htlpMetricProvider s, tlpWatcherAddress = htlpWatcherAddress s\<rparr>"

definition reach_config_TargetLoadPackingArgs :: "'q go_heap \<Rightarrow> hTargetLoadPackingArgs \<Rightarrow> addr set" where
  "reach_config_TargetLoadPackingArgs h s = ref_reach h (htlpDefaultRequests s)"

interpretation config_target_load: deep_copy DeepCopyInto_config_TargetLoadPackingArgs view_config_TargetLoadPackingArgs reach_config_TargetLoadPackingArgs
  by (rule deep_copy_struct [OF rmap_ref.deep_copy_axioms,
        where get = "\<lambda>s. htlpDefaultRequests s" and
          put = "\<lambda>x0 s. s\<lparr>htlpDefaultRequests := x0\<rparr>"])
    (auto simp: DeepCopyInto_config_TargetLoadPackingArgs_def view_config_TargetLoadPackingArgs_def reach_config_TargetLoadPackingArgs_def copy_pair_def Let_def
      split: prod.split)

section \<open>Versioned types\<close>

record hbCapacitySchedulingArgs =
  hbcapMeta :: "type_meta"
  hbcapKubeConfigPath :: "addr option"

definition DeepCopyInto_v1beta1_CapacitySchedulingArgs :: "'q go_heap \<Rightarrow> hbCapacitySchedulingArgs \<Rightarrow> hbCapacitySchedulingArgs \<times> 'q go_heap" where
  "DeepCopyInto_v1beta1_CapacitySchedulingArgs h src =
     (let out = src;
          out = out\<lparr>hbcapMeta := hbcapMeta src\<rparr>;
          (p, h) = copy_ref strs new_str h (hbcapKubeConfigPath src); out = out\<lparr>hbcapKubeConfigPath := p\<rparr>
      in (out, h))"

definition DeepCopy_v1beta1_CapacitySchedulingArgs ::
  "'q go_heap \<Rightarrow> hbCapacitySchedulingArgs option \<Rightarrow> hbCapacitySchedulingArgs option \<times> 'q go_heap"
where
  "DeepCopy_v1beta1_CapacitySchedulingArgs = deep_copy_ptr DeepCopyInto_v1beta1_CapacitySchedulingArgs"

definition view_v1beta1_CapacitySchedulingArgs :: "'q go_heap \<Rightarrow> hbCapacitySchedulingArgs \<Rightarrow> bCapacitySchedulingArgs" where
  "view_v1beta1_CapacitySchedulingArgs h s = \<lparr>bcapMeta = hbcapMeta s, bcapKubeConfigPath = see strs h (hbcapKubeConfigPath s)\<rparr>"

definition reach_v1beta1_CapacitySchedulingArgs :: "'q go_heap \<Rightarrow> hbCapacitySchedulingArgs \<Rightarrow> addr set" where
  "reach_v1beta1_CapacitySchedulingArgs h s = ref_reach h (hbcapKubeConfigPath s)"

interpretation v1beta1_capacity: deep_copy DeepCopyInto_v1beta1_CapacitySchedulingArgs view_v1beta1_CapacitySchedulingArgs reach_v1beta1_CapacitySchedulingArgs
  by (rule deep_copy_struct [OF str_ref.deep_copy_axioms,
        where get = "\<lambda>s. hbcapKubeConfigPath s" and
          put = "\<lambda>x0 s. s\<lparr>hbcapKubeConfigPath := x0\<rparr>"])
    (auto simp: DeepCopyInto_v1beta1_CapacitySchedulingArgs_def view_v1beta1_CapacitySchedulingArgs_def reach_v1beta1_CapacitySchedulingArgs_def copy_pair_def Let_def
      split: prod.split)

record hbCoschedulingArgs =
  hbcsMeta :: "type_meta"
  hbcsPermitWaitingTimeSeconds :: "addr option"
  hbcsDeniedPGExpirationTimeSeconds :: "addr option"
  hbcsKubeMaster :: "addr option"
  hbcsKubeConfigPath :: "addr option"

definition DeepCopyInto_v1beta1_CoschedulingArgs :: "'q go_heap \<Rightarrow> hbCoschedulingArgs \<Rightarrow> hbCoschedulingArgs \<times> 'q go_heap" where
  "DeepCopyInto_v1beta1_CoschedulingArgs h src =
     (let out = src;
          out = out\<lparr>hbcsMeta := hbcsMeta src\<rparr>;
          (p, h) = copy_ref i64s new_i64 h (hbcsPermitWaitingTimeSeconds src); out = out\<lparr>hbcsPermitWaitingTimeSeconds := p\<rparr>;
          (p, h) = copy_ref i64s new_i64 h (hbcsDeniedPGExpirationTimeSeconds src); out = out\<lparr>hbcsDeniedPGExpirationTimeSeconds := p\<rparr>;
          (p, h) = copy_ref strs new_str h (hbcsKubeMaster src); out = out\<lparr>hbcsKubeMaster := p\<rparr>;
          (p, h) = copy_ref strs new_str h (hbcsKubeConfigPath src); out = out\<lparr>hbcsKubeConfigPath := p\<rparr>
      in (out, h))"

definition DeepCopy_v1beta1_CoschedulingArgs ::
  "'q go_heap \<Rightarrow> hbCoschedulingArgs option \<Rightarrow> hbCoschedulingArgs option \<times> 'q go_heap"
where
  "DeepCopy_v1beta1_CoschedulingArgs = deep_copy_ptr DeepCopyInto_v1beta1_CoschedulingArgs"

definition view_v1beta1_CoschedulingArgs :: "'q go_heap \<Rightarrow> hbCoschedulingArgs \<Rightarrow> bCoschedulingArgs" where
  "view_v1beta1_CoschedulingArgs h s = \<lparr>bcsMeta = hbcsMeta s, bcsPermitWaitingTimeSeconds = see i64s h (hbcsPermitWaitingTimeSeconds s),
     bcsDeniedPGExpirationTimeSeconds = see i64s h (hbcsDeniedPGExpirationTimeSeconds s),
     bcsKubeMaster = see strs h (hbcsKubeMaster s), bcsKubeConfigPath = see strs h (hbcsKubeConfigPath s)\<rparr>"

definition reach_v1beta1_CoschedulingArgs :: "'q go_heap \<Rightarrow> hbCoschedulingArgs \<Rightarrow> addr set" where
  "reach_v1beta1_CoschedulingArgs h s = ref_reach h (hbcsPermitWaitingTimeSeconds s) \<union> (ref_reach h (hbcsDeniedPGExpirationTimeSeconds s) \<union> (ref_reach h (hbcsKubeMaster s) \<union> ref_reach h (hbcsKubeConfigPath s)))"

interpretation v1beta1_coscheduling: deep_copy DeepCopyInto_v1beta1_CoschedulingArgs view_v1beta1_CoschedulingArgs reach_v1beta1_CoschedulingArgs
  by (rule deep_copy_struct [OF deep_copy_pair [OF i64_ref.deep_copy_axioms
        deep_copy_pair [OF i64_ref.deep_copy_axioms
        deep_copy_pair [OF str_ref.deep_copy_axioms
        str_ref.deep_copy_axioms]]],
        where get = "\<lambda>s. (hbcsPermitWaitingTimeSeconds s, (hbcsDeniedPGExpirationTimeSeconds s, (hbcsKubeMaster s, hbcsKubeConfigPath s)))" and
          put = "\<lambda>(x0, (x1, (x2, x3))) s. s\<lparr>hbcsPermitWaitingTimeSeconds := x0, hbcsDeniedPGExpirationTimeSeconds := x1, hbcsKubeMaster := x2, hbcsKubeConfigPath := x3\<rparr>"])
    (auto simp: DeepCopyInto_v1beta1_CoschedulingArgs_def view_v1beta1_CoschedulingArgs_def reach_v1beta1_CoschedulingArgs_def copy_pair_def Let_def
      split: prod.split)

record hbMetricProviderSpec =
  hbmpType :: "MetricProviderType"
  hbmpAddress :: "addr option"
  hbmpToken :: "addr option"

definition DeepCopyInto_v1beta1_MetricProviderSpec :: "'q go_heap \<Rightarrow> hbMetricProviderSpec \<Rightarrow> hbMetricProviderSpec \<times> 'q go_heap" where
  "DeepCopyInto_v1beta1_MetricProviderSpec h src =
     (let out = src;
          (p, h) = copy_ref strs new_str h (hbmpAddress src); out = out\<lparr>hbmpAddress := p\<rparr>;
          (p, h) = copy_ref strs new_str h (hbmpToken src); out = out\<lparr>hbmpToken := p\<rparr>
      in (out, h))"

definition DeepCopy_v1beta1_MetricProviderSpec ::
  "'q go_heap \<Rightarrow> hbMetricProviderSpec option \<Rightarrow> hbMetricProviderSpec option \<times> 'q go_heap"
where
  "DeepCopy_v1beta1_MetricProviderSpec = deep_copy_ptr DeepCopyInto_v1beta1_MetricProviderSpec"

definition view_v1beta1_MetricProviderSpec :: "'q go_heap \<Rightarrow> hbMetricProviderSpec \<Rightarrow> bMetricProviderSpec" where
  "view_v1beta1_MetricProviderSpec h s = \<lparr>bmpType = hbmpType s, bmpAddress = see strs h (hbmpAddress s), bmpToken = see strs h (hbmpToken s)\<rparr>"

definition reach_v1beta1_MetricProviderSpec :: "'q go_heap \<Rightarrow> hbMetricProviderSpec \<Rightarrow> addr set" where
  "reach_v1beta1_MetricProviderSpec h s = ref_reach h (hbmpAddress s) \<union> ref_reach h (hbmpToken s)"

interpretation v1beta1_provider: deep_copy DeepCopyInto_v1beta1_MetricProviderSpec view_v1beta1_MetricProviderSpec reach_v1beta1_MetricProviderSpec
  by (rule deep_copy_struct [OF deep_copy_pair [OF str_ref.deep_copy_axioms
        str_ref.deep_copy_axioms],
        where get = "\<lambda>s. (hbmpAddress s, hbmpToken s)" and
          put = "\<lambda>(x0, x1) s. s\<lparr>hbmpAddress := x0, hbmpToken := x1\<rparr>"])
    (auto simp: DeepCopyInto_v1beta1_MetricProviderSpec_def view_v1beta1_MetricProviderSpec_def reach_v1beta1_MetricProviderSpec_def copy_pair_def Let_def
      split: prod.split)

record hbLoadVariationRiskBalancingArgs =
  hblvrMeta :: "type_meta"
  hblvrMetricProvider :: "hbMetricProviderSpec"
  hblvrWatcherAddress :: "addr option"
  hblvrSafeVarianceMargin :: "addr option"
  hblvrSafeVarianceSensitivity :: "addr option"

definition DeepCopyInto_v1beta1_LoadVariationRiskBalancingArgs :: "'q go_heap \<Rightarrow> hbLoadVariationRiskBalancingArgs \<Rightarrow> hbLoadVariationRiskBalancingArgs \<times> 'q go_heap" where
  "DeepCopyInto_v1beta1_LoadVariationRiskBalancingArgs h src =
     (let out = src;
          out = out\<lparr>hblvrMeta := hblvrMeta src\<rparr>;
          (p, h) = DeepCopyInto_v1beta1_MetricProviderSpec h (hblvrMetricProvider src); out = out\<lparr>hblvrMetricProvider := p\<rparr>;
          (p, h) = copy_ref strs new_str h (hblvrWatcherAddress src); out = out\<lparr>hblvrWatcherAddress := p\<rparr>;
          (p, h) = copy_ref f64s new_f64 h (hblvrSafeVarianceMargin src); out = out\<lparr>hblvrSafeVarianceMargin := p\<rparr>;
          (p, h) = copy_ref f64s new_f64 h (hblvrSafeVarianceSensitivity src); out = out\<lparr>hblvrSafeVarianceSensitivity := p\<rparr>
      in (out, h))"

definition DeepCopy_v1beta1_LoadVariationRiskBalancingArgs ::
  "'q go_heap \<Rightarrow> hbLoadVariationRiskBalancingArgs option \<Rightarrow> hbLoadVariationRiskBalancingArgs option \<times> 'q go_heap"
where
  "DeepCopy_v1beta1_LoadVariationRiskBalancingArgs = deep_copy_ptr DeepCopyInto_v1beta1_LoadVariationRiskBalancingArgs"

definition view_v1beta1_LoadVariationRiskBalancingArgs :: "'q go_heap \<Rightarrow> hbLoadVariationRiskBalancingArgs \<Rightarrow> bLoadVariationRiskBalancingArgs" where
  "view_v1beta1_LoadVariationRiskBalancingArgs h s = \<lparr>blvrMeta = hblvrMeta s, blvrMetricProvider = view_v1beta1_MetricProviderSpec h (hblvrMetricProvider s),
     blvrWatcherAddress = see strs h (hblvrWatcherAddress s), blvrSafeVarianceMargin = see f64s h (hblvrSafeVarianceMargin s),
     blvrSafeVarianceSensitivity = see f64s h (hblvrSafeVarianceSensitivity s)\<rparr>"

definition reach_v1beta1_LoadVariationRiskBalancingArgs :: "'q go_heap \<Rightarrow> hbLoadVariationRiskBalancingArgs \<Rightarrow> addr set" where
  "reach_v1beta1_LoadVariationRiskBalancingArgs h s = reach_v1beta1_MetricProviderSpec h (hblvrMetricProvider s) \<union> (ref_reach h (hblvrWatcherAddress s) \<union> (ref_reach h (hblvrSafeVarianceMargin s) \<union> ref_reach h (hblvrSafeVarianceSensitivity s)))"

interpretation v1beta1_load_variation: deep_copy DeepCopyInto_v1beta1_LoadVariationRiskBalancingArgs view_v1beta1_LoadVariationRiskBalancingArgs reach_v1beta1_LoadVariationRiskBalancingArgs
  by (rule deep_copy_struct [OF deep_copy_pair [OF v1beta1_provider.deep_copy_axioms
        deep_copy_pair [OF str_ref.deep_copy_axioms
        deep_copy_pair [OF f64_ref.deep_copy_axioms
        f64_ref.deep_copy_axioms]]],
        where get = "\<lambda>s. (hblvrMetricProvider s, (hblvrWatcherAddress s, (hblvrSafeVarianceMargin s, hblvrSafeVarianceSensitivity s)))" and
          put = "\<lambda>(x0, (x1, (x2, x3))) s. s\<lparr>hblvrMetricProvider := x0, hblvrWatcherAddress := x1, hblvrSafeVarianceMargin := x2, hblvrSafeVarianceSensitivity := x3\<rparr>"])
    (auto simp: DeepCopyInto_v1beta1_LoadVariationRiskBalancingArgs_def view_v1beta1_LoadVariationRiskBalancingArgs_def reach_v1beta1_LoadVariationRiskBalancingArgs_def copy_pair_def Let_def
      split: prod.split)

record hbNodeResourcesAllocatableArgs =
  hbnraMeta :: "type_meta"
  hbnraResources :: "addr option"
  hbnraMode :: "ModeType"

definition DeepCopyInto_v1beta1_NodeResourcesAllocatableArgs :: "'q go_heap \<Rightarrow> hbNodeResourcesAllocatableArgs \<Rightarrow> hbNodeResourcesAllocatableArgs \<times> 'q go_heap" where
  "DeepCopyInto_v1beta1_NodeResourcesAllocatableArgs h src =
     (let out = src;
          out = out\<lparr>hbnraMeta := hbnraMeta src\<rparr>;
          (p, h) = copy_ref specs new_specs h (hbnraResources src); out = out\<lparr>hbnraResources := p\<rparr>
      in (out, h))"

definition DeepCopy_v1beta1_NodeResourcesAllocatableArgs ::
  "'q go_heap \<Rightarrow> hbNodeResourcesAllocatableArgs option \<Rightarrow> hbNodeResourcesAllocatableArgs option \<times> 'q go_heap"
where
  "DeepCopy_v1beta1_NodeResourcesAllocatableArgs = deep_copy_ptr DeepCopyInto_v1beta1_NodeResourcesAllocatableArgs"

definition view_v1beta1_NodeResourcesAllocatableArgs :: "'q go_heap \<Rightarrow> hbNodeResourcesAllocatableArgs \<Rightarrow> bNodeResourcesAllocatableArgs" where
  "view_v1beta1_NodeResourcesAllocatableArgs h s = \<lparr>bnraMeta = hbnraMeta s, bnraResources = see specs h (hbnraResources s), bnraMode = hbnraMode s\<rparr>"

definition reach_v1beta1_NodeResourcesAllocatableArgs :: "'q go_heap \<Rightarrow> hbNodeResourcesAllocatableArgs \<Rightarrow> addr set" where
  "reach_v1beta1_NodeResourcesAllocatableArgs h s = ref_reach h (hbnraResources s)"

interpretation v1beta1_node_resources: deep_copy DeepCopyInto_v1beta1_NodeResourcesAllocatableArgs view_v1beta1_NodeResourcesAllocatableArgs reach_v1beta1_NodeResourcesAllocatableArgs
  by (rule deep_copy_struct [OF specs_ref.deep_copy_axioms,
        where get = "\<lambda>s. hbnraResources s" and
          put = "\<lambda>x0 s. s\<lparr>hbnraResources := x0\<rparr>"])
    (auto simp: DeepCopyInto_v1beta1_NodeResourcesAllocatableArgs_def view_v1beta1_NodeResourcesAllocatableArgs_def reach_v1beta1_NodeResourcesAllocatableArgs_def copy_pair_def Let_def
      split: prod.split)

record hbTargetLoadPackingArgs =
  hbtlpMeta :: "type_meta"
  hbtlpDefaultRequests :: "addr option"
  hbtlpDefaultRequestsMultiplier :: "addr option"
  hbtlpTargetUtilization :: "addr option"
  hbtlpMetricProvider :: "hbMetricProviderSpec"
  hbtlpWatcherAddress :: "addr option"

definition DeepCopyInto_v1beta1_TargetLoadPackingArgs :: "'q go_heap \<Rightarrow> hbTargetLoadPackingArgs \<Rightarrow> hbTargetLoadPackingArgs \<times> 'q go_heap" where
  "DeepCopyInto_v1beta1_TargetLoadPackingArgs h src =
     (let out = src;
          out = out\<lparr>hbtlpMeta := hbtlpMeta src\<rparr>;
          (p, h) = copy_rmap h (hbtlpDefaultRequests src); out = out\<lparr>hbtlpDefaultRequests := p\<rparr>;
          (p, h) = copy_ref strs new_str h (hbtlpDefaultRequestsMultiplier src); out = out\<lparr>hbtlpDefaultRequestsMultiplier := p\<rparr>;
          (p, h) = copy_ref i64s new_i64 h (hbtlpTargetUtilization src); out = out\<lparr>hbtlpTargetUtilization := p\<rparr>;
          (p, h) = DeepCopyInto_v1beta1_MetricProviderSpec h (hbtlpMetricProvider src); out = out\<lparr>hbtlpMetricProvider := p\<rparr>;
          (p, h) = copy_ref strs new_str h (hbtlpWatcherAddress src); out = out\<lparr>hbtlpWatcherAddress := p\<rparr>
      in (out, h))"

definition DeepCopy_v1beta1_TargetLoadPackingArgs ::
  "'q go_heap \<Rightarrow> hbTargetLoadPackingArgs option \<Rightarrow> hbTargetLoadPackingArgs option \<times> 'q go_heap"
where
  "DeepCopy_v1beta1_TargetLoadPackingArgs = deep_copy_ptr DeepCopyInto_v1beta1_TargetLoadPackingArgs"

definition view_v1beta1_TargetLoadPackingArgs :: "'q go_heap \<Rightarrow> hbTargetLoadPackingArgs \<Rightarrow> 'q bTargetLoadPackingArgs" where
  "view_v1beta1_TargetLoadPackingArgs h s = \<lparr>btlpMeta = hbtlpMeta s, btlpDefaultRequests = see rmaps h (hbtlpDefaultRequests s),
     btlpDefaultRequestsMultiplier = see strs h (hbtlpDefaultRequestsMultiplier s),
     btlpTargetUtilization = see i64s h (hbtlpTargetUtilization s),
     btlpMetricProvider = view_v1beta1_MetricProviderSpec h (hbtlpMetricProvider s),
     btlpWatcherAddress = see strs h (hbtlpWatcherAddress s)\<rparr>"

definition reach_v1beta1_TargetLoadPackingArgs :: "'q go_heap \<Rightarrow> hbTargetLoadPackingArgs \<Rightarrow> addr set" where
  "reach_v1beta1_TargetLoadPackingArgs h s = ref_reach h (hbtlpDefaultRequests s) \<union> (ref_reach h (hbtlpDefaultRequestsMultiplier s) \<union> (ref_reach h (hbtlpTargetUtilization s) \<union> (reach_v1beta1_MetricProviderSpec h (hbtlpMetricProvider s) \<union> ref_reach h (hbtlpWatcherAddress s))))"

interpretation v1beta1_target_load: deep_copy DeepCopyInto_v1beta1_TargetLoadPackingArgs view_v1beta1_TargetLoadPackingArgs reach_v1beta1_TargetLoadPackingArgs
  by (rule deep_copy_struct [OF deep_copy_pair [OF rmap_ref.deep_copy_axioms
        deep_copy_pair [OF str_ref.deep_copy_axioms
        deep_copy_pair [OF i64_ref.deep_copy_axioms
        deep_copy_pair [OF v1beta1_provider.deep_copy_axioms
        str_ref.deep_copy_axioms]]]],
        where get = "\<lambda>s. (hbtlpDefaultRequests s, (hbtlpDefaultRequestsMultiplier s, (hbtlpTargetUtilization s, (hbtlpMetricProvider s, hbtlpWatcherAddress s))))" and
          put = "\<lambda>(x0, (x1, (x2, (x3, x4)))) s. s\<lparr>hbtlpDefaultRequests := x0, hbtlpDefaultRequestsMultiplier := x1, hbtlpTargetUtilization := x2, hbtlpMetricProvider := x3, hbtlpWatcherAddress := x4\<rparr>"])
    (auto simp: DeepCopyInto_v1beta1_TargetLoadPackingArgs_def view_v1beta1_TargetLoadPackingArgs_def reach_v1beta1_TargetLoadPackingArgs_def copy_pair_def Let_def
      split: prod.split)

end
