(* ===== verification/SchedulingDeepCopy.thy ===== *)
theory SchedulingDeepCopy
  imports ConfigDeepCopy SchedulingApi
begin

text \<open>
  \<^verbatim>\<open>pkg/apis/scheduling/v1alpha1/zz_generated.deepcopy.go\<close>: the deep copies of quotas and
  pod groups and of their lists, and the copy of any object of the three groups through its
  interface. Object and list metadata and times are values of apimachinery, of type \<open>'m\<close>
  where the source only copies them.
\<close>

section \<open>Quotas and pod groups\<close>

record hElasticQuotaSpec =
  hspecMin :: "addr option"
  hspecMax :: "addr option"

definition DeepCopyInto_ElasticQuotaSpec :: "'q go_heap \<Rightarrow> hElasticQuotaSpec \<Rightarrow> hElasticQuotaSpec \<times> 'q go_heap" where
  "DeepCopyInto_ElasticQuotaSpec h src =
     (let out = src;
          (p, h) = copy_rmap h (hspecMin src); out = out\<lparr>hspecMin := p\<rparr>;
          (p, h) = copy_rmap h (hspecMax src); out = out\<lparr>hspecMax := p\<rparr>
      in (out, h))"

definition DeepCopy_ElasticQuotaSpec ::
  "'q go_heap \<Rightarrow> hElasticQuotaSpec option \<Rightarrow> hElasticQuotaSpec option \<times> 'q go_heap"
where
  "DeepCopy_ElasticQuotaSpec = deep_copy_ptr DeepCopyInto_ElasticQuotaSpec"

definition view_ElasticQuotaSpec :: "'q go_heap \<Rightarrow> hElasticQuotaSpec \<Rightarrow> 'q resource_list option \<times> 'q resource_list option" where
  "view_ElasticQuotaSpec h s = (see rmaps h (hspecMin s), see rmaps h (hspecMax s))"

definition reach_ElasticQuotaSpec :: "'q go_heap \<Rightarrow> hElasticQuotaSpec \<Rightarrow> addr set" where
  "reach_ElasticQuotaSpec h s = ref_reach h (hspecMin s) \<union> ref_reach h (hspecMax s)"

interpretation quota_spec: deep_copy DeepCopyInto_ElasticQuotaSpec view_ElasticQuotaSpec reach_ElasticQuotaSpec
  by (rule deep_copy_struct [OF deep_copy_pair [OF rmap_ref.deep_copy_axioms
        rmap_ref.deep_copy_axioms],
        where get = "\<lambda>s. (hspecMin s, hspecMax s)" and
          put = "\<lambda>(x0, x1) s. s\<lparr>hspecMin := x0, hspecMax := x1\<rparr>"])
    (auto simp: DeepCopyInto_ElasticQuotaSpec_def view_ElasticQuotaSpec_def reach_ElasticQuotaSpec_def copy_pair_def Let_def
      split: prod.split)

record hElasticQuotaStatus =
  hstatUsed :: "addr option"

definition DeepCopyInto_ElasticQuotaStatus :: "'q go_heap \<Rightarrow> hElasticQuotaStatus \<Rightarrow> hElasticQuotaStatus \<times> 'q go_heap" where
  "DeepCopyInto_ElasticQuotaStatus h src =
     (let out = src;
          (p, h) = copy_rmap h (hstatUsed src); out = out\<lparr>hstatUsed := p\<rparr>
      in (out, h))"

definition DeepCopy_ElasticQuotaStatus ::
  "'q go_heap \<Rightarrow> hElasticQuotaStatus option \<Rightarrow> hElasticQuotaStatus option \<times> 'q go_heap"
where
  "DeepCopy_ElasticQuotaStatus = deep_copy_ptr DeepCopyInto_ElasticQuotaStatus"

definition view_ElasticQuotaStatus :: "'q go_heap \<Rightarrow> hElasticQuotaStatus \<Rightarrow> 'q resource_list option" where
  "view_ElasticQuotaStatus h s = see rmaps h (hstatUsed s)"

definition reach_ElasticQuotaStatus :: "'q go_heap \<Rightarrow> hElasticQuotaStatus \<Rightarrow> addr set" where
  "reach_ElasticQuotaStatus h s = ref_reach h (hstatUsed s)"

interpretation quota_status: deep_copy DeepCopyInto_ElasticQuotaStatus view_ElasticQuotaStatus reach_ElasticQuotaStatus
  by (rule deep_copy_struct [OF rmap_ref.deep_copy_axioms,
        where get = "\<lambda>s. hstatUsed s" and
          put = "\<lambda>x0 s. s\<lparr>hstatUsed := x0\<rparr>"])
    (auto simp: DeepCopyInto_ElasticQuotaStatus_def view_ElasticQuotaStatus_def reach_ElasticQuotaStatus_def copy_pair_def Let_def
      split: prod.split)

type_synonym ('q, 'm) quota_view = "type_meta \<times> 'm \<times> ('q resource_list option \<times> 'q resource_list option) \<times> 'q resource_list option"

record 'm hElasticQuota =
  heqTypeMeta :: "type_meta"
  heqObjectMeta :: "'m"
  heqSpec :: "hElasticQuotaSpec"
  heqStatus :: "hElasticQuotaStatus"

definition DeepCopyInto_ElasticQuota :: "'q go_heap \<Rightarrow> 'm hElasticQuota \<Rightarrow> 'm hElasticQuota \<times> 'q go_heap" where
  "DeepCopyInto_ElasticQuota h src =
     (let out = src;
          out = out\<lparr>heqTypeMeta := heqTypeMeta src\<rparr>;
          out = out\<lparr>heqObjectMeta := heqObjectMeta src\<rparr>;
          (p, h) = DeepCopyInto_ElasticQuotaSpec h (heqSpec src); out = out\<lparr>heqSpec := p\<rparr>;
          (p, h) = DeepCopyInto_ElasticQuotaStatus h (heqStatus src); out = out\<lparr>heqStatus := p\<rparr>
      in (out, h))"

definition DeepCopy_ElasticQuota ::
  "'q go_heap \<Rightarrow> 'm hElasticQuota option \<Rightarrow> 'm hElasticQuota option \<times> 'q go_heap"
where
  "DeepCopy_ElasticQuota = deep_copy_ptr DeepCopyInto_ElasticQuota"

definition view_ElasticQuota :: "'q go_heap \<Rightarrow> 'm hElasticQuota \<Rightarrow> ('q, 'm) quota_view" where
  "view_ElasticQuota h s = (heqTypeMeta s, heqObjectMeta s, view_ElasticQuotaSpec h (heqSpec s), view_ElasticQuotaStatus h (heqStatus s))"

definition reach_ElasticQuota :: "'q go_heap \<Rightarrow> 'm hElasticQuota \<Rightarrow> addr set" where
  "reach_ElasticQuota h s = reach_ElasticQuotaSpec h (heqSpec s) \<union> reach_ElasticQuotaStatus h (heqStatus s)"

interpretation quota: deep_copy DeepCopyInto_ElasticQuota view_ElasticQuota reach_ElasticQuota
  by (rule deep_copy_struct [OF deep_copy_pair [OF quota_spec.deep_copy_axioms
        quota_status.deep_copy_axioms],
        where get = "\<lambda>s. (heqSpec s, heqStatus s)" and
          put = "\<lambda>(x0, x1) s. s\<lparr>heqSpec := x0, heqStatus := x1\<rparr>"])
    (auto simp: DeepCopyInto_ElasticQuota_def view_ElasticQuota_def reach_ElasticQuota_def copy_pair_def Let_def
      split: prod.split)

record 'm hElasticQuotaList =
  heqlTypeMeta :: "type_meta"
  heqlListMeta :: "'m"
  heqlItems :: "'m hElasticQuota list option"

definition DeepCopyInto_ElasticQuotaList :: "'q go_heap \<Rightarrow> 'm hElasticQuotaList \<Rightarrow> 'm hElasticQuotaList \<times> 'q go_heap" where
  "DeepCopyInto_ElasticQuotaList h src =
     (let out = src;
          out = out\<lparr>heqlTypeMeta := heqlTypeMeta src\<rparr>;
          out = out\<lparr>heqlListMeta := heqlListMeta src\<rparr>;
          (p, h) = copy_slice DeepCopyInto_ElasticQuota h (heqlItems src); out = out\<lparr>heqlItems := p\<rparr>
      in (out, h))"

definition DeepCopy_ElasticQuotaList ::
  "'q go_heap \<Rightarrow> 'm hElasticQuotaList option \<Rightarrow> 'm hElasticQuotaList option \<times> 'q go_heap"
where
  "DeepCopy_ElasticQuotaList = deep_copy_ptr DeepCopyInto_ElasticQuotaList"

definition view_ElasticQuotaList :: "'q go_heap \<Rightarrow> 'm hElasticQuotaList \<Rightarrow> type_meta \<times> 'm \<times> ('q, 'm) quota_view list option" where
  "view_ElasticQuotaList h s = (heqlTypeMeta s, heqlListMeta s, map_option (map (view_ElasticQuota h)) (heqlItems s))"

definition reach_ElasticQuotaList :: "'q go_heap \<Rightarrow> 'm hElasticQuotaList \<Rightarrow> addr set" where
  "reach_ElasticQuotaList h s = slice_reach reach_ElasticQuota h (heqlItems s)"

interpretation quota_list: deep_copy DeepCopyInto_ElasticQuotaList view_ElasticQuotaList reach_ElasticQuotaList
  by (rule deep_copy_struct [OF deep_copy_slice [OF quota.deep_copy_axioms],
        where get = "\<lambda>s. heqlItems s" and
          put = "\<lambda>x0 s. s\<lparr>heqlItems := x0\<rparr>"])
    (auto simp: DeepCopyInto_ElasticQuotaList_def view_ElasticQuotaList_def reach_ElasticQuotaList_def copy_pair_def Let_def
      split: prod.split)

record hPodGroupSpec =
  hpsMinMember :: "i32"
  hpsMinResources :: "addr option"
  hpsScheduleTimeoutSeconds :: "addr option"

definition DeepCopyInto_PodGroupSpec :: "'q go_heap \<Rightarrow> hPodGroupSpec \<Rightarrow> hPodGroupSpec \<times> 'q go_heap" where
  "DeepCopyInto_PodGroupSpec h src =
     (let out = src;
          (p, h) = copy_mapvar h (hpsMinResources src); out = out\<lparr>hpsMinResources := p\<rparr>;
          (p, h) = copy_ref i32s new_i32 h (hpsScheduleTimeoutSeconds src); out = out\<lparr>hpsScheduleTimeoutSeconds := p\<rparr>
      in (out, h))"

definition DeepCopy_PodGroupSpec ::
  "'q go_heap \<Rightarrow> hPodGroupSpec option \<Rightarrow> hPodGroupSpec option \<times> 'q go_heap"
where
  "DeepCopy_PodGroupSpec = deep_copy_ptr DeepCopyInto_PodGroupSpec"

definition view_PodGroupSpec :: "'q go_heap \<Rightarrow> hPodGroupSpec \<Rightarrow> i32 \<times> 'q resource_list option option \<times> i32 option" where
  "view_PodGroupSpec h s = (hpsMinMember s, see see_mapvar h (hpsMinResources s), see i32s h (hpsScheduleTimeoutSeconds s))"

definition reach_PodGroupSpec :: "'q go_heap \<Rightarrow> hPodGroupSpec \<Rightarrow> addr set" where
  "reach_PodGroupSpec h s = mapvar_reach h (hpsMinResources s) \<union> ref_reach h (hpsScheduleTimeoutSeconds s)"

interpretation group_spec: deep_copy DeepCopyInto_PodGroupSpec view_PodGroupSpec reach_PodGroupSpec
  by (rule deep_copy_struct [OF deep_copy_pair [OF mapvar_ref.deep_copy_axioms
        i32_ref.deep_copy_axioms],
        where get = "\<lambda>s. (hpsMinResources s, hpsScheduleTimeoutSeconds s)" and
          put = "\<lambda>(x0, x1) s. s\<lparr>hpsMinResources := x0, hpsScheduleTimeoutSeconds := x1\<rparr>"])
    (auto simp: DeepCopyInto_PodGroupSpec_def view_PodGroupSpec_def reach_PodGroupSpec_def copy_pair_def Let_def
      split: prod.split)

definition DeepCopyInto_PodGroupStatus :: "'q go_heap \<Rightarrow> pg_status \<Rightarrow> pg_status \<times> 'q go_heap" where
  "DeepCopyInto_PodGroupStatus h src =
     (let out = src;
          out = out\<lparr>ScheduleStartTime := ScheduleStartTime src\<rparr>
      in (out, h))"

definition DeepCopy_PodGroupStatus ::
  "'q go_heap \<Rightarrow> pg_status option \<Rightarrow> pg_status option \<times> 'q go_heap"
where
  "DeepCopy_PodGroupStatus = deep_copy_ptr DeepCopyInto_PodGroupStatus"

definition view_PodGroupStatus :: "'q go_heap \<Rightarrow> pg_status \<Rightarrow> pg_status" where
  "view_PodGroupStatus h s = s"

definition reach_PodGroupStatus :: "'q go_heap \<Rightarrow> pg_status \<Rightarrow> addr set" where
  "reach_PodGroupStatus h s = {}"

interpretation group_status: deep_copy DeepCopyInto_PodGroupStatus view_PodGroupStatus reach_PodGroupStatus
  by unfold_locales (simp_all add: copied_def DeepCopyInto_PodGroupStatus_def view_PodGroupStatus_def reach_PodGroupStatus_def)

type_synonym ('q, 'm) group_view =
  "type_meta \<times> 'm \<times> (i32 \<times> 'q resource_list option option \<times> i32 option) \<times> pg_status"

record 'm hPodGroup =
  hpgTypeMeta :: "type_meta"
  hpgObjectMeta :: "'m"
  hpgSpec :: "hPodGroupSpec"
  hpgStatus :: "pg_status"

definition DeepCopyInto_PodGroup :: "'q go_heap \<Rightarrow> 'm hPodGroup \<Rightarrow> 'm hPodGroup \<times> 'q go_heap" where
  "DeepCopyInto_PodGroup h src =
     (let out = src;
          out = out\<lparr>hpgTypeMeta := hpgTypeMeta src\<rparr>;
          out = out\<lparr>hpgObjectMeta := hpgObjectMeta src\<rparr>;
          (p, h) = DeepCopyInto_PodGroupSpec h (hpgSpec src); out = out\<lparr>hpgSpec := p\<rparr>;
          (p, h) = DeepCopyInto_PodGroupStatus h (hpgStatus src); out = out\<lparr>hpgStatus := p\<rparr>
      in (out, h))"

definition DeepCopy_PodGroup ::
  "'q go_heap \<Rightarrow> 'm hPodGroup option \<Rightarrow> 'm hPodGroup option \<times> 'q go_heap"
where
  "DeepCopy_PodGroup = deep_copy_ptr DeepCopyInto_PodGroup"

definition view_PodGroup :: "'q go_heap \<Rightarrow> 'm hPodGroup \<Rightarrow> ('q, 'm) group_view" where
  "view_PodGroup h s = (hpgTypeMeta s, hpgObjectMeta s, view_PodGroupSpec h (hpgSpec s), view_PodGroupStatus h (hpgStatus s))"

definition reach_PodGroup :: "'q go_heap \<Rightarrow> 'm hPodGroup \<Rightarrow> addr set" where
  "reach_PodGroup h s = reach_PodGroupSpec h (hpgSpec s) \<union> reach_PodGroupStatus h (hpgStatus s)"

interpretation pod_group: deep_copy DeepCopyInto_PodGroup view_PodGroup reach_PodGroup
  by (rule deep_copy_struct [OF deep_copy_pair [OF group_spec.deep_copy_axioms
        group_status.deep_copy_axioms],
        where get = "\<lambda>s. (hpgSpec s, hpgStatus s)" and
          put = "\<lambda>(x0, x1) s. s\<lparr>hpgSpec := x0, hpgStatus := x1\<rparr>"])
    (auto simp: DeepCopyInto_PodGroup_def view_PodGroup_def reach_PodGroup_def copy_pair_def Let_def
      split: prod.split)

record 'm hPodGroupList =
  hpglTypeMeta :: "type_meta"
  hpglListMeta :: "'m"
  hpglItems :: "'m hPodGroup list option"

definition DeepCopyInto_PodGroupList :: "'q go_heap \<Rightarrow> 'm hPodGroupList \<Rightarrow> 'm hPodGroupList \<times> 'q go_heap" where
  "DeepCopyInto_PodGroupList h src =
     (let out = src;
          out = out\<lparr>hpglTypeMeta := hpglTypeMeta src\<rparr>;
          out = out\<lparr>hpglListMeta := hpglListMeta src\<rparr>;
          (p, h) = copy_slice DeepCopyInto_PodGroup h (hpglItems src); out = out\<lparr>hpglItems := p\<rparr>
      in (out, h))"

definition DeepCopy_PodGroupList ::
  "'q go_heap \<Rightarrow> 'm hPodGroupList option \<Rightarrow> 'm hPodGroupList option \<times> 'q go_heap"
where
  "DeepCopy_PodGroupList = deep_copy_ptr DeepCopyInto_PodGroupList"

definition view_PodGroupList :: "'q go_heap \<Rightarrow> 'm hPodGroupList \<Rightarrow> type_meta \<times> 'm \<times> ('q, 'm) group_view list option" where
  "view_PodGroupList h s = (hpglTypeMeta s, hpglListMeta s, map_option (map (view_PodGroup h)) (hpglItems s))"

definition reach_PodGroupList :: "'q go_heap \<Rightarrow> 'm hPodGroupList \<Rightarrow> addr set" where
  "reach_PodGroupList h s = slice_reach reach_PodGroup h (hpglItems s)"

interpretation group_list: deep_copy DeepCopyInto_PodGroupList view_PodGroupList reach_PodGroupList
  by (rule deep_copy_struct [OF deep_copy_slice [OF pod_group.deep_copy_axioms],
        where get = "\<lambda>s. hpglItems s" and
          put = "\<lambda>x0 s. s\<lparr>hpglItems := x0\<rparr>"])
    (auto simp: DeepCopyInto_PodGroupList_def view_PodGroupList_def reach_PodGroupList_def copy_pair_def Let_def
      split: prod.split)

section \<open>Objects\<close>

text \<open>A pointer in an interface \<^verbatim>\<open>runtime.Object\<close>.\<close>

datatype 'm h_object =
    HCapacity CapacitySchedulingArgs
  | HCoscheduling CoschedulingArgs
  | HLoadVariation LoadVariationRiskBalancingArgs
  | HNodeResources hNodeResourcesAllocatableArgs
  | HTargetLoad hTargetLoadPackingArgs
  | HbCapacity hbCapacitySchedulingArgs
  | HbCoscheduling hbCoschedulingArgs
  | HbLoadVariation hbLoadVariationRiskBalancingArgs
  | HbNodeResources hbNodeResourcesAllocatableArgs
  | HbTargetLoad hbTargetLoadPackingArgs
  | HElasticQuota "'m hElasticQuota"
  | HElasticQuotaList "'m hElasticQuotaList"
  | HPodGroup "'m hPodGroup"
  | HPodGroupList "'m hPodGroupList"

definition DeepCopyObject_config_CapacitySchedulingArgs ::
  "'q go_heap \<Rightarrow> CapacitySchedulingArgs option \<Rightarrow> 'm h_object option \<times> 'q go_heap"
where
  "DeepCopyObject_config_CapacitySchedulingArgs h src =
     (case DeepCopy_config_CapacitySchedulingArgs h src of (None, h) \<Rightarrow> (None, h) | (Some c, h) \<Rightarrow> (Some (HCapacity c), h))"

definition DeepCopyObject_config_CoschedulingArgs ::
  "'q go_heap \<Rightarrow> CoschedulingArgs option \<Rightarrow> 'm h_object option \<times> 'q go_heap"
where
  "DeepCopyObject_config_CoschedulingArgs h src =
     (case DeepCopy_config_CoschedulingArgs h src of (None, h) \<Rightarrow> (None, h) | (Some c, h) \<Rightarrow> (Some (HCoscheduling c), h))"

definition DeepCopyObject_config_LoadVariationRiskBalancingArgs ::
  "'q go_heap \<Rightarrow> LoadVariationRiskBalancingArgs option \<Rightarrow> 'm h_object option \<times> 'q go_heap"
where
  "DeepCopyObject_config_LoadVariationRiskBalancingArgs h src =
     (case DeepCopy_config_LoadVariationRiskBalancingArgs h src of (None, h) \<Rightarrow> (None, h) | (Some c, h) \<Rightarrow> (Some (HLoadVariation c), h))"

definition DeepCopyObject_config_NodeResourcesAllocatableArgs ::
  "'q go_heap \<Rightarrow> hNodeResourcesAllocatableArgs option \<Rightarrow> 'm h_object option \<times> 'q go_heap"
where
  "DeepCopyObject_config_NodeResourcesAllocatableArgs h src =
     (case DeepCopy_config_NodeResourcesAllocatableArgs h src of (None, h) \<Rightarrow> (None, h) | (Some c, h) \<Rightarrow> (Some (HNodeResources c), h))"

definition DeepCopyObject_config_TargetLoadPackingArgs ::
  "'q go_heap \<Rightarrow> hTargetLoadPackingArgs option \<Rightarrow> 'm h_object option \<times> 'q go_heap"
where
  "DeepCopyObject_config_TargetLoadPackingArgs h src =
     (case DeepCopy_config_TargetLoadPackingArgs h src of (None, h) \<Rightarrow> (None, h) | (Some c, h) \<Rightarrow> (Some (HTargetLoad c), h))"

definition DeepCopyObject_v1beta1_CapacitySchedulingArgs ::
  "'q go_heap \<Rightarrow> hbCapacitySchedulingArgs option \<Rightarrow> 'm h_object option \<times> 'q go_heap"
where
  "DeepCopyObject_v1beta1_CapacitySchedulingArgs h src =
     (case DeepCopy_v1beta1_CapacitySchedulingArgs h src of (None, h) \<Rightarrow> (None, h) | (Some c, h) \<Rightarrow> (Some (HbCapacity c), h))"

definition DeepCopyObject_v1beta1_CoschedulingArgs ::
  "'q go_heap \<Rightarrow> hbCoschedulingArgs option \<Rightarrow> 'm h_object option \<times> 'q go_heap"
where
  "DeepCopyObject_v1beta1_CoschedulingArgs h src =
     (case DeepCopy_v1beta1_CoschedulingArgs h src of (None, h) \<Rightarrow> (None, h) | (Some c, h) \<Rightarrow> (Some (HbCoscheduling c), h))"

definition DeepCopyObject_v1beta1_LoadVariationRiskBalancingArgs ::
  "'q go_heap \<Rightarrow> hbLoadVariationRiskBalancingArgs option \<Rightarrow> 'm h_object option \<times> 'q go_heap"
where
  "DeepCopyObject_v1beta1_LoadVariationRiskBalancingArgs h src =
     (case DeepCopy_v1beta1_LoadVariationRiskBalancingArgs h src of (None, h) \<Rightarrow> (None, h) | (Some c, h) \<Rightarrow> (Some (HbLoadVariation c), h))"

definition DeepCopyObject_v1beta1_NodeResourcesAllocatableArgs ::
  "'q go_heap \<Rightarrow> hbNodeResourcesAllocatableArgs option \<Rightarrow> 'm h_object option \<times> 'q go_heap"
where
  "DeepCopyObject_v1beta1_NodeResourcesAllocatableArgs h src =
     (case DeepCopy_v1beta1_NodeResourcesAllocatableArgs h src of (None, h) \<Rightarrow> (None, h) | (Some c, h) \<Rightarrow> (Some (HbNodeResources c), h))"

definition DeepCopyObject_v1beta1_TargetLoadPackingArgs ::
  "'q go_heap \<Rightarrow> hbTargetLoadPackingArgs option \<Rightarrow> 'm h_object option \<times> 'q go_heap"
where
  "DeepCopyObject_v1beta1_TargetLoadPackingArgs h src =
     (case DeepCopy_v1beta1_TargetLoadPackingArgs h src of (None, h) \<Rightarrow> (None, h) | (Some c, h) \<Rightarrow> (Some (HbTargetLoad c), h))"

definition DeepCopyObject_ElasticQuota ::
  "'q go_heap \<Rightarrow> 'm hElasticQuota option \<Rightarrow> 'm h_object option \<times> 'q go_heap"
where
  "DeepCopyObject_ElasticQuota h src =
     (case DeepCopy_ElasticQuota h src of (None, h) \<Rightarrow> (None, h) | (Some c, h) \<Rightarrow> (Some (HElasticQuota c), h))"

definition DeepCopyObject_ElasticQuotaList ::
  "'q go_heap \<Rightarrow> 'm hElasticQuotaList option \<Rightarrow> 'm h_object option \<times> 'q go_heap"
where
  "DeepCopyObject_ElasticQuotaList h src =
     (case DeepCopy_ElasticQuotaList h src of (None, h) \<Rightarrow> (None, h) | (Some c, h) \<Rightarrow> (Some (HElasticQuotaList c), h))"

definition DeepCopyObject_PodGroup ::
  "'q go_heap \<Rightarrow> 'm hPodGroup option \<Rightarrow> 'm h_object option \<times> 'q go_heap"
where
  "DeepCopyObject_PodGroup h src =
     (case DeepCopy_PodGroup h src of (None, h) \<Rightarrow> (None, h) | (Some c, h) \<Rightarrow> (Some (HPodGroup c), h))"

definition DeepCopyObject_PodGroupList ::
  "'q go_heap \<Rightarrow> 'm hPodGroupList option \<Rightarrow> 'm h_object option \<times> 'q go_heap"
where
  "DeepCopyObject_PodGroupList h src =
     (case DeepCopy_PodGroupList h src of (None, h) \<Rightarrow> (None, h) | (Some c, h) \<Rightarrow> (Some (HPodGroupList c), h))"

text \<open>The method call on an interface value.\<close>

fun DeepCopyObject :: "'q go_heap \<Rightarrow> 'm h_object \<Rightarrow> 'm h_object option \<times> 'q go_heap" where
  "DeepCopyObject h (HCapacity a) = DeepCopyObject_config_CapacitySchedulingArgs h (Some a)"
| "DeepCopyObject h (HCoscheduling a) = DeepCopyObject_config_CoschedulingArgs h (Some a)"
| "DeepCopyObject h (HLoadVariation a) = DeepCopyObject_config_LoadVariationRiskBalancingArgs h (Some a)"
| "DeepCopyObject h (HNodeResources a) = DeepCopyObject_config_NodeResourcesAllocatableArgs h (Some a)"
| "DeepCopyObject h (HTargetLoad a) = DeepCopyObject_config_TargetLoadPackingArgs h (Some a)"
| "DeepCopyObject h (HbCapacity a) = DeepCopyObject_v1beta1_CapacitySchedulingArgs h (Some a)"
| "DeepCopyObject h (HbCoscheduling a) = DeepCopyObject_v1beta1_CoschedulingArgs h (Some a)"
| "DeepCopyObject h (HbLoadVariation a) = DeepCopyObject_v1beta1_LoadVariationRiskBalancingArgs h (Some a)"
| "DeepCopyObject h (HbNodeResources a) = DeepCopyObject_v1beta1_NodeResourcesAllocatableArgs h (Some a)"
| "DeepCopyObject h (HbTargetLoad a) = DeepCopyObject_v1beta1_TargetLoadPackingArgs h (Some a)"
| "DeepCopyObject h (HElasticQuota a) = DeepCopyObject_ElasticQuota h (Some a)"
| "DeepCopyObject h (HElasticQuotaList a) = DeepCopyObject_ElasticQuotaList h (Some a)"
| "DeepCopyObject h (HPodGroup a) = DeepCopyObject_PodGroup h (Some a)"
| "DeepCopyObject h (HPodGroupList a) = DeepCopyObject_PodGroupList h (Some a)"

text \<open>What an object shows, and the addresses it refers to.\<close>

datatype ('q, 'm) object_view =
    ViewInternal "'q runtime_object"
  | ViewVersioned "'q versioned_object"
  | ViewQuota "('q, 'm) quota_view"
  | ViewQuotas "type_meta \<times> 'm \<times> ('q, 'm) quota_view list option"
  | ViewGroup "('q, 'm) group_view"
  | ViewGroups "type_meta \<times> 'm \<times> ('q, 'm) group_view list option"

fun view_object :: "'q go_heap \<Rightarrow> 'm h_object \<Rightarrow> ('q, 'm) object_view" where
  "view_object h (HCapacity a) = ViewInternal (ObjCapacity (view_config_CapacitySchedulingArgs h a))"
| "view_object h (HCoscheduling a) = ViewInternal (ObjCoscheduling (view_config_CoschedulingArgs h a))"
| "view_object h (HLoadVariation a) = ViewInternal (ObjLoadVariation (view_config_LoadVariationRiskBalancingArgs h a))"
| "view_object h (HNodeResources a) = ViewInternal (ObjNodeResources (view_config_NodeResourcesAllocatableArgs h a))"
| "view_object h (HTargetLoad a) = ViewInternal (ObjTargetLoad (view_config_TargetLoadPackingArgs h a))"
| "view_object h (HbCapacity a) = ViewVersioned (VCapacity (view_v1beta1_CapacitySchedulingArgs h a))"
| "view_object h (HbCoscheduling a) = ViewVersioned (VCoscheduling (view_v1beta1_CoschedulingArgs h a))"
| "view_object h (HbLoadVariation a) = ViewVersioned (VLoadVariation (view_v1beta1_LoadVariationRiskBalancingArgs h a))"
| "view_object h (HbNodeResources a) = ViewVersioned (VNodeResources (view_v1beta1_NodeResourcesAllocatableArgs h a))"
| "view_object h (HbTargetLoad a) = ViewVersioned (VTargetLoad (view_v1beta1_TargetLoadPackingArgs h a))"
| "view_object h (HElasticQuota a) = ViewQuota (view_ElasticQuota h a)"
| "view_object h (HElasticQuotaList a) = ViewQuotas (view_ElasticQuotaList h a)"
| "view_object h (HPodGroup a) = ViewGroup (view_PodGroup h a)"
| "view_object h (HPodGroupList a) = ViewGroups (view_PodGroupList h a)"

fun reach_object :: "'q go_heap \<Rightarrow> 'm h_object \<Rightarrow> addr set" where
  "reach_object h (HCapacity a) = reach_config_CapacitySchedulingArgs h a"
| "reach_object h (HCoscheduling a) = reach_config_CoschedulingArgs h a"
| "reach_object h (HLoadVariation a) = reach_config_LoadVariationRiskBalancingArgs h a"
| "reach_object h (HNodeResources a) = reach_config_NodeResourcesAllocatableArgs h a"
| "reach_object h (HTargetLoad a) = reach_config_TargetLoadPackingArgs h a"
| "reach_object h (HbCapacity a) = reach_v1beta1_CapacitySchedulingArgs h a"
| "reach_object h (HbCoscheduling a) = reach_v1beta1_CoschedulingArgs h a"
| "reach_object h (HbLoadVariation a) = reach_v1beta1_LoadVariationRiskBalancingArgs h a"
| "reach_object h (HbNodeResources a) = reach_v1beta1_NodeResourcesAllocatableArgs h a"
| "reach_object h (HbTargetLoad a) = reach_v1beta1_TargetLoadPackingArgs h a"
| "reach_object h (HElasticQuota a) = reach_ElasticQuota h a"
| "reach_object h (HElasticQuotaList a) = reach_ElasticQuotaList h a"
| "reach_object h (HPodGroup a) = reach_PodGroup h a"
| "reach_object h (HPodGroupList a) = reach_PodGroupList h a"

lemmas object_copies =
  DeepCopyObject_config_CapacitySchedulingArgs_def DeepCopy_config_CapacitySchedulingArgs_def
  DeepCopyObject_config_CoschedulingArgs_def DeepCopy_config_CoschedulingArgs_def
  DeepCopyObject_config_LoadVariationRiskBalancingArgs_def DeepCopy_config_LoadVariationRiskBalancingArgs_def
  DeepCopyObject_config_NodeResourcesAllocatableArgs_def DeepCopy_config_NodeResourcesAllocatableArgs_def
  DeepCopyObject_config_TargetLoadPackingArgs_def DeepCopy_config_TargetLoadPackingArgs_def
  DeepCopyObject_v1beta1_CapacitySchedulingArgs_def DeepCopy_v1beta1_CapacitySchedulingArgs_def
  DeepCopyObject_v1beta1_CoschedulingArgs_def DeepCopy_v1beta1_CoschedulingArgs_def
  DeepCopyObject_v1beta1_LoadVariationRiskBalancingArgs_def DeepCopy_v1beta1_LoadVariationRiskBalancingArgs_def
  DeepCopyObject_v1beta1_NodeResourcesAllocatableArgs_def DeepCopy_v1beta1_NodeResourcesAllocatableArgs_def
  DeepCopyObject_v1beta1_TargetLoadPackingArgs_def DeepCopy_v1beta1_TargetLoadPackingArgs_def
  DeepCopyObject_ElasticQuota_def DeepCopy_ElasticQuota_def
  DeepCopyObject_ElasticQuotaList_def DeepCopy_ElasticQuotaList_def
  DeepCopyObject_PodGroup_def DeepCopy_PodGroup_def
  DeepCopyObject_PodGroupList_def DeepCopy_PodGroupList_def

end
