(* ===== verification/DeepCopyProperties.thy ===== *)
theory DeepCopyProperties
  imports SchedulingDeepCopy
begin

text \<open>
  What the generated deep copies promise, for every object of the three API groups at once:
  the instances of the contract \<open>deep_copy\<close> give the facts of each type.
\<close>

text \<open>A copy of an object: equal contents in new cells, and no write through one of the two shows in the
  other.\<close>

definition copied_object :: "'q go_heap \<Rightarrow> 'm h_object \<Rightarrow> 'm h_object \<Rightarrow> 'q go_heap \<Rightarrow> bool" where
  "copied_object h obj c k \<longleftrightarrow> grown h k \<and> heap_ok k \<and> view_object k c = view_object h obj \<and>
     reach_object k c \<subseteq> {lim h..<lim k} \<and>
     (\<forall>m. agree (- reach_object k obj) k m \<longrightarrow> view_object m c = view_object h obj) \<and>
     (\<forall>m. agree (- reach_object k c) k m \<longrightarrow> view_object m obj = view_object h obj)"

text \<open>From the contract of one type to the object in the interface.\<close>

lemma object_copy:
  assumes "deep_copy into view reach" and "heap_ok h" and "reach h s \<subseteq> {..<lim h}"
    and "\<And>m. DeepCopyObject m (con s) = (case into m s of (t, k) \<Rightarrow> (Some (con t), k))"
    and "\<And>m t. view_object m (con t) = vcon (view m t)" and "\<And>m t. reach_object m (con t) = reach m t"
  shows "\<exists>c k. DeepCopyObject h (con s) = (Some c, k) \<and> copied_object h (con s) c k"
proof -
  obtain t k where t: "into h s = (t, k)" by fastforce
  note f = deep_copy.copy_facts [OF assms(1-3) t]
  note i = deep_copy.independent [OF assms(1-3) t]
  show ?thesis unfolding copied_object_def
    by (rule exI [of _ "con t"], rule exI [of _ k]) (use f i in \<open>simp add: assms(4-6) t\<close>)
qed

lemmas object_simps = object_copies deep_copy_ptr_def

definition internal_kind :: "'m h_object \<Rightarrow> bool" where
  "internal_kind obj \<longleftrightarrow> (\<exists>a. obj = HCapacity a) \<or>
     (\<exists>a. obj = HCoscheduling a) \<or>
     (\<exists>a. obj = HLoadVariation a) \<or>
     (\<exists>a. obj = HNodeResources a) \<or>
     (\<exists>a. obj = HTargetLoad a)"

lemma internal_copy:
  assumes "heap_ok h" and "reach_object h obj \<subseteq> {..<lim h}"
    and "internal_kind obj"
  shows "\<exists>c k. DeepCopyObject h obj = (Some c, k) \<and> copied_object h obj c k"
  using assms(3)
proof (unfold internal_kind_def, elim disjE exE)
  fix a assume o: "obj = HCapacity a"
  show ?thesis unfolding o
    by (rule object_copy [OF config_capacity.deep_copy_axioms assms(1), where vcon = "\<lambda>v. ViewInternal (ObjCapacity v)"])
      (use assms(2) o in \<open>simp_all add: object_simps split: prod.split\<close>)
next
  fix a assume o: "obj = HCoscheduling a"
  show ?thesis unfolding o
    by (rule object_copy [OF config_coscheduling.deep_copy_axioms assms(1), where vcon = "\<lambda>v. ViewInternal (ObjCoscheduling v)"])
      (use assms(2) o in \<open>simp_all add: object_simps split: prod.split\<close>)
next
  fix a assume o: "obj = HLoadVariation a"
  show ?thesis unfolding o
    by (rule object_copy [OF config_load_variation.deep_copy_axioms assms(1), where vcon = "\<lambda>v. ViewInternal (ObjLoadVariation v)"])
      (use assms(2) o in \<open>simp_all add: object_simps split: prod.split\<close>)
next
  fix a assume o: "obj = HNodeResources a"
  show ?thesis unfolding o
    by (rule object_copy [OF config_node_resources.deep_copy_axioms assms(1), where vcon = "\<lambda>v. ViewInternal (ObjNodeResources v)"])
      (use assms(2) o in \<open>simp_all add: object_simps split: prod.split\<close>)
next
  fix a assume o: "obj = HTargetLoad a"
  show ?thesis unfolding o
    by (rule object_copy [OF config_target_load.deep_copy_axioms assms(1), where vcon = "\<lambda>v. ViewInternal (ObjTargetLoad v)"])
      (use assms(2) o in \<open>simp_all add: object_simps split: prod.split\<close>)
qed

definition versioned_kind :: "'m h_object \<Rightarrow> bool" where
  "versioned_kind obj \<longleftrightarrow> (\<exists>a. obj = HbCapacity a) \<or>
     (\<exists>a. obj = HbCoscheduling a) \<or>
     (\<exists>a. obj = HbLoadVariation a) \<or>
     (\<exists>a. obj = HbNodeResources a) \<or>
     (\<exists>a. obj = HbTargetLoad a)"

lemma versioned_copy:
  assumes "heap_ok h" and "reach_object h obj \<subseteq> {..<lim h}"
    and "versioned_kind obj"
  shows "\<exists>c k. DeepCopyObject h obj = (Some c, k) \<and> copied_object h obj c k"
  using assms(3)
proof (unfold versioned_kind_def, elim disjE exE)
  fix a assume o: "obj = HbCapacity a"
  show ?thesis unfolding o
    by (rule object_copy [OF v1beta1_capacity.deep_copy_axioms assms(1), where vcon = "\<lambda>v. ViewVersioned (VCapacity v)"])
      (use assms(2) o in \<open>simp_all add: object_simps split: prod.split\<close>)
next
  fix a assume o: "obj = HbCoscheduling a"
  show ?thesis unfolding o
    by (rule object_copy [OF v1beta1_coscheduling.deep_copy_axioms assms(1), where vcon = "\<lambda>v. ViewVersioned (VCoscheduling v)"])
      (use assms(2) o in \<open>simp_all add: object_simps split: prod.split\<close>)
next
  fix a assume o: "obj = HbLoadVariation a"
  show ?thesis unfolding o
    by (rule object_copy [OF v1beta1_load_variation.deep_copy_axioms assms(1), where vcon = "\<lambda>v. ViewVersioned (VLoadVariation v)"])
      (use assms(2) o in \<open>simp_all add: object_simps split: prod.split\<close>)
next
  fix a assume o: "obj = HbNodeResources a"
  show ?thesis unfolding o
    by (rule object_copy [OF v1beta1_node_resources.deep_copy_axioms assms(1), where vcon = "\<lambda>v. ViewVersioned (VNodeResources v)"])
      (use assms(2) o in \<open>simp_all add: object_simps split: prod.split\<close>)
next
  fix a assume o: "obj = HbTargetLoad a"
  show ?thesis unfolding o
    by (rule object_copy [OF v1beta1_target_load.deep_copy_axioms assms(1), where vcon = "\<lambda>v. ViewVersioned (VTargetLoad v)"])
      (use assms(2) o in \<open>simp_all add: object_simps split: prod.split\<close>)
qed

definition scheduling_kind :: "'m h_object \<Rightarrow> bool" where
  "scheduling_kind obj \<longleftrightarrow> (\<exists>a. obj = HElasticQuota a) \<or>
     (\<exists>a. obj = HElasticQuotaList a) \<or>
     (\<exists>a. obj = HPodGroup a) \<or>
     (\<exists>a. obj = HPodGroupList a)"

lemma scheduling_copy:
  assumes "heap_ok h" and "reach_object h obj \<subseteq> {..<lim h}"
    and "scheduling_kind obj"
  shows "\<exists>c k. DeepCopyObject h obj = (Some c, k) \<and> copied_object h obj c k"
  using assms(3)
proof (unfold scheduling_kind_def, elim disjE exE)
  fix a assume o: "obj = HElasticQuota a"
  show ?thesis unfolding o
    by (rule object_copy [OF quota.deep_copy_axioms assms(1), where vcon = ViewQuota])
      (use assms(2) o in \<open>simp_all add: object_simps split: prod.split\<close>)
next
  fix a assume o: "obj = HElasticQuotaList a"
  show ?thesis unfolding o
    by (rule object_copy [OF quota_list.deep_copy_axioms assms(1), where vcon = ViewQuotas])
      (use assms(2) o in \<open>simp_all add: object_simps split: prod.split\<close>)
next
  fix a assume o: "obj = HPodGroup a"
  show ?thesis unfolding o
    by (rule object_copy [OF pod_group.deep_copy_axioms assms(1), where vcon = ViewGroup])
      (use assms(2) o in \<open>simp_all add: object_simps split: prod.split\<close>)
next
  fix a assume o: "obj = HPodGroupList a"
  show ?thesis unfolding o
    by (rule object_copy [OF group_list.deep_copy_axioms assms(1), where vcon = ViewGroups])
      (use assms(2) o in \<open>simp_all add: object_simps split: prod.split\<close>)
qed

lemma kinds: "internal_kind obj \<or> versioned_kind obj \<or> scheduling_kind obj"
  by (cases obj) (simp_all add: internal_kind_def versioned_kind_def scheduling_kind_def)


text \<open>A quota whose Min is the map at address 0.\<close>

definition demo_go_heap :: "int go_heap" where
  "demo_go_heap = empty_heap\<lparr>rmaps := (\<lambda>_. [(''cpu'', 1000)]), lim := 1\<rparr>"

definition demo_h_quota :: "string h_object" where
  "demo_h_quota = HElasticQuota \<lparr>heqTypeMeta = \<lparr>Kind = ''ElasticQuota'', APIVersion = ''''\<rparr>, heqObjectMeta = ''quota1'',
     heqSpec = \<lparr>hspecMin = Some 0, hspecMax = None\<rparr>, heqStatus = \<lparr>hstatUsed = None\<rparr>\<rparr>"


end
