(* ===== verification/GeneratedClient.thy ===== *)
theory GeneratedClient
  imports PodGroupController GoFloat
begin

text \<open>
  The typed client generated for the scheduling API group under
  \<^verbatim>\<open>pkg/generated/clientset/versioned\<close>. The source builds a request by a chain of calls on the
  REST client of client-go (\<^verbatim>\<open>Get().Namespace(ns).Resource(r)...\<close>) and sends it with
  \<^verbatim>\<open>Do(ctx).Into(result)\<close>, \<^verbatim>\<open>Do(ctx).Error()\<close> or \<^verbatim>\<open>Watch(ctx)\<close>. The REST client is not part of the
  program: a chain is the list of its calls, and the three ways of sending one are parameters
  over a world \<open>'w\<close>, the state of the connection and the server. \<^verbatim>\<open>Into\<close> gets the
  zero object the source allocates and gives back what it left in it. The contexts, which the
  program leaves without deadline, are left out, and so are the fields of
  \<^verbatim>\<open>ListOptions\<close> that the program does not touch; the other option structs are only passed on.
\<close>

section \<open>Requests\<close>

record list_options =
  LabelSelector :: string
  FieldSelector :: string
  WatchFlag :: bool
  TimeoutSeconds :: "i64 option"

datatype 'opt params = Options 'opt | ListParams list_options

datatype ('q, 'opt) payload =
    PodGroupBody "'q pod_group"
  | ElasticQuotaBody "'q elastic_quota"
  | OptionsBody 'opt
  | DataBody string

datatype ('q, 'opt) rest_call =
    RGet | RPost | RPut | RDelete | RPatch string
  | RNamespace string
  | RResource string
  | RName string
  | RSubResource "string list"
  | RVersionedParams "'opt params"
  | RTimeout i64
  | RBody "('q, 'opt) payload"

type_synonym ('q, 'opt) rest_request = "('q, 'opt) rest_call list"

text \<open>\<^verbatim>\<open>Do(ctx).Into(result)\<close>, \<^verbatim>\<open>Do(ctx).Error()\<close> and \<^verbatim>\<open>Watch(ctx)\<close>.\<close>

type_synonym ('q, 'opt, 'w, 'o) send_into =
  "'w \<Rightarrow> ('q, 'opt) rest_request \<Rightarrow> 'o \<Rightarrow> ('o \<times> error option) \<times> 'w"
type_synonym ('q, 'opt, 'w) send_error =
  "'w \<Rightarrow> ('q, 'opt) rest_request \<Rightarrow> error option \<times> 'w"
type_synonym ('q, 'opt, 'w, 'ch) send_watch =
  "'w \<Rightarrow> ('q, 'opt) rest_request \<Rightarrow> (error + 'ch) \<times> 'w"

text \<open>The zero objects, \<^verbatim>\<open>&v1alpha1.PodGroup{}\<close> and the like; of the lists, the items.\<close>

definition zero_PodGroup :: "'q pod_group" where
  "zero_PodGroup = \<lparr>pgName = '''', pgNamespace = '''', pgCreation = 0,
     pgSpec = \<lparr>MinMember = 0, MinResources = None, ScheduleTimeoutSeconds = None\<rparr>,
     pgStatus = \<lparr>Phase = '''', OccupiedBy = '''', Scheduled = 0, Running = 0, Succeeded = 0, Failed = 0,
       ScheduleStartTime = 0\<rparr>\<rparr>"

definition zero_ElasticQuota :: "'q elastic_quota" where
  "zero_ElasticQuota = \<lparr>eqObjName = '''', eqObjNamespace = '''', eqSpec = \<lparr>specMin = [], specMax = []\<rparr>,
     eqStatus = \<lparr>statUsed = []\<rparr>\<rparr>"

text \<open>\<^verbatim>\<open>time.Duration(*opts.TimeoutSeconds) * time.Second\<close>, on 64 bits.\<close>

definition list_timeout :: "list_options \<Rightarrow> i64" where
  "list_timeout opts = (case TimeoutSeconds opts of None \<Rightarrow> 0 | Some s \<Rightarrow> s * Second)"

section \<open>The PodGroup client\<close>

record podGroups_client = podGroupsNs :: string

definition newPodGroups :: "string \<Rightarrow> podGroups_client" where
  "newPodGroups namespace = \<lparr>podGroupsNs = namespace\<rparr>"

definition podGroups_Get ::
  "('q, 'opt, 'w, 'q pod_group) send_into \<Rightarrow> podGroups_client \<Rightarrow> 'w \<Rightarrow>
   string \<Rightarrow> 'opt \<Rightarrow> ('q pod_group \<times> error option) \<times> 'w"
where
  "podGroups_Get Into c w name options =
     Into w [RGet, RNamespace (podGroupsNs c), RResource ''podgroups'', RName name,
       RVersionedParams (Options options)] zero_PodGroup"

definition podGroups_List ::
  "('q, 'opt, 'w, 'q pod_group list) send_into \<Rightarrow> podGroups_client \<Rightarrow> 'w \<Rightarrow>
   list_options \<Rightarrow> ('q pod_group list \<times> error option) \<times> 'w"
where
  "podGroups_List Into c w opts =
     Into w [RGet, RNamespace (podGroupsNs c), RResource ''podgroups'', RVersionedParams (ListParams opts),
       RTimeout (list_timeout opts)] []"

definition podGroups_Watch ::
  "('q, 'opt, 'w, 'ch) send_watch \<Rightarrow> podGroups_client \<Rightarrow> 'w \<Rightarrow>
   list_options \<Rightarrow> (error + 'ch) \<times> 'w"
where
  "podGroups_Watch Watch c w opts =
     (let timeout = list_timeout opts;
          opts = opts\<lparr>WatchFlag := True\<rparr>
      in Watch w [RGet, RNamespace (podGroupsNs c), RResource ''podgroups'',
       RVersionedParams (ListParams opts), RTimeout timeout])"

definition podGroups_Create ::
  "('q, 'opt, 'w, 'q pod_group) send_into \<Rightarrow> podGroups_client \<Rightarrow> 'w \<Rightarrow>
   'q pod_group \<Rightarrow> 'opt \<Rightarrow> ('q pod_group \<times> error option) \<times> 'w"
where
  "podGroups_Create Into c w pod_group opts =
     Into w [RPost, RNamespace (podGroupsNs c), RResource ''podgroups'', RVersionedParams (Options opts),
       RBody (PodGroupBody pod_group)] zero_PodGroup"

definition podGroups_Update ::
  "('q, 'opt, 'w, 'q pod_group) send_into \<Rightarrow> podGroups_client \<Rightarrow> 'w \<Rightarrow>
   'q pod_group \<Rightarrow> 'opt \<Rightarrow> ('q pod_group \<times> error option) \<times> 'w"
where
  "podGroups_Update Into c w pod_group opts =
     Into w [RPut, RNamespace (podGroupsNs c), RResource ''podgroups'', RName (pgName pod_group),
       RVersionedParams (Options opts), RBody (PodGroupBody pod_group)] zero_PodGroup"

definition podGroups_UpdateStatus ::
  "('q, 'opt, 'w, 'q pod_group) send_into \<Rightarrow> podGroups_client \<Rightarrow> 'w \<Rightarrow>
   'q pod_group \<Rightarrow> 'opt \<Rightarrow> ('q pod_group \<times> error option) \<times> 'w"
where
  "podGroups_UpdateStatus Into c w pod_group opts =
     Into w [RPut, RNamespace (podGroupsNs c), RResource ''podgroups'', RName (pgName pod_group),
       RSubResource [''status''], RVersionedParams (Options opts),
       RBody (PodGroupBody pod_group)] zero_PodGroup"

definition podGroups_Delete ::
  "('q, 'opt, 'w) send_error \<Rightarrow> podGroups_client \<Rightarrow> 'w \<Rightarrow> string \<Rightarrow>
   'opt \<Rightarrow> error option \<times> 'w"
where
  "podGroups_Delete SendError c w name opts =
     SendError w [RDelete, RNamespace (podGroupsNs c), RResource ''podgroups'', RName name,
       RBody (OptionsBody opts)]"

definition podGroups_DeleteCollection ::
  "('q, 'opt, 'w) send_error \<Rightarrow> podGroups_client \<Rightarrow> 'w \<Rightarrow> 'opt \<Rightarrow>
   list_options \<Rightarrow> error option \<times> 'w"
where
  "podGroups_DeleteCollection SendError c w opts listOpts =
     SendError w [RDelete, RNamespace (podGroupsNs c), RResource ''podgroups'',
       RVersionedParams (ListParams listOpts),
       RTimeout (list_timeout listOpts), RBody (OptionsBody opts)]"

definition podGroups_Patch ::
  "('q, 'opt, 'w, 'q pod_group) send_into \<Rightarrow> podGroups_client \<Rightarrow> 'w \<Rightarrow>
   string \<Rightarrow> string \<Rightarrow> string \<Rightarrow> 'opt \<Rightarrow> string list \<Rightarrow>
   ('q pod_group \<times> error option) \<times> 'w"
where
  "podGroups_Patch Into c w name pt patch opts subresources =
     Into w [RPatch pt, RNamespace (podGroupsNs c), RResource ''podgroups'', RName name,
       RSubResource subresources,
       RVersionedParams (Options opts), RBody (DataBody patch)] zero_PodGroup"

section \<open>The ElasticQuota client\<close>

record elasticQuotas_client = elasticQuotasNs :: string

definition newElasticQuotas :: "string \<Rightarrow> elasticQuotas_client" where
  "newElasticQuotas namespace = \<lparr>elasticQuotasNs = namespace\<rparr>"

definition elasticQuotas_Get ::
  "('q, 'opt, 'w, 'q elastic_quota) send_into \<Rightarrow> elasticQuotas_client \<Rightarrow> 'w \<Rightarrow>
   string \<Rightarrow> 'opt \<Rightarrow> ('q elastic_quota \<times> error option) \<times> 'w"
where
  "elasticQuotas_Get Into c w name options =
     Into w [RGet, RNamespace (elasticQuotasNs c), RResource ''elasticquotas'', RName name,
       RVersionedParams (Options options)] zero_ElasticQuota"

definition elasticQuotas_List ::
  "('q, 'opt, 'w, 'q elastic_quota list) send_into \<Rightarrow> elasticQuotas_client \<Rightarrow>
   'w \<Rightarrow> list_options \<Rightarrow> ('q elastic_quota list \<times> error option) \<times> 'w"
where
  "elasticQuotas_List Into c w opts =
     Into w [RGet, RNamespace (elasticQuotasNs c), RResource ''elasticquotas'',
       RVersionedParams (ListParams opts), RTimeout (list_timeout opts)] []"

definition elasticQuotas_Watch ::
  "('q, 'opt, 'w, 'ch) send_watch \<Rightarrow> elasticQuotas_client \<Rightarrow> 'w \<Rightarrow>
   list_options \<Rightarrow> (error + 'ch) \<times> 'w"
where
  "elasticQuotas_Watch Watch c w opts =
     (let timeout = list_timeout opts;
          opts = opts\<lparr>WatchFlag := True\<rparr>
      in Watch w [RGet, RNamespace (elasticQuotasNs c), RResource ''elasticquotas'',
       RVersionedParams (ListParams opts), RTimeout timeout])"

definition elasticQuotas_Create ::
  "('q, 'opt, 'w, 'q elastic_quota) send_into \<Rightarrow> elasticQuotas_client \<Rightarrow> 'w \<Rightarrow>
   'q elastic_quota \<Rightarrow> 'opt \<Rightarrow> ('q elastic_quota \<times> error option) \<times> 'w"
where
  "elasticQuotas_Create Into c w elastic_quota opts =
     Into w [RPost, RNamespace (elasticQuotasNs c), RResource ''elasticquotas'',
       RVersionedParams (Options opts), RBody (ElasticQuotaBody elastic_quota)] zero_ElasticQuota"

definition elasticQuotas_Update ::
  "('q, 'opt, 'w, 'q elastic_quota) send_into \<Rightarrow> elasticQuotas_client \<Rightarrow> 'w \<Rightarrow>
   'q elastic_quota \<Rightarrow> 'opt \<Rightarrow> ('q elastic_quota \<times> error option) \<times> 'w"
where
  "elasticQuotas_Update Into c w elastic_quota opts =
     Into w [RPut, RNamespace (elasticQuotasNs c), RResource ''elasticquotas'',
       RName (eqObjName elastic_quota), RVersionedParams (Options opts),
       RBody (ElasticQuotaBody elastic_quota)] zero_ElasticQuota"

definition elasticQuotas_Delete ::
  "('q, 'opt, 'w) send_error \<Rightarrow> elasticQuotas_client \<Rightarrow> 'w \<Rightarrow>
   string \<Rightarrow> 'opt \<Rightarrow> error option \<times> 'w"
where
  "elasticQuotas_Delete SendError c w name opts =
     SendError w [RDelete, RNamespace (elasticQuotasNs c), RResource ''elasticquotas'', RName name,
       RBody (OptionsBody opts)]"

definition elasticQuotas_DeleteCollection ::
  "('q, 'opt, 'w) send_error \<Rightarrow> elasticQuotas_client \<Rightarrow> 'w \<Rightarrow>
   'opt \<Rightarrow> list_options \<Rightarrow> error option \<times> 'w"
where
  "elasticQuotas_DeleteCollection SendError c w opts listOpts =
     SendError w [RDelete, RNamespace (elasticQuotasNs c), RResource ''elasticquotas'',
       RVersionedParams (ListParams listOpts),
       RTimeout (list_timeout listOpts), RBody (OptionsBody opts)]"

definition elasticQuotas_Patch ::
  "('q, 'opt, 'w, 'q elastic_quota) send_into \<Rightarrow> elasticQuotas_client \<Rightarrow> 'w \<Rightarrow>
   string \<Rightarrow> string \<Rightarrow> string \<Rightarrow> 'opt \<Rightarrow> string list \<Rightarrow>
   ('q elastic_quota \<times> error option) \<times> 'w"
where
  "elasticQuotas_Patch Into c w name pt patch opts subresources =
     Into w [RPatch pt, RNamespace (elasticQuotasNs c), RResource ''elasticquotas'', RName name,
       RSubResource subresources,
       RVersionedParams (Options opts), RBody (DataBody patch)] zero_ElasticQuota"

section \<open>The clientset\<close>

text \<open>
  The constructors. The REST and discovery clients, the rate limiter, the serializer
  and the default user agent are parameters; a config is a value here, so the shallow copy the source takes
  of its argument, and the defaults it writes into a copy, cannot reach the caller's.
\<close>

record ('l, 's) rest_config =
  RateLimiter :: "'l option"
  QPS :: gofloat
  Burst :: i64
  GroupVersion :: "(string \<times> string) option"
  APIPath :: string
  NegotiatedSerializer :: "'s option"
  UserAgent :: string

record ('l, 's, 'r, 'd) client_api =
  NewTokenBucketRateLimiter :: "gofloat \<Rightarrow> i64 \<Rightarrow> 'l"
  WithoutConversion :: 's
  DefaultKubernetesUserAgent :: string
  RESTClientFor :: "('l, 's) rest_config \<Rightarrow> error + 'r"
  NewDiscoveryClientForConfig :: "('l, 's) rest_config \<Rightarrow> error + 'd"

definition SchemeGroupVersion :: "string \<times> string" where
  "SchemeGroupVersion = (''scheduling.sigs.k8s.io'', ''v1alpha1'')"

definition setConfigDefaults ::
  "('l, 's, 'r, 'd, 'z) client_api_scheme \<Rightarrow> ('l, 's) rest_config \<Rightarrow> error option \<times> ('l, 's) rest_config"
where
  "setConfigDefaults A config =
     (let config = config\<lparr>GroupVersion := Some SchemeGroupVersion\<rparr>;
          config = config\<lparr>APIPath := ''/apis''\<rparr>;
          config = config\<lparr>NegotiatedSerializer := Some (WithoutConversion A)\<rparr>;
          config = (if UserAgent config = '''' then config\<lparr>UserAgent := DefaultKubernetesUserAgent A\<rparr> else config)
      in (None, config))"

definition scheduling_NewForConfig ::
  "('l, 's, 'r, 'd, 'z) client_api_scheme \<Rightarrow> ('l, 's) rest_config \<Rightarrow> error + 'r"
where
  "scheduling_NewForConfig A c =
     (case setConfigDefaults A c of
        (Some err, _) \<Rightarrow> Inl err
      | (None, config) \<Rightarrow>
          (case RESTClientFor A config of
             Inl err \<Rightarrow> Inl err
           | Inr client \<Rightarrow> Inr client))"

definition scheduling_NewForConfigOrDie ::
  "('l, 's, 'r, 'd, 'z) client_api_scheme \<Rightarrow> ('l, 's) rest_config \<Rightarrow> error + 'r"
where
  "scheduling_NewForConfigOrDie A c =
     (case scheduling_NewForConfig A c of
        Inl err \<Rightarrow> Inl (Panic ''NewForConfig'')
      | Inr client \<Rightarrow> Inr client)"

record ('r, 'd) clientset =
  SchedulingV1alpha1 :: 'r
  DiscoveryClient :: 'd

definition NewForConfig ::
  "('l, 's, 'r, 'd, 'z) client_api_scheme \<Rightarrow> ('l, 's) rest_config \<Rightarrow> error + ('r, 'd) clientset"
where
  "NewForConfig A c =
     (let clients = (\<lambda>config.
            case scheduling_NewForConfig A config of
              Inl err \<Rightarrow> Inl err
            | Inr sched \<Rightarrow>
                (case NewDiscoveryClientForConfig A config of
                   Inl err \<Rightarrow> Inl err
                 | Inr disc \<Rightarrow> Inr \<lparr>SchedulingV1alpha1 = sched, DiscoveryClient = disc\<rparr>))
      in if RateLimiter c = None \<and> fl_lt (Fin 0) (QPS c)
         then if Burst c \<le>s 0
              then Inl (Err ''burst is required to be greater than 0'')
              else clients (c\<lparr>RateLimiter := Some (NewTokenBucketRateLimiter A (QPS c) (Burst c))\<rparr>)
         else clients c)"

text \<open>\<^verbatim>\<open>NewDiscoveryClientForConfigOrDie\<close> of client-go panics where the plain constructor fails.\<close>

definition NewForConfigOrDie ::
  "('l, 's, 'r, 'd, 'z) client_api_scheme \<Rightarrow> ('l, 's) rest_config \<Rightarrow> error + ('r, 'd) clientset"
where
  "NewForConfigOrDie A c =
     (case scheduling_NewForConfigOrDie A c of
        Inl err \<Rightarrow> Inl err
      | Inr sched \<Rightarrow>
          (case NewDiscoveryClientForConfig A c of
             Inl err \<Rightarrow> Inl (Panic ''NewDiscoveryClientForConfig'')
           | Inr disc \<Rightarrow> Inr \<lparr>SchedulingV1alpha1 = sched, DiscoveryClient = disc\<rparr>))"

text \<open>
  The accessors, and the constructors over a REST client. The client of the group is its REST client; a method on
  a nil receiver returns nil. The group client of a namespace is \<open>newPodGroups\<close> or \<open>newElasticQuotas\<close>.
\<close>

definition scheduling_New :: "'r \<Rightarrow> 'r" where
  "scheduling_New c = c"

definition scheduling_RESTClient :: "'r option \<Rightarrow> 'r option" where
  "scheduling_RESTClient c = (case c of None \<Rightarrow> None | Some restClient \<Rightarrow> Some restClient)"

definition scheduling_PodGroups :: "'r \<Rightarrow> string \<Rightarrow> podGroups_client" where
  "scheduling_PodGroups c namespace = newPodGroups namespace"

definition scheduling_ElasticQuotas :: "'r \<Rightarrow> string \<Rightarrow> elasticQuotas_client" where
  "scheduling_ElasticQuotas c namespace = newElasticQuotas namespace"

definition clientset_New :: "('r \<Rightarrow> 'd) \<Rightarrow> 'r \<Rightarrow> ('r, 'd) clientset" where
  "clientset_New NewDiscoveryClient c =
     \<lparr>SchedulingV1alpha1 = scheduling_New c, DiscoveryClient = NewDiscoveryClient c\<rparr>"

definition clientset_SchedulingV1alpha1 :: "('r, 'd) clientset \<Rightarrow> 'r" where
  "clientset_SchedulingV1alpha1 c = SchedulingV1alpha1 c"

definition clientset_Discovery :: "('r, 'd) clientset option \<Rightarrow> 'd option" where
  "clientset_Discovery c = (case c of None \<Rightarrow> None | Some c \<Rightarrow> Some (DiscoveryClient c))"

text \<open>A positive rate without a limiter needs a positive burst; the OrDie constructor does not look at it.\<close>

lemma NewForConfig_burst:
  assumes "NewForConfig A c = Inr cs" and "RateLimiter c = None" and "fl_lt (Fin 0) (QPS c)"
  shows "0 < sint (Burst c)"
  using assms by (auto simp: NewForConfig_def Let_def word_sle_eq split: if_splits)

end
