(* ===== verification/ClientRequests.thy ===== *)
theory ClientRequests
  imports PodGroupLifecycle PodGroupManager GeneratedClient
begin

text \<open>
  The controller and the gang plugin over the generated client: the two places that get a group
  and patch it (\<^verbatim>\<open>pkg/controller/podgroup.go\<close> and \<^verbatim>\<open>pkg/coscheduling/core/core.go\<close>), with the
  API operations of their models instantiated by the client's methods. What is sent is then visible as the
  requests that reach the REST client. The patch type \<^verbatim>\<open>types.MergePatchType\<close> and the empty
  option structs are arguments; a read does not change the world of the API server.
\<close>

section \<open>The callers over the client\<close>

definition ctl_client_get ::
  "('q, 'opt, 'w, 'q pod_group) send_into \<Rightarrow> 'opt \<Rightarrow> 'w \<Rightarrow> string \<Rightarrow> string \<Rightarrow> error + 'q pod_group"
where
  "ctl_client_get Into getOptions w namespace name =
     (case fst (podGroups_Get Into (newPodGroups namespace) w name getOptions) of
        (pg, None) \<Rightarrow> Inr pg
      | (pg, Some err) \<Rightarrow> Inl err)"

definition ctl_client_patch ::
  "('q, 'opt, 'w, 'q pod_group) send_into \<Rightarrow> string \<Rightarrow> 'opt \<Rightarrow> 'w \<Rightarrow> string \<Rightarrow> string \<Rightarrow> string \<Rightarrow> error option \<times> 'w"
where
  "ctl_client_patch Into MergePatchType patchOptions w namespace name patch =
     (let ((_, err), w) = podGroups_Patch Into (newPodGroups namespace) w name MergePatchType patch patchOptions []
      in (err, w))"

definition ctl_over_client ::
  "('q, 'opt, 'w, 'q pod_group) send_into \<Rightarrow> string \<Rightarrow> 'opt \<Rightarrow> 'opt \<Rightarrow> ('q, 'k, 'w) ctl_api \<Rightarrow> ('q, 'k, 'w) ctl_api"
where
  "ctl_over_client Into MergePatchType getOptions patchOptions K =
     K\<lparr>client_get := ctl_client_get Into getOptions,
       client_patch := ctl_client_patch Into MergePatchType patchOptions\<rparr>"

definition pgm_client_patch ::
  "('q, 'opt, 'w, 'q pod_group) send_into \<Rightarrow> string \<Rightarrow> 'opt \<Rightarrow> 'w \<Rightarrow> string \<Rightarrow> string \<Rightarrow> string \<Rightarrow> error option \<times> 'w"
where
  "pgm_client_patch Into MergePatchType patchOptions w namespace name patch =
     (let ((_, err), w) = podGroups_Patch Into (newPodGroups namespace) w name MergePatchType patch patchOptions []
      in (err, w))"

definition pgm_over_client ::
  "('q, 'opt, 'w, 'q pod_group) send_into \<Rightarrow> string \<Rightarrow> 'opt \<Rightarrow> ('q, 'c, 'w) pgm_api \<Rightarrow> ('q, 'c, 'w) pgm_api"
where
  "pgm_over_client Into MergePatchType patchOptions K =
     K\<lparr>patch_pg := pgm_client_patch Into MergePatchType patchOptions\<rparr>"

section \<open>The requests\<close>

text \<open>A patch of a group: its path is the group's namespace and name, and no other request changes the world.\<close>

definition patch_request :: "string \<Rightarrow> 'opt \<Rightarrow> 'q pod_group \<Rightarrow> string \<Rightarrow> ('q, 'opt) rest_request" where
  "patch_request MergePatchType patchOptions pg patch =
     [RPatch MergePatchType, RNamespace (pgNamespace pg), RResource ''podgroups'', RName (pgName pg), RSubResource [],
      RVersionedParams (Options patchOptions), RBody (DataBody patch)]"

lemma client_patch_request:
  "ctl_client_patch Into pt po w (pgNamespace pg) (pgName pg) patch =
     (snd (fst (Into w (patch_request pt po pg patch) zero_PodGroup)), snd (Into w (patch_request pt po pg patch) zero_PodGroup))"
  "pgm_client_patch Into pt po w (pgNamespace pg) (pgName pg) patch =
     (snd (fst (Into w (patch_request pt po pg patch) zero_PodGroup)), snd (Into w (patch_request pt po pg patch) zero_PodGroup))"
  by (simp_all add: ctl_client_patch_def pgm_client_patch_def podGroups_Patch_def newPodGroups_def patch_request_def
      split: prod.split)

lemma over_client_sel [simp]:
  "client_patch (ctl_over_client Into pt go po K) = ctl_client_patch Into pt po"
  "meta_key (ctl_over_client Into pt go po K) = meta_key K" "q_get (ctl_over_client Into pt go po K) = q_get K"
  "split_key (ctl_over_client Into pt go po K) = split_key K" "ctl_marshal (ctl_over_client Into pt go po K) = ctl_marshal K"
  "ctl_merge (ctl_over_client Into pt go po K) = ctl_merge K"
  "patch_pg (pgm_over_client Into pt po E) = pgm_client_patch Into pt po"
  by (simp_all add: ctl_over_client_def pgm_over_client_def)

text \<open>The patch of a synchronisation that changes something.\<close>

definition sync_patch ::
  "('q, 'k, 'w, 'z) ctl_api_scheme \<Rightarrow> 'q pod list \<Rightarrow> 'q pod_group \<Rightarrow> string \<Rightarrow> bool"
where
  "sync_patch K pods pg patch \<longleftrightarrow> (\<exists>old new. sync_phase pods pg = Inr (old, new) \<and> old \<noteq> new \<and>
     CreateMergePatch (ctl_marshal K) (ctl_merge K) old new = Inr patch)"

lemma sync_phase_names:
  "sync_phase pods pg = Inr (old, new) \<Longrightarrow> pgNamespace old = pgNamespace pg \<and> pgName old = pgName pg"
  by (auto simp: sync_phase_def fillOccupiedObj_def Let_def split: if_splits list.splits)

lemma patch_over_client:
  assumes "sync_phase pods pg = Inr (old, new)" and "patchPodGroup (ctl_over_client Into pt go po K) w old new = (err, w')"
  shows "w' = w \<or> (\<exists>patch. sync_patch K pods pg patch \<and> w' = snd (Into w (patch_request pt po pg patch) zero_PodGroup))"
proof -
  have "pgNamespace old = pgNamespace pg" "pgName old = pgName pg"
    using sync_phase_names [OF assms(1)] by simp_all
  then have "patch_request pt po old = patch_request pt po pg" by (intro ext) (simp add: patch_request_def)
  with assms client_patch_request(1) [of Into pt po w old] show ?thesis
    by (auto simp: patchPodGroup_def client_patch_request sync_patch_def split: if_splits sum.splits)
qed

lemma syncHandler_world:
  assumes "syncHandler (ctl_over_client Into pt go po K) s ptr pg = Inr s'"
  shows "ctlClient s' = ctlClient s \<or>
    (\<exists>pods patch. ctlPodLister s [(PodGroupLabel, pgName pg)] = Inr pods \<and> sync_patch K pods pg patch \<and>
       ctlClient s' = snd (Into (ctlClient s) (patch_request pt po pg patch) zero_PodGroup))"
proof (cases "ctlClient s' = ctlClient s")
  case False
  with assms obtain key pods old new err where pods: "ctlPodLister s [(PodGroupLabel, pgName pg)] = Inr pods"
    and sync: "sync_phase pods pg = Inr (old, new)"
    and patch: "patchPodGroup (ctl_over_client Into pt go po K) (ctlClient s) old new = (err, ctlClient s')"
    by (auto simp: syncHandler_def Let_def split: sum.splits prod.splits option.splits)
  from patch_over_client [OF sync patch] pods False show ?thesis by blast
qed simp

lemma ctl_sync_world:
  assumes "ctl_sync K s = Inr s'"
  shows "ctlClient s' = ctlClient s \<or>
    (\<exists>key q pg s1 ptr. q_get K (ctlQueue s) = (Some key, q) \<and>
       map_of (ctlPgLister s) (case split_key K key of (ns, name) \<Rightarrow> ns @ ''/'' @ name) = Some pg \<and>
       syncHandler K (s\<lparr>ctlQueue := q\<rparr>) ptr pg = Inr s1 \<and> ctlClient s' = ctlClient s1)"
proof (cases "q_get K (ctlQueue s)")
  case q: (Pair k q)
  show ?thesis
  proof (cases k)
    case None
    then show ?thesis using assms q by (auto simp: ctl_sync_def)
  next
    case (Some key)
    obtain ns name where k: "split_key K key = (ns, name)" by fastforce
    show ?thesis
    proof (cases "map_of (ctlPgLister s) (ns @ ''/'' @ name)")
      case None
      then show ?thesis using assms q Some k
        by (auto simp: ctl_sync_def podGroup_Get_def Let_def split: sum.splits if_splits)
    next
      case (Some pg)
      then show ?thesis using assms q \<open>k = Some key\<close> k
        by (auto simp: ctl_sync_def podGroup_Get_def Let_def split: sum.splits)
    qed
  qed
qed

lemma PostBind_world:
  assumes "pgm_PostBind E now (m, w) pod node = (m', w')"
  shows "w' = w \<or> (\<exists>own pg patch err. snd (GetPodGroup m pod) = Some own \<and>
    pgm_Get m (pgNamespace own) (pgName own) = Inr pg \<and>
    PatchPodGroup E w (pgName pg) (pgNamespace pg) patch = (err, w'))"
proof (cases "snd (GetPodGroup m pod)")
  case None
  then show ?thesis using assms by (auto simp: pgm_PostBind_def split: prod.splits)
next
  case (Some own)
  then obtain key where own: "GetPodGroup m pod = (key, Some own)" by (metis prod.collapse)
  show ?thesis
  proof (cases "pgm_Get m (pgNamespace own) (pgName own)")
    case (Inl err)
    then show ?thesis using assms by (auto simp: pgm_PostBind_def own Let_def split: if_splits)
  next
    case (Inr pg)
    then have "w' = w \<or> (\<exists>patch err. PatchPodGroup E w (pgName pg) (pgNamespace pg) patch = (err, w'))"
      using assms
      by (auto simp: pgm_PostBind_def own Let_def split: prod.splits sum.splits option.splits if_splits)
    then show ?thesis using own Inr by auto
  qed
qed

text \<open>C35: what the program asks of the API server over the generated client: one synchronisation of the
  controller, and one PostBind of the gang plugin, change the world by at most one request, a
  merge patch of one group at the path of its own namespace and name: for the controller the cached group
  of the key it took, and only when the synchronisation changes it; for the plugin the group of the pod.\<close>

theorem client_requests_patch_own_group:
  "(ctl_sync (ctl_over_client Into pt go po K) s = Inr s' \<longrightarrow> ctlClient s' = ctlClient s \<or>
      (\<exists>key pg pods patch. fst (q_get K (ctlQueue s)) = Some key \<and>
         map_of (ctlPgLister s) (case split_key K key of (ns, name) \<Rightarrow> ns @ ''/'' @ name) = Some pg \<and>
         ctlPodLister s [(PodGroupLabel, pgName pg)] = Inr pods \<and> sync_patch K pods pg patch \<and>
         ctlClient s' = snd (Into (ctlClient s) (patch_request pt po pg patch) zero_PodGroup))) \<and>
    (pgm_PostBind (pgm_over_client Into pt po E) now (m, w) pod node = (m', w') \<longrightarrow> w' = w \<or>
      (\<exists>own pg patch. snd (GetPodGroup m pod) = Some own \<and> pgm_Get m (pgNamespace own) (pgName own) = Inr pg \<and>
         w' = snd (Into w (patch_request pt po pg patch) zero_PodGroup)))"
proof (intro conjI impI)
  assume sync: "ctl_sync (ctl_over_client Into pt go po K) s = Inr s'"
  show "ctlClient s' = ctlClient s \<or>
      (\<exists>key pg pods patch. fst (q_get K (ctlQueue s)) = Some key \<and>
         map_of (ctlPgLister s) (case split_key K key of (ns, name) \<Rightarrow> ns @ ''/'' @ name) = Some pg \<and>
         ctlPodLister s [(PodGroupLabel, pgName pg)] = Inr pods \<and> sync_patch K pods pg patch \<and>
         ctlClient s' = snd (Into (ctlClient s) (patch_request pt po pg patch) zero_PodGroup))"
    using ctl_sync_world [OF sync]
  proof (elim disjE exE conjE)
    fix key q pg s1 ptr
    assume "q_get (ctl_over_client Into pt go po K) (ctlQueue s) = (Some key, q)"
      and "map_of (ctlPgLister s) (case split_key (ctl_over_client Into pt go po K) key of (ns, name) \<Rightarrow> ns @ ''/'' @ name) = Some pg"
      and h: "syncHandler (ctl_over_client Into pt go po K) (s\<lparr>ctlQueue := q\<rparr>) ptr pg = Inr s1" "ctlClient s' = ctlClient s1"
    with syncHandler_world [OF h(1)] show ?thesis by auto
  qed simp
next
  assume bind: "pgm_PostBind (pgm_over_client Into pt po E) now (m, w) pod node = (m', w')"
  show "w' = w \<or>
      (\<exists>own pg patch. snd (GetPodGroup m pod) = Some own \<and> pgm_Get m (pgNamespace own) (pgName own) = Inr pg \<and>
         w' = snd (Into w (patch_request pt po pg patch) zero_PodGroup))"
    using PostBind_world [OF bind] by (auto simp: PatchPodGroup_def client_patch_request split: if_splits)
qed

text \<open>An API server that accepts every request, in a world that is the list of the requests so far.\<close>

definition demo_send :: "(int, unit, (int, unit) rest_request list, int pod_group) send_into" where
  "demo_send w request result = ((result, None), w @ [request])"

definition demo_request_ctl ::
  "(int, string list \<times> (string, nat) gomap, (int, unit) rest_request list) ctl_api"
where
  "demo_request_ctl = demo_api
     \<lparr>meta_key = meta_key demo_ctl, split_key = split_key demo_ctl, q_empty = q_empty demo_ctl, q_add = q_add demo_ctl,
      q_add_limited = q_add_limited demo_ctl, q_forget_obj = q_forget_obj demo_ctl, q_get = q_get demo_ctl,
      q_done = q_done demo_ctl, client_get = (\<lambda>w ns name. Inl NotFound), client_patch = (\<lambda>w ns name p. (None, w)),
      ctl_marshal = ctl_marshal demo_ctl, ctl_merge = ctl_merge demo_ctl\<rparr>"

definition demo_request_state ::
  "(int, string list \<times> (string, nat) gomap, (int, unit) rest_request list) pg_controller"
where
  "demo_request_state = \<lparr>ctlQueue = ([''a/g''], []), ctlPgLister = [(''a/g'', demo_pg ''Scheduled'')],
     ctlPodLister = (\<lambda>_. Inr (demo_members ''a'' ''Running'')), ctlPgSynced = True, ctlPodSynced = True, ctlClient = []\<rparr>"

lemma demo_request_sync:
  "map_sum id ctlClient (ctl_sync (ctl_over_client demo_send ''merge'' () () demo_request_ctl) demo_request_state)
    = Inr [patch_request ''merge'' () (demo_pg ''Scheduled'') ''Running'']"
  by code_simp

theorem client_requests_patch_own_group_witness:
  "\<exists>s' pods patch. ctl_sync (ctl_over_client demo_send ''merge'' () () demo_request_ctl) demo_request_state = Inr s' \<and>
     ctlPodLister demo_request_state [(PodGroupLabel, ''g'')] = Inr pods \<and>
     sync_patch demo_request_ctl pods (demo_pg ''Scheduled'') patch \<and>
     ctlClient s' = [patch_request ''merge'' () (demo_pg ''Scheduled'') patch]"
proof -
  obtain s' where s': "ctl_sync (ctl_over_client demo_send ''merge'' () () demo_request_ctl) demo_request_state = Inr s'"
    and c: "ctlClient s' = [patch_request ''merge'' () (demo_pg ''Scheduled'') ''Running'']"
    using demo_request_sync
    by (cases "ctl_sync (ctl_over_client demo_send ''merge'' () () demo_request_ctl) demo_request_state") auto
  have e: "ctlClient demo_request_state = []" "pgName (demo_pg ''Scheduled'') = ''g''"
    by (simp_all add: demo_request_state_def demo_pg_def)
  from client_requests_patch_own_group [THEN conjunct1, THEN mp, OF s'] c e(1) obtain k pg pods patch
    where f: "map_of (ctlPgLister demo_request_state) k = Some pg" "ctlPodLister demo_request_state [(PodGroupLabel, pgName pg)] = Inr pods"
      "sync_patch demo_request_ctl pods pg patch" "ctlClient s' = [patch_request ''merge'' () pg patch]"
    by (auto simp: demo_send_def)
  have "pg = demo_pg ''Scheduled''" using f(1) by (auto simp: demo_request_state_def split: if_splits)
  with s' f(2-4) e(2) show ?thesis by auto
qed

end
