(* ===== verification/InformerFactory.thy ===== *)
theory InformerFactory
  imports GeneratedClient
begin

text \<open>
  The informers generated under \<^verbatim>\<open>pkg/generated/informers/externalversions\<close>: the factory that
  shares one informer per type, the accessors by group, version and resource, and the list and watch
  functions the informers are made of. \<^verbatim>\<open>cache.NewSharedIndexInformer\<close> is client-go's: an informer
  is what the source passes to it. A run that \<^verbatim>\<open>Start\<close> launches is recorded with the type the
  informer is registered under. The factory's methods hold its mutex throughout
  (\<^verbatim>\<open>WaitForCacheSync\<close> while it copies the map), so each is one step.
\<close>

section \<open>The factory\<close>

text \<open>\<^verbatim>\<open>reflect.Type\<close> of the object of an informer.\<close>

datatype api_type = ElasticQuotaType | PodGroupType | OtherType string

record 'i factory =
  facNamespace :: string
  facTweak :: "(list_options \<Rightarrow> list_options) option"
  facDefaultResync :: i64
  facCustomResync :: "(api_type, i64) gomap"
  facInformers :: "(api_type, 'i) gomap"
  facStarted :: "(api_type, bool) gomap"

definition WithCustomResyncConfig :: "(api_type, i64) gomap \<Rightarrow> 'i factory \<Rightarrow> 'i factory" where
  "WithCustomResyncConfig resyncConfig f =
     f\<lparr>facCustomResync := fold (\<lambda>(k, v) m. mput k v m) resyncConfig (facCustomResync f)\<rparr>"

definition WithTweakListOptions :: "(list_options \<Rightarrow> list_options) option \<Rightarrow> 'i factory \<Rightarrow> 'i factory" where
  "WithTweakListOptions tweak f = f\<lparr>facTweak := tweak\<rparr>"

definition WithNamespace :: "string \<Rightarrow> 'i factory \<Rightarrow> 'i factory" where
  "WithNamespace namespace f = f\<lparr>facNamespace := namespace\<rparr>"

text \<open>\<^verbatim>\<open>metav1.NamespaceAll\<close>\<close>

definition NamespaceAll :: string where "NamespaceAll = ''''"

definition NewSharedInformerFactoryWithOptions :: "i64 \<Rightarrow> ('i factory \<Rightarrow> 'i factory) list \<Rightarrow> 'i factory" where
  "NewSharedInformerFactoryWithOptions defaultResync options =
     fold (\<lambda>opt f. opt f) options
       \<lparr>facNamespace = NamespaceAll, facTweak = None, facDefaultResync = defaultResync, facCustomResync = [],
        facInformers = [], facStarted = []\<rparr>"

definition NewSharedInformerFactory :: "i64 \<Rightarrow> 'i factory" where
  "NewSharedInformerFactory defaultResync = NewSharedInformerFactoryWithOptions defaultResync []"

definition NewFilteredSharedInformerFactory ::
  "i64 \<Rightarrow> string \<Rightarrow> (list_options \<Rightarrow> list_options) option \<Rightarrow> 'i factory"
where
  "NewFilteredSharedInformerFactory defaultResync namespace tweak =
     NewSharedInformerFactoryWithOptions defaultResync [WithNamespace namespace, WithTweakListOptions tweak]"

text \<open>The runs launched and the started set.\<close>

fun start_loop ::
  "(api_type, 'i) gomap \<Rightarrow> (api_type, bool) gomap \<Rightarrow> (api_type \<times> 'i) list \<times> (api_type, bool) gomap"
where
  "start_loop [] started = ([], started)"
| "start_loop ((informerType, informer) # rest) started =
     (if \<not> mget False started informerType
      then let (runs, started) = start_loop rest (mput informerType True started)
           in ((informerType, informer) # runs, started)
      else start_loop rest started)"

definition fac_Start :: "'i factory \<Rightarrow> (api_type \<times> 'i) list \<times> 'i factory" where
  "fac_Start f = (let (runs, started) = start_loop (facInformers f) (facStarted f) in (runs, f\<lparr>facStarted := started\<rparr>))"

text \<open>Whether an informer has synced by the time the wait ends is a parameter.\<close>

definition fac_WaitForCacheSync :: "('i \<Rightarrow> bool) \<Rightarrow> 'i factory \<Rightarrow> (api_type, bool) gomap" where
  "fac_WaitForCacheSync WaitForCacheSync f =
     (let informers = fold (\<lambda>(t, i) m. if mget False (facStarted f) t then mput t i m else m) (facInformers f) []
      in fold (\<lambda>(t, i) res. mput t (WaitForCacheSync i) res) informers [])"

definition fac_InformerFor :: "'i factory \<Rightarrow> api_type \<Rightarrow> (i64 \<Rightarrow> 'i) \<Rightarrow> 'i \<times> 'i factory" where
  "fac_InformerFor f informerType newFunc =
     (case map_of (facInformers f) informerType of
        Some informer \<Rightarrow> (informer, f)
      | None \<Rightarrow>
          (let resyncPeriod =
                 (case map_of (facCustomResync f) informerType of
                    None \<Rightarrow> facDefaultResync f
                  | Some resync \<Rightarrow> resync);
               informer = newFunc resyncPeriod
           in (informer, f\<lparr>facInformers := mput informerType informer (facInformers f)\<rparr>)))"

section \<open>The informers of the API group\<close>

datatype indexers = NamespaceIndexers | OtherIndexers string

text \<open>What is passed to \<^verbatim>\<open>cache.NewSharedIndexInformer\<close>: the type of the object, the
  resync period, the indexers, and the namespace and the tweak the list and watch functions close over.\<close>

record informer =
  infType :: api_type
  infNamespace :: string
  infTweak :: "(list_options \<Rightarrow> list_options) option"
  infResync :: i64
  infIndexers :: indexers

definition NewFilteredPodGroupInformer ::
  "string \<Rightarrow> i64 \<Rightarrow> indexers \<Rightarrow> (list_options \<Rightarrow> list_options) option \<Rightarrow> informer"
where
  "NewFilteredPodGroupInformer namespace resyncPeriod indexers tweak =
     \<lparr>infType = PodGroupType, infNamespace = namespace, infTweak = tweak, infResync = resyncPeriod,
      infIndexers = indexers\<rparr>"

definition NewPodGroupInformer :: "string \<Rightarrow> i64 \<Rightarrow> indexers \<Rightarrow> informer" where
  "NewPodGroupInformer namespace resyncPeriod indexers =
     NewFilteredPodGroupInformer namespace resyncPeriod indexers None"

definition NewFilteredElasticQuotaInformer ::
  "string \<Rightarrow> i64 \<Rightarrow> indexers \<Rightarrow> (list_options \<Rightarrow> list_options) option \<Rightarrow> informer"
where
  "NewFilteredElasticQuotaInformer namespace resyncPeriod indexers tweak =
     \<lparr>infType = ElasticQuotaType, infNamespace = namespace, infTweak = tweak, infResync = resyncPeriod,
      infIndexers = indexers\<rparr>"

definition NewElasticQuotaInformer :: "string \<Rightarrow> i64 \<Rightarrow> indexers \<Rightarrow> informer" where
  "NewElasticQuotaInformer namespace resyncPeriod indexers =
     NewFilteredElasticQuotaInformer namespace resyncPeriod indexers None"

text \<open>The list and watch functions of an informer.\<close>

definition tweaked :: "(list_options \<Rightarrow> list_options) option \<Rightarrow> list_options \<Rightarrow> list_options" where
  "tweaked tweak options = (case tweak of None \<Rightarrow> options | Some t \<Rightarrow> t options)"

definition pg_ListFunc ::
  "('q, 'opt, 'w, 'q pod_group list) send_into \<Rightarrow> informer \<Rightarrow> 'w \<Rightarrow> list_options \<Rightarrow>
   ('q pod_group list \<times> error option) \<times> 'w"
where
  "pg_ListFunc Into i w options =
     podGroups_List Into (newPodGroups (infNamespace i)) w (tweaked (infTweak i) options)"

definition pg_WatchFunc ::
  "('q, 'opt, 'w, 'ch) send_watch \<Rightarrow> informer \<Rightarrow> 'w \<Rightarrow> list_options \<Rightarrow> (error + 'ch) \<times> 'w"
where
  "pg_WatchFunc Watch i w options =
     podGroups_Watch Watch (newPodGroups (infNamespace i)) w (tweaked (infTweak i) options)"

definition eq_ListFunc ::
  "('q, 'opt, 'w, 'q elastic_quota list) send_into \<Rightarrow> informer \<Rightarrow> 'w \<Rightarrow> list_options \<Rightarrow>
   ('q elastic_quota list \<times> error option) \<times> 'w"
where
  "eq_ListFunc Into i w options =
     elasticQuotas_List Into (newElasticQuotas (infNamespace i)) w (tweaked (infTweak i) options)"

definition eq_WatchFunc ::
  "('q, 'opt, 'w, 'ch) send_watch \<Rightarrow> informer \<Rightarrow> 'w \<Rightarrow> list_options \<Rightarrow> (error + 'ch) \<times> 'w"
where
  "eq_WatchFunc Watch i w options =
     elasticQuotas_Watch Watch (newElasticQuotas (infNamespace i)) w (tweaked (infTweak i) options)"

section \<open>The accessors\<close>

text \<open>The accessors by group, by version and by resource carry the same things: the factory (here the state that
  is passed along), its namespace and its tweak.\<close>

record access =
  accNamespace :: string
  accTweak :: "(list_options \<Rightarrow> list_options) option"

definition group_New :: "string \<Rightarrow> (list_options \<Rightarrow> list_options) option \<Rightarrow> access" where
  "group_New namespace tweak = \<lparr>accNamespace = namespace, accTweak = tweak\<rparr>"

definition version_New :: "string \<Rightarrow> (list_options \<Rightarrow> list_options) option \<Rightarrow> access" where
  "version_New namespace tweak = \<lparr>accNamespace = namespace, accTweak = tweak\<rparr>"

definition fac_Scheduling :: "'i factory \<Rightarrow> access" where
  "fac_Scheduling f = group_New (facNamespace f) (facTweak f)"

definition group_V1alpha1 :: "access \<Rightarrow> access" where
  "group_V1alpha1 g = version_New (accNamespace g) (accTweak g)"

definition version_PodGroups :: "access \<Rightarrow> access" where
  "version_PodGroups v = \<lparr>accNamespace = accNamespace v, accTweak = accTweak v\<rparr>"

definition version_ElasticQuotas :: "access \<Rightarrow> access" where
  "version_ElasticQuotas v = \<lparr>accNamespace = accNamespace v, accTweak = accTweak v\<rparr>"

definition podGroupInformer_defaultInformer :: "access \<Rightarrow> i64 \<Rightarrow> informer" where
  "podGroupInformer_defaultInformer a resyncPeriod =
     NewFilteredPodGroupInformer (accNamespace a) resyncPeriod NamespaceIndexers (accTweak a)"

definition podGroupInformer_Informer :: "access \<Rightarrow> informer factory \<Rightarrow> informer \<times> informer factory" where
  "podGroupInformer_Informer a f = fac_InformerFor f PodGroupType (podGroupInformer_defaultInformer a)"

definition elasticQuotaInformer_defaultInformer :: "access \<Rightarrow> i64 \<Rightarrow> informer" where
  "elasticQuotaInformer_defaultInformer a resyncPeriod =
     NewFilteredElasticQuotaInformer (accNamespace a) resyncPeriod NamespaceIndexers (accTweak a)"

definition elasticQuotaInformer_Informer :: "access \<Rightarrow> informer factory \<Rightarrow> informer \<times> informer factory" where
  "elasticQuotaInformer_Informer a f = fac_InformerFor f ElasticQuotaType (elasticQuotaInformer_defaultInformer a)"

text \<open>A lister reads the indexer of the shared informer: here the informer it reads.\<close>

definition podGroupInformer_Lister :: "access \<Rightarrow> informer factory \<Rightarrow> informer \<times> informer factory" where
  "podGroupInformer_Lister a f = podGroupInformer_Informer a f"

definition elasticQuotaInformer_Lister :: "access \<Rightarrow> informer factory \<Rightarrow> informer \<times> informer factory" where
  "elasticQuotaInformer_Lister a f = elasticQuotaInformer_Informer a f"

text \<open>Generic access by group, version and resource.\<close>

type_synonym gvr = "(string \<times> string) \<times> string"

record generic_informer =
  genInformer :: informer
  genResource :: "string \<times> string"

definition fac_ForResource :: "informer factory \<Rightarrow> gvr \<Rightarrow> (error + generic_informer) \<times> informer factory" where
  "fac_ForResource f resource =
     (let groupResource = (fst (fst resource), snd resource)
      in if resource = (SchemeGroupVersion, ''elasticquotas'')
         then let (i, f) = elasticQuotaInformer_Informer (version_ElasticQuotas (group_V1alpha1 (fac_Scheduling f))) f
              in (Inr \<lparr>genInformer = i, genResource = groupResource\<rparr>, f)
         else if resource = (SchemeGroupVersion, ''podgroups'')
         then let (i, f) = podGroupInformer_Informer (version_PodGroups (group_V1alpha1 (fac_Scheduling f))) f
              in (Inr \<lparr>genInformer = i, genResource = groupResource\<rparr>, f)
         else (Inl (Err ''no informer found''), f))"

text \<open>The lister of a generic informer is client-go's, over the indexer of the informer.\<close>

definition genericInformer_Informer :: "generic_informer \<Rightarrow> informer" where
  "genericInformer_Informer f = genInformer f"

definition genericInformer_Lister ::
  "(informer \<Rightarrow> 'x) \<Rightarrow> ('x \<Rightarrow> string \<times> string \<Rightarrow> 'y) \<Rightarrow> generic_informer \<Rightarrow> 'y"
where
  "genericInformer_Lister GetIndexer NewGenericLister f =
     NewGenericLister (GetIndexer (genericInformer_Informer f)) (genResource f)"

section \<open>The states of a factory\<close>

text \<open>The callers of a factory, in any number and order: each asks for an informer of some type, with its own
  constructor, or starts the factory. The state is the factory and the runs launched so far.\<close>

inductive fac_step :: "'i factory \<times> (api_type \<times> 'i) list \<Rightarrow> 'i factory \<times> (api_type \<times> 'i) list \<Rightarrow> bool" where
  request: "fac_InformerFor f informerType newFunc = (i, f') \<Longrightarrow> fac_step (f, runs) (f', runs)"
| start: "fac_Start f = (ls, f') \<Longrightarrow> fac_step (f, runs) (f', runs @ ls)"

inductive_cases fac_stepE: "fac_step (f, runs) s"

text \<open>The options that the package offers.\<close>

definition shared_options :: "('i factory \<Rightarrow> 'i factory) list \<Rightarrow> bool" where
  "shared_options options \<longleftrightarrow>
     (\<forall>opt \<in> set options. (\<exists>c. opt = WithCustomResyncConfig c) \<or> (\<exists>t. opt = WithTweakListOptions t) \<or>
        (\<exists>n. opt = WithNamespace n))"

definition fac_ok :: "'i factory \<times> (api_type \<times> 'i) list \<Rightarrow> bool" where
  "fac_ok s \<longleftrightarrow> (case s of (f, runs) \<Rightarrow>
     gwf (facInformers f) \<and> distinct (map fst runs) \<and> set runs \<subseteq> set (facInformers f) \<and>
     (\<forall>t. mget False (facStarted f) t \<longleftrightarrow> t \<in> fst ` set runs))"

lemma new_factory_empty:
  assumes "shared_options options"
  shows "facInformers (NewSharedInformerFactoryWithOptions r options) = []"
    and "facStarted (NewSharedInformerFactoryWithOptions r options) = []"
proof -
  have "facInformers (fold (\<lambda>opt f. opt f) options f) = facInformers f \<and>
      facStarted (fold (\<lambda>opt f. opt f) options f) = facStarted f" for f
    using assms
    by (induction options arbitrary: f)
      (auto simp: shared_options_def WithCustomResyncConfig_def WithTweakListOptions_def WithNamespace_def)
  then show "facInformers (NewSharedInformerFactoryWithOptions r options) = []"
    and "facStarted (NewSharedInformerFactoryWithOptions r options) = []"
    by (simp_all add: NewSharedInformerFactoryWithOptions_def)
qed

lemma fac_ok_new: "shared_options options \<Longrightarrow> fac_ok (NewSharedInformerFactoryWithOptions r options, [])"
  by (simp add: fac_ok_def new_factory_empty)

lemma set_mput_new: "map_of m k = None \<Longrightarrow> set (mput k v m) = insert (k, v) (set m)"
  by (induction m) (auto split: if_splits)

lemma InformerFor_new:
  assumes "fac_InformerFor f t newFunc = (i, f')"
  shows "facStarted f' = facStarted f" and "map_of (facInformers f') t = Some i"
    and "gwf (facInformers f) \<Longrightarrow> gwf (facInformers f')" and "set (facInformers f) \<subseteq> set (facInformers f')"
    and "map_of (facInformers f) u = Some j \<Longrightarrow> map_of (facInformers f') u = Some j"
  using assms by (auto simp: fac_InformerFor_def Let_def set_mput_new split: option.splits)

lemma start_loop_runs:
  assumes "gwf m" and "start_loop m started = (ls, started')"
  shows "ls = filter (\<lambda>(t, i). \<not> mget False started t) m"
    and "mget False started' t \<longleftrightarrow> mget False started t \<or> t \<in> gkeys m"
proof -
  have "ls = filter (\<lambda>(t, i). \<not> mget False started t) m \<and>
      (mget False started' t \<longleftrightarrow> mget False started t \<or> t \<in> gkeys m)"
    using assms
  proof (induction m started arbitrary: ls rule: start_loop.induct)
    case (2 u i rest started)
    show ?case
    proof (cases "mget False started u")
      case True
      with 2 show ?thesis by auto
    next
      case False
      obtain ms where ms: "start_loop rest (mput u True started) = (ms, started')" "ls = (u, i) # ms"
        using 2(4) False by (auto split: prod.splits)
      have "filter (\<lambda>(t, i). \<not> mget False (mput u True started) t) rest = filter (\<lambda>(t, i). \<not> mget False started t) rest"
        using 2(3) by (intro filter_cong) (force simp: mget_mput gkeys_def split: if_splits)+
      with 2(1) [OF False _ ms(1)] 2(3) False show ?thesis by (auto simp: ms(2) mget_mput)
    qed
  qed simp
  then show "ls = filter (\<lambda>(t, i). \<not> mget False started t) m"
    and "mget False started' t \<longleftrightarrow> mget False started t \<or> t \<in> gkeys m" by simp_all
qed

lemma in_keys: "(t, i) \<in> set m \<Longrightarrow> t \<in> fst ` set m"
  by force

lemma Start_ok:
  assumes "fac_ok (f, runs)" and "fac_Start f = (ls, f')"
  shows "fac_ok (f', runs @ ls)" and "set (runs @ ls) = set (facInformers f')" and "facInformers f' = facInformers f"
proof -
  obtain started' where s: "start_loop (facInformers f) (facStarted f) = (ls, started')" "f' = f\<lparr>facStarted := started'\<rparr>"
    using assms(2) by (auto simp: fac_Start_def split: prod.splits)
  have g: "gwf (facInformers f)" "distinct (map fst runs)" "set runs \<subseteq> set (facInformers f)"
    and st: "\<And>t. mget False (facStarted f) t \<longleftrightarrow> t \<in> fst ` set runs" using assms(1) by (simp_all add: fac_ok_def)
  note l = start_loop_runs [OF g(1) s(1)]
  show inf: "facInformers f' = facInformers f" by (simp add: s)
  have uniq: "(t, i) \<in> set runs" if "(t, i) \<in> set (facInformers f)" "(t, j) \<in> set runs" for t i j
    using eq_key_imp_eq_value [OF g(1) [unfolded gwf_def] that(1), of j] that(2) g(3) by auto
  have "(t, i) \<in> set (runs @ ls) \<longleftrightarrow> (t, i) \<in> set (facInformers f)" for t i
  proof (cases "t \<in> fst ` set runs")
    case True
    then show ?thesis using uniq [of t i] g(3) by (auto simp: l(1) st)
  next
    case False
    then show ?thesis using in_keys [of t i runs] by (auto simp: l(1) st)
  qed
  then have eq: "set (runs @ ls) = set (facInformers f)" by auto
  then show "set (runs @ ls) = set (facInformers f')" by (simp add: inf)
  have "distinct (map fst ls)"
    using g(1) unfolding l(1) gwf_def by (rule distinct_map_filter)
  moreover have "fst ` set runs \<inter> fst ` set ls = {}" by (auto simp: l(1) st dest: in_keys)
  ultimately show "fac_ok (f', runs @ ls)"
    using g eq l(2) by (auto simp: fac_ok_def inf s(2) st gkeys_def l(1) image_iff)
qed

lemma fac_step_ok: "fac_step s s' \<Longrightarrow> fac_ok s \<Longrightarrow> fac_ok s'"
proof (induction rule: fac_step.induct)
  case (request f t newFunc i f' runs)
  then show ?case using InformerFor_new [OF request(1)] by (auto simp: fac_ok_def)
next
  case (start f ls f' runs)
  then show ?case using Start_ok(1) by blast
qed

lemma fac_step_keeps:
  assumes "fac_step s s'" and "fac_ok s" and "map_of (facInformers (fst s)) t = Some i"
  shows "map_of (facInformers (fst s')) t = Some i"
  using assms
proof (induction rule: fac_step.induct)
  case (request f u newFunc j f' runs)
  then show ?case using InformerFor_new(5) [OF request(1)] by simp
next
  case (start f ls f' runs)
  then show ?case using Start_ok(3) by fastforce
qed

lemma fac_steps_ok: "fac_step\<^sup>*\<^sup>* s s' \<Longrightarrow> fac_ok s \<Longrightarrow> fac_ok s'"
  by (induction rule: rtranclp_induct) (auto intro: fac_step_ok)

lemma fac_steps_keep:
  assumes "fac_step\<^sup>*\<^sup>* s s'" and "fac_ok s" and "map_of (facInformers (fst s)) t = Some i"
  shows "map_of (facInformers (fst s')) t = Some i"
  using assms(1)
proof (induction rule: rtranclp_induct)
  case (step s' s'')
  show ?case by (rule fac_step_keeps [OF step(2) fac_steps_ok [OF step(1) assms(2)] step(3)])
qed (rule assms)

text \<open>Waiting covers exactly the started informers.\<close>

lemma fold_mput_filter:
  assumes "distinct (map fst m @ map fst acc)"
  shows "fold (\<lambda>(t, i) m. if P t then mput t (g i) m else m) m acc
    = acc @ map (\<lambda>(t, i). (t, g i)) (filter (\<lambda>(t, i). P t) m)"
  using assms
proof (induction m arbitrary: acc)
  case (Cons x m)
  obtain t i where x: "x = (t, i)" by fastforce
  have new: "mput t v acc = acc @ [(t, v)]" if "t \<notin> gkeys acc" for v
    using that by (induction acc) auto
  from Cons.prems have d: "t \<notin> gkeys acc" "distinct (map fst m @ map fst acc)"
    "distinct (map fst m @ map fst (acc @ [(t, g i)]))" by (auto simp: x gkeys_def)
  show ?case using Cons.IH [OF d(2)] Cons.IH [OF d(3)] by (simp add: x new [OF d(1)])
qed simp

lemma WaitForCacheSync_eq:
  assumes "gwf (facInformers f)"
  shows "fac_WaitForCacheSync synced f
    = map (\<lambda>(t, i). (t, synced i)) (filter (\<lambda>(t, i). mget False (facStarted f) t) (facInformers f))"
proof -
  let ?m = "filter (\<lambda>(t, i). mget False (facStarted f) t) (facInformers f)"
  have "distinct (map fst (facInformers f))" "distinct (map fst ?m)"
    using assms by (simp_all add: gwf_def distinct_map_filter)
  then show ?thesis
    using fold_mput_filter [of "facInformers f" "[]" "mget False (facStarted f)" "\<lambda>i. i"]
      fold_mput_filter [of ?m "[]" "\<lambda>t. True" synced]
    by (simp add: fac_WaitForCacheSync_def split_def)
qed

lemma start_loop_none: "(\<And>t i. (t, i) \<in> set m \<Longrightarrow> mget False started t) \<Longrightarrow> start_loop m started = ([], started)"
  by (induction m started rule: start_loop.induct) auto

section \<open>What the users of a factory can rely on\<close>

text \<open>C36: one shared informer per type, run once: after any requests and starts from a new factory, a type that has
  an informer keeps it, and every later request of that type gets it without changing the
  factory; the runs so far and those of the next Start together are exactly the registered
  informers, each once, a further Start launches none, and the wait then covers them all.\<close>

theorem inf_shared_and_run_once:
  assumes "shared_options options"
    and "fac_step\<^sup>*\<^sup>* (NewSharedInformerFactoryWithOptions resync options, []) (f, runs)"
    and "map_of (facInformers f) t = Some i" and "fac_step\<^sup>*\<^sup>* (f, runs) (g, runs')" and "fac_Start g = (ls, h)"
  shows "fac_InformerFor g t newFunc = (i, g) \<and> distinct (map fst (runs' @ ls)) \<and> (t, i) \<in> set (runs' @ ls) \<and>
    set (runs' @ ls) = set (facInformers h) \<and> fac_Start h = ([], h) \<and>
    set (fac_WaitForCacheSync synced h) = (\<lambda>(t, i). (t, synced i)) ` set (runs' @ ls)"
proof (intro conjI)
  have ok: "fac_ok (f, runs)" using fac_steps_ok [OF assms(2) fac_ok_new [OF assms(1)]] .
  have gok: "fac_ok (g, runs')" by (rule fac_steps_ok [OF assms(4) ok])
  have i: "map_of (facInformers g) t = Some i" using fac_steps_keep [OF assms(4) ok] assms(3) by simp
  then show "fac_InformerFor g t newFunc = (i, g)" by (simp add: fac_InformerFor_def)
  note h = Start_ok [OF gok assms(5)]
  show "set (runs' @ ls) = set (facInformers h)" by (rule h)
  show "(t, i) \<in> set (runs' @ ls)" unfolding h(2,3) by (rule map_of_SomeD [OF i])
  have hok: "gwf (facInformers h)" "\<And>u. mget False (facStarted h) u \<longleftrightarrow> u \<in> fst ` set (facInformers h)"
    and "distinct (map fst (runs' @ ls))" using h(1) by (simp_all add: fac_ok_def flip: h(2))
  then show "distinct (map fst (runs' @ ls))" by simp
  have all: "filter (\<lambda>(t, i). mget False (facStarted h) t) (facInformers h) = facInformers h"
    "filter (\<lambda>(t, i). \<not> mget False (facStarted h) t) (facInformers h) = []"
    by (auto simp: hok(2) filter_empty_conv intro!: filter_True dest: in_keys)
  then show "set (fac_WaitForCacheSync synced h) = (\<lambda>(t, i). (t, synced i)) ` set (runs' @ ls)"
    by (simp only: WaitForCacheSync_eq [OF hok(1)] h(2) set_map)
  have "start_loop (facInformers h) (facStarted h) = ([], facStarted h)"
    by (rule start_loop_none) (auto simp: hok(2) dest: in_keys)
  then show "fac_Start h = ([], h)" by (simp add: fac_Start_def)
qed

text \<open>The factory of the commands: both informers of the group requested, one of them again, then a start.\<close>

theorem inf_shared_and_run_once_witness:
  "\<exists>g ls h. fac_step\<^sup>*\<^sup>* (NewSharedInformerFactoryWithOptions 0 [WithNamespace ''a''], []) (g, []) \<and>
     fac_InformerFor g PodGroupType (\<lambda>r. NewPodGroupInformer ''b'' r NamespaceIndexers) =
       (NewPodGroupInformer ''a'' 0 NamespaceIndexers, g) \<and>
     fac_Start g = (ls, h) \<and> fac_Start h = ([], h) \<and>
     set ls = {(PodGroupType, NewPodGroupInformer ''a'' 0 NamespaceIndexers),
       (ElasticQuotaType, NewElasticQuotaInformer ''a'' 0 NamespaceIndexers)}"
proof -
  define f0 :: "informer factory" where "f0 = NewSharedInformerFactoryWithOptions 0 [WithNamespace ''a'']"
  define pa where "pa = version_PodGroups (group_V1alpha1 (fac_Scheduling f0))"
  define qa where "qa = version_ElasticQuotas (group_V1alpha1 (fac_Scheduling f0))"
  define f where "f = snd (podGroupInformer_Informer pa f0)"
  define g where "g = snd (elasticQuotaInformer_Informer qa f)"
  note defs = f0_def pa_def qa_def f_def g_def NewSharedInformerFactoryWithOptions_def WithNamespace_def
    fac_Scheduling_def group_New_def group_V1alpha1_def version_New_def version_PodGroups_def
    version_ElasticQuotas_def podGroupInformer_Informer_def elasticQuotaInformer_Informer_def
    fac_InformerFor_def podGroupInformer_defaultInformer_def elasticQuotaInformer_defaultInformer_def
    NewFilteredPodGroupInformer_def NewFilteredElasticQuotaInformer_def NewPodGroupInformer_def
    NewElasticQuotaInformer_def Let_def
  have "fac_step (f0, []) (f, [])" "fac_step (f, []) (g, [])"
    unfolding f_def g_def podGroupInformer_Informer_def elasticQuotaInformer_Informer_def
    by (rule fac_step.request [OF surjective_pairing])+
  then have steps: "fac_step\<^sup>*\<^sup>* (f0, []) (f, [])" "fac_step\<^sup>*\<^sup>* (f, []) (g, [])" by auto
  have pg: "map_of (facInformers f) PodGroupType = Some (NewPodGroupInformer ''a'' 0 NamespaceIndexers)"
    by (simp add: defs)
  have opts: "shared_options [WithNamespace ''a'' :: informer factory \<Rightarrow> informer factory]"
    by (auto simp: shared_options_def)
  obtain ls h where s: "fac_Start g = (ls, h)" by fastforce
  note r = inf_shared_and_run_once [OF opts steps(1) [unfolded f0_def] pg steps(2) s]
  have "ls = facInformers g" "facInformers g = [(PodGroupType, NewPodGroupInformer ''a'' 0 NamespaceIndexers),
      (ElasticQuotaType, NewElasticQuotaInformer ''a'' 0 NamespaceIndexers)]"
    using s by (auto simp: defs fac_Start_def mget_def)
  with r s steps show ?thesis unfolding f0_def by (intro exI [of _ g] exI [of _ ls] exI [of _ h]) auto
qed

end
