(* ===== verification/PluginStartup.thy ===== *)
theory PluginStartup
  imports CapacityInvariants CoschedulingProperties CrossNodePreemption ConfigProperties PodState QueueSort InformerFactory
begin

text \<open>
  How the two commands start: the plugins that \<^verbatim>\<open>cmd/scheduler/main.go\<close> registers and the
  constructors of the plugins that connect to the API server, and the controller command of
  \<^verbatim>\<open>cmd/controller/app/server.go\<close>. The REST configuration, the selector parser, the outcome of
  waiting for an informer, the host name, the lock and the leader election are parameters;
  \<^verbatim>\<open>klog.Fatal\<close> and the \<^verbatim>\<open>OrDie\<close> constructors end the process, here a panic.
  A constructor gives its result and the informer runs it has launched, also when it fails. The
  informers of pods come from the factories of client-go, which are not part of the program.
\<close>

section \<open>The constructors\<close>

record ('l, 's, 'r, 'd) startup_api = "('l, 's, 'r, 'd) client_api" +
  BuildConfigFromFlags :: "string \<Rightarrow> string \<Rightarrow> error + ('l, 's) rest_config"
  InClusterConfig :: "error + ('l, 's) rest_config"
  ParseSelector :: "string \<Rightarrow> error + string"
  HasSynced :: "informer \<Rightarrow> bool"
  PodsSynced :: bool
  Hostname :: "error + string"
  NewUUID :: string
  KubeNewForConfig :: "('l, 's) rest_config \<Rightarrow> error option"
  ResourceLock :: "string \<Rightarrow> error option"
  RunOrDie :: bool

type_synonym runs = "(api_type \<times> informer) list"

text \<open>The plugin and the informer its lister reads.\<close>

definition cap_New ::
  "('l, 's, 'r, 'd, 'z) startup_api_scheme \<Rightarrow> 'q runtime_object \<Rightarrow> (error + cap_state \<times> informer) \<times> runs"
where
  "cap_New S obj =
     (case obj of
        ObjCapacity args \<Rightarrow>
          let c = \<lparr>elasticQuotaInfos = NewElasticQuotaInfos\<rparr>
          in (case BuildConfigFromFlags S '''' (capKubeConfigPath args) of
                Inl err \<Rightarrow> (Inl err, [])
              | Inr restConfig \<Rightarrow>
                  (case NewForConfig S restConfig of
                     Inl err \<Rightarrow> (Inl err, [])
                   | Inr client \<Rightarrow>
                       let f = NewSharedInformerFactory 0;
                           (lister, f) = elasticQuotaInformer_Lister
                             (version_ElasticQuotas (group_V1alpha1 (fac_Scheduling f))) f;
                           (elasticQuotaInformer, f) = elasticQuotaInformer_Informer
                             (version_ElasticQuotas (group_V1alpha1 (fac_Scheduling f))) f;
                           (runs, f) = fac_Start f
                       in if \<not> HasSynced S elasticQuotaInformer
                          then (Inl (Err ''timed out waiting for caches to sync''), runs)
                          else (Inr (c, lister), runs)))
      | _ \<Rightarrow> (Inl (Err ''want args to be of type CapacitySchedulingArgs''), []))"

record ('q, 'c) coscheduling =
  cosMgr :: "('q, 'c) pg_manager"
  cosScheduleTimeout :: i64

definition cos_fieldSelector :: string where
  "cos_fieldSelector = '',status.phase!='' @ ''Succeeded'' @ '',status.phase!='' @ ''Failed''"

text \<open>The informer's store starts with the groups \<open>pgs\<close> that the synchronisation brings.
  NewPodGroupManager takes its lister from the informer before the factory starts.\<close>

definition cos_New ::
  "('q, 'c, 'w, 'y) pgm_api_scheme \<Rightarrow> ('l, 's, 'r, 'd, 'z) startup_api_scheme \<Rightarrow> (string, 'q pod_group) gomap \<Rightarrow>
   'q runtime_object \<Rightarrow> (error + ('q, 'c) coscheduling \<times> informer) \<times> runs"
where
  "cos_New K S pgs obj =
     (case obj of
        ObjCoscheduling args \<Rightarrow>
          (case BuildConfigFromFlags S (csKubeMaster args) (csKubeConfigPath args) of
             Inl err \<Rightarrow> (Inl (Err ''failed to init rest.Config''), [])
           | Inr conf \<Rightarrow>
               (case NewForConfigOrDie S conf of
                  Inl err \<Rightarrow> (Inl err, [])
                | Inr pgClient \<Rightarrow>
                    let f = NewSharedInformerFactory 0;
                        pgInformer = version_PodGroups (group_V1alpha1 (fac_Scheduling f))
                    in (case ParseSelector S cos_fieldSelector of
                          Inl err \<Rightarrow> (Inl (Panic ''ParseSelector failed''), [])
                        | Inr fieldSelector \<Rightarrow>
                            let scheduleTimeDuration = csPermitWaitingTimeSeconds args * Second;
                                deniedPGExpirationTime = csDeniedPGExpirationTimeSeconds args * Second;
                                pgMgr = NewPodGroupManager K scheduleTimeDuration deniedPGExpirationTime pgs;
                                (lister, f) = podGroupInformer_Lister pgInformer f;
                                plugin = \<lparr>cosMgr = pgMgr, cosScheduleTimeout = scheduleTimeDuration\<rparr>;
                                (runs, f) = fac_Start f;
                                (informer, f) = podGroupInformer_Informer pgInformer f
                            in if \<not> (HasSynced S informer \<and> PodsSynced S)
                               then (Inl (Err ''WaitForCacheSync failed''), runs)
                               else (Inr (plugin, lister), runs))))
      | _ \<Rightarrow> (Inl (Err ''want args to be of type CoschedulingArgs''), []))"

section \<open>The controller command\<close>

record server_run_options =
  KubeConfig :: string
  MasterUrl :: string
  InCluster :: bool
  ApiServerQPS :: i64
  ApiServerBurst :: i64
  Workers :: i64
  EnableLeaderElection :: bool

text \<open>The defaults of the flags.\<close>

definition addAllFlags :: "server_run_options \<Rightarrow> server_run_options" where
  "addAllFlags s = s\<lparr>ApiServerQPS := 5, ApiServerBurst := 10, Workers := 1\<rparr>"

definition NewServerRunOptions :: server_run_options where
  "NewServerRunOptions = addAllFlags
     \<lparr>KubeConfig = '''', MasterUrl = '''', InCluster = False, ApiServerQPS = 0, ApiServerBurst = 0, Workers = 0,
      EnableLeaderElection = False\<rparr>"

definition newConfig ::
  "('l, 's, 'r, 'd, 'z) startup_api_scheme \<Rightarrow> string \<Rightarrow> string \<Rightarrow> bool \<Rightarrow> error + ('l, 's) rest_config"
where
  "newConfig S kubeconfig master inCluster =
     (case (if inCluster then InClusterConfig S else BuildConfigFromFlags S master kubeconfig) of
        Inl err \<Rightarrow> Inl err
      | Inr config \<Rightarrow> Inr config)"

text \<open>
  The number of workers the controller starts, and the informer runs. \<open>RunOrDie\<close> says whether the
  election makes this process the leader, which runs the controller; losing the lead ends the process.
  \<open>KubeNewForConfig\<close> is the error of client-go's own clientset for the same config.
\<close>

definition server_Run ::
  "('l, 's, 'r, 'd, 'z) startup_api_scheme \<Rightarrow> ('q, 'k, 'w, 'y) ctl_api_scheme \<Rightarrow> 'w \<Rightarrow>
   ((string, string) gomap \<Rightarrow> error + 'q pod list) \<Rightarrow> (string, 'q pod_group) gomap \<Rightarrow>
   (bool list \<Rightarrow> bool) \<Rightarrow> server_run_options \<Rightarrow> (error + nat) \<times> runs"
where
  "server_Run S K client pods pgs WaitForCacheSync s =
     (case newConfig S (KubeConfig s) (MasterUrl s) (InCluster s) of
        Inl err \<Rightarrow> (Inl (Panic ''newConfig''), [])
      | Inr config \<Rightarrow>
          (let config = config\<lparr>QPS := fl_of_int float32 (sint (ApiServerQPS s))\<rparr>;
               config = config\<lparr>Burst := ApiServerBurst s\<rparr>
           in (case NewForConfigOrDie S config of
                 Inl err \<Rightarrow> (Inl err, [])
               | Inr pgClient \<Rightarrow>
                   if KubeNewForConfig S config \<noteq> None then (Inl (Panic ''NewForConfig''), [])
                   else (let f = NewSharedInformerFactory 0;
                        pgInformer = version_PodGroups (group_V1alpha1 (fac_Scheduling f));
                        (informer, f) = podGroupInformer_Informer pgInformer f;
                        ctrl = NewPodGroupController K pgs (HasSynced S informer) pods (PodsSynced S) client;
                        (runs, f) = fac_Start f;
                        run = ctl_Run WaitForCacheSync ctrl (sint (Workers s))
                    in if \<not> EnableLeaderElection s then (Inr run, runs)
                       else (case Hostname S of
                               Inl err \<Rightarrow> (Inl err, runs)
                             | Inr host \<Rightarrow>
                                 (case ResourceLock S (host @ ''_'' @ NewUUID S) of
                                    Some err \<Rightarrow> (Inl (Panic ''error creating lock''), runs)
                                  | None \<Rightarrow> (Inr (if RunOrDie S then run else 0), runs)))))))"

text \<open>
  \<^verbatim>\<open>main\<close> of the controller command: the flags write into the options, an error of Run is printed and the
  process exits with status 1; a panic ends it as a panic.
\<close>

definition controller_main ::
  "('l, 's, 'r, 'd, 'z) startup_api_scheme \<Rightarrow> ('q, 'k, 'w, 'y) ctl_api_scheme \<Rightarrow> 'w \<Rightarrow>
   ((string, string) gomap \<Rightarrow> error + 'q pod list) \<Rightarrow> (string, 'q pod_group) gomap \<Rightarrow>
   (bool list \<Rightarrow> bool) \<Rightarrow> (server_run_options \<Rightarrow> server_run_options) \<Rightarrow> error + int"
where
  "controller_main S K client pods pgs WaitForCacheSync Parse =
     (let options = Parse NewServerRunOptions
      in case fst (server_Run S K client pods pgs WaitForCacheSync options) of
           Inl (Panic m) \<Rightarrow> Inl (Panic m)
         | Inl (Err m) \<Rightarrow> Inr 1
         | Inr _ \<Rightarrow> Inr 0)"

section \<open>The registry\<close>

definition scheduler_plugins :: "string list" where
  "scheduler_plugins = [cap_Name, cos_Name, lvr_Name, AllocatableName, tlp_Name, xnp_Name, ps_Name, qos_Name]"

text \<open>The registry refuses a name that is already taken; no two of the command's plugins share one.\<close>

lemma plugin_names_distinct: "distinct scheduler_plugins"
  by (simp add: scheduler_plugins_def cap_Name_def cos_Name_def lvr_Name_def AllocatableName_def tlp_Name_def
      xnp_Name_def ps_Name_def qos_Name_def)

text \<open>Only an unknown host name makes the command exit with an error: every other failure panics.\<close>

lemma controller_main_exit:
  assumes "controller_main S K client pods pgs WaitForCacheSync Parse = Inr code" and "code \<noteq> 0"
  shows "code = 1 \<and> EnableLeaderElection (Parse NewServerRunOptions) \<and> (\<exists>m. Hostname S = Inl (Err m))"
  using assms
  by (auto simp: controller_main_def server_Run_def Let_def NewForConfigOrDie_def scheduling_NewForConfigOrDie_def
      split: sum.splits error.splits prod.splits option.splits if_splits)

section \<open>What a started plugin is\<close>

text \<open>The capacity plugin starts in the initial state of its reachable states.\<close>

lemma cap_New_reachable: "cap_New S obj = (Inr (c, l), runs) \<Longrightarrow> cap_reachable K lister req c"
proof -
  assume "cap_New S obj = (Inr (c, l), runs)"
  then have "c = cap_init"
    by (auto simp: cap_New_def cap_init_def Let_def split: runtime_object.splits sum.splits prod.splits if_splits)
  then show ?thesis by (simp add: cap_reachable.start)
qed

text \<open>The times of the gang plugin are the configured seconds, when their nanoseconds fit.\<close>

lemma seconds_fit:
  fixes s :: i64
  assumes "\<bar>sint s\<bar> \<le> 9223372036"
  shows "sint (s * Second) = sint s * 1000000000"
proof -
  have "sint Second = 1000000000" by (simp add: Second_def)
  then show ?thesis using assms by (subst sint64_mul) auto
qed

lemma cos_New_times:
  assumes "conversion_laws C" and "load_args C MustParse (VCoscheduling s) = Inr obj" and "cos_New K S pgs obj = (Inr (pl, l), runs)"
    and "\<bar>sint (value_or 60 (bcsPermitWaitingTimeSeconds s))\<bar> \<le> 9223372036"
    and "\<bar>sint (value_or 20 (bcsDeniedPGExpirationTimeSeconds s))\<bar> \<le> 9223372036"
  shows "sint (cosScheduleTimeout pl) = sint (value_or 60 (bcsPermitWaitingTimeSeconds s)) * 1000000000"
    and "pgmScheduleTimeout (cosMgr pl) = cosScheduleTimeout pl"
    and "sint (lastDeniedPGExpirationTime (cosMgr pl))
      = sint (value_or 20 (bcsDeniedPGExpirationTimeSeconds s)) * 1000000000"
proof -
  from assms(2,3) have "cosScheduleTimeout pl = value_or 60 (bcsPermitWaitingTimeSeconds s) * Second"
    and "pgmScheduleTimeout (cosMgr pl) = cosScheduleTimeout pl"
    and "lastDeniedPGExpirationTime (cosMgr pl) = value_or 20 (bcsDeniedPGExpirationTimeSeconds s) * Second"
    by (auto simp: load_args_simps(3) [OF assms(1)] defaultPermitWaitingTimeSeconds_def
        defaultDeniedPGExpirationTimeSeconds_def cos_New_def NewPodGroupManager_def Let_def
        split: sum.splits prod.splits if_splits)
  with assms(4,5) show "sint (cosScheduleTimeout pl) = sint (value_or 60 (bcsPermitWaitingTimeSeconds s)) * 1000000000"
    and "pgmScheduleTimeout (cosMgr pl) = cosScheduleTimeout pl"
    and "sint (lastDeniedPGExpirationTime (cosMgr pl))
      = sint (value_or 20 (bcsDeniedPGExpirationTimeSeconds s)) * 1000000000"
    by (simp_all only: seconds_fit)
qed

text \<open>A longer waiting time wraps: 9223372037 seconds become a negative duration.\<close>

lemma cos_New_wraps: "sint ((9223372037 :: i64) * Second) < 0"
  by (simp add: Second_def)

section \<open>What the started plugins read\<close>

lemmas new_informers = NewSharedInformerFactory_def NewSharedInformerFactoryWithOptions_def fac_Scheduling_def
  group_New_def group_V1alpha1_def version_New_def version_PodGroups_def version_ElasticQuotas_def
  podGroupInformer_Informer_def podGroupInformer_Lister_def elasticQuotaInformer_Informer_def
  elasticQuotaInformer_Lister_def podGroupInformer_defaultInformer_def elasticQuotaInformer_defaultInformer_def
  NewPodGroupInformer_def NewElasticQuotaInformer_def fac_InformerFor_def fac_Start_def

lemma cap_New_runs:
  assumes "cap_New S obj = (Inr (c, lister), runs)"
  shows "lister = NewElasticQuotaInformer NamespaceAll 0 NamespaceIndexers" and "HasSynced S lister"
    and "runs = [(ElasticQuotaType, lister)]"
  using assms
  by (auto simp: cap_New_def new_informers Let_def mget_def split: runtime_object.splits sum.splits if_splits)

lemma cos_New_runs:
  assumes "cos_New K S pgs obj = (Inr (pl, lister), runs)"
  shows "lister = NewPodGroupInformer NamespaceAll 0 NamespaceIndexers" and "HasSynced S lister"
    and "runs = [(PodGroupType, lister)]"
  using assms
  by (auto simp: cos_New_def new_informers Let_def mget_def split: runtime_object.splits sum.splits if_splits)

lemma server_Run_runs:
  assumes "server_Run S K client pods pgs wait s = (Inr n, runs)"
  shows "runs = [(PodGroupType, NewPodGroupInformer NamespaceAll 0 NamespaceIndexers)]"
    and "n \<le> nat (sint (Workers s))"
  using assms
  by (auto simp: server_Run_def ctl_Run_def new_informers Let_def mget_def
      split: sum.splits option.splits if_splits)


definition demo_startup :: "(unit, unit, unit, unit) startup_api" where
  "demo_startup = \<lparr>NewTokenBucketRateLimiter = (\<lambda>_ _. ()), WithoutConversion = (), DefaultKubernetesUserAgent = ''agent'',
     RESTClientFor = (\<lambda>_. Inr ()), NewDiscoveryClientForConfig = (\<lambda>_. Inr ()),
     BuildConfigFromFlags = (\<lambda>_ _. Inr \<lparr>RateLimiter = None, QPS = Fin 0, Burst = 0, GroupVersion = None, APIPath = '''',
       NegotiatedSerializer = None, UserAgent = ''''\<rparr>),
     InClusterConfig = Inl (Err ''not in a cluster''), ParseSelector = Inr, HasSynced = (\<lambda>_. True), PodsSynced = True,
     Hostname = Inr ''host'', NewUUID = ''1'', KubeNewForConfig = (\<lambda>_. None), ResourceLock = (\<lambda>_. None), RunOrDie = True\<rparr>"


end
