(* ===== verification/Parallelism.thy ===== *)
theory Parallelism
  imports GoFloat
begin

text \<open>
  \<^verbatim>\<open>pkg/util/parallelism.go\<close>: how work is cut into chunks for the workers of client-go's
  work queue. \<^verbatim>\<open>math.Sqrt\<close> and \<^verbatim>\<open>workqueue.ParallelizeUntil\<close> are parameters.
\<close>

definition parallelism :: i64 where "parallelism = 16"

definition chunkSizeFor :: "(gofloat \<Rightarrow> gofloat) \<Rightarrow> i64 \<Rightarrow> i64" where
  "chunkSizeFor Sqrt n =
     (let s = int64_of_float (Sqrt (fl_of_int float64 (sint n)));
          r = go_div n parallelism + 1
      in if sint s > sint r then r else if sint s < 1 then 1 else s)"

definition Until :: "(gofloat \<Rightarrow> gofloat) \<Rightarrow> (i64 \<Rightarrow> i64 \<Rightarrow> 'f \<Rightarrow> i64 \<Rightarrow> 'a) \<Rightarrow> i64 \<Rightarrow> 'f \<Rightarrow> 'a" where
  "Until Sqrt ParallelizeUntil pieces doWorkPiece =
     ParallelizeUntil parallelism pieces doWorkPiece (chunkSizeFor Sqrt pieces)"

text \<open>Whatever the square root, a chunk has at least one piece, and no worker can be left with more than its
  share: sixteen chunks never exceed the pieces by more than sixteen.\<close>

lemma chunkSizeFor_bounds:
  assumes "0 \<le> sint n"
  shows "1 \<le> sint (chunkSizeFor Sqrt n)" and "16 * sint (chunkSizeFor Sqrt n) \<le> sint n + 16"
proof -
  have b: "sint n < 9223372036854775808" by (rule sint64_bounds)
  have "sint n sdiv 16 = sint n div 16" using assms by (simp add: signed_divide_int_def sgn_if)
  then have d: "sint (go_div n parallelism) = sint n div 16"
    using assms b by (simp add: go_div_def parallelism_def sint64_of_int)
  then have r: "sint (go_div n parallelism + 1) = sint n div 16 + 1"
    using assms b by (subst sint64_add) auto
  show "1 \<le> sint (chunkSizeFor Sqrt n)" and "16 * sint (chunkSizeFor Sqrt n) \<le> sint n + 16"
    using r assms by (auto simp: chunkSizeFor_def Let_def)
qed

end
