(* ===== verification/PreemptionAdmission.thy ===== *)
theory PreemptionAdmission
  imports PreemptionProperties CapacityProperties
begin

text \<open>
  Admission and preemption together, across the two scheduling cycles of a pod that did not
  fit: PreFilter snapshots the live quotas, PostFilter selects victims on that snapshot, the
  informer later deletes the victims from the live quotas, and PreFilter runs again. The dry run
  works on a copy; these lemmas carry what it found over to the live state.
\<close>

section \<open>Evictions on the live quotas\<close>

lemma deletePod_infos:
  "deletePod K c (PodObj p) = Inr (c\<lparr>elasticQuotaInfos := infos_del K (elasticQuotaInfos c) p\<rparr>)"
  by (simp add: deletePod_def infos_del_def updated_ops split: option.split)

definition evictions :: "'q pod list \<Rightarrow> 'q cap_event list" where
  "evictions ws = map (\<lambda>v. PodDeleted (PodObj v)) ws"

text \<open>The informer's deletions of pods of a node, in any order, leave the quotas without them.\<close>

lemma evictions_run:
  assumes K: "resource_laws K" and acc: "accounted_pods K infos N"
  shows "R + mset ws \<subseteq># mset N \<Longrightarrow> infos_without K infos R (elasticQuotaInfos c) \<Longrightarrow>
    \<exists>c'. cap_run K lister c (evictions ws) = Inr c' \<and>
      infos_without K infos (R + mset ws) (elasticQuotaInfos c')"
proof (induction ws arbitrary: R c)
  case Nil
  then show ?case by (simp add: evictions_def)
next
  case (Cons v ws)
  have "add_mset v R \<subseteq># mset N" "add_mset v R + mset ws \<subseteq># mset N"
    using Cons.prems(1) by (auto intro: subset_mset.order_trans [rotated])
  from Cons.IH [OF this(2), of "c\<lparr>elasticQuotaInfos := infos_del K (elasticQuotaInfos c) v\<rparr>"]
    infos_without_del [OF K acc this(1) Cons.prems(2)]
  show ?case by (simp add: evictions_def deletePod_infos)
qed

lemma cap_PreFilter_quota_exceeded:
  "stCode (snd (cap_PreFilter K c st p)) = Success \<longleftrightarrow>
    \<not> quota_exceeded K (elasticQuotaInfos c) p (computePodResourceRequest K p)"
  by (simp add: cap_PreFilter_def snapshotElasticQuota_def quota_exceeded_def NewStatus_def Let_def
      split: option.split)

lemma room_without_namespace:
  "podNamespace p = podNamespace q \<Longrightarrow> room_without K infos R p req = room_without K infos R q req"
  by (simp add: room_without_def)

text \<open>If the snapshot without the victims has room for the pod, so have the live quotas once the
  victims are gone.\<close>

lemma room_admits:
  assumes K: "resource_laws K" and wf: "wf_infos K (elasticQuotaInfos c)"
    and acc: "accounted_pods K (elasticQuotaInfos c) N" and sub: "mset ws \<subseteq># mset N"
    and pos: "\<forall>d. 0 \<le> sint (total_min (elasticQuotaInfos c) d)"
    and room: "room_without K (elasticQuotaInfos c) (mset ws) p (computePodResourceRequest K p)"
  shows "\<exists>c'. cap_run K lister c (evictions ws) = Inr c' \<and>
    (\<forall>st. stCode (snd (cap_PreFilter K c' st p)) = Success)"
proof -
  obtain c' where "cap_run K lister c (evictions ws) = Inr c'"
    and w: "infos_without K (elasticQuotaInfos c) (mset ws) (elasticQuotaInfos c')"
    using evictions_run [OF K acc, of "{#}" ws c lister] sub infos_without_start [OF wf] by auto
  then show ?thesis
    using room quota_exceeded_without [OF K w wf _ pos] compute_wf [OF K]
    by (simp add: cap_PreFilter_quota_exceeded)
qed

section \<open>From PostFilter to the next PreFilter\<close>

text \<open>Extenders that at most drop candidates, and a selection among those offered.\<close>

definition picks_offered :: "('q, 'w) cluster_api \<Rightarrow> bool" where
  "picks_offered C \<longleftrightarrow>
     (\<forall>p cs cs'. call_extenders C p cs = Inr cs' \<longrightarrow> set cs' \<subseteq> set cs) \<and>
     (\<forall>cs b. select_candidate C cs = Some b \<longrightarrow> b \<in> set cs)"


definition demo_full_node :: "int node_info" where
  "demo_full_node = demo_node\<lparr>niPods := [demo_pod ''ns'' ''u1'' 500 0]\<rparr>"

definition demo_full_cluster :: "(int, string) cluster_api" where
  "demo_full_cluster = demo_cluster\<lparr>list_nodes := Inr [demo_full_node]\<rparr>"

lemma demo_full_postfilter:
  "cap_PostFilter demo_preempt demo_full_cluster None ''w''
     (fst (cap_PreFilter demo_preempt demo_state [] (demo_pod ''ns'' ''p'' 800 9)))
     (demo_pod ''ns'' ''p'' 800 9) [] = ((Some ''n'', NewStatus Success ''''), ''n'')"
  by code_simp


end
