(* ===== verification/FakeClient.thy ===== *)
theory FakeClient
  imports GeneratedClient
begin

text \<open>
  The fake client generated for tests, under \<^verbatim>\<open>pkg/generated/clientset/versioned/fake\<close> and
  \<^verbatim>\<open>typed/scheduling/v1alpha1/fake\<close>, and its agreement with the real one. A fake
  method builds an action of \<^verbatim>\<open>k8s.io/client-go/testing\<close> and passes it to \<^verbatim>\<open>Fake.Invokes\<close> or
  \<^verbatim>\<open>Fake.InvokesWatch\<close>, which are parameters over a world \<open>'w\<close>, the recorded actions and the
  object tracker. An action is the constructor the source calls with its arguments. What
  comes back is an interface value: \<open>None\<close> is its nil, and a type assertion on the wrong kind
  panics. The labels of an object and the metadata of a list, which only the fake reads, are parameters.
\<close>

section \<open>Actions and objects\<close>

record group_version_resource =
  gvrGroup :: string
  gvrVersion :: string
  gvrResource :: string

record group_version_kind =
  gvkGroup :: string
  gvkVersion :: string
  gvkKind :: string

datatype ('q, 'm) fake_object =
    PodGroupObject "'q pod_group"
  | PodGroupListObject 'm "'q pod_group list"
  | ElasticQuotaObject "'q elastic_quota"
  | ElasticQuotaListObject 'm "'q elastic_quota list"
  | ForeignObject

datatype ('q, 'm) fake_action =
    GetAction group_version_resource string string
  | ListAction group_version_resource group_version_kind string list_options
  | WatchAction group_version_resource string list_options
  | CreateAction group_version_resource string "('q, 'm) fake_object"
  | UpdateAction group_version_resource string "('q, 'm) fake_object"
  | UpdateSubresourceAction group_version_resource string string "('q, 'm) fake_object"
  | DeleteAction group_version_resource string string
  | DeleteCollectionAction group_version_resource string list_options
  | PatchSubresourceAction group_version_resource string string string string "string list"

type_synonym 'o fake_reply = "error + 'o option \<times> error option"

record ('q, 'm, 'sel, 'ch, 'w) fake_api =
  Invokes :: "'w \<Rightarrow> ('q, 'm) fake_action \<Rightarrow> ('q, 'm) fake_object \<Rightarrow>
    (('q, 'm) fake_object option \<times> error option) \<times> 'w"
  InvokesWatch :: "'w \<Rightarrow> ('q, 'm) fake_action \<Rightarrow> ('ch option \<times> error option) \<times> 'w"
  extract_label :: "list_options \<Rightarrow> 'sel option"
  labels_Everything :: 'sel
  label_Matches :: "'sel \<Rightarrow> (string, string) gomap \<Rightarrow> bool"
  group_Labels :: "'q pod_group \<Rightarrow> (string, string) gomap"
  quota_Labels :: "'q elastic_quota \<Rightarrow> (string, string) gomap"
  zero_ListMeta :: 'm

section \<open>The PodGroup fake\<close>

record fakePodGroups = fakePgNs :: string

definition podgroupsResource :: group_version_resource where
  "podgroupsResource =
     \<lparr>gvrGroup = ''scheduling.sigs.k8s.io'', gvrVersion = ''v1alpha1'', gvrResource = ''podgroups''\<rparr>"

definition podgroupsKind :: group_version_kind where
  "podgroupsKind = \<lparr>gvkGroup = ''scheduling.sigs.k8s.io'', gvkVersion = ''v1alpha1'', gvkKind = ''PodGroup''\<rparr>"

text \<open>\<^verbatim>\<open>obj.(*v1alpha1.PodGroup)\<close>, and the end that the methods share: the nil check, then the assertion.\<close>

fun as_PodGroup :: "('q, 'm) fake_object \<Rightarrow> error + 'q pod_group" where
  "as_PodGroup (PodGroupObject pg) = Inr pg"
| "as_PodGroup _ = Inl (Panic ''interface conversion: not *v1alpha1.PodGroup'')"

definition fake_result ::
  "('x \<Rightarrow> error + 'o) \<Rightarrow> ('x option \<times> error option) \<times> 'w \<Rightarrow> 'o fake_reply \<times> 'w"
where
  "fake_result assertion ret =
     (case ret of ((obj, err), w) \<Rightarrow>
        (case obj of
           None \<Rightarrow> (Inr (None, err), w)
         | Some x \<Rightarrow>
             (case assertion x of
                Inl p \<Rightarrow> (Inl p, w)
              | Inr y \<Rightarrow> (Inr (Some y, err), w))))"

definition fakePodGroups_Get ::
  "('q, 'm, 'sel, 'ch, 'w, 'z) fake_api_scheme \<Rightarrow> fakePodGroups \<Rightarrow> 'w \<Rightarrow> string \<Rightarrow> 'opt \<Rightarrow>
   'q pod_group fake_reply \<times> 'w"
where
  "fakePodGroups_Get F c w name options =
     fake_result as_PodGroup
       (Invokes F w (GetAction podgroupsResource (fakePgNs c) name) (PodGroupObject zero_PodGroup))"

text \<open>The loop of List over the items that Invokes returns.\<close>

fun matching_items :: "('o \<Rightarrow> bool) \<Rightarrow> 'o list \<Rightarrow> 'o list \<Rightarrow> 'o list" where
  "matching_items matches [] acc = acc"
| "matching_items matches (item # rest) acc =
     (if matches item then matching_items matches rest (acc @ [item])
      else matching_items matches rest acc)"

definition fakePodGroups_List ::
  "('q, 'm, 'sel, 'ch, 'w, 'z) fake_api_scheme \<Rightarrow> fakePodGroups \<Rightarrow> 'w \<Rightarrow> list_options \<Rightarrow>
   ('m \<times> 'q pod_group list) fake_reply \<times> 'w"
where
  "fakePodGroups_List F c w opts =
     (case Invokes F w (ListAction podgroupsResource podgroupsKind (fakePgNs c) opts)
             (PodGroupListObject (zero_ListMeta F) []) of
        ((None, err), w) \<Rightarrow> (Inr (None, err), w)
      | ((Some obj, err), w) \<Rightarrow>
          let label = (case extract_label F opts of None \<Rightarrow> labels_Everything F | Some l \<Rightarrow> l)
          in case obj of
               PodGroupListObject m items \<Rightarrow>
                 (Inr (Some (m, matching_items (\<lambda>item. label_Matches F label (group_Labels F item)) items []), err), w)
             | _ \<Rightarrow> (Inl (Panic ''interface conversion: not *v1alpha1.PodGroupList''), w))"

definition fakePodGroups_Watch ::
  "('q, 'm, 'sel, 'ch, 'w, 'z) fake_api_scheme \<Rightarrow> fakePodGroups \<Rightarrow> 'w \<Rightarrow> list_options \<Rightarrow>
   ('ch option \<times> error option) \<times> 'w"
where
  "fakePodGroups_Watch F c w opts = InvokesWatch F w (WatchAction podgroupsResource (fakePgNs c) opts)"

definition fakePodGroups_Create ::
  "('q, 'm, 'sel, 'ch, 'w, 'z) fake_api_scheme \<Rightarrow> fakePodGroups \<Rightarrow> 'w \<Rightarrow> 'q pod_group \<Rightarrow> 'opt \<Rightarrow>
   'q pod_group fake_reply \<times> 'w"
where
  "fakePodGroups_Create F c w pod_group opts =
     fake_result as_PodGroup
       (Invokes F w (CreateAction podgroupsResource (fakePgNs c) (PodGroupObject pod_group))
          (PodGroupObject zero_PodGroup))"

definition fakePodGroups_Update ::
  "('q, 'm, 'sel, 'ch, 'w, 'z) fake_api_scheme \<Rightarrow> fakePodGroups \<Rightarrow> 'w \<Rightarrow> 'q pod_group \<Rightarrow> 'opt \<Rightarrow>
   'q pod_group fake_reply \<times> 'w"
where
  "fakePodGroups_Update F c w pod_group opts =
     fake_result as_PodGroup
       (Invokes F w (UpdateAction podgroupsResource (fakePgNs c) (PodGroupObject pod_group))
          (PodGroupObject zero_PodGroup))"

definition fakePodGroups_UpdateStatus ::
  "('q, 'm, 'sel, 'ch, 'w, 'z) fake_api_scheme \<Rightarrow> fakePodGroups \<Rightarrow> 'w \<Rightarrow> 'q pod_group \<Rightarrow> 'opt \<Rightarrow>
   'q pod_group fake_reply \<times> 'w"
where
  "fakePodGroups_UpdateStatus F c w pod_group opts =
     fake_result as_PodGroup
       (Invokes F w (UpdateSubresourceAction podgroupsResource ''status'' (fakePgNs c) (PodGroupObject pod_group))
          (PodGroupObject zero_PodGroup))"

definition fakePodGroups_Delete ::
  "('q, 'm, 'sel, 'ch, 'w, 'z) fake_api_scheme \<Rightarrow> fakePodGroups \<Rightarrow> 'w \<Rightarrow> string \<Rightarrow> 'opt \<Rightarrow>
   error option \<times> 'w"
where
  "fakePodGroups_Delete F c w name opts =
     (let ((_, err), w) = Invokes F w (DeleteAction podgroupsResource (fakePgNs c) name) (PodGroupObject zero_PodGroup)
      in (err, w))"

definition fakePodGroups_DeleteCollection ::
  "('q, 'm, 'sel, 'ch, 'w, 'z) fake_api_scheme \<Rightarrow> fakePodGroups \<Rightarrow> 'w \<Rightarrow> 'opt \<Rightarrow> list_options \<Rightarrow>
   error option \<times> 'w"
where
  "fakePodGroups_DeleteCollection F c w opts listOpts =
     (let action = DeleteCollectionAction podgroupsResource (fakePgNs c) listOpts;
          ((_, err), w) = Invokes F w action (PodGroupListObject (zero_ListMeta F) [])
      in (err, w))"

definition fakePodGroups_Patch ::
  "('q, 'm, 'sel, 'ch, 'w, 'z) fake_api_scheme \<Rightarrow> fakePodGroups \<Rightarrow> 'w \<Rightarrow> string \<Rightarrow> string \<Rightarrow> string \<Rightarrow>
   'opt \<Rightarrow> string list \<Rightarrow> 'q pod_group fake_reply \<times> 'w"
where
  "fakePodGroups_Patch F c w name pt data opts subresources =
     fake_result as_PodGroup
       (Invokes F w (PatchSubresourceAction podgroupsResource (fakePgNs c) name pt data subresources)
          (PodGroupObject zero_PodGroup))"

section \<open>The ElasticQuota fake\<close>

record fakeElasticQuotas = fakeEqNs :: string

definition elasticquotasResource :: group_version_resource where
  "elasticquotasResource =
     \<lparr>gvrGroup = ''scheduling.sigs.k8s.io'', gvrVersion = ''v1alpha1'', gvrResource = ''elasticquotas''\<rparr>"

definition elasticquotasKind :: group_version_kind where
  "elasticquotasKind = \<lparr>gvkGroup = ''scheduling.sigs.k8s.io'', gvkVersion = ''v1alpha1'', gvkKind = ''ElasticQuota''\<rparr>"

fun as_ElasticQuota :: "('q, 'm) fake_object \<Rightarrow> error + 'q elastic_quota" where
  "as_ElasticQuota (ElasticQuotaObject pg) = Inr pg"
| "as_ElasticQuota _ = Inl (Panic ''interface conversion: not *v1alpha1.ElasticQuota'')"

definition fakeElasticQuotas_Get ::
  "('q, 'm, 'sel, 'ch, 'w, 'z) fake_api_scheme \<Rightarrow> fakeElasticQuotas \<Rightarrow> 'w \<Rightarrow> string \<Rightarrow> 'opt \<Rightarrow>
   'q elastic_quota fake_reply \<times> 'w"
where
  "fakeElasticQuotas_Get F c w name options =
     fake_result as_ElasticQuota
       (Invokes F w (GetAction elasticquotasResource (fakeEqNs c) name) (ElasticQuotaObject zero_ElasticQuota))"

definition fakeElasticQuotas_List ::
  "('q, 'm, 'sel, 'ch, 'w, 'z) fake_api_scheme \<Rightarrow> fakeElasticQuotas \<Rightarrow> 'w \<Rightarrow> list_options \<Rightarrow>
   ('m \<times> 'q elastic_quota list) fake_reply \<times> 'w"
where
  "fakeElasticQuotas_List F c w opts =
     (case Invokes F w (ListAction elasticquotasResource elasticquotasKind (fakeEqNs c) opts)
             (ElasticQuotaListObject (zero_ListMeta F) []) of
        ((None, err), w) \<Rightarrow> (Inr (None, err), w)
      | ((Some obj, err), w) \<Rightarrow>
          let label = (case extract_label F opts of None \<Rightarrow> labels_Everything F | Some l \<Rightarrow> l)
          in case obj of
               ElasticQuotaListObject m items \<Rightarrow>
                 (Inr (Some (m, matching_items (\<lambda>item. label_Matches F label (quota_Labels F item)) items []), err), w)
             | _ \<Rightarrow> (Inl (Panic ''interface conversion: not *v1alpha1.ElasticQuotaList''), w))"

definition fakeElasticQuotas_Watch ::
  "('q, 'm, 'sel, 'ch, 'w, 'z) fake_api_scheme \<Rightarrow> fakeElasticQuotas \<Rightarrow> 'w \<Rightarrow> list_options \<Rightarrow>
   ('ch option \<times> error option) \<times> 'w"
where
  "fakeElasticQuotas_Watch F c w opts = InvokesWatch F w (WatchAction elasticquotasResource (fakeEqNs c) opts)"

definition fakeElasticQuotas_Create ::
  "('q, 'm, 'sel, 'ch, 'w, 'z) fake_api_scheme \<Rightarrow> fakeElasticQuotas \<Rightarrow> 'w \<Rightarrow> 'q elastic_quota \<Rightarrow> 'opt \<Rightarrow>
   'q elastic_quota fake_reply \<times> 'w"
where
  "fakeElasticQuotas_Create F c w elastic_quota opts =
     fake_result as_ElasticQuota
       (Invokes F w (CreateAction elasticquotasResource (fakeEqNs c) (ElasticQuotaObject elastic_quota))
          (ElasticQuotaObject zero_ElasticQuota))"

definition fakeElasticQuotas_Update ::
  "('q, 'm, 'sel, 'ch, 'w, 'z) fake_api_scheme \<Rightarrow> fakeElasticQuotas \<Rightarrow> 'w \<Rightarrow> 'q elastic_quota \<Rightarrow> 'opt \<Rightarrow>
   'q elastic_quota fake_reply \<times> 'w"
where
  "fakeElasticQuotas_Update F c w elastic_quota opts =
     fake_result as_ElasticQuota
       (Invokes F w (UpdateAction elasticquotasResource (fakeEqNs c) (ElasticQuotaObject elastic_quota))
          (ElasticQuotaObject zero_ElasticQuota))"

definition fakeElasticQuotas_Delete ::
  "('q, 'm, 'sel, 'ch, 'w, 'z) fake_api_scheme \<Rightarrow> fakeElasticQuotas \<Rightarrow> 'w \<Rightarrow> string \<Rightarrow> 'opt \<Rightarrow>
   error option \<times> 'w"
where
  "fakeElasticQuotas_Delete F c w name opts =
     (let ((_, err), w) = Invokes F w (DeleteAction elasticquotasResource (fakeEqNs c) name) (ElasticQuotaObject zero_ElasticQuota)
      in (err, w))"

definition fakeElasticQuotas_DeleteCollection ::
  "('q, 'm, 'sel, 'ch, 'w, 'z) fake_api_scheme \<Rightarrow> fakeElasticQuotas \<Rightarrow> 'w \<Rightarrow> 'opt \<Rightarrow> list_options \<Rightarrow>
   error option \<times> 'w"
where
  "fakeElasticQuotas_DeleteCollection F c w opts listOpts =
     (let action = DeleteCollectionAction elasticquotasResource (fakeEqNs c) listOpts;
          ((_, err), w) = Invokes F w action (ElasticQuotaListObject (zero_ListMeta F) [])
      in (err, w))"

definition fakeElasticQuotas_Patch ::
  "('q, 'm, 'sel, 'ch, 'w, 'z) fake_api_scheme \<Rightarrow> fakeElasticQuotas \<Rightarrow> 'w \<Rightarrow> string \<Rightarrow> string \<Rightarrow> string \<Rightarrow>
   'opt \<Rightarrow> string list \<Rightarrow> 'q elastic_quota fake_reply \<times> 'w"
where
  "fakeElasticQuotas_Patch F c w name pt data opts subresources =
     fake_result as_ElasticQuota
       (Invokes F w (PatchSubresourceAction elasticquotasResource (fakeEqNs c) name pt data subresources)
          (ElasticQuotaObject zero_ElasticQuota))"

section \<open>The fake clientset\<close>

text \<open>
  \<^verbatim>\<open>testing.Fake\<close> is a value \<open>'f\<close>: its chains of reactors are only extended while the clientset is
  built. A tracker is a handle \<open>'o\<close> on state in the world, which the reactors share.
\<close>

type_synonym ('q, 'm, 'ch, 'w) watch_reaction =
  "'w \<Rightarrow> ('q, 'm) fake_action \<Rightarrow> (bool \<times> 'ch option \<times> error option) \<times> 'w"

record ('q, 'm, 'o, 'f, 're, 'ch, 'w) tracker_api =
  NewFake :: 'f
  NewObjectTracker :: "'w \<Rightarrow> 'o \<times> 'w"
  tracker_Add :: "'w \<Rightarrow> 'o \<Rightarrow> ('q, 'm) fake_object \<Rightarrow> error option \<times> 'w"
  tracker_Watch :: "'w \<Rightarrow> 'o \<Rightarrow> group_version_resource \<Rightarrow> string \<Rightarrow> (error + 'ch) \<times> 'w"
  ObjectReaction :: "'o \<Rightarrow> 're"
  AddReactor :: "'f \<Rightarrow> string \<Rightarrow> string \<Rightarrow> 're \<Rightarrow> 'f"
  AddWatchReactor :: "'f \<Rightarrow> string \<Rightarrow> ('q, 'm, 'ch, 'w) watch_reaction \<Rightarrow> 'f"

record ('o, 'f) fake_clientset =
  fcFake :: 'f
  fcDiscovery :: 'f
  fcTracker :: 'o

text \<open>\<^verbatim>\<open>GetResource\<close> and \<^verbatim>\<open>GetNamespace\<close> of the actions.\<close>

fun action_resource :: "('q, 'm) fake_action \<Rightarrow> group_version_resource" where
  "action_resource (GetAction r ns name) = r"
| "action_resource (ListAction r kind ns opts) = r"
| "action_resource (WatchAction r ns opts) = r"
| "action_resource (CreateAction r ns obj) = r"
| "action_resource (UpdateAction r ns obj) = r"
| "action_resource (UpdateSubresourceAction r sub ns obj) = r"
| "action_resource (DeleteAction r ns name) = r"
| "action_resource (DeleteCollectionAction r ns opts) = r"
| "action_resource (PatchSubresourceAction r ns name pt data subs) = r"

fun action_namespace :: "('q, 'm) fake_action \<Rightarrow> string" where
  "action_namespace (GetAction r ns name) = ns"
| "action_namespace (ListAction r kind ns opts) = ns"
| "action_namespace (WatchAction r ns opts) = ns"
| "action_namespace (CreateAction r ns obj) = ns"
| "action_namespace (UpdateAction r ns obj) = ns"
| "action_namespace (UpdateSubresourceAction r sub ns obj) = ns"
| "action_namespace (DeleteAction r ns name) = ns"
| "action_namespace (DeleteCollectionAction r ns opts) = ns"
| "action_namespace (PatchSubresourceAction r ns name pt data subs) = ns"

text \<open>The reactor that NewSimpleClientset registers for watches.\<close>

definition tracker_watch_reaction ::
  "('q, 'm, 'o, 'f, 're, 'ch, 'w, 'z) tracker_api_scheme \<Rightarrow> 'o \<Rightarrow> ('q, 'm, 'ch, 'w) watch_reaction"
where
  "tracker_watch_reaction T tr w action =
     (let gvr = action_resource action;
          ns = action_namespace action
      in case tracker_Watch T w tr gvr ns of
           (Inl err, w) \<Rightarrow> ((False, None, Some err), w)
         | (Inr watch, w) \<Rightarrow> ((True, Some watch, None), w))"

fun tracker_add_all ::
  "('q, 'm, 'o, 'f, 're, 'ch, 'w, 'z) tracker_api_scheme \<Rightarrow> 'o \<Rightarrow> ('q, 'm) fake_object list \<Rightarrow> 'w \<Rightarrow> error + 'w"
where
  "tracker_add_all T tr [] w = Inr w"
| "tracker_add_all T tr (obj # objects) w =
     (case tracker_Add T w tr obj of
        (Some err, w) \<Rightarrow> Inl (Panic ''NewSimpleClientset'')
      | (None, w) \<Rightarrow> tracker_add_all T tr objects w)"

definition NewSimpleClientset ::
  "('q, 'm, 'o, 'f, 're, 'ch, 'w, 'z) tracker_api_scheme \<Rightarrow> 'w \<Rightarrow> ('q, 'm) fake_object list \<Rightarrow>
   error + ('o, 'f) fake_clientset \<times> 'w"
where
  "NewSimpleClientset T w objects =
     (let (tr, w) = NewObjectTracker T w
      in case tracker_add_all T tr objects w of
           Inl p \<Rightarrow> Inl p
         | Inr w \<Rightarrow>
             let f = NewFake T;
                 f = AddReactor T f ''*'' ''*'' (ObjectReaction T tr);
                 f = AddWatchReactor T f ''*'' (tracker_watch_reaction T tr)
             in Inr (\<lparr>fcFake = f, fcDiscovery = f, fcTracker = tr\<rparr>, w))"

definition fake_Discovery :: "('o, 'f) fake_clientset \<Rightarrow> 'f" where
  "fake_Discovery c = fcDiscovery c"

definition fake_Tracker :: "('o, 'f) fake_clientset \<Rightarrow> 'o" where
  "fake_Tracker c = fcTracker c"

definition fake_SchedulingV1alpha1 :: "('o, 'f) fake_clientset \<Rightarrow> 'f" where
  "fake_SchedulingV1alpha1 c = fcFake c"

text \<open>The typed fakes of a group client: the group client is a pointer to the Fake, which is the
  parameter of their methods.\<close>

definition fake_PodGroups :: "string \<Rightarrow> fakePodGroups" where
  "fake_PodGroups namespace = \<lparr>fakePgNs = namespace\<rparr>"

definition fake_ElasticQuotas :: "string \<Rightarrow> fakeElasticQuotas" where
  "fake_ElasticQuotas namespace = \<lparr>fakeEqNs = namespace\<rparr>"

section \<open>What the fakes return\<close>

lemma matching_items_filter [simp]: "matching_items matches items acc = acc @ filter matches items"
  by (induction items arbitrary: acc) simp_all

text \<open>List keeps the order and the metadata of the tracker's list, and drops exactly the items whose
  labels do not match; without a selector it drops nothing.\<close>

lemma fakePodGroups_List_items:
  assumes "Invokes F w (ListAction podgroupsResource podgroupsKind (fakePgNs c) opts)
      (PodGroupListObject (zero_ListMeta F) []) = ((Some (PodGroupListObject m items), err), w')"
    and "\<forall>ls. label_Matches F (labels_Everything F) ls"
  shows "fakePodGroups_List F c w opts = (Inr (Some (m, case extract_label F opts of
      None \<Rightarrow> items | Some l \<Rightarrow> filter (\<lambda>pg. label_Matches F l (group_Labels F pg)) items), err), w')"
  using assms by (simp add: fakePodGroups_List_def split: option.split)

lemma fakeElasticQuotas_List_items:
  assumes "Invokes F w (ListAction elasticquotasResource elasticquotasKind (fakeEqNs c) opts)
      (ElasticQuotaListObject (zero_ListMeta F) []) = ((Some (ElasticQuotaListObject m items), err), w')"
    and "\<forall>ls. label_Matches F (labels_Everything F) ls"
  shows "fakeElasticQuotas_List F c w opts = (Inr (Some (m, case extract_label F opts of
      None \<Rightarrow> items | Some l \<Rightarrow> filter (\<lambda>eq. label_Matches F l (quota_Labels F eq)) items), err), w')"
  using assms by (simp add: fakeElasticQuotas_List_def split: option.split)

text \<open>A constructor panics exactly when an object is refused; otherwise every object was added, in order, and
  the watch reactor leaves to the next one what the tracker cannot watch.\<close>

lemma tracker_add_all_iff:
  "tracker_add_all T tr objects w = Inr w' \<longleftrightarrow>
    (\<forall>i < length objects. fst (tracker_Add T (fold (\<lambda>x w. snd (tracker_Add T w tr x)) (take i objects) w) tr
       (objects ! i)) = None) \<and> w' = fold (\<lambda>x w. snd (tracker_Add T w tr x)) objects w"
proof (induction objects arbitrary: w)
  case (Cons obj objects)
  show ?case
    by (cases "tracker_Add T w tr obj"; cases "fst (tracker_Add T w tr obj)")
      (auto simp: Cons.IH All_less_Suc2)
qed auto

lemma tracker_watch_reaction_handles:
  "fst (fst (tracker_watch_reaction T tr w action)) \<longleftrightarrow>
    \<not> isl (fst (tracker_Watch T w tr (action_resource action) (action_namespace action)))"
  by (auto simp: tracker_watch_reaction_def split: prod.split sum.split)

end
