(* ===== verification/ClientAgreement.thy ===== *)
theory ClientAgreement
  imports FakeClient
begin

text \<open>
  The interface that the generated clients share (\<^verbatim>\<open>PodGroupInterface\<close> and
  \<^verbatim>\<open>ElasticQuotaInterface\<close>) as a locale: each method makes one call of the API server, of its own verb,
  in the client's namespace, on its resource. Both real clients and both fakes are instances,
  so a test over the fake exercises the calls that the real client sends.
\<close>

section \<open>Calls of the API server\<close>

datatype 'q call_body =
  NoBody | GroupBody "'q pod_group" | QuotaBody "'q elastic_quota" | PatchBody string string

record 'q api_call =
  acVerb :: string
  acNamespace :: string
  acResource :: string
  acName :: "string option"
  acSubresources :: "string list"
  acBody :: "'q call_body"

text \<open>What the API server reads from a request: method, path, the watch flag and the body. The verb
  follows from them, as the server's authorisation documents it.\<close>

record 'q request_parts =
  rpMethod :: string
  rpNamespace :: string
  rpResource :: string
  rpName :: "string option"
  rpSubresources :: "string list"
  rpWatch :: bool
  rpBody :: "'q call_body"
  rpPatchType :: string

fun request_part :: "('q, 'opt) rest_call \<Rightarrow> 'q request_parts \<Rightarrow> 'q request_parts" where
  "request_part RGet r = r\<lparr>rpMethod := ''GET''\<rparr>"
| "request_part RPost r = r\<lparr>rpMethod := ''POST''\<rparr>"
| "request_part RPut r = r\<lparr>rpMethod := ''PUT''\<rparr>"
| "request_part RDelete r = r\<lparr>rpMethod := ''DELETE''\<rparr>"
| "request_part (RPatch pt) r = r\<lparr>rpMethod := ''PATCH'', rpPatchType := pt\<rparr>"
| "request_part (RNamespace ns) r = r\<lparr>rpNamespace := ns\<rparr>"
| "request_part (RResource res) r = r\<lparr>rpResource := res\<rparr>"
| "request_part (RName n) r = r\<lparr>rpName := Some n\<rparr>"
| "request_part (RSubResource subs) r = r\<lparr>rpSubresources := subs\<rparr>"
| "request_part (RVersionedParams (ListParams opts)) r = r\<lparr>rpWatch := WatchFlag opts\<rparr>"
| "request_part (RVersionedParams (Options opts)) r = r"
| "request_part (RTimeout t) r = r"
| "request_part (RBody (PodGroupBody pg)) r = r\<lparr>rpBody := GroupBody pg\<rparr>"
| "request_part (RBody (ElasticQuotaBody eq)) r = r\<lparr>rpBody := QuotaBody eq\<rparr>"
| "request_part (RBody (OptionsBody opts)) r = r"
| "request_part (RBody (DataBody d)) r = r\<lparr>rpBody := PatchBody (rpPatchType r) d\<rparr>"

definition request_verb :: "'q request_parts \<Rightarrow> string" where
  "request_verb r =
     (if rpMethod r = ''GET'' then
        (if rpName r \<noteq> None then ''get'' else if rpWatch r then ''watch'' else ''list'')
      else if rpMethod r = ''POST'' then ''create''
      else if rpMethod r = ''PUT'' then ''update''
      else if rpMethod r = ''PATCH'' then ''patch''
      else if rpName r \<noteq> None then ''delete'' else ''deletecollection'')"

definition request_call :: "('q, 'opt) rest_request \<Rightarrow> 'q api_call" where
  "request_call req =
     (let r = fold request_part req \<lparr>rpMethod = '''', rpNamespace = '''', rpResource = '''', rpName = None,
        rpSubresources = [], rpWatch = False, rpBody = NoBody, rpPatchType = ''''\<rparr>
      in \<lparr>acVerb = request_verb r, acNamespace = rpNamespace r, acResource = rpResource r, acName = rpName r,
          acSubresources = rpSubresources r, acBody = rpBody r\<rparr>)"

text \<open>The call that an action of the fake stands for; an object carries its name.\<close>

fun object_body :: "('q, 'm) fake_object \<Rightarrow> 'q call_body" where
  "object_body (PodGroupObject pg) = GroupBody pg"
| "object_body (ElasticQuotaObject eq) = QuotaBody eq"
| "object_body _ = NoBody"

fun object_name :: "('q, 'm) fake_object \<Rightarrow> string option" where
  "object_name (PodGroupObject pg) = Some (pgName pg)"
| "object_name (ElasticQuotaObject eq) = Some (eqObjName eq)"
| "object_name _ = None"

definition server_call ::
  "string \<Rightarrow> string \<Rightarrow> string \<Rightarrow> string option \<Rightarrow> string list \<Rightarrow> 'q call_body \<Rightarrow> 'q api_call"
where
  "server_call verb ns resource name subs body =
     \<lparr>acVerb = verb, acNamespace = ns, acResource = resource, acName = name, acSubresources = subs, acBody = body\<rparr>"

fun action_call :: "('q, 'm) fake_action \<Rightarrow> 'q api_call" where
  "action_call (GetAction r ns n) = server_call ''get'' ns (gvrResource r) (Some n) [] NoBody"
| "action_call (ListAction r kind ns opts) = server_call ''list'' ns (gvrResource r) None [] NoBody"
| "action_call (WatchAction r ns opts) = server_call ''watch'' ns (gvrResource r) None [] NoBody"
| "action_call (CreateAction r ns obj) = server_call ''create'' ns (gvrResource r) None [] (object_body obj)"
| "action_call (UpdateAction r ns obj) = server_call ''update'' ns (gvrResource r) (object_name obj) [] (object_body obj)"
| "action_call (UpdateSubresourceAction r sub ns obj) =
     server_call ''update'' ns (gvrResource r) (object_name obj) [sub] (object_body obj)"
| "action_call (DeleteAction r ns n) = server_call ''delete'' ns (gvrResource r) (Some n) [] NoBody"
| "action_call (DeleteCollectionAction r ns opts) = server_call ''deletecollection'' ns (gvrResource r) None [] NoBody"
| "action_call (PatchSubresourceAction r ns n pt data subs) =
     server_call ''patch'' ns (gvrResource r) (Some n) subs (PatchBody pt data)"

section \<open>The interface\<close>

locale typed_client =
  fixes resource :: string
    and body :: "'o \<Rightarrow> 'q call_body"
    and name :: "'o \<Rightarrow> string"
    and get :: "'opt \<Rightarrow> string \<Rightarrow> string \<Rightarrow> 'q api_call list"
    and list :: "string \<Rightarrow> list_options \<Rightarrow> 'q api_call list"
    and watch :: "string \<Rightarrow> list_options \<Rightarrow> 'q api_call list"
    and create :: "'opt \<Rightarrow> string \<Rightarrow> 'o \<Rightarrow> 'q api_call list"
    and update :: "'opt \<Rightarrow> string \<Rightarrow> 'o \<Rightarrow> 'q api_call list"
    and delete :: "'opt \<Rightarrow> string \<Rightarrow> string \<Rightarrow> 'q api_call list"
    and delete_all :: "'opt \<Rightarrow> string \<Rightarrow> list_options \<Rightarrow> 'q api_call list"
    and patch :: "'opt \<Rightarrow> string \<Rightarrow> string \<Rightarrow> string \<Rightarrow> string \<Rightarrow> string list \<Rightarrow> 'q api_call list"
  assumes get: "get opt ns n = [server_call ''get'' ns resource (Some n) [] NoBody]"
    and list: "\<not> WatchFlag opts \<Longrightarrow> list ns opts = [server_call ''list'' ns resource None [] NoBody]"
    and watch: "watch ns opts = [server_call ''watch'' ns resource None [] NoBody]"
    and create: "create opt ns obj = [server_call ''create'' ns resource None [] (body obj)]"
    and update: "update opt ns obj = [server_call ''update'' ns resource (Some (name obj)) [] (body obj)]"
    and delete: "delete opt ns n = [server_call ''delete'' ns resource (Some n) [] NoBody]"
    and delete_all: "delete_all opt ns opts = [server_call ''deletecollection'' ns resource None [] NoBody]"
    and patch: "patch opt ns n pt data subs = [server_call ''patch'' ns resource (Some n) subs (PatchBody pt data)]"
begin

text \<open>No method leaves the namespace or the resource of its client, and no two methods make
  the same call.\<close>

lemma calls_stay:
  assumes "\<not> WatchFlag opts"
    and "c \<in> set (get opt ns n @ list ns opts @ watch ns opts @ create opt ns obj @ update opt ns obj
      @ delete opt ns n @ delete_all opt ns opts @ patch opt ns n pt data subs)"
  shows "acNamespace c = ns \<and> acResource c = resource"
  using assms(2)
  by (auto simp: get list [OF assms(1)] watch create update delete delete_all patch server_call_def)

lemma calls_distinct:
  assumes "\<not> WatchFlag opts"
  shows "distinct (map acVerb (get opt ns n @ list ns opts @ watch ns opts @ create opt ns obj
      @ update opt ns obj @ delete opt ns n @ delete_all opt ns opts @ patch opt ns n pt data subs))"
  by (simp add: get list [OF assms(1)] watch create update delete delete_all patch server_call_def)

end

locale status_client = typed_client resource body name get list watch create update delete delete_all patch
  for resource and body :: "'o \<Rightarrow> 'q call_body" and name and get and list and watch and create
    and update :: "'opt \<Rightarrow> string \<Rightarrow> 'o \<Rightarrow> 'q api_call list" and delete and delete_all and patch +
  fixes update_status :: "'opt \<Rightarrow> string \<Rightarrow> 'o \<Rightarrow> 'q api_call list"
  assumes update_status:
    "update_status opt ns obj = [server_call ''update'' ns resource (Some (name obj)) [''status''] (body obj)]"
begin

text \<open>The status is written by a call of its own, apart from the object.\<close>

lemma status_apart: "update_status opt ns obj \<noteq> update opt ns obj"
  by (simp add: update update_status server_call_def)

end

text \<open>The interface leaves nothing open: two clients of one resource make the same calls.\<close>

lemma typed_clients_agree:
  assumes "typed_client res body name get list watch create update delete delete_all patch"
    and "typed_client res body name get' list' watch' create' update' delete' delete_all' patch'"
    and "\<not> WatchFlag opts"
  shows "get = get' \<and> list ns opts = list' ns opts \<and> watch = watch' \<and> create = create' \<and> update = update' \<and>
    delete = delete' \<and> delete_all = delete_all' \<and> patch = patch'"
  using assms unfolding typed_client_def by (simp add: fun_eq_iff)

section \<open>The real clients\<close>

text \<open>What a method sends, seen by a REST client that records the requests and leaves the zero object.\<close>

definition record_into :: "('q, 'opt, ('q, 'opt) rest_request list, 'o) send_into" where
  "record_into w req z = ((z, None), w @ [req])"

definition record_error :: "('q, 'opt, ('q, 'opt) rest_request list) send_error" where
  "record_error w req = (None, w @ [req])"

definition record_watch :: "('q, 'opt, ('q, 'opt) rest_request list, unit) send_watch" where
  "record_watch w req = (Inr (), w @ [req])"

definition sent :: "'r \<times> ('q, 'opt) rest_request list \<Rightarrow> 'q api_call list" where
  "sent r = map request_call (snd r)"

lemmas recording = record_into_def record_error_def record_watch_def sent_def request_call_def request_verb_def
  server_call_def Let_def

interpretation real_groups: status_client "''podgroups''" GroupBody pgName
  "\<lambda>opt ns n. sent (podGroups_Get record_into (newPodGroups ns) [] n opt)"
  "\<lambda>ns opts. sent (podGroups_List record_into (newPodGroups ns) [] opts)"
  "\<lambda>ns opts. sent (podGroups_Watch record_watch (newPodGroups ns) [] opts)"
  "\<lambda>opt ns pg. sent (podGroups_Create record_into (newPodGroups ns) [] pg opt)"
  "\<lambda>opt ns pg. sent (podGroups_Update record_into (newPodGroups ns) [] pg opt)"
  "\<lambda>opt ns n. sent (podGroups_Delete record_error (newPodGroups ns) [] n opt)"
  "\<lambda>opt ns opts. sent (podGroups_DeleteCollection record_error (newPodGroups ns) [] opt opts)"
  "\<lambda>opt ns n pt data subs. sent (podGroups_Patch record_into (newPodGroups ns) [] n pt data opt subs)"
  "\<lambda>opt ns pg. sent (podGroups_UpdateStatus record_into (newPodGroups ns) [] pg opt)"
  by unfold_locales
    (simp_all add: podGroups_Get_def podGroups_List_def podGroups_Watch_def podGroups_Create_def
      podGroups_Update_def podGroups_Delete_def podGroups_DeleteCollection_def podGroups_Patch_def
      podGroups_UpdateStatus_def newPodGroups_def recording)

interpretation real_quotas: typed_client "''elasticquotas''" QuotaBody eqObjName
  "\<lambda>opt ns n. sent (elasticQuotas_Get record_into (newElasticQuotas ns) [] n opt)"
  "\<lambda>ns opts. sent (elasticQuotas_List record_into (newElasticQuotas ns) [] opts)"
  "\<lambda>ns opts. sent (elasticQuotas_Watch record_watch (newElasticQuotas ns) [] opts)"
  "\<lambda>opt ns eq. sent (elasticQuotas_Create record_into (newElasticQuotas ns) [] eq opt)"
  "\<lambda>opt ns eq. sent (elasticQuotas_Update record_into (newElasticQuotas ns) [] eq opt)"
  "\<lambda>opt ns n. sent (elasticQuotas_Delete record_error (newElasticQuotas ns) [] n opt)"
  "\<lambda>opt ns opts. sent (elasticQuotas_DeleteCollection record_error (newElasticQuotas ns) [] opt opts)"
  "\<lambda>opt ns n pt data subs. sent (elasticQuotas_Patch record_into (newElasticQuotas ns) [] n pt data opt subs)"
  by unfold_locales
    (simp_all add: elasticQuotas_Get_def elasticQuotas_List_def elasticQuotas_Watch_def elasticQuotas_Create_def
      elasticQuotas_Update_def elasticQuotas_Delete_def elasticQuotas_DeleteCollection_def elasticQuotas_Patch_def
      newElasticQuotas_def recording)

section \<open>The fakes\<close>

text \<open>A Fake that records the actions and answers with an empty reply.\<close>

definition recorder :: "('q, unit, unit, unit, ('q, unit) fake_action list) fake_api" where
  "recorder =
     \<lparr>Invokes = (\<lambda>w action default. ((None, None), w @ [action])),
      InvokesWatch = (\<lambda>w action. ((None, None), w @ [action])),
      extract_label = (\<lambda>opts. None), labels_Everything = (), label_Matches = (\<lambda>l ls. True),
      group_Labels = (\<lambda>pg. []), quota_Labels = (\<lambda>eq. []), zero_ListMeta = ()\<rparr>"

definition acted :: "'r \<times> ('q, unit) fake_action list \<Rightarrow> 'q api_call list" where
  "acted r = map action_call (snd r)"

lemmas acting = recorder_def acted_def fake_result_def Let_def
  podgroupsResource_def elasticquotasResource_def fake_PodGroups_def fake_ElasticQuotas_def

interpretation fake_groups: status_client "''podgroups''" GroupBody pgName
  "\<lambda>opt ns n. acted (fakePodGroups_Get recorder (fake_PodGroups ns) [] n opt)"
  "\<lambda>ns opts. acted (fakePodGroups_List recorder (fake_PodGroups ns) [] opts)"
  "\<lambda>ns opts. acted (fakePodGroups_Watch recorder (fake_PodGroups ns) [] opts)"
  "\<lambda>opt ns pg. acted (fakePodGroups_Create recorder (fake_PodGroups ns) [] pg opt)"
  "\<lambda>opt ns pg. acted (fakePodGroups_Update recorder (fake_PodGroups ns) [] pg opt)"
  "\<lambda>opt ns n. acted (fakePodGroups_Delete recorder (fake_PodGroups ns) [] n opt)"
  "\<lambda>opt ns opts. acted (fakePodGroups_DeleteCollection recorder (fake_PodGroups ns) [] opt opts)"
  "\<lambda>opt ns n pt data subs. acted (fakePodGroups_Patch recorder (fake_PodGroups ns) [] n pt data opt subs)"
  "\<lambda>opt ns pg. acted (fakePodGroups_UpdateStatus recorder (fake_PodGroups ns) [] pg opt)"
  by unfold_locales
    (simp_all add: fakePodGroups_Get_def fakePodGroups_List_def fakePodGroups_Watch_def fakePodGroups_Create_def
      fakePodGroups_Update_def fakePodGroups_Delete_def fakePodGroups_DeleteCollection_def fakePodGroups_Patch_def
      fakePodGroups_UpdateStatus_def acting)

interpretation fake_quotas: typed_client "''elasticquotas''" QuotaBody eqObjName
  "\<lambda>opt ns n. acted (fakeElasticQuotas_Get recorder (fake_ElasticQuotas ns) [] n opt)"
  "\<lambda>ns opts. acted (fakeElasticQuotas_List recorder (fake_ElasticQuotas ns) [] opts)"
  "\<lambda>ns opts. acted (fakeElasticQuotas_Watch recorder (fake_ElasticQuotas ns) [] opts)"
  "\<lambda>opt ns eq. acted (fakeElasticQuotas_Create recorder (fake_ElasticQuotas ns) [] eq opt)"
  "\<lambda>opt ns eq. acted (fakeElasticQuotas_Update recorder (fake_ElasticQuotas ns) [] eq opt)"
  "\<lambda>opt ns n. acted (fakeElasticQuotas_Delete recorder (fake_ElasticQuotas ns) [] n opt)"
  "\<lambda>opt ns opts. acted (fakeElasticQuotas_DeleteCollection recorder (fake_ElasticQuotas ns) [] opt opts)"
  "\<lambda>opt ns n pt data subs. acted (fakeElasticQuotas_Patch recorder (fake_ElasticQuotas ns) [] n pt data opt subs)"
  by unfold_locales
    (simp_all add: fakeElasticQuotas_Get_def fakeElasticQuotas_List_def fakeElasticQuotas_Watch_def
      fakeElasticQuotas_Create_def fakeElasticQuotas_Update_def fakeElasticQuotas_Delete_def
      fakeElasticQuotas_DeleteCollection_def fakeElasticQuotas_Patch_def acting)

text \<open>So a fake makes the calls of the real client, method by method.\<close>

lemmas fake_groups_agree = typed_clients_agree [OF fake_groups.typed_client_axioms real_groups.typed_client_axioms]
lemmas fake_quotas_agree = typed_clients_agree [OF fake_quotas.typed_client_axioms real_quotas.typed_client_axioms]

end
