(* ===== verification/ApiRegistration.thy ===== *)
theory ApiRegistration
  imports FakeClient
begin

text \<open>
  The registration of the API types with a scheme: the files \<^verbatim>\<open>register.go\<close> under
  \<^verbatim>\<open>pkg/apis\<close> and in the generated clientset and its fake, and \<^verbatim>\<open>pkg/apis/config/scheme\<close>. A scheme
  \<open>'h\<close> and a builder \<open>'b\<close>, which collects functions that fill a scheme, are apimachinery's: their
  operations are parameters. A Go type is named by its name, from which the scheme takes its kind. The
  builders of the two configuration versions are package variables of Kubernetes that already
  hold the functions of the in-tree types.
\<close>

section \<open>Registration\<close>

type_synonym group_version = "string \<times> string"
type_synonym 'h scheme_func = "'h \<Rightarrow> error option \<times> 'h"

record ('h, 'b) scheme_api =
  AddKnownTypes :: "'h \<Rightarrow> group_version \<Rightarrow> string list \<Rightarrow> 'h"
  AddToGroupVersion :: "'h \<Rightarrow> group_version \<Rightarrow> 'h"
  APIVersionInternal :: string
  NewScheme :: 'h
  NewSchemeBuilder :: "'h scheme_func list \<Rightarrow> 'b"
  Register :: "'b \<Rightarrow> 'h scheme_func list \<Rightarrow> 'b"
  builder_AddToScheme :: "'b \<Rightarrow> 'h scheme_func"

text \<open>\<^verbatim>\<open>utilruntime.Must\<close> panics on an error.\<close>

definition Must :: "error option \<times> 'h \<Rightarrow> error + 'h" where
  "Must r = (case r of (Some err, _) \<Rightarrow> Inl (Panic ''Must'') | (None, h) \<Rightarrow> Inr h)"

definition config_GroupName :: string where
  "config_GroupName = ''kubescheduler.config.k8s.io''"

definition config_SchemeGroupVersion :: "('h, 'b, 'z) scheme_api_scheme \<Rightarrow> group_version" where
  "config_SchemeGroupVersion A = (config_GroupName, APIVersionInternal A)"

definition config_addKnownTypes :: "('h, 'b, 'z) scheme_api_scheme \<Rightarrow> 'h scheme_func" where
  "config_addKnownTypes A scheme =
     (None, AddKnownTypes A scheme (config_SchemeGroupVersion A)
        [''CoschedulingArgs'', ''NodeResourcesAllocatableArgs'', ''CapacitySchedulingArgs'',
         ''TargetLoadPackingArgs'', ''LoadVariationRiskBalancingArgs''])"

definition config_init :: "('h, 'b, 'z) scheme_api_scheme \<Rightarrow> 'b \<Rightarrow> 'b" where
  "config_init A localSchemeBuilder = Register A localSchemeBuilder [config_addKnownTypes A]"

definition v1beta1_SchemeGroupVersion :: group_version where
  "v1beta1_SchemeGroupVersion = (config_GroupName, ''v1beta1'')"

definition v1beta1_addKnownTypes :: "('h, 'b, 'z) scheme_api_scheme \<Rightarrow> 'h scheme_func" where
  "v1beta1_addKnownTypes A scheme =
     (None, AddKnownTypes A scheme v1beta1_SchemeGroupVersion
        [''CoschedulingArgs'', ''NodeResourcesAllocatableArgs'', ''CapacitySchedulingArgs'',
         ''TargetLoadPackingArgs'', ''LoadVariationRiskBalancingArgs''])"

text \<open>What the generated functions register, defaults and conversions, is in \<open>ConfigDefaults\<close> and
  \<open>ConfigConversion\<close>; here they are functions on the scheme.\<close>

definition v1beta1_init ::
  "('h, 'b, 'z) scheme_api_scheme \<Rightarrow> 'h scheme_func \<Rightarrow> 'h scheme_func \<Rightarrow> 'b \<Rightarrow> 'b"
where
  "v1beta1_init A registerDefaults registerConversions localSchemeBuilder =
     (let b = Register A localSchemeBuilder [v1beta1_addKnownTypes A];
          b = Register A b [registerDefaults];
          b = Register A b [registerConversions]
      in b)"

text \<open>The generated conversions have an \<^verbatim>\<open>init\<close> of their own, which runs after that of \<^verbatim>\<open>register.go\<close> and
  registers them again.\<close>

definition conversion_init :: "('h, 'b, 'z) scheme_api_scheme \<Rightarrow> 'h scheme_func \<Rightarrow> 'b \<Rightarrow> 'b" where
  "conversion_init A registerConversions localSchemeBuilder =
     Register A localSchemeBuilder [registerConversions]"

text \<open>\<^verbatim>\<open>scheme.AddToScheme\<close>: \<open>config\<close> and \<open>configv1beta1\<close> are the builders after the \<^verbatim>\<open>init\<close>s.\<close>

definition configscheme_AddToScheme ::
  "('h, 'b, 'z) scheme_api_scheme \<Rightarrow> 'b \<Rightarrow> 'b \<Rightarrow> 'h \<Rightarrow> error + 'h"
where
  "configscheme_AddToScheme A config configv1beta1 scheme =
     (case Must (builder_AddToScheme A config scheme) of
        Inl p \<Rightarrow> Inl p
      | Inr scheme \<Rightarrow> Must (builder_AddToScheme A configv1beta1 scheme))"

definition v1alpha1_Kind :: "string \<Rightarrow> string \<times> string" where
  "v1alpha1_Kind kind = (fst SchemeGroupVersion, kind)"

definition v1alpha1_Resource :: "string \<Rightarrow> string \<times> string" where
  "v1alpha1_Resource resource = (fst SchemeGroupVersion, resource)"

definition v1alpha1_addKnownTypes :: "('h, 'b, 'z) scheme_api_scheme \<Rightarrow> 'h scheme_func" where
  "v1alpha1_addKnownTypes A scheme =
     (let scheme = AddKnownTypes A scheme SchemeGroupVersion
            [''ElasticQuota'', ''ElasticQuotaList'', ''PodGroup'', ''PodGroupList''];
          scheme = AddToGroupVersion A scheme SchemeGroupVersion
      in (None, scheme))"

definition v1alpha1_AddToScheme :: "('h, 'b, 'z) scheme_api_scheme \<Rightarrow> 'h scheme_func" where
  "v1alpha1_AddToScheme A = builder_AddToScheme A (NewSchemeBuilder A [v1alpha1_addKnownTypes A])"

text \<open>The schemes of the generated clientset and of its fake, each filled by its \<^verbatim>\<open>init\<close>.\<close>

definition clientset_AddToScheme :: "('h, 'b, 'z) scheme_api_scheme \<Rightarrow> 'h scheme_func" where
  "clientset_AddToScheme A = builder_AddToScheme A (NewSchemeBuilder A [v1alpha1_AddToScheme A])"

definition clientset_Scheme :: "('h, 'b, 'z) scheme_api_scheme \<Rightarrow> error + 'h" where
  "clientset_Scheme A =
     (let scheme = AddToGroupVersion A (NewScheme A) ('''', ''v1'')
      in Must (clientset_AddToScheme A scheme))"

definition fake_AddToScheme :: "('h, 'b, 'z) scheme_api_scheme \<Rightarrow> 'h scheme_func" where
  "fake_AddToScheme A = builder_AddToScheme A (NewSchemeBuilder A [v1alpha1_AddToScheme A])"

definition fake_scheme :: "('h, 'b, 'z) scheme_api_scheme \<Rightarrow> error + 'h" where
  "fake_scheme A =
     (let scheme = AddToGroupVersion A (NewScheme A) ('''', ''v1'')
      in Must (fake_AddToScheme A scheme))"

section \<open>What the schemes know\<close>

text \<open>
  A builder runs its functions in the order of their registration and stops at the first error.
  \<open>known\<close> are the kinds a scheme can construct.
\<close>

fun run_funcs :: "'h scheme_func list \<Rightarrow> 'h scheme_func" where
  "run_funcs [] h = (None, h)"
| "run_funcs (f # fs) h = (case f h of (Some err, h) \<Rightarrow> (Some err, h) | (None, h) \<Rightarrow> run_funcs fs h)"

definition scheme_laws ::
  "('h, 'b, 'z) scheme_api_scheme \<Rightarrow> ('h \<Rightarrow> (group_version \<times> string) set) \<Rightarrow> bool"
where
  "scheme_laws A known \<longleftrightarrow>
     (\<forall>h gv kinds. known (AddKnownTypes A h gv kinds) = known h \<union> {gv} \<times> set kinds) \<and>
     (\<forall>h gv. known h \<subseteq> known (AddToGroupVersion A h gv)) \<and>
     (\<forall>fs h. builder_AddToScheme A (NewSchemeBuilder A fs) h = run_funcs fs h) \<and>
     (\<forall>b fs h. builder_AddToScheme A (Register A b fs) h =
        (case builder_AddToScheme A b h of
           (Some err, h) \<Rightarrow> (Some err, h)
         | (None, h) \<Rightarrow> run_funcs fs h))"

lemma scheme_lawsD:
  assumes "scheme_laws A known"
  shows "known (AddKnownTypes A h gv kinds) = known h \<union> {gv} \<times> set kinds"
    and "known h \<subseteq> known (AddToGroupVersion A h gv)"
    and "builder_AddToScheme A (NewSchemeBuilder A fs) h = run_funcs fs h"
    and "builder_AddToScheme A (Register A b fs) h =
      (case builder_AddToScheme A b h of (Some err, h) \<Rightarrow> (Some err, h) | (None, h) \<Rightarrow> run_funcs fs h)"
  using assms unfolding scheme_laws_def by blast+

text \<open>The laws hold for schemes that are lists of kinds and builders that are lists of functions.\<close>

definition list_scheme :: "((group_version \<times> string) list, (group_version \<times> string) list scheme_func list) scheme_api"
where
  "list_scheme =
     \<lparr>AddKnownTypes = (\<lambda>h gv kinds. h @ map (Pair gv) kinds), AddToGroupVersion = (\<lambda>h gv. h @ [(gv, ''WatchEvent'')]),
      APIVersionInternal = ''__internal'', NewScheme = [], NewSchemeBuilder = (\<lambda>fs. fs), Register = (\<lambda>b fs. b @ fs),
      builder_AddToScheme = run_funcs\<rparr>"

lemma run_funcs_append:
  "run_funcs (fs @ gs) h =
    (case run_funcs fs h of (Some err, h) \<Rightarrow> (Some err, h) | (None, h) \<Rightarrow> run_funcs gs h)"
  by (induction fs arbitrary: h) (auto split: prod.split option.split)

lemma list_scheme_laws: "scheme_laws list_scheme set"
  by (auto simp: scheme_laws_def list_scheme_def run_funcs_append)

definition keeps_known :: "('h \<Rightarrow> 'k set) \<Rightarrow> 'h scheme_func \<Rightarrow> bool" where
  "keeps_known known f \<longleftrightarrow> (\<forall>h. known h \<subseteq> known (snd (f h)))"

lemma v1alpha1_AddToScheme_run:
  assumes "scheme_laws A known"
  shows "v1alpha1_AddToScheme A h = v1alpha1_addKnownTypes A h"
  by (simp add: v1alpha1_AddToScheme_def scheme_lawsD(3) [OF assms] v1alpha1_addKnownTypes_def Let_def)

text \<open>The clientset's scheme and the fake's are filled without a panic and know the objects and lists of
  the group, in particular the kinds that the fake clients list.\<close>

lemma clientset_schemes_know:
  assumes "scheme_laws A known"
  obtains h where "clientset_Scheme A = Inr h" and "fake_scheme A = Inr h"
    and "{SchemeGroupVersion} \<times> {''ElasticQuota'', ''ElasticQuotaList'', ''PodGroup'', ''PodGroupList''} \<subseteq> known h"
proof -
  let ?h = "snd (v1alpha1_addKnownTypes A (AddToGroupVersion A (NewScheme A) ('''', ''v1'')))"
  have "clientset_AddToScheme A h = v1alpha1_addKnownTypes A h" "fake_AddToScheme A h = v1alpha1_addKnownTypes A h" for h
    by (simp_all add: clientset_AddToScheme_def fake_AddToScheme_def scheme_lawsD(3) [OF assms]
        v1alpha1_AddToScheme_run [OF assms] split: prod.split option.split)
  then have "clientset_Scheme A = Inr ?h" "fake_scheme A = Inr ?h"
    by (simp_all add: clientset_Scheme_def fake_scheme_def Must_def v1alpha1_addKnownTypes_def)
  moreover have "{SchemeGroupVersion} \<times> set [''ElasticQuota'', ''ElasticQuotaList'', ''PodGroup'', ''PodGroupList''] \<subseteq> known ?h"
    unfolding v1alpha1_addKnownTypes_def Let_def snd_conv
    by (rule subset_trans [OF _ scheme_lawsD(2) [OF assms]]) (simp only: scheme_lawsD(1) [OF assms] Un_upper2)
  ultimately show thesis using that by simp
qed

lemma fake_kinds_registered:
  "((gvkGroup podgroupsKind, gvkVersion podgroupsKind), gvkKind podgroupsKind)
     \<in> {SchemeGroupVersion} \<times> {''ElasticQuota'', ''ElasticQuotaList'', ''PodGroup'', ''PodGroupList''}"
  "((gvkGroup elasticquotasKind, gvkVersion elasticquotasKind), gvkKind elasticquotasKind)
     \<in> {SchemeGroupVersion} \<times> {''ElasticQuota'', ''ElasticQuotaList'', ''PodGroup'', ''PodGroupList''}"
  "(gvrGroup podgroupsResource, gvrVersion podgroupsResource) = SchemeGroupVersion"
  "(gvrGroup elasticquotasResource, gvrVersion elasticquotasResource) = SchemeGroupVersion"
  by (simp_all add: podgroupsKind_def elasticquotasKind_def SchemeGroupVersion_def podgroupsResource_def
      elasticquotasResource_def)

lemma registered_runs:
  assumes "scheme_laws A known" and "builder_AddToScheme A b h = (None, h1)" and "f h1 = (None, h2)"
  shows "builder_AddToScheme A (Register A b [f]) h = (None, h2)"
  by (simp add: scheme_lawsD(4) [OF assms(1)] assms(2,3))

text \<open>If the in-tree builders succeed and the generated functions do, \<open>AddToScheme\<close> succeeds, and the
  scheduler's scheme knows the arguments of the plugins in the internal and in the external version.\<close>

lemma configscheme_knows:
  assumes A: "scheme_laws A known"
    and ok: "builder_AddToScheme A b h = (None, h1)" "\<And>h. fst (builder_AddToScheme A b' h) = None"
      "\<And>h. fst (rd h) = None" "\<And>h. fst (rc h) = None"
    and keep: "keeps_known known (builder_AddToScheme A b')" "keeps_known known rd" "keeps_known known rc"
  shows "\<exists>h'. configscheme_AddToScheme A (config_init A b)
      (conversion_init A rc (v1beta1_init A rd rc b')) h = Inr h' \<and>
    {config_SchemeGroupVersion A, v1beta1_SchemeGroupVersion} \<times>
      set [''CoschedulingArgs'', ''NodeResourcesAllocatableArgs'', ''CapacitySchedulingArgs'',
       ''TargetLoadPackingArgs'', ''LoadVariationRiskBalancingArgs''] \<subseteq> known h'"
proof -
  define kinds where "kinds = [''CoschedulingArgs'', ''NodeResourcesAllocatableArgs'', ''CapacitySchedulingArgs'',
       ''TargetLoadPackingArgs'', ''LoadVariationRiskBalancingArgs'']"
  define h2 where "h2 = AddKnownTypes A h1 (config_SchemeGroupVersion A) kinds"
  obtain h3 where h3: "builder_AddToScheme A b' h2 = (None, h3)" using ok(2) by (metis prod.collapse)
  define h4 where "h4 = AddKnownTypes A h3 v1beta1_SchemeGroupVersion kinds"
  obtain h5 where h5: "rd h4 = (None, h5)" using ok(3) by (metis prod.collapse)
  obtain h6 where h6: "rc h5 = (None, h6)" using ok(4) by (metis prod.collapse)
  obtain h7 where h7: "rc h6 = (None, h7)" using ok(4) by (metis prod.collapse)
  have "builder_AddToScheme A (config_init A b) h = (None, h2)"
    unfolding config_init_def
    by (rule registered_runs [OF A ok(1)]) (simp add: config_addKnownTypes_def h2_def kinds_def)
  moreover have "v1beta1_addKnownTypes A h3 = (None, h4)"
    by (simp add: v1beta1_addKnownTypes_def h4_def kinds_def)
  then have "builder_AddToScheme A (v1beta1_init A rd rc b') h2 = (None, h6)"
    unfolding v1beta1_init_def Let_def using registered_runs [OF A] h3 h5 h6 by metis
  then have "builder_AddToScheme A (conversion_init A rc (v1beta1_init A rd rc b')) h2 = (None, h7)"
    unfolding conversion_init_def by (rule registered_runs [where f = rc, OF A]) (rule h7)
  ultimately have "configscheme_AddToScheme A (config_init A b)
      (conversion_init A rc (v1beta1_init A rd rc b')) h = Inr h7"
    by (simp add: configscheme_AddToScheme_def Must_def)
  moreover have "known h2 \<subseteq> known h3" "known h4 \<subseteq> known h5" "known h5 \<subseteq> known h6" "known h6 \<subseteq> known h7"
    using keep h3 h5 h6 h7 unfolding keeps_known_def by (metis snd_conv)+
  then have "{config_SchemeGroupVersion A, v1beta1_SchemeGroupVersion} \<times> set kinds \<subseteq> known h7"
    using scheme_lawsD(1) [OF A, of h1 "config_SchemeGroupVersion A" kinds]
      scheme_lawsD(1) [OF A, of h3 v1beta1_SchemeGroupVersion kinds]
    by (fold h2_def h4_def) blast
  ultimately show ?thesis unfolding kinds_def by blast
qed

end
