(* ===== verification/GeneratedListers.thy ===== *)
theory GeneratedListers
  imports SchedulingApi
begin

text \<open>
  The lister objects of \<^verbatim>\<open>pkg/generated/listers/scheduling/v1alpha1\<close>, around the methods of
  \<open>SchedulingApi\<close>: a lister holds the indexer of an informer, a namespaced lister also a namespace. The
  indexer and the two walkers over it are client-go's and a record of parameters; a selector is
  an argument of the walkers. An informer indexes an object under its namespace and name.
\<close>

section \<open>Listers\<close>

record ('o, 'sel) indexer =
  GetByKey :: "string \<Rightarrow> error + 'o option"
  cache_ListAll :: "'sel \<Rightarrow> 'o list \<times> error option"
  cache_ListAllByNamespace :: "string \<Rightarrow> 'sel \<Rightarrow> 'o list \<times> error option"

record ('o, 'sel) podGroupLister = pgl_indexer :: "('o, 'sel) indexer"

record ('o, 'sel) podGroupNamespaceLister =
  pgnl_indexer :: "('o, 'sel) indexer"
  pgnl_namespace :: string

definition NewPodGroupLister :: "('o, 'sel) indexer \<Rightarrow> ('o, 'sel) podGroupLister" where
  "NewPodGroupLister indexer = \<lparr>pgl_indexer = indexer\<rparr>"

definition podGroupLister_PodGroups ::
  "('o, 'sel) podGroupLister \<Rightarrow> string \<Rightarrow> ('o, 'sel) podGroupNamespaceLister"
where
  "podGroupLister_PodGroups s namespace = \<lparr>pgnl_indexer = pgl_indexer s, pgnl_namespace = namespace\<rparr>"

definition podGroupLister_List :: "('o, 'sel) podGroupLister \<Rightarrow> 'sel \<Rightarrow> 'o list \<times> error option" where
  "podGroupLister_List s selector = podGroup_ListAll (cache_ListAll (pgl_indexer s) selector)"

definition podGroupNamespaceLister_List ::
  "('o, 'sel) podGroupNamespaceLister \<Rightarrow> 'sel \<Rightarrow> 'o list \<times> error option"
where
  "podGroupNamespaceLister_List s selector =
     podGroup_List (\<lambda>ns. cache_ListAllByNamespace (pgnl_indexer s) ns selector) (pgnl_namespace s)"

definition podGroupNamespaceLister_Get ::
  "('q pod_group, 'sel) podGroupNamespaceLister \<Rightarrow> string \<Rightarrow> error + 'q pod_group"
where
  "podGroupNamespaceLister_Get s name = podGroup_Get (GetByKey (pgnl_indexer s)) (pgnl_namespace s) name"

record ('o, 'sel) elasticQuotaLister = eql_indexer :: "('o, 'sel) indexer"

record ('o, 'sel) elasticQuotaNamespaceLister =
  eqnl_indexer :: "('o, 'sel) indexer"
  eqnl_namespace :: string

definition NewElasticQuotaLister :: "('o, 'sel) indexer \<Rightarrow> ('o, 'sel) elasticQuotaLister" where
  "NewElasticQuotaLister indexer = \<lparr>eql_indexer = indexer\<rparr>"

definition elasticQuotaLister_ElasticQuotas ::
  "('o, 'sel) elasticQuotaLister \<Rightarrow> string \<Rightarrow> ('o, 'sel) elasticQuotaNamespaceLister"
where
  "elasticQuotaLister_ElasticQuotas s namespace = \<lparr>eqnl_indexer = eql_indexer s, eqnl_namespace = namespace\<rparr>"

definition elasticQuotaLister_List :: "('o, 'sel) elasticQuotaLister \<Rightarrow> 'sel \<Rightarrow> 'o list \<times> error option" where
  "elasticQuotaLister_List s selector = elasticQuota_ListAll (cache_ListAll (eql_indexer s) selector)"

definition elasticQuotaNamespaceLister_List ::
  "('o, 'sel) elasticQuotaNamespaceLister \<Rightarrow> 'sel \<Rightarrow> 'o list \<times> error option"
where
  "elasticQuotaNamespaceLister_List s selector =
     elasticQuota_List (\<lambda>ns. cache_ListAllByNamespace (eqnl_indexer s) ns selector) (eqnl_namespace s)"

definition elasticQuotaNamespaceLister_Get ::
  "('q elastic_quota, 'sel) elasticQuotaNamespaceLister \<Rightarrow> string \<Rightarrow> error + 'q elastic_quota"
where
  "elasticQuotaNamespaceLister_Get s name =
     elasticQuota_Get (GetByKey (eqnl_indexer s)) (eqnl_namespace s) name"

section \<open>Listers over a store\<close>

text \<open>An indexer over a store of objects: what it finds under a key is an object of the store with that namespace
  and name, and every object of the store is found. A namespace holds no slash, so its end is known.\<close>

definition slash_free :: "string \<Rightarrow> bool" where
  "slash_free s \<longleftrightarrow> CHR ''/'' \<notin> set s"

definition indexes :: "('o, 'sel) indexer \<Rightarrow> ('o \<Rightarrow> string) \<Rightarrow> ('o \<Rightarrow> string) \<Rightarrow> 'o set \<Rightarrow> bool" where
  "indexes I namespace name store \<longleftrightarrow>
     (\<forall>x \<in> store. slash_free (namespace x) \<and> GetByKey I (lister_key (namespace x) (name x)) = Inr (Some x)) \<and>
     (\<forall>k. \<not> isl (GetByKey I k)) \<and>
     (\<forall>k x. GetByKey I k = Inr (Some x) \<longrightarrow> x \<in> store \<and> k = lister_key (namespace x) (name x))"

lemma lister_key_inj:
  assumes "slash_free ns" and "slash_free ns'" and "lister_key ns n = lister_key ns' n'"
  shows "ns = ns' \<and> n = n'"
  using assms
proof (induction ns arbitrary: ns')
  case Nil
  then show ?case by (cases ns') (auto simp: lister_key_def slash_free_def)
next
  case (Cons a ns)
  then show ?case by (cases ns') (auto simp: lister_key_def slash_free_def)
qed

lemma indexes_GetByKey:
  assumes "indexes I namespace name store" and "slash_free ns"
  shows "GetByKey I (lister_key ns n) = Inr (Some x) \<longleftrightarrow> x \<in> store \<and> namespace x = ns \<and> name x = n"
  using assms lister_key_inj unfolding indexes_def by metis

lemma indexed_lookup:
  assumes "indexes I namespace name store" and "slash_free ns"
    and r: "r = (case GetByKey I (ns @ ''/'' @ n) of
      Inl err \<Rightarrow> Inl err | Inr None \<Rightarrow> Inl NotFound | Inr (Some y) \<Rightarrow> Inr y)"
  shows "r = Inr x \<longleftrightarrow> x \<in> store \<and> namespace x = ns \<and> name x = n"
    and "\<forall>x \<in> store. namespace x \<noteq> ns \<or> name x \<noteq> n \<Longrightarrow> r = Inl NotFound"
proof -
  have key: "ns @ ''/'' @ n = lister_key ns n" by (simp add: lister_key_def)
  have "\<not> isl (GetByKey I (lister_key ns n))" using assms(1) by (simp add: indexes_def)
  then obtain z where z: "GetByKey I (lister_key ns n) = Inr z" by (metis isl_def sum.exhaust)
  note found = indexes_GetByKey [OF assms(1,2), of n, unfolded z]
  have r: "r = (case z of None \<Rightarrow> Inl NotFound | Some y \<Rightarrow> Inr y)" using z by (simp only: r key sum.case)
  show "r = Inr x \<longleftrightarrow> x \<in> store \<and> namespace x = ns \<and> name x = n"
    using found [of x] by (cases z) (simp_all add: r)
  show "r = Inl NotFound" if "\<forall>x \<in> store. namespace x \<noteq> ns \<or> name x \<noteq> n"
    using that found by (cases z) (auto simp: r)
qed

text \<open>Get of a namespaced lister finds exactly the object of that namespace and name, and reports that there
  is none otherwise; it never reaches into another namespace.\<close>

lemma podGroup_lister_Get:
  assumes "indexes I pgNamespace pgName store" and "slash_free ns"
  shows "podGroupNamespaceLister_Get (podGroupLister_PodGroups (NewPodGroupLister I) ns) n = Inr pg
      \<longleftrightarrow> pg \<in> store \<and> pgNamespace pg = ns \<and> pgName pg = n"
    and "\<forall>pg \<in> store. pgNamespace pg \<noteq> ns \<or> pgName pg \<noteq> n \<Longrightarrow>
      podGroupNamespaceLister_Get (podGroupLister_PodGroups (NewPodGroupLister I) ns) n = Inl NotFound"
  unfolding podGroupNamespaceLister_Get_def podGroupLister_PodGroups_def NewPodGroupLister_def podGroup_Get_def
    podGroupNamespaceLister.simps podGroupLister.simps
  by (rule indexed_lookup [OF assms], simp)+

lemma elasticQuota_lister_Get:
  assumes "indexes I eqObjNamespace eqObjName store" and "slash_free ns"
  shows "elasticQuotaNamespaceLister_Get (elasticQuotaLister_ElasticQuotas (NewElasticQuotaLister I) ns) n = Inr eq
      \<longleftrightarrow> eq \<in> store \<and> eqObjNamespace eq = ns \<and> eqObjName eq = n"
    and "\<forall>eq \<in> store. eqObjNamespace eq \<noteq> ns \<or> eqObjName eq \<noteq> n \<Longrightarrow>
      elasticQuotaNamespaceLister_Get (elasticQuotaLister_ElasticQuotas (NewElasticQuotaLister I) ns) n = Inl NotFound"
  unfolding elasticQuotaNamespaceLister_Get_def elasticQuotaLister_ElasticQuotas_def NewElasticQuotaLister_def
    elasticQuota_Get_def elasticQuotaNamespaceLister.simps elasticQuotaLister.simps
  by (rule indexed_lookup [OF assms], simp)+

end
