(* ===== verification/PluginProfile.thy ===== *)
theory PluginProfile
  imports PreemptionProperties Coscheduling PodState NodeResources TargetLoadPacking LoadVariation
begin

text \<open>
  The extensions that the plugins of the scheduler offer to the framework, and a profile of these
  plugins. The framework runs the PreFilter extensions of the plugins that have one, in the
  profile's order, and stops at the first status that is no success; it normalises the scores of a
  plugin that has ScoreExtensions. Of the plugins with a PreFilter only CapacityScheduling has extensions,
  so what the preemption theorems assume of the framework holds in every such profile.
\<close>

section \<open>The extensions of the plugins\<close>

record ('q, 'st) prefilter_extensions =
  ext_AddPod :: "'st \<Rightarrow> 'q pod \<Rightarrow> 'st \<times> status"
  ext_RemovePod :: "'st \<Rightarrow> 'q pod \<Rightarrow> 'st \<times> status"

definition cap_PreFilterExtensions ::
  "('q, 'st, cap_data, 'z) cycle_api_scheme \<Rightarrow> ('q, 'st) prefilter_extensions option"
where
  "cap_PreFilterExtensions K = Some \<lparr>ext_AddPod = cap_AddPod K, ext_RemovePod = cap_RemovePod K\<rparr>"

definition cos_PreFilterExtensions :: "('q, 'st) prefilter_extensions option" where
  "cos_PreFilterExtensions = None"

type_synonym score_extensions = "(node_score list \<Rightarrow> node_score list \<times> status option) option"

definition tlp_NormalizeScore :: "node_score list \<Rightarrow> node_score list \<times> status option" where
  "tlp_NormalizeScore scores = (scores, None)"

definition alloc_ScoreExtensions :: score_extensions where
  "alloc_ScoreExtensions = Some alloc_NormalizeScore"

definition ps_ScoreExtensions :: score_extensions where
  "ps_ScoreExtensions = Some ps_NormalizeScore"

definition tlp_ScoreExtensions :: score_extensions where
  "tlp_ScoreExtensions = Some tlp_NormalizeScore"

definition lvr_ScoreExtensions :: score_extensions where
  "lvr_ScoreExtensions = Some lvr_NormalizeScore"

section \<open>A profile\<close>

text \<open>The framework's RunPreFilterExtensionAddPod and RunPreFilterExtensionRemovePod over the extensions of
  the plugins of a profile; \<open>op\<close> picks the operation.\<close>

fun run_extensions ::
  "(('q, 'st) prefilter_extensions \<Rightarrow> 'st \<Rightarrow> 'q pod \<Rightarrow> 'st \<times> status) \<Rightarrow>
   ('q, 'st) prefilter_extensions option list \<Rightarrow> 'st \<Rightarrow> 'q pod \<Rightarrow> status option \<times> 'st"
where
  "run_extensions op [] st p = (None, st)"
| "run_extensions op (None # exts) st p = run_extensions op exts st p"
| "run_extensions op (Some e # exts) st p =
     (let (st, status) = op e st p
      in if stCode status \<noteq> Success then (Some status, st) else run_extensions op exts st p)"

definition profile_runs ::
  "('q, 'st, cap_data, 'sel, 's, 'z) preempt_api_scheme \<Rightarrow> ('q, 'st) prefilter_extensions option list \<Rightarrow> bool"
where
  "profile_runs K exts \<longleftrightarrow>
     (\<forall>st pod rp ni. run_ext_remove K st pod rp ni = run_extensions ext_RemovePod exts st rp) \<and>
     (\<forall>st pod ap ni. run_ext_add K st pod ap ni = run_extensions ext_AddPod exts st ap)"

lemma run_extensions_none:
  "set exts \<subseteq> {None} \<Longrightarrow> run_extensions op exts st p = (None, st)"
  by (induction exts) auto

text \<open>Plugins without extensions do not matter.\<close>

lemma run_extensions_only:
  assumes "filter (\<lambda>x. x \<noteq> None) exts = [Some e]"
  shows "snd (run_extensions op exts st p) = fst (op e st p) \<and>
    fst (run_extensions op exts st p)
      = (if stCode (snd (op e st p)) = Success then None else Some (snd (op e st p)))"
  using assms
proof (induction exts)
  case (Cons x exts)
  show ?case
  proof (cases x)
    case None
    with Cons show ?thesis by simp
  next
    case (Some e')
    with Cons.prems have "e' = e" and "set exts \<subseteq> {None}" by (auto simp: filter_empty_conv)
    with Some show ?thesis by (simp add: run_extensions_none split: prod.split)
  qed
qed simp

text \<open>In a profile with CapacityScheduling, Coscheduling and plugins without extensions, in any order, the
  assumptions of the preemption theorems on the framework hold.\<close>

lemma profile_preempt_laws:
  assumes K: "cycle_laws K" and sort: "\<And>less xs. mset (sort_slice K less xs) = mset xs"
    and runs: "profile_runs K exts" and once: "filter (\<lambda>x. x \<noteq> None) exts = [cap_PreFilterExtensions K]"
  shows "preempt_laws K"
proof -
  have keep: "getPreFilterState K (fst (cap_RemovePod K st p)) = getPreFilterState K st"
    "getPreFilterState K (fst (cap_AddPod K st p)) = getPreFilterState K st" for st p
    by (auto simp: cap_RemovePod_def cap_AddPod_def getPreFilterState_write_snapshot [OF K]
        split: sum.split option.split)
  note only = run_extensions_only [OF once [unfolded cap_PreFilterExtensions_def]]
  have "snd (run_ext_remove K st pod rp ni) = fst (cap_RemovePod K st rp)"
    "snd (run_ext_add K st pod rp ni) = fst (cap_AddPod K st rp)" for st pod rp ni
    using runs only [of ext_RemovePod] only [of ext_AddPod] by (simp_all add: profile_runs_def)
  then show ?thesis by (simp add: preempt_laws_def sort keep)
qed

lemma gang_profile:
  "filter (\<lambda>x. x \<noteq> None) [cap_PreFilterExtensions K, cos_PreFilterExtensions] = [cap_PreFilterExtensions K]"
  "filter (\<lambda>x. x \<noteq> None) [cos_PreFilterExtensions, cap_PreFilterExtensions K] = [cap_PreFilterExtensions K]"
  by (simp_all add: cap_PreFilterExtensions_def cos_PreFilterExtensions_def)

section \<open>Normalisation\<close>

text \<open>The load-aware plugins offer ScoreExtensions that leave the scores as they are.\<close>

lemma load_scores_unchanged:
  assumes "e = tlp_ScoreExtensions \<or> e = lvr_ScoreExtensions"
  shows "map_option (\<lambda>normalize. normalize scores) e = Some (scores, None)"
  using assms
  by (auto simp: tlp_ScoreExtensions_def lvr_ScoreExtensions_def tlp_NormalizeScore_def lvr_NormalizeScore_def)

end
