(* ===== verification/PodNominator.thy ===== *)
theory PodNominator
  imports PodState
begin

text \<open>
  The pod nominator, the shared lister and the group fixture of the tests, \<^verbatim>\<open>test/util/fake.go\<close> and
  \<^verbatim>\<open>test/util/utils.go\<close>. The nominator is a copy of the scheduler's own, behind
  \<^verbatim>\<open>framework.PodNominator\<close>, which the PodState plugin asks for the pods nominated to a node. Every exported
  method holds the lock, so it is one step. A slice is its value here: the one that
  NominatedPodsForNode returns is not copied by the source and may be shifted by a later deletion.
\<close>

section \<open>The nominator\<close>

record 'q nominated_pod_map =
  nominatedPods :: "(string, 'q pod list) gomap"
  nominatedPodToNode :: "(string, string) gomap"

definition NominatedNodeName :: "'q pod \<Rightarrow> string" where
  "NominatedNodeName pod = podNominated pod"

definition NewPodNominator :: "'q nominated_pod_map" where
  "NewPodNominator = \<lparr>nominatedPods = [], nominatedPodToNode = []\<rparr>"

text \<open>The loop of delete: the slice without its first pod with the UID, if there is one.\<close>

fun splice_pod :: "string \<Rightarrow> 'q pod list \<Rightarrow> 'q pod list option" where
  "splice_pod uid [] = None"
| "splice_pod uid (np # nps) =
     (if podUID np = uid then Some nps
      else (case splice_pod uid nps of None \<Rightarrow> None | Some nps \<Rightarrow> Some (np # nps)))"

definition npm_delete :: "'q nominated_pod_map \<Rightarrow> 'q pod \<Rightarrow> 'q nominated_pod_map" where
  "npm_delete npm p =
     (case map_of (nominatedPodToNode npm) (podUID p) of
        None \<Rightarrow> npm
      | Some nnn \<Rightarrow>
          let npm =
            (case splice_pod (podUID p) (mget [] (nominatedPods npm) nnn) of
               None \<Rightarrow> npm
             | Some nps \<Rightarrow>
                 let npm = npm\<lparr>nominatedPods := mput nnn nps (nominatedPods npm)\<rparr>
                 in if length nps = 0 then npm\<lparr>nominatedPods := mdel nnn (nominatedPods npm)\<rparr> else npm)
          in npm\<lparr>nominatedPodToNode := mdel (podUID p) (nominatedPodToNode npm)\<rparr>)"

definition npm_add :: "'q nominated_pod_map \<Rightarrow> 'q pod \<Rightarrow> string \<Rightarrow> 'q nominated_pod_map" where
  "npm_add npm p node_name =
     (let npm = npm_delete npm p;
          nnn = (if length node_name = 0 then NominatedNodeName p else node_name)
      in if length nnn = 0 then npm
         else
           let npm = npm\<lparr>nominatedPodToNode := mput (podUID p) nnn (nominatedPodToNode npm)\<rparr>;
               nps = mget [] (nominatedPods npm) nnn
           in if \<exists>np \<in> set nps. podUID np = podUID p then npm
              else npm\<lparr>nominatedPods := mput nnn (nps @ [p]) (nominatedPods npm)\<rparr>)"

definition UpdateNominatedPod ::
  "'q nominated_pod_map \<Rightarrow> 'q pod \<Rightarrow> 'q pod \<Rightarrow> 'q nominated_pod_map"
where
  "UpdateNominatedPod npm oldPod newPod =
     (let node_name =
            (if NominatedNodeName oldPod = '''' \<and> NominatedNodeName newPod = ''''
             then (case map_of (nominatedPodToNode npm) (podUID oldPod) of None \<Rightarrow> '''' | Some nnn \<Rightarrow> nnn)
             else '''')
      in npm_add (npm_delete npm oldPod) newPod node_name)"

definition DeleteNominatedPodIfExists :: "'q nominated_pod_map \<Rightarrow> 'q pod \<Rightarrow> 'q nominated_pod_map" where
  "DeleteNominatedPodIfExists npm pod = npm_delete npm pod"

definition AddNominatedPod :: "'q nominated_pod_map \<Rightarrow> 'q pod \<Rightarrow> string \<Rightarrow> 'q nominated_pod_map" where
  "AddNominatedPod npm pod node_name = npm_add npm pod node_name"

definition NominatedPodsForNode :: "'q nominated_pod_map \<Rightarrow> string \<Rightarrow> 'q pod list" where
  "NominatedPodsForNode npm node_name = mget [] (nominatedPods npm) node_name"

section \<open>The two maps agree\<close>

text \<open>The abstract nominator: for each UID the node and the pod object nominated to it.\<close>

definition nominee :: "'q nominated_pod_map \<Rightarrow> string \<Rightarrow> (string \<times> 'q pod) option" where
  "nominee npm uid =
     (case map_of (nominatedPodToNode npm) uid of
        None \<Rightarrow> None
      | Some nnn \<Rightarrow> map_option (Pair nnn) (find (\<lambda>p. podUID p = uid) (NominatedPodsForNode npm nnn)))"

text \<open>Each pod of a node's list is mapped to that node, each mapped UID is in the list of its node, which has a name, and no list
  holds a UID twice or is kept empty.\<close>

definition npm_ok :: "'q nominated_pod_map \<Rightarrow> bool" where
  "npm_ok npm \<longleftrightarrow>
     (\<forall>n ps. map_of (nominatedPods npm) n = Some ps \<longrightarrow> ps \<noteq> []) \<and>
     (\<forall>n. distinct (map podUID (NominatedPodsForNode npm n))) \<and>
     (\<forall>uid n. map_of (nominatedPodToNode npm) uid = Some n \<longleftrightarrow>
        uid \<in> podUID ` set (NominatedPodsForNode npm n)) \<and>
     NominatedPodsForNode npm '''' = []"

lemma npm_okD:
  assumes "npm_ok npm"
  shows "map_of (nominatedPods npm) n = Some ps \<Longrightarrow> ps \<noteq> []"
    and "distinct (map podUID (NominatedPodsForNode npm n))"
    and "map_of (nominatedPodToNode npm) uid = Some n \<longleftrightarrow> uid \<in> podUID ` set (NominatedPodsForNode npm n)"
    and "NominatedPodsForNode npm '''' = []"
  using assms unfolding npm_ok_def by blast+

lemma uids_filter: "podUID ` {q \<in> A. podUID q \<noteq> uid} = podUID ` A - {uid}"
  by auto

lemma splice_distinct:
  assumes "distinct (map podUID nps)" and "uid \<in> podUID ` set nps"
  shows "splice_pod uid nps = Some (filter (\<lambda>p. podUID p \<noteq> uid) nps)"
  using assms
proof (induction nps)
  case (Cons np nps)
  have "filter (\<lambda>p. podUID p \<noteq> uid) nps = nps" if "podUID np = uid"
    using Cons.prems(1) that by (intro filter_True) (auto simp: rev_image_eqI)
  with Cons show ?case by auto
qed simp

text \<open>What delete and add do to the lists and to the node of each UID.\<close>

lemma npm_delete_lists:
  assumes "npm_ok npm"
  shows "NominatedPodsForNode (npm_delete npm p) n = filter (\<lambda>q. podUID q \<noteq> podUID p) (NominatedPodsForNode npm n)"
    and "map_of (nominatedPodToNode (npm_delete npm p)) = (map_of (nominatedPodToNode npm))(podUID p := None)"
    and "map_of (nominatedPods (npm_delete npm p)) n = Some ps \<Longrightarrow> ps \<noteq> []"
proof -
  have other: "filter (\<lambda>q. podUID q \<noteq> podUID p) (NominatedPodsForNode npm m) = NominatedPodsForNode npm m"
    if "map_of (nominatedPodToNode npm) (podUID p) \<noteq> Some m" for m
    using that npm_okD(3) [OF assms, of _ m] by (intro filter_True) (metis image_eqI)
  have all: "(NominatedPodsForNode (npm_delete npm p) n
        = filter (\<lambda>q. podUID q \<noteq> podUID p) (NominatedPodsForNode npm n)) \<and>
      map_of (nominatedPodToNode (npm_delete npm p)) = (map_of (nominatedPodToNode npm))(podUID p := None) \<and>
      (map_of (nominatedPods (npm_delete npm p)) n = Some ps \<longrightarrow> ps \<noteq> [])"
  proof (cases "map_of (nominatedPodToNode npm) (podUID p)")
    case None
    then show ?thesis
      using other [of n] npm_okD(1) [OF assms] by (auto simp: npm_delete_def fun_upd_idem)
  next
    case (Some nnn)
    have sp: "splice_pod (podUID p) (mget [] (nominatedPods npm) nnn)
        = Some (filter (\<lambda>q. podUID q \<noteq> podUID p) (NominatedPodsForNode npm nnn))"
      using splice_distinct [OF npm_okD(2) [OF assms]] Some npm_okD(3) [OF assms, of "podUID p" nnn]
      by (simp add: NominatedPodsForNode_def)
    then show ?thesis
      using Some other [of n] npm_okD(1) [OF assms]
      by (auto simp: npm_delete_def Let_def NominatedPodsForNode_def mget_def)
  qed
  then show "NominatedPodsForNode (npm_delete npm p) n = filter (\<lambda>q. podUID q \<noteq> podUID p) (NominatedPodsForNode npm n)"
    and "map_of (nominatedPodToNode (npm_delete npm p)) = (map_of (nominatedPodToNode npm))(podUID p := None)"
    and "map_of (nominatedPods (npm_delete npm p)) n = Some ps \<Longrightarrow> ps \<noteq> []" by blast+
qed

lemma npm_delete_ok:
  assumes "npm_ok npm"
  shows "npm_ok (npm_delete npm p)"
  unfolding npm_ok_def npm_delete_lists(1,2) [OF assms]
  using npm_okD [OF assms] npm_delete_lists(3) [OF assms]
  by (simp add: distinct_map_filter uids_filter)

lemma npm_add_lists:
  fixes p :: "'q pod" and nd :: string
  assumes "npm_ok npm"
  defines "nnn \<equiv> (if length nd = 0 then podNominated p else nd)"
  shows "NominatedPodsForNode (npm_add npm p nd) n =
      filter (\<lambda>q. podUID q \<noteq> podUID p) (NominatedPodsForNode npm n) @ (if n = nnn \<and> nnn \<noteq> '''' then [p] else [])"
    and "map_of (nominatedPodToNode (npm_add npm p nd))
      = (map_of (nominatedPodToNode npm))(podUID p := (if nnn = '''' then None else Some nnn))"
    and "map_of (nominatedPods (npm_add npm p nd)) n = Some ps \<Longrightarrow> ps \<noteq> []"
proof -
  let ?d = "npm_delete npm p"
  note d = npm_delete_lists [OF assms(1), of p]
  have no: "\<not> (\<exists>np \<in> set (mget [] (nominatedPods ?d) m). podUID np = podUID p)" for m
    using d(1) [of m] by (simp add: NominatedPodsForNode_def)
  have add: "npm_add npm p nd = (if nnn = '''' then ?d
      else ?d\<lparr>nominatedPodToNode := mput (podUID p) nnn (nominatedPodToNode ?d),
             nominatedPods := mput nnn (NominatedPodsForNode ?d nnn @ [p]) (nominatedPods ?d)\<rparr>)"
    using no [of nnn] by (simp add: npm_add_def nnn_def NominatedNodeName_def NominatedPodsForNode_def Let_def)
  show "NominatedPodsForNode (npm_add npm p nd) n =
      filter (\<lambda>q. podUID q \<noteq> podUID p) (NominatedPodsForNode npm n) @ (if n = nnn \<and> nnn \<noteq> '''' then [p] else [])"
    using d(1) by (simp add: add NominatedPodsForNode_def mget_mput)
  show "map_of (nominatedPodToNode (npm_add npm p nd))
      = (map_of (nominatedPodToNode npm))(podUID p := (if nnn = '''' then None else Some nnn))"
    by (simp add: add d(2))
  show "map_of (nominatedPods (npm_add npm p nd)) n = Some ps \<Longrightarrow> ps \<noteq> []"
    using d(3) by (auto simp: add split: if_splits)
qed

lemma npm_add_ok:
  assumes "npm_ok npm"
  shows "npm_ok (npm_add npm p nd)"
  unfolding npm_ok_def npm_add_lists(1,2) [OF assms]
  using npm_okD [OF assms] npm_add_lists(3) [OF assms]
  by (auto simp: distinct_map_filter uids_filter image_Un)

text \<open>The invariant holds after any sequence of calls.\<close>

datatype 'q nominator_call = CallAdd "'q pod" string | CallDelete "'q pod" | CallUpdate "'q pod" "'q pod"

fun npm_call :: "'q nominator_call \<Rightarrow> 'q nominated_pod_map \<Rightarrow> 'q nominated_pod_map" where
  "npm_call (CallAdd p nd) npm = AddNominatedPod npm p nd"
| "npm_call (CallDelete p) npm = DeleteNominatedPodIfExists npm p"
| "npm_call (CallUpdate old new) npm = UpdateNominatedPod npm old new"

lemma npm_call_ok: "npm_ok npm \<Longrightarrow> npm_ok (npm_call c npm)"
  by (cases c)
    (simp_all add: AddNominatedPod_def DeleteNominatedPodIfExists_def UpdateNominatedPod_def Let_def
      npm_add_ok npm_delete_ok)

lemma nominator_reachable_ok: "npm_ok (fold npm_call calls NewPodNominator)"
proof -
  have "npm_ok NewPodNominator"
    by (simp add: npm_ok_def NewPodNominator_def NominatedPodsForNode_def)
  then show ?thesis
    by (rule fold_invariant [where Q = "\<lambda>_. True", rotated]) (simp_all add: npm_call_ok)
qed

section \<open>The abstract nominator\<close>

lemma nominee_iff:
  assumes "npm_ok npm"
  shows "nominee npm uid = Some (n, p) \<longleftrightarrow> p \<in> set (NominatedPodsForNode npm n) \<and> podUID p = uid"
proof -
  have find: "find (\<lambda>p. podUID p = uid) ps = Some p \<longleftrightarrow> p \<in> set ps \<and> podUID p = uid"
    if "distinct (map podUID ps)" for ps
    using that by (induction ps) (auto simp: rev_image_eqI)
  have "nominee npm uid = Some (n, p) \<longleftrightarrow> map_of (nominatedPodToNode npm) uid = Some n \<and>
      find (\<lambda>p. podUID p = uid) (NominatedPodsForNode npm n) = Some p"
    by (cases "map_of (nominatedPodToNode npm) uid") (auto simp: nominee_def)
  also have "\<dots> \<longleftrightarrow> p \<in> set (NominatedPodsForNode npm n) \<and> podUID p = uid"
    using npm_okD(3) [OF assms, of uid n] unfolding find [OF npm_okD(2) [OF assms]] by blast
  finally show ?thesis .
qed

lemma nominee_eqI:
  assumes "npm_ok npm" and "\<And>uid n p. f uid = Some (n, p) \<longleftrightarrow> p \<in> set (NominatedPodsForNode npm n) \<and> podUID p = uid"
  shows "nominee npm = f"
proof
  fix uid
  have "nominee npm uid = Some x \<longleftrightarrow> f uid = Some x" for x
    using nominee_iff [OF assms(1), of uid "fst x" "snd x"] assms(2) [of uid "fst x" "snd x"] by simp
  then show "nominee npm uid = f uid" by (metis option.exhaust)
qed

text \<open>Deletion forgets the pod; addition nominates the given object to the given node, or to its own
  nominated node, and forgets the pod when there is neither; an update replaces the object, and keeps
  the node in memory exactly when neither the old nor the new object names one.\<close>

lemma nominee_delete:
  assumes "npm_ok npm"
  shows "nominee (DeleteNominatedPodIfExists npm p) = (nominee npm)(podUID p := None)"
  unfolding DeleteNominatedPodIfExists_def
  by (rule nominee_eqI [OF npm_delete_ok [OF assms]])
    (auto simp: npm_delete_lists [OF assms] nominee_iff [OF assms])

lemma nominee_add:
  assumes "npm_ok npm"
  shows "nominee (AddNominatedPod npm p nd) = (nominee npm)(podUID p :=
    (let nnn = (if nd = '''' then podNominated p else nd) in if nnn = '''' then None else Some (nnn, p)))"
  unfolding AddNominatedPod_def Let_def
  by (rule nominee_eqI [OF npm_add_ok [OF assms]])
    (auto simp: npm_add_lists [OF assms] nominee_iff [OF assms])

lemma nominee_update:
  assumes "npm_ok npm" and "podUID new = podUID old"
  shows "nominee (UpdateNominatedPod npm old new) = (nominee npm)(podUID old :=
    (if podNominated new \<noteq> '''' then Some (podNominated new, new)
     else if podNominated old \<noteq> '''' then None
     else map_option (\<lambda>(n, p). (n, new)) (nominee npm (podUID old))))"
proof -
  let ?nd = "if podNominated old = '''' \<and> podNominated new = ''''
    then (case map_of (nominatedPodToNode npm) (podUID old) of None \<Rightarrow> '''' | Some nnn \<Rightarrow> nnn) else ''''"
  have "UpdateNominatedPod npm old new = AddNominatedPod (DeleteNominatedPodIfExists npm old) new ?nd"
    by (simp add: UpdateNominatedPod_def AddNominatedPod_def DeleteNominatedPodIfExists_def NominatedNodeName_def)
  moreover have "npm_ok (DeleteNominatedPodIfExists npm old)"
    by (simp add: DeleteNominatedPodIfExists_def npm_delete_ok assms(1))
  moreover have "map_of (nominatedPodToNode npm) (podUID old) = map_option fst (nominee npm (podUID old))"
  proof (cases "map_of (nominatedPodToNode npm) (podUID old)")
    case (Some n)
    then obtain p where "p \<in> set (NominatedPodsForNode npm n)" "podUID p = podUID old"
      using npm_okD(3) [OF assms(1), of "podUID old" n] by auto
    with Some show ?thesis using nominee_iff [OF assms(1), of "podUID old" n p] by simp
  qed (simp add: nominee_def)
  moreover have "nominee npm (podUID old) \<noteq> Some ('''', p)" for p
    using nominee_iff [OF assms(1), of "podUID old" "''''" p] npm_okD(4) [OF assms(1)] by simp
  ultimately show ?thesis
    using assms(2)
    by (auto simp: nominee_add nominee_delete [OF assms(1)] Let_def fun_eq_iff split: option.split)
qed

section \<open>The score of PodState over the nominator\<close>

text \<open>What PodState subtracts for a node is the number of pods that the nominator has there, each counted once.\<close>

lemma nominated_count:
  assumes "npm_ok npm"
  shows "length (NominatedPodsForNode npm n) = card {uid. \<exists>p. nominee npm uid = Some (n, p)}"
proof -
  have "{uid. \<exists>p. nominee npm uid = Some (n, p)} = podUID ` set (NominatedPodsForNode npm n)"
    using nominee_iff [OF assms] by auto
  then show ?thesis
    using distinct_card [OF npm_okD(2) [OF assms, of n]] by simp
qed

text \<open>So nominating one more pod to a node lowers the balance of the node by one, and of no other node that the
  pod was not nominated to before.\<close>

lemma nomination_lowers_balance:
  assumes "npm_ok npm" and "nominee npm (podUID p) = None" and "nd \<noteq> ''''" and "niNode ni = Some node"
  shows "pod_balance (\<lambda>n. length (NominatedPodsForNode (AddNominatedPod npm p nd) n)) ni
    = pod_balance (\<lambda>n. length (NominatedPodsForNode npm n)) ni - (if nodeName node = nd then 1 else 0)"
proof -
  have "podUID q \<noteq> podUID p" if "q \<in> set (NominatedPodsForNode npm n)" for q n
    using that assms(2) nominee_iff [OF assms(1), of "podUID p" n q] by auto
  then have "filter (\<lambda>q. podUID q \<noteq> podUID p) (NominatedPodsForNode npm n) = NominatedPodsForNode npm n" for n
    by (intro filter_True) metis
  then show ?thesis
    using assms(3,4) by (simp add: pod_balance_def AddNominatedPod_def npm_add_lists [OF assms(1)])
qed

end
