(* ===== verification/TestFixtures.thy ===== *)
theory TestFixtures
  imports SchedulingApi
begin

text \<open>
  The shared lister of the tests in \<^verbatim>\<open>test/util/fake.go\<close> and the pod group fixture of
  \<^verbatim>\<open>test/util/utils.go\<close>. A \<^verbatim>\<open>framework.NodeInfo\<close> is a value of type \<open>'n\<close> with its operations as
  parameters. A map entry is a pointer that the loops read and change in place; here it is put back. The lister
  ranges over the map in some order, the order of the list that stands for it.
\<close>

section \<open>The shared lister\<close>

record ('q, 'n) node_info_api =
  NewNodeInfo :: 'n
  ni_AddPod :: "'n \<Rightarrow> 'q pod \<Rightarrow> 'n"
  ni_SetNode :: "'n \<Rightarrow> 'q node \<Rightarrow> 'n"
  PodsWithAffinity :: "'n \<Rightarrow> 'q pod list"
  PodsWithRequiredAntiAffinity :: "'n \<Rightarrow> 'q pod list"

definition add_pod_info ::
  "('q, 'n, 'z) node_info_api_scheme \<Rightarrow> 'q pod \<Rightarrow> (string, 'n) gomap \<Rightarrow> (string, 'n) gomap"
where
  "add_pod_info A pod nodeNameToInfo =
     (let nodeNameToInfo =
            (if map_of nodeNameToInfo (podNodeName pod) = None
             then mput (podNodeName pod) (NewNodeInfo A) nodeNameToInfo else nodeNameToInfo)
      in mput (podNodeName pod)
           (ni_AddPod A (mget (NewNodeInfo A) nodeNameToInfo (podNodeName pod)) pod) nodeNameToInfo)"

definition set_node_info ::
  "('q, 'n, 'z) node_info_api_scheme \<Rightarrow> 'q node \<Rightarrow> (string, 'n) gomap \<Rightarrow> (string, 'n) gomap"
where
  "set_node_info A node nodeNameToInfo =
     (let nodeNameToInfo =
            (if map_of nodeNameToInfo (nodeName node) = None
             then mput (nodeName node) (NewNodeInfo A) nodeNameToInfo else nodeNameToInfo)
      in mput (nodeName node)
           (ni_SetNode A (mget (NewNodeInfo A) nodeNameToInfo (nodeName node)) node) nodeNameToInfo)"

definition createNodeInfoMap ::
  "('q, 'n, 'z) node_info_api_scheme \<Rightarrow> 'q pod list \<Rightarrow> 'q node list \<Rightarrow> (string, 'n) gomap"
where
  "createNodeInfoMap A pods nodes = fold (set_node_info A) nodes (fold (add_pod_info A) pods [])"

record 'n fakeSharedLister =
  nodeInfos :: "'n list"
  nodeInfoMap :: "(string, 'n) gomap"
  havePodsWithAffinityNodeInfoList :: "'n list"
  havePodsWithRequiredAntiAffinityNodeInfoList :: "'n list"

text \<open>The body of the loop over the map, on the three slices.\<close>

definition collect_info ::
  "('q, 'n, 'z) node_info_api_scheme \<Rightarrow> string \<times> 'n \<Rightarrow> 'n list \<times> 'n list \<times> 'n list \<Rightarrow>
   'n list \<times> 'n list \<times> 'n list"
where
  "collect_info A kv acc =
     (case (kv, acc) of ((_, v), (infos, aff, anti)) \<Rightarrow>
        (infos @ [v],
         if length (PodsWithAffinity A v) > 0 then aff @ [v] else aff,
         if length (PodsWithRequiredAntiAffinity A v) > 0 then anti @ [v] else anti))"

definition NewFakeSharedLister ::
  "('q, 'n, 'z) node_info_api_scheme \<Rightarrow> 'q pod list \<Rightarrow> 'q node list \<Rightarrow> 'n fakeSharedLister"
where
  "NewFakeSharedLister A pods nodes =
     (let m = createNodeInfoMap A pods nodes;
          (infos, aff, anti) = fold (collect_info A) m ([], [], [])
      in \<lparr>nodeInfos = infos, nodeInfoMap = m, havePodsWithAffinityNodeInfoList = aff,
          havePodsWithRequiredAntiAffinityNodeInfoList = anti\<rparr>)"

text \<open>The methods; the entry of a node that the map does not have is a nil pointer, with no error.\<close>

definition fsl_List :: "'n fakeSharedLister \<Rightarrow> 'n list \<times> error option" where
  "fsl_List f = (nodeInfos f, None)"

definition fsl_HavePodsWithAffinityList :: "'n fakeSharedLister \<Rightarrow> 'n list \<times> error option" where
  "fsl_HavePodsWithAffinityList f = (havePodsWithAffinityNodeInfoList f, None)"

definition fsl_HavePodsWithRequiredAntiAffinityList :: "'n fakeSharedLister \<Rightarrow> 'n list \<times> error option" where
  "fsl_HavePodsWithRequiredAntiAffinityList f = (havePodsWithRequiredAntiAffinityNodeInfoList f, None)"

definition fsl_Get :: "'n fakeSharedLister \<Rightarrow> string \<Rightarrow> 'n option \<times> error option" where
  "fsl_Get f node_name = (map_of (nodeInfoMap f) node_name, None)"

section \<open>The pod group fixture\<close>

definition MakePG ::
  "string \<Rightarrow> string \<Rightarrow> i32 \<Rightarrow> int option \<Rightarrow> 'q resource_list option \<Rightarrow> 'q pod_group"
where
  "MakePG name namespace min_member creationTime minResource =
     (let pg = \<lparr>pgName = name, pgNamespace = namespace, pgCreation = 0,
            pgSpec = \<lparr>MinMember = min_member, MinResources = None, ScheduleTimeoutSeconds = Some 10\<rparr>,
            pgStatus = \<lparr>Phase = '''', OccupiedBy = '''', Scheduled = 0, Running = 0, Succeeded = 0, Failed = 0,
              ScheduleStartTime = 0\<rparr>\<rparr>;
          pg = (case creationTime of None \<Rightarrow> pg | Some t \<Rightarrow> pg\<lparr>pgCreation := t\<rparr>)
      in (case minResource of None \<Rightarrow> pg
          | Some r \<Rightarrow> pg\<lparr>pgSpec := (pgSpec pg)\<lparr>MinResources := Some r\<rparr>\<rparr>))"

section \<open>What the lister holds\<close>

text \<open>The entry of a node: its pods were added in order, then its node objects were set, in order; there is one exactly for
  the names of the nodes and of the pods' nodes.\<close>

definition info_of ::
  "('q, 'n, 'z) node_info_api_scheme \<Rightarrow> 'q pod list \<Rightarrow> 'q node list \<Rightarrow> string \<Rightarrow> 'n option"
where
  "info_of A pods nodes n =
     (if n \<in> podNodeName ` set pods \<union> nodeName ` set nodes
      then Some (fold (\<lambda>nd ni. ni_SetNode A ni nd) (filter (\<lambda>nd. nodeName nd = n) nodes)
        (fold (\<lambda>p ni. ni_AddPod A ni p) (filter (\<lambda>p. podNodeName p = n) pods) (NewNodeInfo A)))
      else None)"

lemma filter_not_image: "n \<notin> f ` set xs \<Longrightarrow> filter (\<lambda>x. f x = n) xs = []"
  by (auto simp: filter_empty_conv)

lemma map_of_add_pod_info:
  "map_of (add_pod_info A p m) n =
    (if n = podNodeName p then Some (ni_AddPod A (mget (NewNodeInfo A) m n) p) else map_of m n)"
  by (auto simp: add_pod_info_def mget_def)

lemma map_of_set_node_info:
  "map_of (set_node_info A nd m) n =
    (if n = nodeName nd then Some (ni_SetNode A (mget (NewNodeInfo A) m n) nd) else map_of m n)"
  by (auto simp: set_node_info_def mget_def)

lemma fold_add_pod_info:
  "map_of (fold (add_pod_info A) pods m) n =
    (if n \<in> podNodeName ` set pods
     then Some (fold (\<lambda>p ni. ni_AddPod A ni p) (filter (\<lambda>p. podNodeName p = n) pods) (mget (NewNodeInfo A) m n))
     else map_of m n)"
  by (induction pods arbitrary: m) (auto simp: map_of_add_pod_info mget_def filter_not_image)

lemma fold_set_node_info:
  "map_of (fold (set_node_info A) nodes m) n =
    (if n \<in> nodeName ` set nodes
     then Some (fold (\<lambda>nd ni. ni_SetNode A ni nd) (filter (\<lambda>nd. nodeName nd = n) nodes) (mget (NewNodeInfo A) m n))
     else map_of m n)"
  by (induction nodes arbitrary: m) (auto simp: map_of_set_node_info mget_def filter_not_image)

lemma createNodeInfoMap_entries: "map_of (createNodeInfoMap A pods nodes) = info_of A pods nodes"
proof
  fix n
  show "map_of (createNodeInfoMap A pods nodes) n = info_of A pods nodes n"
    by (simp add: createNodeInfoMap_def info_of_def fold_set_node_info fold_add_pod_info mget_def filter_not_image)
qed

lemma createNodeInfoMap_wf: "gwf (createNodeInfoMap A pods nodes)"
proof -
  have "gwf (fold (add_pod_info A) pods m)" if "gwf m" for m
    using that by (induction pods arbitrary: m) (simp_all add: add_pod_info_def Let_def)
  moreover have "gwf (fold (set_node_info A) nodes m)" if "gwf m" for m
    using that by (induction nodes arbitrary: m) (simp_all add: set_node_info_def Let_def)
  ultimately show ?thesis by (simp add: createNodeInfoMap_def)
qed

text \<open>List holds one entry per node, and the two affinity lists are the sublists of the entries with such pods.\<close>

lemma fold_collect_info:
  "fold (collect_info A) m (xs, ys, zs) =
    (xs @ map snd m, ys @ filter (\<lambda>v. PodsWithAffinity A v \<noteq> []) (map snd m),
     zs @ filter (\<lambda>v. PodsWithRequiredAntiAffinity A v \<noteq> []) (map snd m))"
  by (induction m arbitrary: xs ys zs) (auto simp: collect_info_def)

lemma NewFakeSharedLister_lists:
  fixes A :: "('q, 'n, 'z) node_info_api_scheme"
  defines "f \<equiv> \<lambda>pods nodes. NewFakeSharedLister A pods nodes"
  shows "length (fst (fsl_List (f pods nodes))) = card (podNodeName ` set pods \<union> nodeName ` set nodes)"
    and "set (fst (fsl_List (f pods nodes))) = ran (info_of A pods nodes)"
    and "fst (fsl_HavePodsWithAffinityList (f pods nodes))
      = filter (\<lambda>v. PodsWithAffinity A v \<noteq> []) (fst (fsl_List (f pods nodes)))"
    and "fsl_Get (f pods nodes) n = (info_of A pods nodes n, None)"
proof -
  let ?m = "createNodeInfoMap A pods nodes"
  have f: "f pods nodes = \<lparr>nodeInfos = map snd ?m, nodeInfoMap = ?m,
      havePodsWithAffinityNodeInfoList = filter (\<lambda>v. PodsWithAffinity A v \<noteq> []) (map snd ?m),
      havePodsWithRequiredAntiAffinityNodeInfoList
        = filter (\<lambda>v. PodsWithRequiredAntiAffinity A v \<noteq> []) (map snd ?m)\<rparr>"
    by (simp add: f_def NewFakeSharedLister_def Let_def fold_collect_info)
  have dom: "set (map fst ?m) = podNodeName ` set pods \<union> nodeName ` set nodes"
    using createNodeInfoMap_entries [of A pods nodes] dom_map_of_conv_image_fst [of ?m]
    by (auto simp: info_of_def dom_def split: if_splits)
  show "length (fst (fsl_List (f pods nodes))) = card (podNodeName ` set pods \<union> nodeName ` set nodes)"
    using distinct_card [of "map fst ?m"] createNodeInfoMap_wf [of A pods nodes]
    by (simp add: f fsl_List_def gwf_def flip: dom)
  show "set (fst (fsl_List (f pods nodes))) = ran (info_of A pods nodes)"
    using ran_distinct [of ?m] createNodeInfoMap_wf [of A pods nodes]
    by (simp add: f fsl_List_def gwf_def createNodeInfoMap_entries)
  show "fst (fsl_HavePodsWithAffinityList (f pods nodes))
      = filter (\<lambda>v. PodsWithAffinity A v \<noteq> []) (fst (fsl_List (f pods nodes)))"
    by (simp add: f fsl_List_def fsl_HavePodsWithAffinityList_def)
  show "fsl_Get (f pods nodes) n = (info_of A pods nodes n, None)"
    by (simp add: f fsl_Get_def createNodeInfoMap_entries)
qed

end
