(* ===== verification/GangAdmission.thy ===== *)
theory GangAdmission
  imports CoschedulingProperties GeneratedListers
begin

text \<open>
  Gang scheduling over many scheduling cycles: the plugin's Permit and Unreserve, and around them what
  the framework documents that it does with their answers. It takes a snapshot of its cache at the start
  of a cycle, puts a pod that got a node into the cache as an assumed pod, keeps a pod that Permit
  tells to wait, binds one that is let through, and forgets an assumed pod that is rejected. Cycles run one after
  the other; a waiting pod expires between two cycles. The lemma on a stale snapshot shows what changes
  when it expires within one.
\<close>

section \<open>Scheduling cycles\<close>

text \<open>The pods of the cache, those waiting at Permit, and those let through to their binding.\<close>

record 'q gang_state =
  gsAssumed :: "'q pod list"
  gsWaiting :: "'q pod list"
  gsReleased :: "'q pod list"

definition gang_init :: "'q gang_state" where
  "gang_init = \<lparr>gsAssumed = [], gsWaiting = [], gsReleased = []\<rparr>"

text \<open>A pod gets a node and reaches Permit, which sees the snapshot \<open>V\<close>.\<close>

definition gang_cycle ::
  "('q, 'c, 'w, 'z) pgm_api_scheme \<Rightarrow> 'q cluster_view \<Rightarrow> i64 \<Rightarrow> ('q, 'c) pg_manager \<times> 'w \<Rightarrow> 'q gang_state \<Rightarrow>
   'q pod \<Rightarrow> string \<Rightarrow> error + 'q gang_state"
where
  "gang_cycle K V timeout m s pod node =
     (let pod = pod\<lparr>podNodeName := node\<rparr>
      in case cos_Permit (podGroupManager K) V timeout (gsWaiting s) m pod node of
           Inl panic \<Rightarrow> Inl panic
         | Inr (status, wait, verdicts) \<Rightarrow>
             if stCode status = Success then
               Inr \<lparr>gsAssumed = gsAssumed s @ [pod],
                    gsWaiting = filter (\<lambda>q. AllowPod q \<notin> set verdicts) (gsWaiting s),
                    gsReleased = gsReleased s @ [pod] @ filter (\<lambda>q. AllowPod q \<in> set verdicts) (gsWaiting s)\<rparr>
             else if stCode status = Wait then
               Inr (s\<lparr>gsAssumed := gsAssumed s @ [pod], gsWaiting := gsWaiting s @ [pod]\<rparr>)
             else Inr s)"

text \<open>A waiting pod runs out of time: it stops waiting and is unreserved, the pods that this rejects are unreserved
  in turn, and all of them leave the cache.\<close>

definition gang_expire ::
  "('q, 'c, 'w, 'z) pgm_api_scheme \<Rightarrow> int \<Rightarrow> ('q, 'c) pg_manager \<times> 'w \<Rightarrow> 'q gang_state \<Rightarrow> 'q pod \<Rightarrow>
   (('q, 'c) pg_manager \<times> 'w) \<times> 'q gang_state"
where
  "gang_expire K now m s pod =
     (if pod \<in> set (gsWaiting s) then
        let waiting = remove1 pod (gsWaiting s);
            (m, verdicts) = cos_Unreserve (podGroupManager K) now waiting m pod;
            rejected = filter (\<lambda>q. RejectPod q \<in> set verdicts) waiting;
            m = fold (\<lambda>q m. fst (cos_Unreserve (podGroupManager K) now [] m q)) rejected m
        in (m, s\<lparr>gsWaiting := filter (\<lambda>q. RejectPod q \<notin> set verdicts) waiting,
                gsAssumed := fold remove1 (pod # rejected) (gsAssumed s)\<rparr>)
      else (m, s))"

datatype 'q gang_event = Cycle "'q pod" string | Expire int "'q pod"

fun gang_run ::
  "('q, 'c, 'w, 'z) pgm_api_scheme \<Rightarrow> ('q pod list \<Rightarrow> 'q cluster_view) \<Rightarrow> i64 \<Rightarrow> ('q, 'c) pg_manager \<times> 'w \<Rightarrow>
   'q gang_state \<Rightarrow> 'q gang_event list \<Rightarrow> error + (('q, 'c) pg_manager \<times> 'w) \<times> 'q gang_state"
where
  "gang_run K snapshot timeout m s [] = Inr (m, s)"
| "gang_run K snapshot timeout m s (Cycle pod node # evs) =
     (case gang_cycle K (snapshot (gsAssumed s)) timeout m s pod node of
        Inl panic \<Rightarrow> Inl panic
      | Inr s \<Rightarrow> gang_run K snapshot timeout m s evs)"
| "gang_run K snapshot timeout m s (Expire now pod # evs) =
     (let (m, s) = gang_expire K now m s pod in gang_run K snapshot timeout m s evs)"

section \<open>What is assumed\<close>

text \<open>The snapshot shows the pods of the cache, on whatever nodes.\<close>

definition shows_cache :: "('q pod list \<Rightarrow> 'q cluster_view) \<Rightarrow> bool" where
  "shows_cache snapshot \<longleftrightarrow> (\<forall>ps. \<exists>nodes. nodes_list (snapshot ps) = Inr nodes \<and>
     mset (concat (map niPods nodes)) = mset ps)"

text \<open>A stored group is stored under its namespace and name; namespaces hold no slash.\<close>

definition groups_ok :: "(string, 'q pod_group) gomap \<Rightarrow> bool" where
  "groups_ok store \<longleftrightarrow> (\<forall>g pg. map_of store g = Some pg \<longrightarrow>
     g = pgNamespace pg @ ''/'' @ pgName pg \<and> slash_free (pgNamespace pg) \<and> pgName pg \<noteq> '''')"

fun event_ok :: "'q gang_event \<Rightarrow> bool" where
  "event_ok (Cycle pod node) \<longleftrightarrow> slash_free (podNamespace pod) \<and> node \<noteq> ''''"
| "event_ok (Expire now pod) \<longleftrightarrow> True"

definition of_group :: "string \<Rightarrow> 'q pod \<Rightarrow> bool" where
  "of_group g p \<longleftrightarrow> GetPodGroupFullName p = g"

fun expires :: "string \<Rightarrow> 'q gang_event \<Rightarrow> bool" where
  "expires g (Cycle pod node) \<longleftrightarrow> False"
| "expires g (Expire now pod) \<longleftrightarrow> of_group g pod"

text \<open>The members of a group that the cycles of a run gave a node.\<close>

fun scheduled_members :: "string \<Rightarrow> 'q gang_event list \<Rightarrow> 'q pod multiset" where
  "scheduled_members g [] = {#}"
| "scheduled_members g (Cycle pod node # evs) =
     (if of_group g pod then {#pod\<lparr>podNodeName := node\<rparr>#} else {#}) + scheduled_members g evs"
| "scheduled_members g (Expire now pod # evs) = scheduled_members g evs"

section \<open>All or nothing\<close>

definition members :: "string \<Rightarrow> 'q pod list \<Rightarrow> 'q pod multiset" where
  "members g ps = filter_mset (of_group g) (mset ps)"

text \<open>Either all pods of the group wait, fewer than MinMember of them, or none waits, all are let through, and they
  are at least MinMember.\<close>

definition gang_whole :: "string \<Rightarrow> 'q pod_group \<Rightarrow> 'q gang_state \<Rightarrow> bool" where
  "gang_whole g pg s \<longleftrightarrow>
     (members g (gsReleased s) = {#} \<and> members g (gsWaiting s) = members g (gsAssumed s) \<and>
        int (size (members g (gsAssumed s))) < sint (MinMember (pgSpec pg)))
   \<or> (members g (gsWaiting s) = {#} \<and> members g (gsReleased s) = members g (gsAssumed s) \<and>
        sint (MinMember (pgSpec pg)) \<le> int (size (members g (gsAssumed s))))"

definition gangs_ok :: "(string, 'q pod_group) gomap \<Rightarrow> 'q gang_state \<Rightarrow> bool" where
  "gangs_ok store s \<longleftrightarrow>
     (\<forall>g pg. map_of store g = Some pg \<longrightarrow> gang_whole g pg s) \<and>
     (\<forall>p \<in> set (gsAssumed s) \<union> set (gsWaiting s). slash_free (podNamespace p) \<and> podNodeName p \<noteq> '''')"

lemma members_append [simp]: "members g (ps @ qs) = members g ps + members g qs"
  by (simp add: members_def)

lemma members_Cons [simp]: "members g (p # ps) = (if of_group g p then {#p#} else {#}) + members g ps"
  by (simp add: members_def)

lemma members_Nil [simp]: "members g [] = {#}"
  by (simp add: members_def)

lemma group_of_assigned [simp]:
  "GetPodGroupFullName (p\<lparr>podNodeName := node\<rparr>) = GetPodGroupFullName p"
  "of_group g (p\<lparr>podNodeName := node\<rparr>) = of_group g p"
  by (simp_all add: of_group_def GetPodGroupFullName_eq GetPodGroupLabel_def)

lemma groups_okD:
  assumes "groups_ok store" and "map_of store g = Some pg"
  shows "g = lister_key (pgNamespace pg) (pgName pg)" and "slash_free (pgNamespace pg)" and "pgName pg \<noteq> ''''"
    and "g \<noteq> ''''"
  using assms unfolding groups_ok_def lister_key_def by fastforce+

text \<open>The two ways in which the code finds the pods of a group agree.\<close>

lemma of_group_stored:
  assumes "groups_ok store" and "map_of store g = Some pg" and "slash_free (podNamespace p)"
  shows "of_group g p \<longleftrightarrow> podNamespace p = pgNamespace pg \<and> GetPodGroupLabel p = pgName pg"
proof -
  note d = groups_okD [OF assms(1,2)]
  have "GetPodGroupFullName p = g \<longleftrightarrow>
      GetPodGroupLabel p \<noteq> '''' \<and> lister_key (podNamespace p) (GetPodGroupLabel p) = lister_key (pgNamespace pg) (pgName pg)"
    using d(1,4) by (auto simp: GetPodGroupFullName_eq lister_key_def)
  then show ?thesis
    using d(3) lister_key_inj [OF assms(3) d(2)] unfolding of_group_def by metis
qed

section \<open>One cycle\<close>

lemma members_filter [simp]:
  "members g (filter (of_group n) ps) = (if n = g then members g ps else {#})"
  "members g (filter (\<lambda>p. \<not> of_group n p) ps) = (if n = g then {#} else members g ps)"
  by (induction ps) (auto simp: of_group_def)

lemma filter_verdicts [simp]:
  "inj C \<Longrightarrow> filter (\<lambda>p. C p \<in> set (map C (filter P ps))) ps = filter P ps"
  "inj C \<Longrightarrow> filter (\<lambda>p. C p \<notin> set (map C (filter P ps))) ps = filter (\<lambda>p. \<not> P p) ps"
  by (auto simp: inj_image_mem_iff intro!: filter_cong)

lemma inj_verdicts [simp]: "inj RejectPod" "inj AllowPod"
  by (simp_all add: inj_def)

lemma members_fold_remove1 [simp]: "members g (fold remove1 xs ps) = members g ps - members g xs"
proof -
  have "mset (fold remove1 xs ps) = mset ps - mset xs"
    by (induction xs arbitrary: ps) simp_all
  then show ?thesis by (simp add: members_def filter_diff_mset)
qed

lemma members_remove1 [simp]: "members g (remove1 p ps) = members g ps - members g [p]"
  using members_fold_remove1 [of g "[p]" ps] by simp

lemma set_fold_remove1: "set (fold remove1 xs ps) \<subseteq> set ps"
  by (induction xs arbitrary: ps) (use set_remove1_subset in fastforce)+

lemma length_fold_remove1: "length (fold remove1 xs ps) \<le> length ps"
  by (induction xs arbitrary: ps) (simp, metis (no_types) fold_simps(2) le_trans length_remove1 diff_le_self order_refl)

text \<open>The snapshot counts the assumed pods of the group.\<close>

lemma assigned_members:
  assumes "groups_ok store" and "gangs_ok store s" and "map_of store g = Some pg"
    and "nodes_list V = Inr nodes" and "mset (concat (map niPods nodes)) = mset (gsAssumed s)"
  shows "CalculateAssignedPods V (pgName pg) (pgNamespace pg) = size (members g (gsAssumed s))"
proof -
  have "assigned_to (pgName pg) (pgNamespace pg) p \<longleftrightarrow> of_group g p" if "p \<in> set (gsAssumed s)" for p
    using that assms(2) of_group_stored [OF assms(1,3), of p] by (auto simp: gangs_ok_def assigned_to_def)
  then have "filter_mset (assigned_to (pgName pg) (pgNamespace pg)) (mset (gsAssumed s)) = members g (gsAssumed s)"
    unfolding members_def by (intro filter_mset_cong) auto
  then show ?thesis
    unfolding CalculateAssignedPods_eq assms(4) sum.case assms(5) [symmetric] by (metis mset_filter size_mset)
qed

text \<open>A pod whose group is not known to the manager is let through alone or sent back; nobody else is touched.\<close>

lemma permit_unknown_group:
  assumes "snd (GetPodGroup (fst m) pod) = None"
  shows "\<exists>status wait. cos_Permit (podGroupManager K) V timeout waiting m pod node = Inr (status, wait, []) \<and>
    (stCode status = Success \<or> stCode status = UnschedulableAndUnresolvable)"
proof (cases "GetPodGroupLabel pod = ''''")
  case True
  then show ?thesis by (simp add: cos_Permit_def GetPodGroupFullName_eq NewStatus_def)
next
  case False
  have g: "m_GetPodGroup (podGroupManager K) m pod = (GetPodGroupFullName pod, None)"
    using assms by (simp add: podGroupManager_def GetPodGroup_eq)
  with gang.permit_missing [OF False, of K m V node]
  obtain err where "m_Permit (podGroupManager K) V m pod node = (False, Some err)" by auto
  then show ?thesis using False g by (simp add: cos_Permit_def NewStatus_def Let_def)
qed

lemma GetPodGroup_stored:
  assumes "groups_ok (pgStore s)"
  shows "GetPodGroup s pod = (GetPodGroupFullName pod, map_of (pgStore s) (GetPodGroupFullName pod))"
proof (cases "GetPodGroupLabel pod = ''''")
  case True
  then have "map_of (pgStore s) (GetPodGroupFullName pod) = None"
    using groups_okD(4) [OF assms] GetPodGroupFullName_empty [of pod] by (metis option.exhaust)
  with True show ?thesis by (simp add: GetPodGroup_eq)
qed (simp add: GetPodGroup_eq)

text \<open>With the pods of a stored group counted, the pod opens the gate for the group or waits at it.\<close>

lemma gang_cycle_stored:
  fixes K :: "('q, 'c, 'w, 'z) pgm_api_scheme"
  defines "assigned \<equiv> \<lambda>pod node. pod\<lparr>podNodeName := node\<rparr>"
  assumes store: "groups_ok (pgStore (fst m))" and Some: "map_of (pgStore (fst m)) g = Some pg"
    and pod: "of_group g pod" and count: "CalculateAssignedPods V (pgName pg) (pgNamespace pg) = n"
    and bound: "n < 2147483647"
  shows "gang_cycle K V timeout m s pod node = Inr
    (if sint (MinMember (pgSpec pg)) \<le> int n + 1
     then \<lparr>gsAssumed = gsAssumed s @ [assigned pod node], gsWaiting = filter (\<lambda>p. \<not> of_group g p) (gsWaiting s),
            gsReleased = gsReleased s @ [assigned pod node] @ filter (of_group g) (gsWaiting s)\<rparr>
     else s\<lparr>gsAssumed := gsAssumed s @ [assigned pod node], gsWaiting := gsWaiting s @ [assigned pod node]\<rparr>)"
proof -
  let ?pod = "pod\<lparr>podNodeName := node\<rparr>"
  have g: "GetPodGroupFullName pod = g" using pod by (simp add: of_group_def)
  then have "snd (m_GetPodGroup (podGroupManager K) m ?pod) = Some pg"
    using GetPodGroup_stored [OF store, of ?pod] Some by (simp add: podGroupManager_def)
  moreover have c: "m_CalculateAssignedPods (podGroupManager K) V (pgName pg) (pgNamespace pg) = n"
    using count by (simp add: podGroupManager_def)
  ultimately have permit: "cos_Permit (podGroupManager K) V timeout (gsWaiting s) m ?pod node = Inr
     (if sint (MinMember (pgSpec pg)) \<le> int n + 1
      then (NewStatus Success '''', 0, map AllowPod (filter (of_group g) (gsWaiting s)))
      else (NewStatus Wait '''', case ScheduleTimeoutSeconds (pgSpec pg) of
           Some s \<Rightarrow> if s = 0 then timeout else to_i64 s * Second | None \<Rightarrow> timeout, []))"
    using gang.permit_outcome [of K m ?pod pg V timeout "gsWaiting s" node] bound g
    by (simp add: of_group_def [abs_def])
  show ?thesis
    unfolding gang_cycle_def Let_def permit assigned_def by (cases s) (simp add: NewStatus_def del: set_map)
qed

lemma gang_cycle_ok:
  fixes K :: "('q, 'c, 'w, 'z) pgm_api_scheme"
  defines "added \<equiv> \<lambda>g pod. if of_group g pod then {#pod#} else {#}"
  assumes store: "groups_ok (pgStore (fst m))" and ok: "gangs_ok (pgStore (fst m)) s"
    and view: "nodes_list V = Inr nodes" "mset (concat (map niPods nodes)) = mset (gsAssumed s)"
    and bound: "length (gsAssumed s) < 2147483647"
    and pod: "slash_free (podNamespace pod)" "node \<noteq> ''''"
  shows "\<exists>s'. gang_cycle K V timeout m s pod node = Inr s' \<and> gangs_ok (pgStore (fst m)) s' \<and>
    length (gsAssumed s') \<le> Suc (length (gsAssumed s)) \<and>
    (\<forall>g pg. map_of (pgStore (fst m)) g = Some pg \<longrightarrow>
       members g (gsAssumed s') = members g (gsAssumed s) + added g (pod\<lparr>podNodeName := node\<rparr>))"
proof -
  let ?pod = "pod\<lparr>podNodeName := node\<rparr>" and ?store = "pgStore (fst m)"
  let ?n = "GetPodGroupFullName pod"
  have get: "GetPodGroup (fst m) ?pod = (?n, map_of ?store ?n)"
    using GetPodGroup_stored [OF store, of ?pod] by simp
  show ?thesis
  proof (cases "map_of ?store ?n")
    case None
    have other: "\<not> of_group g pod" if "map_of ?store g = Some pg" for g pg
      using that None by (auto simp: of_group_def)
    have "snd (GetPodGroup (fst m) ?pod) = None" using get None by simp
    from permit_unknown_group [OF this, of K V timeout "gsWaiting s" node]
    obtain status wait where "cos_Permit (podGroupManager K) V timeout (gsWaiting s) m ?pod node = Inr (status, wait, [])"
      and "stCode status = Success \<or> stCode status = UnschedulableAndUnresolvable" by blast
    then have "gang_cycle K V timeout m s pod node = Inr s \<or>
        gang_cycle K V timeout m s pod node = Inr (s\<lparr>gsAssumed := gsAssumed s @ [?pod], gsReleased := gsReleased s @ [?pod]\<rparr>)"
      by (cases s) (auto simp: gang_cycle_def Let_def)
    moreover have "gangs_ok ?store (s\<lparr>gsAssumed := gsAssumed s @ [?pod], gsReleased := gsReleased s @ [?pod]\<rparr>)"
      using ok pod other by (auto simp: gangs_ok_def gang_whole_def)
    ultimately show ?thesis using ok other by (auto simp: added_def)
  next
    case (Some pg)
    let ?count = "size (members ?n (gsAssumed s))"
    have bound: "?count < 2147483647"
      using bound size_filter_mset_lesseq [of "of_group ?n" "mset (gsAssumed s)"] by (simp add: members_def)
    have mine: "of_group g pod \<longleftrightarrow> g = ?n" for g by (auto simp: of_group_def)
    define s' where "s' = (if sint (MinMember (pgSpec pg)) \<le> int ?count + 1
        then \<lparr>gsAssumed = gsAssumed s @ [?pod], gsWaiting = filter (\<lambda>p. \<not> of_group ?n p) (gsWaiting s),
               gsReleased = gsReleased s @ [?pod] @ filter (of_group ?n) (gsWaiting s)\<rparr>
        else s\<lparr>gsAssumed := gsAssumed s @ [?pod], gsWaiting := gsWaiting s @ [?pod]\<rparr>)"
    have run: "gang_cycle K V timeout m s pod node = Inr s'"
      unfolding s'_def
      by (rule gang_cycle_stored [OF store Some _ assigned_members [OF store ok Some view] bound]) (simp add: mine)
    have "gang_whole ?n pg s" using ok Some by (simp add: gangs_ok_def)
    then have "gang_whole ?n pg s'" by (auto simp: gang_whole_def s'_def mine)
    moreover have "gang_whole g pg' s'" if "g \<noteq> ?n" "map_of ?store g = Some pg'" for g pg'
    proof -
      have "gang_whole g pg' s" using ok that by (simp add: gangs_ok_def)
      then show ?thesis using that(1) by (simp add: gang_whole_def s'_def mine)
    qed
    ultimately have "gang_whole g pg' s'" if "map_of ?store g = Some pg'" for g pg'
      using that Some by (cases "g = ?n") auto
    then have "gangs_ok ?store s'" using ok pod by (auto simp: gangs_ok_def s'_def)
    with run show ?thesis by (auto simp: s'_def added_def)
  qed
qed

section \<open>One expiry\<close>

lemma cos_Unreserve_store [simp]:
  "pgStore (fst (fst (cos_Unreserve (podGroupManager K) now waiting m pod))) = pgStore (fst m)"
  by (simp add: cos_Unreserve_def podGroupManager_def AddDeniedPodGroup_def DeletePermittedPodGroup_def
      split: prod.split option.split)

lemma fold_Unreserve_store [simp]:
  "pgStore (fst (fold (\<lambda>q m. fst (cos_Unreserve (podGroupManager K) now [] m q)) ps m)) = pgStore (fst m)"
  by (induction ps arbitrary: m) simp_all

lemma unreserve_verdicts:
  fixes K :: "('q, 'c, 'w, 'z) pgm_api_scheme"
  assumes store: "groups_ok (pgStore (fst m))"
    and free: "\<forall>p \<in> insert pod (set waiting). slash_free (podNamespace p)"
  shows "snd (cos_Unreserve (podGroupManager K) now waiting m pod) =
    (case map_of (pgStore (fst m)) (GetPodGroupFullName pod) of
       None \<Rightarrow> []
     | Some pg \<Rightarrow> map RejectPod (filter (of_group (GetPodGroupFullName pod)) waiting))"
proof (cases "map_of (pgStore (fst m)) (GetPodGroupFullName pod)")
  case None
  then show ?thesis
    using GetPodGroup_stored [OF store, of pod] by (simp add: cos_Unreserve_def podGroupManager_def)
next
  case (Some pg)
  note stored = of_group_stored [OF store Some]
  have "podNamespace pod = pgNamespace pg" using stored [of pod] free by (simp add: of_group_def)
  then have "filter (\<lambda>p. podNamespace p = podNamespace pod \<and> GetPodGroupLabel p = pgName pg) waiting
      = filter (of_group (GetPodGroupFullName pod)) waiting"
    using free by (intro filter_cong) (simp_all add: stored)
  moreover have "snd (m_GetPodGroup (podGroupManager K) m pod) = Some pg"
    using GetPodGroup_stored [OF store, of pod] Some by (simp add: podGroupManager_def)
  ultimately show ?thesis using gang.unreserve_outcome [of K m pod pg now waiting] Some by simp
qed

lemma gang_expire_ok:
  fixes K :: "('q, 'c, 'w, 'z) pgm_api_scheme"
  assumes store: "groups_ok (pgStore (fst m))" and ok: "gangs_ok (pgStore (fst m)) s"
    and run: "gang_expire K now m s pod = (m', s')"
  shows "pgStore (fst m') = pgStore (fst m) \<and> gangs_ok (pgStore (fst m)) s' \<and>
    length (gsAssumed s') \<le> length (gsAssumed s) \<and>
    (\<forall>g pg. map_of (pgStore (fst m)) g = Some pg \<longrightarrow>
       (\<not> of_group g pod \<longrightarrow> members g (gsAssumed s') = members g (gsAssumed s)) \<and>
       (of_group g pod \<and> pod \<in> set (gsWaiting s) \<longrightarrow> members g (gsAssumed s') = {#}))"
proof (cases "pod \<in> set (gsWaiting s)")
  case False
  then show ?thesis using run ok by (simp add: gang_expire_def)
next
  case True
  let ?store = "pgStore (fst m)" and ?n = "GetPodGroupFullName pod" and ?w = "remove1 pod (gsWaiting s)"
  define P where "P = (\<lambda>p :: 'q pod. map_of ?store ?n \<noteq> None \<and> of_group ?n p)"
  have w: "set ?w \<subseteq> set (gsWaiting s)" by (rule set_remove1_subset)
  then have "snd (cos_Unreserve (podGroupManager K) now ?w m pod) = map RejectPod (filter P ?w)"
    using ok True by (subst unreserve_verdicts [OF store]) (auto simp: gangs_ok_def P_def split: option.split)
  then have s': "s' = s\<lparr>gsWaiting := filter (\<lambda>p. \<not> P p) ?w,
      gsAssumed := fold remove1 (pod # filter P ?w) (gsAssumed s)\<rparr>"
    and m': "pgStore (fst m') = ?store"
    using run True by (auto simp: gang_expire_def Let_def split: prod.splits simp del: fold.simps set_map
        dest!: arg_cong [where f = "\<lambda>r. pgStore (fst (fst r))" and x = "cos_Unreserve _ _ _ _ _"])
  have "gang_whole g pg s' \<and> (\<not> of_group g pod \<longrightarrow> members g (gsAssumed s') = members g (gsAssumed s)) \<and>
      (of_group g pod \<longrightarrow> members g (gsAssumed s') = {#})"
    if g: "map_of ?store g = Some pg" for g pg
  proof (cases "of_group g pod")
    case True
    then have P: "P = of_group g" using g by (auto simp: P_def of_group_def)
    have split: "members g (gsWaiting s) = add_mset pod (members g ?w)"
      using True \<open>pod \<in> set (gsWaiting s)\<close> by (simp add: members_def)
    moreover have "gang_whole g pg s" using ok g by (simp add: gangs_ok_def)
    ultimately have "members g (gsAssumed s) = add_mset pod (members g ?w)" and "members g (gsReleased s) = {#}"
      and "0 < sint (MinMember (pgSpec pg))"
      by (auto simp: gang_whole_def)
    then show ?thesis using True by (simp add: gang_whole_def s' P del: fold.simps)
  next
    case False
    then have none: "members g (filter P ps) = {#}" "members g (filter (\<lambda>p. \<not> P p) ps) = members g ps" for ps
      by (induction ps) (auto simp: P_def of_group_def)
    have "gang_whole g pg s" using ok g by (simp add: gangs_ok_def)
    then show ?thesis using False by (simp add: gang_whole_def s' none del: fold.simps)
  qed
  moreover have "set (gsAssumed s') \<subseteq> set (gsAssumed s)" and "set (gsWaiting s') \<subseteq> set (gsWaiting s)"
    and "length (gsAssumed s') \<le> length (gsAssumed s)"
    using w by (auto simp: s' length_fold_remove1 simp del: fold.simps dest: set_fold_remove1 [THEN subsetD])
  ultimately show ?thesis using m' ok unfolding gangs_ok_def by blast
qed

section \<open>A stale snapshot\<close>

text \<open>
  The statement needs the snapshot of a cycle to show the cache that Permit acts on. When the last but
  one member of a gang comes to Permit after a waiting member has expired, with the snapshot
  of before, it is let through, alone: Permit counts the pods of the snapshot, not those that still wait.
\<close>

lemma stale_snapshot_breaks_gang:
  fixes K :: "('q, 'c, 'w, 'z) pgm_api_scheme"
  assumes store: "groups_ok (pgStore (fst m))" and ok: "gangs_ok (pgStore (fst m)) s"
    and pg: "map_of (pgStore (fst m)) g = Some pg"
    and view: "nodes_list V = Inr nodes" "mset (concat (map niPods nodes)) = mset (gsAssumed s)"
    and waiting: "w \<in> set (gsWaiting s)" "of_group g w" and pod: "of_group g pod"
    and last: "int (size (members g (gsAssumed s))) + 1 = sint (MinMember (pgSpec pg))"
    and expire: "gang_expire K now m s w = (m', s')"
  shows "\<exists>s''. gang_cycle K V timeout m' s' pod node = Inr s'' \<and> size (members g (gsReleased s'')) = 1 \<and>
    \<not> gang_whole g pg s''"
proof -
  from gang_expire_ok [OF store ok expire] pg waiting have m': "pgStore (fst m') = pgStore (fst m)"
    and "gang_whole g pg s'" and none: "members g (gsAssumed s') = {#}"
    by (auto simp: gangs_ok_def)
  then have empty: "members g (gsWaiting s') = {#}" "members g (gsReleased s') = {#}"
    by (auto simp: gang_whole_def)
  have "members g (gsWaiting s) \<noteq> {#}" using waiting by (auto simp: members_def)
  moreover have "gang_whole g pg s" using ok pg by (simp add: gangs_ok_def)
  ultimately have "members g (gsAssumed s) \<noteq> {#}" by (auto simp: gang_whole_def)
  then have min: "2 \<le> sint (MinMember (pgSpec pg))"
    using last by (simp add: nonempty_has_size)
  have "size (members g (gsAssumed s)) < 2147483647"
    using last sint_lt [of "MinMember (pgSpec pg)"] by simp
  from gang_cycle_stored [OF _ _ pod assigned_members [OF store ok pg view] this, of m' K timeout s' node]
  show ?thesis using store pg m' last empty none min pod by (simp add: gang_whole_def)
qed

section \<open>A run\<close>

lemma gang_run_ok:
  fixes K :: "('q, 'c, 'w, 'z) pgm_api_scheme"
  assumes "groups_ok (pgStore (fst m))" and "gangs_ok (pgStore (fst m)) s" and "shows_cache snapshot"
    and "\<forall>e \<in> set evs. event_ok e" and "length (gsAssumed s) + length evs \<le> 2147483647"
    and "map_of (pgStore (fst m)) g = Some pg"
  shows "\<exists>m' s'. gang_run K snapshot timeout m s evs = Inr (m', s') \<and> gang_whole g pg s' \<and>
    ((\<forall>e \<in> set evs. \<not> expires g e) \<longrightarrow>
       members g (gsAssumed s') = members g (gsAssumed s) + scheduled_members g evs)"
  using assms
proof (induction evs arbitrary: m s)
  case Nil
  then show ?case by (simp add: gangs_ok_def)
next
  case (Cons e evs)
  show ?case
  proof (cases e)
    case (Cycle pod node)
    from Cons.prems(3) obtain nodes where "nodes_list (snapshot (gsAssumed s)) = Inr nodes"
      and "mset (concat (map niPods nodes)) = mset (gsAssumed s)"
      unfolding shows_cache_def by blast
    from gang_cycle_ok [OF Cons.prems(1,2) this, of pod node K timeout] Cons.prems(4,5) Cycle
    obtain s' where cycle: "gang_cycle K (snapshot (gsAssumed s)) timeout m s pod node = Inr s'"
      and s': "gangs_ok (pgStore (fst m)) s'" "length (gsAssumed s') \<le> Suc (length (gsAssumed s))"
        "members g (gsAssumed s') = members g (gsAssumed s)
           + (if of_group g pod then {#pod\<lparr>podNodeName := node\<rparr>#} else {#})"
      using Cons.prems(6) by auto
    from Cons.IH [OF Cons.prems(1) s'(1) Cons.prems(3) _ _ Cons.prems(6)] Cons.prems(4,5) s'(2)
    show ?thesis using cycle s'(3) by (auto simp: Cycle add.assoc)
  next
    case (Expire now pod)
    obtain m' s' where expire: "gang_expire K now m s pod = (m', s')" by fastforce
    from gang_expire_ok [OF Cons.prems(1,2) this] have ok: "pgStore (fst m') = pgStore (fst m)"
      "gangs_ok (pgStore (fst m')) s'" "length (gsAssumed s') \<le> length (gsAssumed s)"
      "\<not> of_group g pod \<longrightarrow> members g (gsAssumed s') = members g (gsAssumed s)"
      using Cons.prems(6) by auto
    from Cons.IH [of m' s'] Cons.prems ok show ?thesis
      by (auto simp: Expire expire)
  qed
qed



end
