(* ===== verification/Spec2Isabelle.thy ===== *)
theory Spec2Isabelle
  imports CapacityProperties PreemptionProperties CoschedulingProperties CrossNodeProperties
    PodGroupLifecycle ScoreProperties QueueSort TrimaranProperties LoadAwareProperties ConfigProperties
    DeepCopyProperties ClientRequests PluginStartup Parallelism PreemptionAdmission ClientAgreement
    ApiRegistration GeneratedListers PluginProfile PodNominator TestFixtures
    GangAdmission
begin

text \<open>
  A verification library of the out-of-tree scheduler plugins and of the pod group controller.

  \<^bold>\<open>The program.\<close> One command, \<^verbatim>\<open>cmd/scheduler\<close>, registers eight plugins with the Kubernetes
  scheduling framework; another, \<^verbatim>\<open>cmd/controller\<close>, runs the pod group controller. The framework
  calls a plugin at fixed points of a scheduling cycle (queue order, PreFilter, Filter, PostFilter,
  Score, Reserve, Permit, PostBind) and hands it a cycle state; informers call the plugins
  when quotas, pods and groups change. CapacityScheduling admits a pod when the quota of its
  namespace allows it, keeps the usage of the quotas by the informers' events and by Reserve, and
  preempts pods of quotas that have borrowed. Coscheduling keeps the pods of a group together: its
  queue order, the manager's checks, the gate of Permit, and the rejection of the whole group. The
  controller moves the group objects through their phases from the phases of their pods and patches
  them. CrossNodePreemption searches victims on several nodes. NodeResourcesAllocatable, PodState,
  TargetLoadPacking and LoadVariationRiskBalancing score nodes, the last two on measured
  load; QOSSort orders the queue by priority and service class. The arguments of the plugins are
  API objects of two versions, with defaults, conversions and deep copies.

  \<^bold>\<open>Common ground.\<close> \<open>Prelude\<close>: machine integers as words, Go's division, Go maps as association lists with
  distinct keys (the order of the list is one order of a \<^verbatim>\<open>range\<close>, so a theorem about every list is
  one about every iteration order), and the lemma collections. \<open>KubeApi\<close>: pods, nodes, resources, statuses
  and the operations of Kubernetes that the program calls, as the fields of an API record.
  \<open>GoFloat\<close> and \<open>FloatRange\<close>: IEEE arithmetic with its rounding, over the rationals with infinities and NaN.
  \<open>GoSlice\<close>: slices that share arrays. \<open>GoHeap\<close>: a typed heap of pointers and maps, with the contract
  of a deep copy. \<open>DemoApi\<close>: concrete instances of the parameters, for the witnesses.

  \<^bold>\<open>Theories and sources\<close> (under \<^verbatim>\<open>pkg/\<close> unless said otherwise; each theory opens with what it holds).
  \<^item> \<open>ElasticQuota\<close>: \<^verbatim>\<open>capacityscheduling/elasticquota.go\<close>. A quota is the record \<open>eq_info\<close>, with Used, Min, Max
    and the names of its counted pods.
  \<^item> \<open>CapacityScheduling\<close>, \<open>CapacityInvariants\<close>, \<open>CapacityProperties\<close>: the plugin of
    \<^verbatim>\<open>capacityscheduling/capacity_scheduling.go\<close>, its extension points and its event handlers, as
    operations on the map of quotas; reachable states and their invariant.
  \<^item> \<open>PdbFilter\<close>, \<open>Preemption\<close>, \<open>SelectVictims\<close>, \<open>PreemptionProperties\<close>: PostFilter of the same file, down to
    \<^verbatim>\<open>selectVictimsOnNode\<close> and \<^verbatim>\<open>filterPodsWithPDBViolation\<close>. \<open>PreemptionAdmission\<close> composes it with the
    plugin's PreFilter and its informer handlers. \<open>PluginProfile\<close>: the extensions the plugins offer, and a
    profile of them in which the assumptions of the preemption theorems on the framework hold.
  \<^item> \<open>SchedulingApi\<close>, \<open>GeneratedListers\<close>, \<open>PodGroupUtil\<close>: \<^verbatim>\<open>apis/scheduling/v1alpha1/types.go\<close>, the generated
    listers, and \<^verbatim>\<open>util/podgroup.go\<close>. \<open>ApiRegistration\<close>: the files \<^verbatim>\<open>register.go\<close> and
    \<^verbatim>\<open>apis/config/scheme/scheme.go\<close>.
  \<^item> \<open>PodGroupManager\<close>, \<open>Coscheduling\<close>, \<open>CoschedulingProperties\<close>: \<^verbatim>\<open>coscheduling/core/core.go\<close>
    and \<^verbatim>\<open>coscheduling/coscheduling.go\<close>; the plugin calls the manager through a record of the methods
    of \<^verbatim>\<open>core.Manager\<close>. \<open>GangAdmission\<close> runs the plugin over scheduling cycles and expiries of waiting pods,
    with the framework's cache and its waiting pods.
  \<^item> \<open>PodGroupController\<close>, \<open>PodGroupLifecycle\<close>: \<^verbatim>\<open>controller/podgroup.go\<close>; a worker's \<^verbatim>\<open>sync\<close> is
    one step on the queue, the store and the client.
  \<^item> \<open>CrossNodePreemption\<close>, \<open>CrossNodeProperties\<close>: \<^verbatim>\<open>crossnodepreemption/\<close>.
  \<^item> \<open>ScoreNormalization\<close>, \<open>NodeResources\<close>, \<open>PodState\<close>, \<open>ScoreProperties\<close>: \<^verbatim>\<open>noderesources/\<close>, \<^verbatim>\<open>podstate/\<close>.
  \<^item> \<open>QueueSort\<close>: \<^verbatim>\<open>qos/queue_sort.go\<close>.
  \<^item> \<open>Trimaran\<close>, \<open>TargetLoadPacking\<close>, \<open>LoadVariation\<close>, \<open>TrimaranProperties\<close>, \<open>LoadAwareProperties\<close>:
    \<^verbatim>\<open>trimaran/handler.go\<close>, \<^verbatim>\<open>trimaran/targetloadpacking/\<close>, \<^verbatim>\<open>trimaran/loadvariationriskbalancing/\<close>.
  \<^item> \<open>ConfigTypes\<close>, \<open>ConfigDefaults\<close>, \<open>ConfigConversion\<close>, \<open>ConfigProperties\<close>: \<^verbatim>\<open>apis/config/\<close> and
    \<^verbatim>\<open>apis/config/v1beta1/\<close>, with the generated defaults and conversions.
  \<^item> \<open>ConfigDeepCopy\<close>, \<open>SchedulingDeepCopy\<close>, \<open>DeepCopyProperties\<close>: the three files
    \<^verbatim>\<open>zz_generated.deepcopy.go\<close>.
  \<^item> \<open>GeneratedClient\<close>, \<open>InformerFactory\<close>, \<open>ClientRequests\<close>: \<^verbatim>\<open>generated/clientset/versioned/\<close> and
    \<^verbatim>\<open>generated/informers/externalversions/\<close>, and the two callers that patch groups over the client.
    \<open>FakeClient\<close>, \<open>ClientAgreement\<close>: the generated fakes, and that they make the calls of the real clients.
  \<^item> \<open>PodNominator\<close>, \<open>TestFixtures\<close>: \<^verbatim>\<open>test/util/fake.go\<close> and the group fixture of \<^verbatim>\<open>test/util/utils.go\<close>.
  \<^item> \<open>PluginStartup\<close>: the registry of \<^verbatim>\<open>cmd/scheduler/main.go\<close>, the constructors that connect to the API
    server, and \<^verbatim>\<open>cmd/controller/\<close>. \<open>Parallelism\<close>: \<^verbatim>\<open>util/parallelism.go\<close>.

  A panic ends the process and is the error value \<open>Panic\<close>; an error and a failing status are
  values. A locked section of the program is one step; where a check is outside the lock
  (\<open>addElasticQuota\<close>) its two halves are separate operations.

  \<^bold>\<open>Interfaces.\<close> \<open>quota_ledger\<close> (a used amount is the sum over the counted pods; instance: the quota
  of the plugin), \<open>gang_manager\<close> (what the plugin needs of \<^verbatim>\<open>core.Manager\<close>; instance: the pod group manager),
  \<open>score_normalizer\<close> (range and order of normalised scores; instances: both score plugins that
  normalise), \<open>deep_copy\<close> (equal contents in new cells, no change of old ones; instances: every generated
  \<^verbatim>\<open>DeepCopyInto\<close>, and the copies of a pointer, a map and a pointer to a map they are made of),
  \<open>typed_client\<close> and \<open>status_client\<close> (each method is one call of its own verb in the client's namespace;
  instances: both real clients and both fakes).

  \<^bold>\<open>What is shown.\<close>
  \<^item> Quotas: usage is the sum of the counted pods in every reachable state; PreFilter admits exactly within Max
    and the sum of the Min; Max is not exceeded; Reserve and Unreserve cancel; the extensions
    on the cycle state agree with the operations on the live state. Preemption: the victims make room, are
    eligible by the quota rules, disruption budgets are charged in order, and the nominated node has them; once
    they are evicted, the preemptor's next PreFilter succeeds.
  \<^item> Gangs: all or nothing over any run of cycles whose snapshots are current (and a gang released short by
    one that is not); the gate of Permit, the denial after Unreserve, the threshold of PostFilter, the queue as a strict order
    that keeps gangs together, the manager's PreFilter as an arithmetic condition, the counting of PostBind.
  \<^item> Controller: the phases refine a small life cycle, a succeeded group finishes, synchronisation settles in
    at most three rounds, events queue exactly the groups worth it, the cache is left alone but for one field, and
    a step sends at most one patch, to the group's own path.
  \<^item> Cross-node preemption: the depth-first search equals the enumeration of all subsets, and its victims are
    right for up to four pods and wrong for five, where slices share their arrays.
  \<^item> Scores: ranges 0 to 100, monotonicity, normalisation; float rounding included. The pod cache: an
    invariant over all runs, and what the clean-up keeps.
  \<^item> Arguments: defaulting is idempotent and reaches the plugins; conversion round trips; copies are independent of
    their originals. Start-up: a started plugin reads a synchronised informer that is run exactly once; the schemes
    know every kind that the clients and the configuration use; a lister finds exactly its namespace's objects.
  \<^item> Test doubles: the fakes agree with the real clients call by call; the nominator's two maps agree after any
    calls and implement a map from a pod to its nomination, which is what PodState counts.

  \<^bold>\<open>Bounds.\<close> Integers have the source's width, and theorems that need it assume that sums fit: fewer than
  $2^{31}$ pods for the 32-bit counters of the groups and the pod-state score, sums of weights and of quantities
  below $2^{63}$, a packing target from 1 to 100 percent, waiting times whose nanoseconds fit. All
  recursions are structural or have a measure; no fuel is used. Witnesses apply each theorem at a concrete input.

  \<^bold>\<open>Parameters.\<close> The framework (snapshots, filters, cycle state, waiting pods), quantities, label and
  field selectors, the work queue, go-cache, the clock, the load watcher and its power
  function, \<^verbatim>\<open>strconv.ParseFloat\<close>, JSON and strategic merge patches, the pointer
  conversions of apimachinery, the REST and discovery clients and the informer implementation of client-go,
  the leader election. What a theorem needs of one is a named hypothesis that states its documented behaviour
  (\<open>quantity_laws\<close>, \<open>cache_laws\<close>, \<open>conversion_laws\<close>, \<open>pow_law\<close> and the like).

  \<^bold>\<open>Not modelled.\<close> Logging and event recording; flag parsing and signal handling; the interfaces that only
  declare methods, and the constructors that only store a handle (\<^verbatim>\<open>New\<close> of QOSSort, PodState and
  CrossNodePreemption); the test servers under \<^verbatim>\<open>test/util/\<close>, which start Kubernetes packages, and the
  node and pod fixtures, which call its builders; the metadata of objects
  beyond the fields the code reads. The program's own code is otherwise covered.
\<close>

end
